(* ===== verification/Prelude.thy ===== *)
theory Prelude
  imports Main "HOL-Library.Word" "HOL-Library.Multiset"
begin

section \<open>Shared types, collections and generic lemmas\<close>

text \<open>
  What every other theory of the development uses: the names of the basic types (identifiers,
  instants, durations), Go's 64-bit integers and PostgreSQL's 32-bit integer columns, and the
  facts on lists and options that the component proofs share.

  A UUID is the 16 bytes that \<^verbatim>\<open>github.com/google/uuid\<close> keeps, as one 128-bit
  word; its textual form belongs to that package and is a parameter of the definitions that use
  it. Instants and durations are nanosecond counts.
\<close>

type_synonym uuid = "128 word"
type_synonym time = int
type_synonym duration = int

named_theorems op_simps "how the primitive operations of the execution monad succeed and fail"
named_theorems repo_success "what a repository call that succeeds has done"
named_theorems frame "what an operation leaves unchanged"

definition uuid_Nil :: uuid where
  "uuid_Nil = 0"

definition second :: duration where
  "second = 1000000000"

definition minute :: duration where
  "minute = 60 * second"

definition hour :: duration where
  "hour = 60 * minute"

subsection \<open>Integer widths\<close>

text \<open>
  Go's \<open>int\<close> is a 64-bit two's complement integer on the platform's targets and wraps
  around; an \<open>INT\<close> column of PostgreSQL holds 32 bits and refuses anything larger.
\<close>

definition wrap64 :: "int \<Rightarrow> int" where
  "wrap64 x = (x + 2 ^ 63) mod 2 ^ 64 - 2 ^ 63"

definition int64_ok :: "int \<Rightarrow> bool" where
  "int64_ok x \<longleftrightarrow> - (2 ^ 63) \<le> x \<and> x < 2 ^ 63"

definition int4_ok :: "int \<Rightarrow> bool" where
  "int4_ok x \<longleftrightarrow> - (2 ^ 31) \<le> x \<and> x < 2 ^ 31"

lemma wrap64_id: "int64_ok x \<Longrightarrow> wrap64 x = x"
  by (simp add: wrap64_def int64_ok_def)

lemma int64_ok_wrap64: "int64_ok (wrap64 x)"
proof -
  have "0 \<le> (x + 2 ^ 63) mod 2 ^ 64" "(x + 2 ^ 63) mod 2 ^ 64 < 2 ^ 64"
    by simp_all
  then show ?thesis
    unfolding wrap64_def int64_ok_def by auto
qed

lemma int4_mult_bound:
  assumes "int4_ok a" "int4_ok b"
  shows "\<bar>a * b\<bar> \<le> 2 ^ 62"
proof -
  have "\<bar>a\<bar> \<le> 2 ^ 31" "\<bar>b\<bar> \<le> 2 ^ 31"
    using assms by (auto simp: int4_ok_def)
  then have "\<bar>a\<bar> * \<bar>b\<bar> \<le> 2 ^ 31 * 2 ^ 31"
    by (intro mult_mono) auto
  then show ?thesis by (simp add: abs_mult)
qed

subsection \<open>Lists\<close>

lemma filter_map_id: "(\<And>x. x \<in> set xs \<Longrightarrow> f x = x) \<Longrightarrow> map f xs = xs"
  by (induction xs) auto

lemma length_filter_snoc [simp]:
  "length (filter P (xs @ [x])) = length (filter P xs) + (if P x then 1 else 0)"
  by simp

lemma length_filter_map_cong:
  "(\<And>x. x \<in> set xs \<Longrightarrow> P (f x) = Q x) \<Longrightarrow> length (filter P (map f xs)) = length (filter Q xs)"
  by (induction xs) auto

lemma find_Some_set: "find P xs = Some x \<Longrightarrow> x \<in> set xs \<and> P x"
  by (induction xs) (auto split: if_splits)

lemma find_None_set: "find P xs = None \<Longrightarrow> x \<in> set xs \<Longrightarrow> \<not> P x"
  by (auto simp: find_None_iff)

lemma length_filter_mono:
  "(\<And>x. x \<in> set xs \<Longrightarrow> P x \<Longrightarrow> Q x) \<Longrightarrow> length (filter P xs) \<le> length (filter Q xs)"
  by (induction xs) (auto intro: le_SucI)

lemma distinct_map_filterI: "distinct (map f xs) \<Longrightarrow> distinct (map f (filter P xs))"
  by (rule distinct_map_filter)

lemma map_filter_keys:
  "(\<And>x y. f x = Some y \<Longrightarrow> g y = h x) \<Longrightarrow> map g (List.map_filter f xs) = map h (filter (\<lambda>x. f x \<noteq> None) xs)"
  by (induction xs) (auto simp: List.map_filter_def)

lemma distinct_map_filter_keys:
  "(\<And>x y. f x = Some y \<Longrightarrow> g y = h x) \<Longrightarrow> distinct (map h xs) \<Longrightarrow> distinct (map g (List.map_filter f xs))"
  by (simp add: map_filter_keys [of f g h] distinct_map_filterI)

lemma map_other_id:
  "k \<notin> key ` set xs \<Longrightarrow> (\<And>x. P x \<Longrightarrow> key x = k) \<Longrightarrow> map (\<lambda>x. if P x then g x else x) xs = xs"
  by (induction xs) auto

end
