(* ===== verification/GoText.thy ===== *)
theory GoText
  imports Prelude
begin

section \<open>The text functions of Go's standard library that the platform calls\<close>

text \<open>
  Strings are byte lists. The definitions below are the standard library's behaviour on the
  ASCII range, which is what the platform's slugs, cursors and headers use: \<open>strings.ToLower\<close>,
  \<open>strings.TrimSpace\<close>, \<open>strings.Trim\<close>, \<open>strings.Cut\<close>, \<open>strings.HasPrefix\<close>,
  \<open>strings.TrimPrefix\<close>, \<open>strings.ReplaceAll\<close> for one character,
  \<open>strconv.Itoa\<close>, \<open>strconv.Atoi\<close> and \<open>base64.RawURLEncoding\<close>. The lemmas are the
  round trips of the number and of the base64 codecs.
\<close>

subsection \<open>Character classes and trimming\<close>

definition byte :: "char \<Rightarrow> nat" where
  "byte c = of_char c"

definition is_digit :: "char \<Rightarrow> bool" where
  "is_digit c \<longleftrightarrow> 48 \<le> byte c \<and> byte c \<le> 57"

definition is_lower :: "char \<Rightarrow> bool" where
  "is_lower c \<longleftrightarrow> 97 \<le> byte c \<and> byte c \<le> 122"

definition is_upper :: "char \<Rightarrow> bool" where
  "is_upper c \<longleftrightarrow> 65 \<le> byte c \<and> byte c \<le> 90"

definition is_space :: "char \<Rightarrow> bool" where
  "is_space c \<longleftrightarrow> byte c \<in> {9, 10, 11, 12, 13, 32}"

definition lower_char :: "char \<Rightarrow> char" where
  "lower_char c = (if is_upper c then char_of (byte c + 32) else c)"

definition ToLower :: "string \<Rightarrow> string" where
  "ToLower = map lower_char"

definition trim_by :: "('a \<Rightarrow> bool) \<Rightarrow> 'a list \<Rightarrow> 'a list" where
  "trim_by P s = rev (dropWhile P (rev (dropWhile P s)))"

definition TrimSpace :: "string \<Rightarrow> string" where
  "TrimSpace = trim_by is_space"

definition TrimDash :: "string \<Rightarrow> string" where
  "TrimDash = trim_by (\<lambda>c. c = CHR ''-'')"

fun HasPrefix :: "string \<Rightarrow> string \<Rightarrow> bool" where
  "HasPrefix s [] = True"
| "HasPrefix [] (p # ps) = False"
| "HasPrefix (c # s) (p # ps) = (c = p \<and> HasPrefix s ps)"

definition TrimPrefix :: "string \<Rightarrow> string \<Rightarrow> string" where
  "TrimPrefix s p = (if HasPrefix s p then drop (length p) s else s)"

fun Cut :: "string \<Rightarrow> char \<Rightarrow> string \<times> string \<times> bool" where
  "Cut [] sep = ([], [], False)"
| "Cut (c # s) sep =
     (if c = sep then ([], s, True)
      else (let (before, after, found) = Cut s sep in (c # before, after, found)))"

text \<open>The verb \<open>%q\<close> on text without quotes, backslashes or control characters.\<close>

definition Quote :: "string \<Rightarrow> string" where
  "Quote s = CHR 0x22 # s @ [CHR 0x22]"

definition RemoveChar :: "char \<Rightarrow> string \<Rightarrow> string" where
  "RemoveChar d s = filter (\<lambda>c. c \<noteq> d) s"

text \<open>
  \<open>ReplaceAllString(s, "-")\<close> for the pattern \<^verbatim>\<open>[^a-z0-9]+\<close>: every maximal run of
  bytes outside the class becomes one dash. The flag says that the current run has already been
  replaced.
\<close>

definition slug_char :: "char \<Rightarrow> bool" where
  "slug_char c \<longleftrightarrow> is_lower c \<or> is_digit c"

fun replace_runs :: "bool \<Rightarrow> string \<Rightarrow> string" where
  "replace_runs r [] = []"
| "replace_runs r (c # s) =
     (if slug_char c then c # replace_runs False s
      else if r then replace_runs True s
      else CHR ''-'' # replace_runs True s)"

lemma HasPrefix_iff: "HasPrefix s p \<longleftrightarrow> (\<exists>t. s = p @ t)"
  by (induction s p rule: HasPrefix.induct) auto

lemma HasPrefix_append [simp]: "HasPrefix (p @ t) p"
  by (simp add: HasPrefix_iff)

lemma TrimPrefix_append [simp]: "TrimPrefix (p @ t) p = t"
  by (simp add: TrimPrefix_def)

lemma set_trim_by: "set (trim_by P s) \<subseteq> set s"
  by (metis (no_types, lifting) set_dropWhileD set_rev subsetI trim_by_def)

lemma hd_dropWhile_not: "dropWhile P s = c # t \<Longrightarrow> \<not> P c"
  by (metis hd_dropWhile list.distinct(1) list.sel(1))

lemma last_trim_by: "trim_by P s \<noteq> [] \<Longrightarrow> \<not> P (last (trim_by P s))"
  by (cases "dropWhile P (rev (dropWhile P s))")
    (auto simp: trim_by_def dest: hd_dropWhile_not)

lemma trim_by_suffix: "\<exists>us. dropWhile P s = trim_by P s @ us"
proof -
  let ?d = "dropWhile P s"
  have "?d = rev (takeWhile P (rev ?d) @ dropWhile P (rev ?d))" by simp
  then have "?d = trim_by P s @ rev (takeWhile P (rev ?d))"
    unfolding trim_by_def by (metis rev_append)
  then show ?thesis by blast
qed

lemma hd_trim_by:
  assumes "trim_by P s \<noteq> []"
  shows "\<not> P (hd (trim_by P s))"
proof -
  obtain us where us: "dropWhile P s = trim_by P s @ us" using trim_by_suffix by blast
  with assms have "hd (dropWhile P s) = hd (trim_by P s)" "dropWhile P s \<noteq> []" by auto
  then show ?thesis by (metis hd_dropWhile)
qed

lemma trim_by_id: "(s \<noteq> [] \<Longrightarrow> \<not> P (hd s)) \<Longrightarrow> (s \<noteq> [] \<Longrightarrow> \<not> P (last s)) \<Longrightarrow> trim_by P s = s"
proof (cases s)
  case (Cons a t)
  assume h: "s \<noteq> [] \<Longrightarrow> \<not> P (hd s)" and l: "s \<noteq> [] \<Longrightarrow> \<not> P (last s)"
  from h Cons have d: "dropWhile P s = s" by simp
  have "rev s = last s # rev (butlast s)"
    using Cons by (metis append_butlast_last_id list.distinct(1) rev.simps(2) rev_rev_ident rev_append
        append_Cons append_Nil)
  with l Cons have "dropWhile P (rev s) = rev s" by simp
  with d show ?thesis by (simp add: trim_by_def)
qed (simp add: trim_by_def)

subsection \<open>strconv\<close>

definition digit_char :: "nat \<Rightarrow> char" where
  "digit_char n = char_of (48 + n)"

definition digit_val :: "char \<Rightarrow> nat" where
  "digit_val c = byte c - 48"

fun nat_string :: "nat \<Rightarrow> string" where
  "nat_string n = (if n < 10 then [digit_char n] else nat_string (n div 10) @ [digit_char (n mod 10)])"

declare nat_string.simps [simp del]

definition Itoa :: "int \<Rightarrow> string" where
  "Itoa i = (if i < 0 then CHR ''-'' # nat_string (nat (- i)) else nat_string (nat i))"

definition digits_val :: "string \<Rightarrow> nat" where
  "digits_val s = foldl (\<lambda>acc c. acc * 10 + digit_val c) 0 s"

definition parse_digits :: "string \<Rightarrow> nat option" where
  "parse_digits s = (if s \<noteq> [] \<and> list_all is_digit s then Some (digits_val s) else None)"

definition in_range64 :: "int option \<Rightarrow> int option" where
  "in_range64 r = (case r of Some i \<Rightarrow> (if int64_ok i then Some i else None) | None \<Rightarrow> None)"

definition Atoi :: "string \<Rightarrow> int option" where
  "Atoi s = in_range64
     (case s of
        [] \<Rightarrow> None
      | c # t \<Rightarrow>
          (if c = CHR ''-'' then map_option (\<lambda>n. - int n) (parse_digits t)
           else if c = CHR ''+'' then map_option int (parse_digits t)
           else map_option int (parse_digits s)))"

lemma byte_digit_char: "n < 10 \<Longrightarrow> byte (digit_char n) = 48 + n"
  by (simp add: byte_def digit_char_def)

lemma is_digit_digit_char: "n < 10 \<Longrightarrow> is_digit (digit_char n)"
  by (simp add: is_digit_def byte_digit_char)

lemma digit_val_digit_char: "n < 10 \<Longrightarrow> digit_val (digit_char n) = n"
  by (simp add: digit_val_def byte_digit_char)

lemma digits_val_snoc: "digits_val (s @ [c]) = digits_val s * 10 + digit_val c"
  by (simp add: digits_val_def)

lemma nat_string_digits: "nat_string n \<noteq> [] \<and> list_all is_digit (nat_string n)"
proof (induction n rule: nat_string.induct)
  case (1 n)
  then show ?case
    by (cases "n < 10") (simp_all add: nat_string.simps [of n] is_digit_digit_char)
qed

lemma digits_val_nat_string: "digits_val (nat_string n) = n"
proof (induction n rule: nat_string.induct)
  case (1 n)
  then show ?case
    by (cases "n < 10")
      (simp_all add: nat_string.simps [of n] digits_val_snoc digit_val_digit_char digits_val_def)
qed

lemma parse_digits_nat_string [simp]: "parse_digits (nat_string n) = Some n"
  by (simp add: parse_digits_def nat_string_digits digits_val_nat_string)

lemma nat_string_hd: "is_digit (hd (nat_string n))"
  using nat_string_digits [of n] by (cases "nat_string n") auto

lemma Atoi_Itoa: "int64_ok i \<Longrightarrow> Atoi (Itoa i) = Some i"
proof (cases "i < 0")
  case True
  assume "int64_ok i"
  with True show ?thesis by (simp add: Atoi_def Itoa_def in_range64_def)
next
  case False
  assume ok: "int64_ok i"
  obtain c t where ct: "nat_string (nat i) = c # t"
    using nat_string_digits [of "nat i"] by (cases "nat_string (nat i)") auto
  with nat_string_hd [of "nat i"] have c: "c \<noteq> CHR ''-''" "c \<noteq> CHR ''+''"
    by (auto simp: is_digit_def byte_def)
  have "parse_digits (c # t) = Some (nat i)"
    unfolding ct [symmetric] by simp
  with False ok c show ?thesis by (simp add: Atoi_def Itoa_def in_range64_def ct)
qed

subsection \<open>base64.RawURLEncoding\<close>

definition b64_char :: "nat \<Rightarrow> char" where
  "b64_char v =
     char_of (if v < 26 then v + 65 else if v < 52 then v + 71
              else if v < 62 then v - 4 else if v = 62 then 45 else (95 :: nat))"

definition b64_val :: "char \<Rightarrow> nat option" where
  "b64_val c =
     (let n = byte c in
      if 65 \<le> n \<and> n \<le> 90 then Some (n - 65)
      else if 97 \<le> n \<and> n \<le> 122 then Some (n - 71)
      else if 48 \<le> n \<and> n \<le> 57 then Some (n + 4)
      else if n = 45 then Some 62
      else if n = 95 then Some 63
      else None)"

fun sextets :: "nat list \<Rightarrow> nat list" where
  "sextets [] = []"
| "sextets [a] = [a div 4, (a mod 4) * 16]"
| "sextets [a, b] = [a div 4, (a mod 4) * 16 + b div 16, (b mod 16) * 4]"
| "sextets (a # b # c # r) =
     a div 4 # ((a mod 4) * 16 + b div 16) # ((b mod 16) * 4 + c div 64) # (c mod 64) # sextets r"

fun octets :: "nat list \<Rightarrow> nat list option" where
  "octets [] = Some []"
| "octets [w] = None"
| "octets [w, x] = Some [w * 4 + x div 16]"
| "octets [w, x, y] = Some [w * 4 + x div 16, (x mod 16) * 16 + y div 4]"
| "octets (w # x # y # z # r) =
     (case octets r of
        None \<Rightarrow> None
      | Some bs \<Rightarrow> Some ((w * 4 + x div 16) # ((x mod 16) * 16 + y div 4) # ((y mod 4) * 64 + z) # bs))"

fun b64_vals :: "string \<Rightarrow> nat list option" where
  "b64_vals [] = Some []"
| "b64_vals (c # s) =
     (case b64_val c of
        None \<Rightarrow> None
      | Some v \<Rightarrow> (case b64_vals s of None \<Rightarrow> None | Some vs \<Rightarrow> Some (v # vs)))"

definition EncodeToString :: "string \<Rightarrow> string" where
  "EncodeToString s = map b64_char (sextets (map byte s))"

text \<open>The decoder skips carriage returns and line feeds, and does not check the unused low
  bits of a final short group.\<close>

definition DecodeString :: "string \<Rightarrow> string option" where
  "DecodeString s =
     (case b64_vals (filter (\<lambda>c. byte c \<noteq> 10 \<and> byte c \<noteq> 13) s) of
        None \<Rightarrow> None
      | Some vs \<Rightarrow> map_option (map char_of) (octets vs))"

lemma byte_less: "byte c < 256"
  by (simp add: byte_def)

lemma byte_b64_char: "v < 64 \<Longrightarrow> byte (b64_char v) =
    (if v < 26 then v + 65 else if v < 52 then v + 71
     else if v < 62 then v - 4 else if v = 62 then 45 else 95)"
  by (simp add: byte_def b64_char_def)

lemma b64_val_char: "v < 64 \<Longrightarrow> b64_val (b64_char v) = Some v"
  by (auto simp: b64_val_def Let_def byte_b64_char)

lemma b64_char_not_newline: "v < 64 \<Longrightarrow> byte (b64_char v) \<noteq> 10 \<and> byte (b64_char v) \<noteq> 13"
  by (auto simp: byte_b64_char)

lemma sextets_bound: "list_all (\<lambda>b. b < 256) bs \<Longrightarrow> list_all (\<lambda>v. v < 64) (sextets bs)"
  by (induction bs rule: sextets.induct) auto

lemma octets_sextets: "list_all (\<lambda>b. b < 256) bs \<Longrightarrow> octets (sextets bs) = Some bs"
  by (induction bs rule: sextets.induct) auto

lemma b64_vals_chars: "list_all (\<lambda>v. v < 64) vs \<Longrightarrow> b64_vals (map b64_char vs) = Some vs"
  by (induction vs) (auto simp: b64_val_char)

lemma filter_b64_chars:
  "list_all (\<lambda>v. v < 64) vs \<Longrightarrow>
   filter (\<lambda>c. byte c \<noteq> 10 \<and> byte c \<noteq> 13) (map b64_char vs) = map b64_char vs"
  by (induction vs) (use b64_char_not_newline in auto)

lemma Decode_Encode: "DecodeString (EncodeToString s) = Some s"
proof -
  have b: "list_all (\<lambda>b. b < 256) (map byte s)" by (simp add: list_all_iff byte_less)
  have "map (char_of \<circ> byte) s = s" by (rule map_idI) (simp add: byte_def)
  then show ?thesis
    by (simp add: DecodeString_def EncodeToString_def filter_b64_chars [OF sextets_bound [OF b]]
        b64_vals_chars [OF sextets_bound [OF b]] octets_sextets [OF b])
qed

end
