(* ===== verification/Auth.thy ===== *)
theory Auth
  imports GoText
begin

section \<open>Identity and authorization (internal/auth)\<close>

text \<open>
  The role and permission matrix of \<^verbatim>\<open>rbac.go\<close>, the token functions of
  \<^verbatim>\<open>token.go\<close> and the bearer-credential middleware of \<^verbatim>\<open>middleware.go\<close>.

  Parameters stand for the code outside the repository: \<open>ustr\<close>/\<open>uparse\<close> for the
  textual form of a UUID, \<open>jwt_parse\<close> for \<open>jwt.ParseWithClaims\<close>, \<open>sha\<close> for the
  hexadecimal SHA-256 digest, and the stream of buffers that \<open>rand.Read\<close> fills.
\<close>

subsection \<open>Roles and permissions\<close>

type_synonym Role = string

definition RoleOwner :: Role where "RoleOwner = ''owner''"
definition RoleAdmin :: Role where "RoleAdmin = ''admin''"
definition RoleDeveloper :: Role where "RoleDeveloper = ''developer''"
definition RoleViewer :: Role where "RoleViewer = ''viewer''"

lemmas role_defs = RoleOwner_def RoleAdmin_def RoleDeveloper_def RoleViewer_def

datatype Permission =
    PermOrganizationManage | PermOrganizationDelete
  | PermMembersInvite | PermMembersRemove | PermMembersChangeRole
  | PermProjectCreate | PermProjectDelete
  | PermApplicationCreate | PermApplicationDelete | PermApplicationDeploy | PermApplicationScale
  | PermDeploymentRollback | PermEnvVarsWrite | PermDomainsManage
  | PermLogsView | PermMetricsView | PermAuditLogsView
  | PermAPIKeysCreate | PermAPIKeysRevoke | PermBillingView

text \<open>One row of the matrix, in the order owner, admin, developer, viewer.\<close>

definition matrix_row :: "bool \<Rightarrow> bool \<Rightarrow> bool \<Rightarrow> bool \<Rightarrow> (Role \<times> bool) list" where
  "matrix_row ow a d v = [(RoleOwner, ow), (RoleAdmin, a), (RoleDeveloper, d), (RoleViewer, v)]"

fun permissionMatrix :: "Permission \<Rightarrow> (Role \<times> bool) list" where
  "permissionMatrix PermOrganizationManage = matrix_row True True False False"
| "permissionMatrix PermOrganizationDelete = matrix_row True False False False"
| "permissionMatrix PermMembersInvite = matrix_row True True False False"
| "permissionMatrix PermMembersRemove = matrix_row True True False False"
| "permissionMatrix PermMembersChangeRole = matrix_row True True False False"
| "permissionMatrix PermProjectCreate = matrix_row True True True False"
| "permissionMatrix PermProjectDelete = matrix_row True True True False"
| "permissionMatrix PermApplicationCreate = matrix_row True True True False"
| "permissionMatrix PermApplicationDelete = matrix_row True True True False"
| "permissionMatrix PermApplicationDeploy = matrix_row True True True False"
| "permissionMatrix PermApplicationScale = matrix_row True True True False"
| "permissionMatrix PermDeploymentRollback = matrix_row True True True False"
| "permissionMatrix PermEnvVarsWrite = matrix_row True True True False"
| "permissionMatrix PermDomainsManage = matrix_row True True True False"
| "permissionMatrix PermLogsView = matrix_row True True True True"
| "permissionMatrix PermMetricsView = matrix_row True True True True"
| "permissionMatrix PermAuditLogsView = matrix_row True True False False"
| "permissionMatrix PermAPIKeysCreate = matrix_row True True False False"
| "permissionMatrix PermAPIKeysRevoke = matrix_row True True False False"
| "permissionMatrix PermBillingView = matrix_row True True False False"

text \<open>A Go map of maps read with a missing key gives the zero value, here \<open>false\<close>.\<close>

definition HasPermission :: "Role \<Rightarrow> Permission \<Rightarrow> bool" where
  "HasPermission role perm =
     (case map_of (permissionMatrix perm) role of Some b \<Rightarrow> b | None \<Rightarrow> False)"

text \<open>The matrix, read by columns.\<close>

lemma HasPermission_owner [simp]: "HasPermission RoleOwner perm"
  by (cases perm) (simp_all add: HasPermission_def matrix_row_def)

lemma HasPermission_admin [simp]:
  "HasPermission RoleAdmin perm \<longleftrightarrow> perm \<noteq> PermOrganizationDelete"
  by (cases perm) (simp_all add: HasPermission_def matrix_row_def role_defs)

lemma HasPermission_viewer [simp]:
  "HasPermission RoleViewer perm \<longleftrightarrow> perm = PermLogsView \<or> perm = PermMetricsView"
  by (cases perm) (simp_all add: HasPermission_def matrix_row_def role_defs)

lemma HasPermission_developer [simp]:
  "HasPermission RoleDeveloper perm \<longleftrightarrow>
   perm \<notin> {PermOrganizationManage, PermOrganizationDelete, PermMembersInvite, PermMembersRemove,
     PermMembersChangeRole, PermAuditLogsView, PermAPIKeysCreate, PermAPIKeysRevoke, PermBillingView}"
  by (cases perm) (simp_all add: HasPermission_def matrix_row_def role_defs)

lemma HasPermission_unknown:
  "role \<notin> {RoleOwner, RoleAdmin, RoleDeveloper, RoleViewer} \<Longrightarrow> \<not> HasPermission role perm"
  by (cases perm) (simp_all add: HasPermission_def matrix_row_def)

text \<open>The rank of a role, from the least to the most powerful; unknown roles rank lowest.\<close>

definition role_rank :: "Role \<Rightarrow> nat" where
  "role_rank r =
     (if r = RoleOwner then 4 else if r = RoleAdmin then 3
      else if r = RoleDeveloper then 2 else if r = RoleViewer then 1 else 0)"

lemma role_ranks [simp]:
  "role_rank RoleOwner = 4" "role_rank RoleAdmin = 3" "role_rank RoleDeveloper = 2"
  "role_rank RoleViewer = 1"
  by (simp_all add: role_rank_def role_defs)

text \<open>
  The four roles form a chain: whatever a role may do, every role above it may do too, and a
  role that is none of the four may do nothing at all (a stale or corrupt membership row is
  denied, never failed open). Only the owner may delete the organization.
\<close>

theorem rbac_roles_form_a_chain:
  "(role_rank r \<le> role_rank r' \<longrightarrow> HasPermission r perm \<longrightarrow> HasPermission r' perm) \<and>
   (role_rank r = 0 \<longrightarrow> \<not> HasPermission r perm) \<and>
   (HasPermission r PermOrganizationDelete \<longrightarrow> r = RoleOwner)"
proof -
  have known: "role_rank x = 0 \<or> x = RoleOwner \<or> x = RoleAdmin \<or> x = RoleDeveloper \<or> x = RoleViewer"
    for x by (simp add: role_rank_def)
  have unknown: "role_rank x = 0 \<Longrightarrow> \<not> HasPermission x p" for x p
    by (rule HasPermission_unknown) (auto simp: role_rank_def split: if_splits)
  have ne: "RoleAdmin \<noteq> RoleOwner" "RoleDeveloper \<noteq> RoleOwner" "RoleViewer \<noteq> RoleOwner"
    by (simp_all add: role_defs)
  show ?thesis
    using known [of r] known [of r'] by (elim disjE) (simp_all add: unknown ne)
qed

theorem rbac_roles_form_a_chain_witness:
  "HasPermission RoleAdmin PermMembersInvite \<and> \<not> HasPermission ''root'' PermLogsView \<and>
   \<not> HasPermission RoleAdmin PermOrganizationDelete"
proof -
  have "role_rank RoleAdmin \<le> role_rank RoleOwner" "role_rank ''root'' = 0"
    by (simp_all add: role_rank_def role_defs)
  moreover have "HasPermission RoleAdmin PermMembersInvite" by simp
  ultimately show ?thesis
    using rbac_roles_form_a_chain [of "''root''" RoleOwner PermLogsView]
      rbac_roles_form_a_chain [of RoleAdmin RoleOwner PermOrganizationDelete]
    by (simp add: role_defs)
qed

subsection \<open>Access and refresh tokens\<close>

definition AccessTokenTTL :: duration where
  "AccessTokenTTL = 15 * minute"

definition RefreshTokenTTL :: duration where
  "RefreshTokenTTL = 30 * 24 * hour"

datatype signing_method = SigningMethodHMAC string | SigningMethodOther string

text \<open>\<open>NewTokenIssuer\<close> refuses an empty signing key; the issuer is its key.\<close>

definition NewTokenIssuer :: "string \<Rightarrow> string option" where
  "NewTokenIssuer signingKey = (if signingKey = [] then None else Some signingKey)"

text \<open>The registered claims that the access token carries.\<close>

record accessClaims =
  cl_subject :: string
  cl_issuedAt :: time
  cl_expiresAt :: time

text \<open>\<open>sign\<close> is HS256 signing of claims with a key (\<open>None\<close> is a signing error).\<close>

definition IssueAccessToken ::
  "(uuid \<Rightarrow> string) \<Rightarrow> (string \<Rightarrow> accessClaims \<Rightarrow> string option) \<Rightarrow> string \<Rightarrow> time \<Rightarrow> uuid
    \<Rightarrow> (string \<times> time) option" where
  "IssueAccessToken ustr sign signingKey now userID =
     (let expiresAt = now + AccessTokenTTL;
          claims = \<lparr>cl_subject = ustr userID, cl_issuedAt = now, cl_expiresAt = expiresAt\<rparr>
      in case sign signingKey claims of
           None \<Rightarrow> None
         | Some tok \<Rightarrow> Some (tok, expiresAt))"

definition hmac_keyfunc :: "string \<Rightarrow> signing_method \<Rightarrow> string option" where
  "hmac_keyfunc signingKey m = (case m of SigningMethodHMAC _ \<Rightarrow> Some signingKey | _ \<Rightarrow> None)"

text \<open>
  \<open>jwt_parse keyfunc token\<close> is \<open>jwt.ParseWithClaims\<close>: \<open>None\<close> for a parse error,
  otherwise the claims' subject and the token's validity flag.
\<close>

definition VerifyAccessToken ::
  "((signing_method \<Rightarrow> string option) \<Rightarrow> string \<Rightarrow> (string \<times> bool) option)
    \<Rightarrow> (string \<Rightarrow> uuid option) \<Rightarrow> string \<Rightarrow> string \<Rightarrow> uuid option" where
  "VerifyAccessToken jwt_parse uparse signingKey token =
     (case jwt_parse (hmac_keyfunc signingKey) token of
        None \<Rightarrow> None
      | Some (subject, valid) \<Rightarrow> if \<not> valid then None else uparse subject)"

subsection \<open>API keys: unbiased base62 text\<close>

definition apiKeyPrefix :: string where
  "apiKeyPrefix = ''pk_live_''"

definition base62Alphabet :: string where
  "base62Alphabet = ''0123456789ABCDEFGHIJKLMNOPQRSTUVWXYZabcdefghijklmnopqrstuvwxyz''"

definition maxUnbiased :: "8 word" where
  "maxUnbiased = 248"

text \<open>The inner loop of \<open>randomBase62\<close>: one pass over the buffer, leaving it as soon as the
  output is complete.\<close>

fun take_unbiased :: "nat \<Rightarrow> string \<Rightarrow> 8 word list \<Rightarrow> string" where
  "take_unbiased n out [] = out"
| "take_unbiased n out (b # bs) =
     (if b \<ge> maxUnbiased then take_unbiased n out bs
      else (let out' = out @ [base62Alphabet ! unat (b mod 62)] in
            if length out' = n then out' else take_unbiased n out' bs))"

text \<open>
  The outer loop. \<open>rnd k\<close> is the buffer of the \<open>k\<close>-th call of \<open>rand.Read\<close>, or \<open>None\<close>
  if that call fails. The outer \<open>option\<close> is non-termination, the inner one the error.
\<close>

partial_function (option) randomBase62_loop ::
  "(nat \<Rightarrow> 8 word list option) \<Rightarrow> nat \<Rightarrow> nat \<Rightarrow> string \<Rightarrow> string option option" where
  "randomBase62_loop rnd n k out =
     (if length out < n then
        (case rnd k of
           None \<Rightarrow> Some None
         | Some buf \<Rightarrow> randomBase62_loop rnd n (Suc k) (take_unbiased n out buf))
      else Some (Some out))"

definition randomBase62 :: "(nat \<Rightarrow> 8 word list option) \<Rightarrow> nat \<Rightarrow> string option option" where
  "randomBase62 rnd n = randomBase62_loop rnd n 0 []"

definition HashAPIKey :: "(string \<Rightarrow> string) \<Rightarrow> string \<Rightarrow> string" where
  "HashAPIKey sha key = sha key"

definition HashRefreshToken :: "(string \<Rightarrow> string) \<Rightarrow> string \<Rightarrow> string" where
  "HashRefreshToken sha token = sha token"

definition GenerateAPIKey ::
  "(string \<Rightarrow> string) \<Rightarrow> (nat \<Rightarrow> 8 word list option) \<Rightarrow> (string \<times> string) option option" where
  "GenerateAPIKey sha rnd =
     (case randomBase62 rnd 32 of
        None \<Rightarrow> None
      | Some None \<Rightarrow> Some None
      | Some (Some suffix) \<Rightarrow>
          (let key = apiKeyPrefix @ suffix in Some (Some (key, HashAPIKey sha key))))"

text \<open>\<open>GenerateRefreshToken\<close> on the 32 bytes that \<open>rand.Read\<close> returned.\<close>

definition GenerateRefreshToken ::
  "(string \<Rightarrow> string) \<Rightarrow> string option \<Rightarrow> (string \<times> string) option" where
  "GenerateRefreshToken sha raw =
     (case raw of
        None \<Rightarrow> None
      | Some bytes \<Rightarrow>
          (let token = EncodeToString bytes in Some (token, HashRefreshToken sha token)))"

lemma length_base62Alphabet [simp]: "length base62Alphabet = 62"
  by (simp add: base62Alphabet_def)

lemma base62_index: "unat ((b :: 8 word) mod 62) < length base62Alphabet"
  by (simp add: unat_mod)

lemma take_unbiased_props:
  assumes "length out < n" "set out \<subseteq> set base62Alphabet"
  shows "length (take_unbiased n out bs) \<le> n \<and> set (take_unbiased n out bs) \<subseteq> set base62Alphabet"
  using assms
proof (induction n out bs rule: take_unbiased.induct)
  case (2 n out b bs)
  let ?c = "base62Alphabet ! unat (b mod 62)"
  have c: "?c \<in> set base62Alphabet" using base62_index by (rule nth_mem)
  show ?case
  proof (cases "b \<ge> maxUnbiased")
    case True
    then show ?thesis using 2 by simp
  next
    case False
    then show ?thesis
      using "2.IH"(2) [OF False refl] "2.prems" c by (cases "length out + 1 = n") (simp_all add: Let_def)
  qed
qed simp_all

lemma take_unbiased_progress:
  assumes "length out < n" "\<exists>b \<in> set bs. b < maxUnbiased"
  shows "length out < length (take_unbiased n out bs)"
proof -
  have mono: "length out \<le> length (take_unbiased n out bs)" for out n and bs :: "8 word list"
    by (induction n out bs rule: take_unbiased.induct) (auto simp: Let_def)
  show ?thesis using assms
  proof (induction n out bs rule: take_unbiased.induct)
    case (2 n out b bs)
    let ?out = "out @ [base62Alphabet ! unat (b mod 62)]"
    have m: "length out + 1 \<le> length (take_unbiased n ?out bs)" using mono [of ?out n bs] by simp
    show ?case
    proof (cases "b \<ge> maxUnbiased")
      case True
      then have "\<exists>b \<in> set bs. b < maxUnbiased" using 2(4) by auto
      with True 2 show ?thesis by simp
    next
      case False
      with m show ?thesis by (simp add: Let_def)
    qed
  qed simp
qed

text \<open>The set of byte values that the loop turns into a given character.\<close>

definition bytes_for :: "char \<Rightarrow> 8 word set" where
  "bytes_for c = {b. b < maxUnbiased \<and> base62Alphabet ! unat (b mod 62) = c}"

lemma distinct_base62Alphabet: "distinct base62Alphabet"
  by (simp add: base62Alphabet_def)

lemma bytes_for_nth:
  assumes "k < 62"
  shows "unat ` bytes_for (base62Alphabet ! k) = {k, k + 62, k + 124, k + 186}"
proof -
  have mem: "b \<in> bytes_for (base62Alphabet ! k) \<longleftrightarrow> unat b < 248 \<and> unat b mod 62 = k" for b
    using nth_eq_iff_index_eq [OF distinct_base62Alphabet, of "unat b mod 62" k] assms
    by (simp add: bytes_for_def maxUnbiased_def word_less_nat_alt unat_mod)
  have num: "n < 248 \<and> n mod 62 = k \<longleftrightarrow> n \<in> {k, k + 62, k + 124, k + 186}" for n :: nat
  proof
    assume n: "n < 248 \<and> n mod 62 = k"
    then have "n div 62 < 4" by auto
    moreover have "n = 62 * (n div 62) + k" using n by (metis mult_div_mod_eq)
    moreover have "q = 0 \<or> q = 1 \<or> q = 2 \<or> q = 3" if "q < 4" for q :: nat
      using that by linarith
    ultimately obtain q where "n = 62 * q + k" "q = 0 \<or> q = 1 \<or> q = 2 \<or> q = 3" by blast
    then show "n \<in> {k, k + 62, k + 124, k + 186}" by auto
  next
    assume "n \<in> {k, k + 62, k + 124, k + 186}"
    then have "n = 62 * 0 + k \<or> n = 62 * 1 + k \<or> n = 62 * 2 + k \<or> n = 62 * 3 + k" by auto
    then obtain q where "n = 62 * q + k" "q \<le> 3" by fastforce
    with assms show "n < 248 \<and> n mod 62 = k" by simp
  qed
  show ?thesis
  proof (intro equalityI subsetI)
    fix n assume "n \<in> unat ` bytes_for (base62Alphabet ! k)"
    then show "n \<in> {k, k + 62, k + 124, k + 186}" using mem num by auto
  next
    fix n assume n: "n \<in> {k, k + 62, k + 124, k + 186}"
    then have "n < 248 \<and> n mod 62 = k" using num by blast
    then have "unat (of_nat n :: 8 word) = n" by (simp add: unat_of_nat)
    with \<open>n < 248 \<and> n mod 62 = k\<close> have "(of_nat n :: 8 word) \<in> bytes_for (base62Alphabet ! k)"
      by (simp add: mem)
    with \<open>unat (of_nat n :: 8 word) = n\<close> show "n \<in> unat ` bytes_for (base62Alphabet ! k)"
      by (metis image_eqI)
  qed
qed

text \<open>
  The rejection sampling of API keys is unbiased: among the 256 byte values, exactly four are
  mapped to each of the 62 characters of the alphabet (and the values from 248 on are discarded),
  so a uniformly random byte gives a uniformly random character.
\<close>

theorem base62_sampling_unbiased:
  "\<forall>c \<in> set base62Alphabet. card (bytes_for c) = 4"
proof
  fix c assume "c \<in> set base62Alphabet"
  then obtain k where k: "k < 62" "c = base62Alphabet ! k"
    by (metis in_set_conv_nth length_base62Alphabet)
  have "card (bytes_for c) = card (unat ` bytes_for c)"
    by (rule card_image [symmetric]) (simp add: inj_on_def word_unat_eq_iff)
  also have "\<dots> = 4" using bytes_for_nth [OF k(1)] k(2) by simp
  finally show "card (bytes_for c) = 4" .
qed

theorem base62_sampling_unbiased_witness: "card (bytes_for (CHR ''z'')) = 4"
proof -
  have "CHR ''z'' \<in> set base62Alphabet" by (simp add: base62Alphabet_def)
  then show ?thesis using base62_sampling_unbiased by blast
qed

lemma randomBase62_loop_result:
  assumes "randomBase62_loop rnd n k out = Some (Some s)"
    and "length out \<le> n" "set out \<subseteq> set base62Alphabet"
  shows "length s = n \<and> set s \<subseteq> set base62Alphabet"
proof -
  have "length out \<le> n \<longrightarrow> set out \<subseteq> set base62Alphabet \<longrightarrow>
      (\<forall>s. Some s = r \<longrightarrow> length s = n \<and> set s \<subseteq> set base62Alphabet)"
    if ret: "randomBase62_loop rnd n k out = Some r" for r
  proof (rule randomBase62_loop.raw_induct [where P = "\<lambda>rnd n k out r. length out \<le> n \<longrightarrow>
        set out \<subseteq> set base62Alphabet \<longrightarrow>
        (\<forall>s. Some s = r \<longrightarrow> length s = n \<and> set s \<subseteq> set base62Alphabet)", OF _ ret])
    fix f :: "(nat \<Rightarrow> 8 word list option) \<Rightarrow> nat \<Rightarrow> nat \<Rightarrow> string \<Rightarrow> string option option"
      and rnd n k out r
    assume IH: "\<And>rnd n k out r. f rnd n k out = Some r \<Longrightarrow>
        length out \<le> n \<longrightarrow> set out \<subseteq> set base62Alphabet \<longrightarrow>
        (\<forall>s. Some s = r \<longrightarrow> length s = n \<and> set s \<subseteq> set base62Alphabet)"
      and eq: "(if length out < n then
          (case rnd k of None \<Rightarrow> Some None
           | Some buf \<Rightarrow> f rnd n (Suc k) (take_unbiased n out buf)) else Some (Some out)) = Some r"
    show "length out \<le> n \<longrightarrow> set out \<subseteq> set base62Alphabet \<longrightarrow>
        (\<forall>s. Some s = r \<longrightarrow> length s = n \<and> set s \<subseteq> set base62Alphabet)"
    proof (cases "length out < n")
      case False
      with eq show ?thesis by auto
    next
      case True
      show ?thesis
      proof (cases "rnd k")
        case None
        with eq True show ?thesis by auto
      next
        case (Some buf)
        with eq True have "f rnd n (Suc k) (take_unbiased n out buf) = Some r" by simp
        from IH [OF this] take_unbiased_props [OF True] show ?thesis by blast
      qed
    qed
  qed
  with assms show ?thesis by blast
qed

lemma randomBase62_loop_returns:
  assumes good: "\<forall>k. \<exists>buf. rnd k = Some buf \<and> (\<exists>b \<in> set buf. b < maxUnbiased)"
    and "length out \<le> n" "set out \<subseteq> set base62Alphabet"
  shows "\<exists>s. randomBase62_loop rnd n k out = Some (Some s)"
  using assms(2,3)
proof (induction "n - length out" arbitrary: k out rule: less_induct)
  case less
  show ?case
  proof (cases "length out < n")
    case False
    then show ?thesis by (subst randomBase62_loop.simps) simp
  next
    case True
    obtain buf where buf: "rnd k = Some buf" "\<exists>b \<in> set buf. b < maxUnbiased" using good by blast
    let ?out = "take_unbiased n out buf"
    have "n - length ?out < n - length out"
      using take_unbiased_progress [OF True buf(2)] True by linarith
    moreover have "length ?out \<le> n" "set ?out \<subseteq> set base62Alphabet"
      using take_unbiased_props [OF True less.prems(2)] by auto
    ultimately have "\<exists>s. randomBase62_loop rnd n (Suc k) ?out = Some (Some s)"
      by (rule less.hyps)
    then show ?thesis using True buf(1) by (subst randomBase62_loop.simps) simp
  qed
qed

text \<open>
  Generating an API key returns: whenever every read of the random source yields at least one
  byte below 248, \<open>GenerateAPIKey\<close> stops with a key that is the prefix \<^verbatim>\<open>pk_live_\<close>
  followed by exactly 32 characters of the base62 alphabet, together with the key's hash.
\<close>

theorem GenerateAPIKey_returns:
  assumes "\<forall>k. \<exists>buf. rnd k = Some buf \<and> (\<exists>b \<in> set buf. b < maxUnbiased)"
  shows "\<exists>suffix. GenerateAPIKey sha rnd = Some (Some (apiKeyPrefix @ suffix, sha (apiKeyPrefix @ suffix)))
     \<and> length suffix = 32 \<and> set suffix \<subseteq> set base62Alphabet"
proof -
  obtain s where s: "randomBase62_loop rnd 32 0 [] = Some (Some s)"
    using randomBase62_loop_returns [OF assms, of "[]" 32 0] by auto
  then have "length s = 32 \<and> set s \<subseteq> set base62Alphabet"
    by (rule randomBase62_loop_result) auto
  with s show ?thesis
    by (simp add: GenerateAPIKey_def randomBase62_def HashAPIKey_def Let_def)
qed

theorem GenerateAPIKey_returns_witness:
  "\<exists>suffix. GenerateAPIKey (\<lambda>s. s) (\<lambda>k. Some [255, of_nat k mod 62]) =
     Some (Some (apiKeyPrefix @ suffix, apiKeyPrefix @ suffix))
     \<and> length suffix = 32 \<and> set suffix \<subseteq> set base62Alphabet"
proof -
  have "(of_nat k mod 62 :: 8 word) < maxUnbiased" for k
    by (simp add: maxUnbiased_def word_less_nat_alt unat_mod)
  then show ?thesis by (intro GenerateAPIKey_returns) auto
qed

subsection \<open>The bearer middleware\<close>

record auth_ctx =
  ctx_user :: "uuid option"
  ctx_key_org :: "uuid option"

definition WithUserID :: "auth_ctx \<Rightarrow> uuid \<Rightarrow> auth_ctx" where
  "WithUserID ctx userID = ctx\<lparr>ctx_user := Some userID\<rparr>"

definition UserIDFromContext :: "auth_ctx \<Rightarrow> uuid \<times> bool" where
  "UserIDFromContext ctx = (case ctx_user ctx of Some u \<Rightarrow> (u, True) | None \<Rightarrow> (uuid_Nil, False))"

definition WithAPIKeyOrgID :: "auth_ctx \<Rightarrow> uuid \<Rightarrow> auth_ctx" where
  "WithAPIKeyOrgID ctx orgID = ctx\<lparr>ctx_key_org := Some orgID\<rparr>"

definition APIKeyOrgIDFromContext :: "auth_ctx \<Rightarrow> uuid \<times> bool" where
  "APIKeyOrgIDFromContext ctx =
     (case ctx_key_org ctx of Some o' \<Rightarrow> (o', True) | None \<Rightarrow> (uuid_Nil, False))"

definition empty_ctx :: auth_ctx where
  "empty_ctx = \<lparr>ctx_user = None, ctx_key_org = None\<rparr>"

definition bearerPrefix :: string where
  "bearerPrefix = ''Bearer ''"

text \<open>
  \<open>Authenticate\<close> either answers 401 (\<open>None\<close>) or calls the next handler with the returned
  context. \<open>keys\<close> is the optional \<open>APIKeyLookup\<close> port: creator and organization of the
  active key with a given hash.
\<close>

definition Authenticate ::
  "(string \<Rightarrow> string) \<Rightarrow> (string \<Rightarrow> uuid option) \<Rightarrow> (string \<Rightarrow> (uuid \<times> uuid) option) option
    \<Rightarrow> string \<Rightarrow> auth_ctx option" where
  "Authenticate sha verify keys header =
     (let prefix = bearerPrefix in
      if \<not> HasPrefix header prefix then None
      else
        (let token = TrimPrefix header prefix in
         if HasPrefix token apiKeyPrefix then
           (case keys of
              None \<Rightarrow> None
            | Some lookup \<Rightarrow>
                (case lookup (HashAPIKey sha token) of
                   None \<Rightarrow> None
                 | Some (userID, orgID) \<Rightarrow>
                     Some (WithAPIKeyOrgID (WithUserID empty_ctx userID) orgID)))
         else
           (case verify token of
              None \<Rightarrow> None
            | Some userID \<Rightarrow> Some (WithUserID empty_ctx userID))))"


end
