(* ===== verification/Schema.thy ===== *)
theory Schema
  imports Auth
begin

section \<open>The database: rows, row-level security, constraints and triggers\<close>

text \<open>
  The tables of \<^verbatim>\<open>infrastructure/postgres/migrations\<close> with the row types of
  \<^verbatim>\<open>internal/db\<close>: one record per struct, its fields in the struct's order, plus the
  columns a struct leaves out. A table is the list of its rows in the order in which a scan
  returns them. What the Go code relies on in the database is written out here: the row-level
  security policies (\<open>USING\<close>, which PostgreSQL also applies to inserted rows), unique keys,
  foreign keys with their cascades, the width of \<open>INT\<close> columns and the quota triggers of
  migration 0013.
\<close>

subsection \<open>Enumerations\<close>

datatype DeploymentStatus =
  DeploymentStatusPending | DeploymentStatusScheduling | DeploymentStatusRunning
| DeploymentStatusFailed | DeploymentStatusRolledBack

datatype ContainerStatus =
  ContainerStatusPending | ContainerStatusRunning | ContainerStatusCrashed | ContainerStatusStopped

datatype NodeStatus = NodeStatusHealthy | NodeStatusDegraded | NodeStatusUnreachable

datatype DomainTLSStatus = DomainTLSStatusPending | DomainTLSStatusActive | DomainTLSStatusFailed

datatype BuildStatus =
  BuildStatusPending | BuildStatusCloning | BuildStatusBuilding
| BuildStatusPushing | BuildStatusSucceeded | BuildStatusFailed

text \<open>The text of a container status, as the \<open>container_status\<close> values and the wire have it.\<close>

fun ContainerStatus_String :: "ContainerStatus \<Rightarrow> string" where
  "ContainerStatus_String ContainerStatusPending = ''pending''"
| "ContainerStatus_String ContainerStatusRunning = ''running''"
| "ContainerStatus_String ContainerStatusCrashed = ''crashed''"
| "ContainerStatus_String ContainerStatusStopped = ''stopped''"

definition active_status :: "ContainerStatus \<Rightarrow> bool" where
  "active_status st \<longleftrightarrow> st = ContainerStatusPending \<or> st = ContainerStatusRunning"

definition dead_ended :: "DeploymentStatus \<Rightarrow> bool" where
  "dead_ended st \<longleftrightarrow> st = DeploymentStatusFailed \<or> st = DeploymentStatusRolledBack"

subsection \<open>Rows\<close>

record Organization =
  org_ID :: uuid
  org_Name :: string
  org_Slug :: string
  org_CreatedAt :: time

record User =
  user_ID :: uuid
  user_Email :: string
  user_PasswordHash :: string
  user_CreatedAt :: time

record Membership =
  mem_ID :: uuid
  mem_OrgID :: uuid
  mem_UserID :: uuid
  mem_Role :: Role
  mem_CreatedAt :: time

record APIKey =
  key_ID :: uuid
  key_OrgID :: uuid
  key_Name :: string
  key_Scopes :: "string list"
  key_CreatedBy :: uuid
  key_CreatedAt :: time
  key_RevokedAt :: "time option"
  key_Hash :: string

record Project =
  proj_ID :: uuid
  proj_OrgID :: uuid
  proj_Name :: string
  proj_Slug :: string
  proj_CreatedAt :: time

record PortSpec =
  ContainerPort :: int
  HostPort :: int
  Protocol :: string

record Application =
  app_ID :: uuid
  app_OrgID :: uuid
  app_ProjectID :: uuid
  app_Name :: string
  app_Image :: string
  app_ReplicasDesired :: int
  app_CPUMillicores :: int
  app_MemoryMB :: int
  app_Ports :: "PortSpec list"
  app_HealthCheckPath :: "string option"
  app_CreatedAt :: time
  app_UpdatedAt :: time

record Deployment =
  dep_ID :: uuid
  dep_OrgID :: uuid
  dep_ApplicationID :: uuid
  dep_Image :: string
  dep_Revision :: int
  dep_Status :: DeploymentStatus
  dep_Strategy :: string
  dep_WorkerContainerID :: "string option"
  dep_CreatedBy :: uuid
  dep_CreatedAt :: time
  dep_CompletedAt :: "time option"

record RefreshToken =
  rt_ID :: uuid
  rt_UserID :: uuid
  rt_TokenHash :: string
  rt_CreatedAt :: time
  rt_ExpiresAt :: time
  rt_RevokedAt :: "time option"
  rt_ReplacedByID :: "uuid option"

record Node =
  node_ID :: uuid
  node_Hostname :: string
  node_IP :: string
  node_CPUCapacityMillicores :: int
  node_MemoryCapacityMB :: int
  node_Status :: NodeStatus
  node_LastHeartbeatAt :: time
  node_Labels :: "(string \<times> string) list"
  node_CreatedAt :: time

record Container =
  con_ID :: uuid
  con_DeploymentID :: uuid
  con_NodeID :: uuid
  con_RuntimeID :: "string option"
  con_Status :: ContainerStatus
  con_RestartCount :: int
  con_StartedAt :: "time option"
  con_StoppedAt :: "time option"

record Service =
  svc_ID :: uuid
  svc_ApplicationID :: uuid
  svc_DNSName :: string
  svc_CreatedAt :: time

record ServiceInstance =
  si_ID :: uuid
  si_ServiceID :: uuid
  si_ContainerID :: uuid
  si_IP :: string
  si_Port :: int
  si_Healthy :: bool
  si_LastSeenAt :: time

record Domain =
  dom_ID :: uuid
  dom_OrgID :: uuid
  dom_ProjectID :: uuid
  dom_ApplicationID :: uuid
  dom_Hostname :: string
  dom_TLSStatus :: DomainTLSStatus
  dom_CreatedAt :: time

record ResourceQuota =
  rq_OrgID :: uuid
  rq_MaxCPUMillicores :: int
  rq_MaxMemoryMB :: int
  rq_MaxContainers :: int
  rq_MaxProjects :: int
  rq_MaxDeploymentsPerDay :: int
  rq_CreatedAt :: time

text \<open>Audit metadata is a JSON object; its values are strings or integers in this code.\<close>

datatype meta = MetaStr string | MetaInt int

record AuditLogEntry =
  al_ID :: uuid
  al_OrgID :: uuid
  al_ActorUserID :: "uuid option"
  al_Action :: string
  al_TargetType :: string
  al_TargetID :: uuid
  al_Metadata :: "(string \<times> meta) list"
  al_CreatedAt :: time

record Build =
  bld_ID :: uuid
  bld_OrgID :: uuid
  bld_ApplicationID :: uuid
  bld_GitURL :: string
  bld_GitRef :: string
  bld_CommitSHA :: "string option"
  bld_Status :: BuildStatus
  bld_Image :: "string option"
  bld_ErrorMessage :: "string option"
  bld_CreatedBy :: uuid
  bld_CreatedAt :: time
  bld_CompletedAt :: "time option"

record db =
  organizations :: "Organization list"
  users :: "User list"
  memberships :: "Membership list"
  api_keys :: "APIKey list"
  projects :: "Project list"
  applications :: "Application list"
  deployments :: "Deployment list"
  refresh_tokens :: "RefreshToken list"
  nodes :: "Node list"
  containers :: "Container list"
  services :: "Service list"
  service_instances :: "ServiceInstance list"
  domains :: "Domain list"
  resource_quotas :: "ResourceQuota list"
  audit_logs :: "AuditLogEntry list"
  builds :: "Build list"

definition empty_db :: db where
  "empty_db = \<lparr>organizations = [], users = [], memberships = [], api_keys = [], projects = [],
     applications = [], deployments = [], refresh_tokens = [], nodes = [], containers = [],
     services = [], service_instances = [], domains = [], resource_quotas = [], audit_logs = [],
     builds = []\<rparr>"

subsection \<open>Sessions and row-level security\<close>

text \<open>
  \<open>app.current_user_id\<close> and \<open>app.current_org_id\<close> of a transaction, and whether the
  connection's role bypasses row-level security (the admin connections of the scheduler, the
  controller manager and the load balancer).
\<close>

record session =
  current_user :: "uuid option"
  current_org :: "uuid option"
  bypass_rls :: bool

definition is_member :: "db \<Rightarrow> uuid \<Rightarrow> uuid \<Rightarrow> bool" where
  "is_member d u oid \<longleftrightarrow> list_ex (\<lambda>m. mem_UserID m = u \<and> mem_OrgID m = oid) (memberships d)"

definition is_org_admin :: "db \<Rightarrow> uuid \<Rightarrow> uuid \<Rightarrow> bool" where
  "is_org_admin d u oid \<longleftrightarrow> list_ex (\<lambda>m. mem_OrgID m = oid \<and> mem_UserID m = u \<and>
     (mem_Role m = RoleOwner \<or> mem_Role m = RoleAdmin)) (memberships d)"

text \<open>The two-branch policy of every table with an \<open>org_id\<close>, and the policy of \<open>memberships\<close>.\<close>

definition org_visible :: "session \<Rightarrow> db \<Rightarrow> uuid \<Rightarrow> bool" where
  "org_visible s d oid \<longleftrightarrow> bypass_rls s \<or> current_org s = Some oid \<or>
     (case current_user s of Some u \<Rightarrow> is_member d u oid | None \<Rightarrow> False)"

definition membership_visible :: "session \<Rightarrow> db \<Rightarrow> Membership \<Rightarrow> bool" where
  "membership_visible s d m \<longleftrightarrow> bypass_rls s \<or>
     (case current_user s of Some u \<Rightarrow> mem_UserID m = u \<or> is_org_admin d u (mem_OrgID m) | None \<Rightarrow> False)"

subsection \<open>Statements\<close>

datatype pg_error =
  ConnectionFailure | UniqueViolation | ForeignKeyViolation | CheckViolation
| RowSecurityViolation | InvalidValue

text \<open>
  A statement reads the session, the transaction's \<open>now()\<close> and, for a generated key, a random
  identifier; it fails as a whole or gives a result and the new tables.
\<close>

type_synonym 'a stmt = "session \<Rightarrow> time \<Rightarrow> uuid \<Rightarrow> db \<Rightarrow> pg_error + ('a \<times> db)"

definition check :: "bool \<Rightarrow> pg_error \<Rightarrow> (pg_error + 'a) \<Rightarrow> pg_error + 'a" where
  "check ok e k = (if ok then k else Inl e)"

lemma check_Inr [simp]: "check ok e k = Inr x \<longleftrightarrow> ok \<and> k = Inr x"
  by (simp add: check_def)

definition org_exists :: "db \<Rightarrow> uuid \<Rightarrow> bool" where
  "org_exists d oid \<longleftrightarrow> list_ex (\<lambda>x. org_ID x = oid) (organizations d)"

definition user_exists :: "db \<Rightarrow> uuid \<Rightarrow> bool" where
  "user_exists d u \<longleftrightarrow> list_ex (\<lambda>x. user_ID x = u) (users d)"

subsection \<open>Triggers of migration 0013\<close>

definition org_of_deployment :: "db \<Rightarrow> uuid \<Rightarrow> uuid option" where
  "org_of_deployment d did = map_option dep_OrgID (find (\<lambda>x. dep_ID x = did) (deployments d))"

definition active_containers_of_org :: "db \<Rightarrow> uuid \<Rightarrow> Container list" where
  "active_containers_of_org d oid =
     filter (\<lambda>c. active_status (con_Status c) \<and> org_of_deployment d (con_DeploymentID c) = Some oid) (containers d)"

definition quota_of :: "db \<Rightarrow> uuid \<Rightarrow> ResourceQuota option" where
  "quota_of d oid = find (\<lambda>q. rq_OrgID q = oid) (resource_quotas d)"

definition enforce_container_quota :: "db \<Rightarrow> uuid \<Rightarrow> bool" where
  "enforce_container_quota d did =
     (case org_of_deployment d did of
        None \<Rightarrow> True
      | Some oid \<Rightarrow>
          (case quota_of d oid of
             None \<Rightarrow> True
           | Some q \<Rightarrow> int (length (active_containers_of_org d oid)) + 1 \<le> rq_MaxContainers q))"

definition enforce_project_quota :: "db \<Rightarrow> uuid \<Rightarrow> bool" where
  "enforce_project_quota d oid =
     (case quota_of d oid of
        None \<Rightarrow> True
      | Some q \<Rightarrow> int (length (filter (\<lambda>p. proj_OrgID p = oid) (projects d))) + 1 \<le> rq_MaxProjects q)"

subsection \<open>Cascading deletion\<close>

text \<open>
  \<open>ON DELETE CASCADE\<close> from an application reaches its deployments, domains, builds and
  service, from a deployment its containers, and from a service or a container its service
  instances; from an organization everything that carries its \<open>org_id\<close> and what that owns.
\<close>

definition delete_applications :: "(Application \<Rightarrow> bool) \<Rightarrow> db \<Rightarrow> db" where
  "delete_applications P d =
     (let gone_app = (\<lambda>a. list_ex (\<lambda>x. app_ID x = a \<and> P x) (applications d));
          gone_dep = (\<lambda>i. list_ex (\<lambda>x. dep_ID x = i \<and> gone_app (dep_ApplicationID x)) (deployments d));
          gone_con = (\<lambda>c. list_ex (\<lambda>x. con_ID x = c \<and> gone_dep (con_DeploymentID x)) (containers d));
          gone_svc = (\<lambda>s. list_ex (\<lambda>x. svc_ID x = s \<and> gone_app (svc_ApplicationID x)) (services d))
      in d\<lparr>applications := filter (\<lambda>x. \<not> P x) (applications d),
           deployments := filter (\<lambda>x. \<not> gone_app (dep_ApplicationID x)) (deployments d),
           domains := filter (\<lambda>x. \<not> gone_app (dom_ApplicationID x)) (domains d),
           builds := filter (\<lambda>x. \<not> gone_app (bld_ApplicationID x)) (builds d),
           containers := filter (\<lambda>x. \<not> gone_dep (con_DeploymentID x)) (containers d),
           services := filter (\<lambda>x. \<not> gone_app (svc_ApplicationID x)) (services d),
           service_instances := filter (\<lambda>x. \<not> gone_con (si_ContainerID x) \<and> \<not> gone_svc (si_ServiceID x))
             (service_instances d)\<rparr>)"

definition delete_org_rows :: "uuid \<Rightarrow> (uuid \<Rightarrow> bool) \<Rightarrow> db \<Rightarrow> db" where
  "delete_org_rows oid gone_proj d =
     (let gone_dep = (\<lambda>i. list_ex (\<lambda>x. dep_ID x = i \<and> dep_OrgID x = oid) (deployments d));
          gone_con = (\<lambda>c. list_ex (\<lambda>x. con_ID x = c \<and> gone_dep (con_DeploymentID x)) (containers d))
      in d\<lparr>organizations := filter (\<lambda>x. org_ID x \<noteq> oid) (organizations d),
           memberships := filter (\<lambda>x. mem_OrgID x \<noteq> oid) (memberships d),
           api_keys := filter (\<lambda>x. key_OrgID x \<noteq> oid) (api_keys d),
           projects := filter (\<lambda>x. proj_OrgID x \<noteq> oid) (projects d),
           deployments := filter (\<lambda>x. dep_OrgID x \<noteq> oid) (deployments d),
           domains := filter (\<lambda>x. dom_OrgID x \<noteq> oid \<and> \<not> gone_proj (dom_ProjectID x)) (domains d),
           builds := filter (\<lambda>x. bld_OrgID x \<noteq> oid) (builds d),
           resource_quotas := filter (\<lambda>x. rq_OrgID x \<noteq> oid) (resource_quotas d),
           audit_logs := filter (\<lambda>x. al_OrgID x \<noteq> oid) (audit_logs d),
           containers := filter (\<lambda>x. \<not> gone_dep (con_DeploymentID x)) (containers d),
           service_instances := filter (\<lambda>x. \<not> gone_con (si_ContainerID x)) (service_instances d)\<rparr>)"

definition delete_organization :: "uuid \<Rightarrow> db \<Rightarrow> db" where
  "delete_organization oid d =
     (let gone_proj = (\<lambda>p. list_ex (\<lambda>x. proj_ID x = p \<and> proj_OrgID x = oid) (projects d))
      in delete_org_rows oid gone_proj (delete_applications (\<lambda>a. app_OrgID a = oid \<or> gone_proj (app_ProjectID a)) d))"

end
