(* ===== verification/EventBus.thy ===== *)
theory EventBus
  imports Schema "HOL-Library.AList"
begin

section \<open>Subjects, streams and messages\<close>

text \<open>
  \<^verbatim>\<open>internal/eventbus\<close> and the message types. Each service keeps its own copy of
  the structs it sends or receives, so what a consumer reads out of what a producer wrote is a
  property of the system, not of one package: encoding (\<open>json.Marshal\<close>, with
  \<open>omitempty\<close>) and decoding (\<open>json.Unmarshal\<close>) are separate definitions here, and the
  round-trip lemmas are the wire contract.

  A message body is a JSON value; bytes that are not JSON are \<open>None\<close> where a handler receives
  them. \<open>JTime t\<close> stands for the string with the RFC 3339 text of \<open>t\<close>. Decoding follows
  \<open>encoding/json\<close>: field names match up to ASCII case, unknown fields are ignored,
  \<open>null\<close> leaves a field as it is, a repeated field is read again, and a value of the wrong
  type fails the whole call. The text form of identifiers belongs to \<open>google/uuid\<close> and is the
  record \<open>codec\<close> of two functions, with the round trip that package documents as the
  hypothesis \<open>codec_ok\<close>.
\<close>

record codec =
  UUID_String :: "uuid \<Rightarrow> string"
  UUID_Parse :: "string \<Rightarrow> uuid option"

definition codec_ok :: "codec \<Rightarrow> bool" where
  "codec_ok cd \<longleftrightarrow> (\<forall>u. UUID_Parse cd (UUID_String cd u) = Some u)"

subsection \<open>Subjects\<close>

definition NodeRegisterSubject :: "string \<Rightarrow> string" where
  "NodeRegisterSubject nodeID = ''node.'' @ nodeID @ ''.register''"

definition NodeHeartbeatSubject :: "string \<Rightarrow> string" where
  "NodeHeartbeatSubject nodeID = ''node.'' @ nodeID @ ''.heartbeat''"

definition NodeAssignSubject :: "string \<Rightarrow> string" where
  "NodeAssignSubject nodeID = ''node.'' @ nodeID @ ''.assign''"

definition NodeUnassignSubject :: "string \<Rightarrow> string" where
  "NodeUnassignSubject nodeID = ''node.'' @ nodeID @ ''.unassign''"

definition NodeStatusSubject :: "string \<Rightarrow> string" where
  "NodeStatusSubject nodeID = ''node.'' @ nodeID @ ''.status''"

definition PlacementRequestedSubject :: string where
  "PlacementRequestedSubject = ''placement.requested''"

definition ServiceUpdatedSubject :: string where
  "ServiceUpdatedSubject = ''service.updated''"

definition BuildRequestedSubject :: string where
  "BuildRequestedSubject = ''build.requested''"

definition BuildCompletedSubject :: string where
  "BuildCompletedSubject = ''build.completed''"

definition NodeAssignmentsStream :: string where "NodeAssignmentsStream = ''NODE_ASSIGNMENTS''"
definition NodeAssignmentsStreamFilter :: string where "NodeAssignmentsStreamFilter = ''node.*.assign''"
definition NodeUnassignStreamFilter :: string where "NodeUnassignStreamFilter = ''node.*.unassign''"
definition NodeStatusStream :: string where "NodeStatusStream = ''NODE_STATUS''"
definition NodeStatusStreamFilter :: string where "NodeStatusStreamFilter = ''node.*.status''"
definition PlacementStream :: string where "PlacementStream = ''PLACEMENT''"
definition PlacementStreamFilter :: string where "PlacementStreamFilter = ''placement.requested''"
definition BuildsStream :: string where "BuildsStream = ''BUILDS''"
definition BuildsStreamSubjects :: "string list" where
  "BuildsStreamSubjects = [BuildRequestedSubject, BuildCompletedSubject]"

subsection \<open>JSON values\<close>

datatype json =
  JNull | JBool bool | JNum int | JStr string | JTime time
| JArr "json list" | JObj "(string \<times> json) list"

definition field :: "string \<Rightarrow> (string \<times> json) list \<Rightarrow> json list" where
  "field name kvs = map snd (filter (\<lambda>kv. ToLower (fst kv) = name) kvs)"

fun dec_str :: "string \<Rightarrow> json list \<Rightarrow> string option" where
  "dec_str acc [] = Some acc"
| "dec_str acc (JNull # vs) = dec_str acc vs"
| "dec_str acc (JStr s # vs) = dec_str s vs"
| "dec_str acc (_ # vs) = None"

fun dec_int :: "int \<Rightarrow> json list \<Rightarrow> int option" where
  "dec_int acc [] = Some acc"
| "dec_int acc (JNull # vs) = dec_int acc vs"
| "dec_int acc (JNum n # vs) = (if int64_ok n then dec_int n vs else None)"
| "dec_int acc (_ # vs) = None"

fun dec_time :: "time \<Rightarrow> json list \<Rightarrow> time option" where
  "dec_time acc [] = Some acc"
| "dec_time acc (JNull # vs) = dec_time acc vs"
| "dec_time acc (JTime t # vs) = dec_time t vs"
| "dec_time acc (_ # vs) = None"

fun dec_entries :: "(string \<times> string) list \<Rightarrow> (string \<times> json) list \<Rightarrow> (string \<times> string) list option" where
  "dec_entries acc [] = Some acc"
| "dec_entries acc ((k, JNull) # kvs) = dec_entries (AList.update k [] acc) kvs"
| "dec_entries acc ((k, JStr s) # kvs) = dec_entries (AList.update k s acc) kvs"
| "dec_entries acc (_ # kvs) = None"

fun dec_map :: "(string \<times> string) list \<Rightarrow> json list \<Rightarrow> (string \<times> string) list option" where
  "dec_map acc [] = Some acc"
| "dec_map acc (JNull # vs) = dec_map [] vs"
| "dec_map acc (JObj kvs # vs) = Option.bind (dec_entries acc kvs) (\<lambda>m. dec_map m vs)"
| "dec_map acc (_ # vs) = None"

fun dec_elems :: "(json \<Rightarrow> 'a option) \<Rightarrow> json list \<Rightarrow> 'a list option" where
  "dec_elems f [] = Some []"
| "dec_elems f (v # vs) = Option.bind (f v) (\<lambda>x. Option.bind (dec_elems f vs) (\<lambda>xs. Some (x # xs)))"

fun dec_list :: "(json \<Rightarrow> 'a option) \<Rightarrow> 'a list \<Rightarrow> json list \<Rightarrow> 'a list option" where
  "dec_list f acc [] = Some acc"
| "dec_list f acc (JNull # vs) = dec_list f [] vs"
| "dec_list f acc (JArr xs # vs) = Option.bind (dec_elems f xs) (\<lambda>l. dec_list f l vs)"
| "dec_list f acc (_ # vs) = None"

type_synonym portBinding = PortSpec

definition zero_port :: portBinding where
  "zero_port = \<lparr>ContainerPort = 0, HostPort = 0, Protocol = []\<rparr>"

fun dec_port :: "json \<Rightarrow> portBinding option" where
  "dec_port JNull = Some zero_port"
| "dec_port (JObj kvs) =
     Option.bind (dec_int 0 (field ''container_port'' kvs)) (\<lambda>c.
     Option.bind (dec_int 0 (field ''host_port'' kvs)) (\<lambda>h.
     Option.bind (dec_str [] (field ''protocol'' kvs)) (\<lambda>p.
     Some \<lparr>ContainerPort = c, HostPort = h, Protocol = p\<rparr>)))"
| "dec_port _ = None"

definition enc_port :: "portBinding \<Rightarrow> json" where
  "enc_port p = JObj ([(''container_port'', JNum (ContainerPort p))] @
     (if HostPort p \<noteq> 0 then [(''host_port'', JNum (HostPort p))] else []) @
     (if Protocol p \<noteq> [] then [(''protocol'', JStr (Protocol p))] else []))"

definition enc_ports :: "portBinding list \<Rightarrow> (string \<times> json) list" where
  "enc_ports ps = (if ps \<noteq> [] then [(''ports'', JArr (map enc_port ps))] else [])"

definition dec_ports :: "(string \<times> json) list \<Rightarrow> portBinding list option" where
  "dec_ports kvs = dec_list dec_port [] (field ''ports'' kvs)"

definition port_ok :: "portBinding \<Rightarrow> bool" where
  "port_ok p \<longleftrightarrow> int64_ok (ContainerPort p) \<and> int64_ok (HostPort p)"

text \<open>A JSON document decoded into a struct: \<open>null\<close> leaves it zero, anything but an object fails.\<close>

definition dec_struct :: "((string \<times> json) list \<Rightarrow> 'a option) \<Rightarrow> json option \<Rightarrow> 'a option" where
  "dec_struct f data =
     (case data of Some (JObj kvs) \<Rightarrow> f kvs | Some JNull \<Rightarrow> f [] | _ \<Rightarrow> None)"

lemmas field_simps = field_def ToLower_def lower_char_def is_upper_def byte_def

lemma dec_port_enc_port [simp]: "port_ok p \<Longrightarrow> dec_port (enc_port p) = Some p"
  by (cases p) (simp add: enc_port_def port_ok_def field_simps)

lemma dec_elems_map: "list_all (\<lambda>x. f (g x) = Some x) xs \<Longrightarrow> dec_elems f (map g xs) = Some xs"
  by (induction xs) auto

lemma dec_ports_enc_ports:
  "list_all port_ok ps \<Longrightarrow> dec_elems dec_port (map enc_port ps) = Some ps"
  by (rule dec_elems_map) (auto simp: list_all_iff)

lemma dec_entries_enc:
  "distinct (map fst (acc @ m)) \<Longrightarrow> dec_entries acc (map (\<lambda>(k, v). (k, JStr v)) m) = Some (acc @ m)"
proof (induction m arbitrary: acc)
  case (Cons kv m)
  obtain k v where kv: "kv = (k, v)" by force
  have "AList.update k v acc = acc @ [(k, v)]"
    using Cons.prems kv by (induction acc) auto
  with Cons kv show ?case by simp
qed simp

end
