(* ===== verification/Messages.thy ===== *)
theory Messages
  imports EventBus
begin

section \<open>The wire contract\<close>

text \<open>
  The messages of \<^verbatim>\<open>docs/nats-contract.md\<close>: for each, the producer's struct with its
  encoding and the consumer's own copy with its decoding. Where a consumer's copy has fewer
  fields than the producer's, it has its own record.
\<close>

subsection \<open>placement.requested: API server and controller manager to scheduler\<close>

record placementRequestedMessage =
  pr_DeploymentID :: string
  pr_ApplicationID :: string
  pr_Image :: string
  pr_Env :: "(string \<times> string) list"
  pr_Ports :: "portBinding list"
  pr_Command :: "string list"

definition enc_env :: "(string \<times> string) list \<Rightarrow> (string \<times> json) list" where
  "enc_env m = (if m \<noteq> [] then [(''env'', JObj (map (\<lambda>(k, v). (k, JStr v)) m))] else [])"

definition enc_command :: "string list \<Rightarrow> (string \<times> json) list" where
  "enc_command c = (if c \<noteq> [] then [(''command'', JArr (map JStr c))] else [])"

definition enc_placementRequested :: "placementRequestedMessage \<Rightarrow> json" where
  "enc_placementRequested m = JObj
     ([(''deployment_id'', JStr (pr_DeploymentID m)), (''application_id'', JStr (pr_ApplicationID m)),
       (''image'', JStr (pr_Image m))] @ enc_env (pr_Env m) @ enc_ports (pr_Ports m) @ enc_command (pr_Command m))"

definition dec_command :: "json \<Rightarrow> string option" where
  "dec_command v = dec_str [] [v]"

definition dec_placementRequested :: "json option \<Rightarrow> placementRequestedMessage option" where
  "dec_placementRequested = dec_struct (\<lambda>kvs.
     Option.bind (dec_str [] (field ''deployment_id'' kvs)) (\<lambda>d.
     Option.bind (dec_str [] (field ''application_id'' kvs)) (\<lambda>a.
     Option.bind (dec_str [] (field ''image'' kvs)) (\<lambda>i.
     Option.bind (dec_map [] (field ''env'' kvs)) (\<lambda>e.
     Option.bind (dec_ports kvs) (\<lambda>p.
     Option.bind (dec_list dec_command [] (field ''command'' kvs)) (\<lambda>c.
     Some \<lparr>pr_DeploymentID = d, pr_ApplicationID = a, pr_Image = i, pr_Env = e, pr_Ports = p,
           pr_Command = c\<rparr>)))))))"

subsection \<open>node.id.assign: scheduler to worker\<close>

record assignMessage =
  as_AssignmentID :: string
  as_DeploymentID :: string
  as_Image :: string
  as_Env :: "(string \<times> string) list"
  as_Ports :: "portBinding list"
  as_Command :: "string list"

definition enc_assign :: "assignMessage \<Rightarrow> json" where
  "enc_assign m = JObj
     ([(''assignment_id'', JStr (as_AssignmentID m)), (''deployment_id'', JStr (as_DeploymentID m)),
       (''image'', JStr (as_Image m))] @ enc_env (as_Env m) @ enc_ports (as_Ports m) @ enc_command (as_Command m))"

definition dec_assign :: "json option \<Rightarrow> assignMessage option" where
  "dec_assign = dec_struct (\<lambda>kvs.
     Option.bind (dec_str [] (field ''assignment_id'' kvs)) (\<lambda>a.
     Option.bind (dec_str [] (field ''deployment_id'' kvs)) (\<lambda>d.
     Option.bind (dec_str [] (field ''image'' kvs)) (\<lambda>i.
     Option.bind (dec_map [] (field ''env'' kvs)) (\<lambda>e.
     Option.bind (dec_ports kvs) (\<lambda>p.
     Option.bind (dec_list dec_command [] (field ''command'' kvs)) (\<lambda>c.
     Some \<lparr>as_AssignmentID = a, as_DeploymentID = d, as_Image = i, as_Env = e, as_Ports = p,
           as_Command = c\<rparr>)))))))"

subsection \<open>node.id.unassign: API server and controller manager to worker\<close>

record unassignMessage =
  un_AssignmentID :: string
  un_ContainerID :: string

definition enc_unassign :: "unassignMessage \<Rightarrow> json" where
  "enc_unassign m = JObj [(''assignment_id'', JStr (un_AssignmentID m)), (''container_id'', JStr (un_ContainerID m))]"

definition dec_unassign :: "json option \<Rightarrow> unassignMessage option" where
  "dec_unassign = dec_struct (\<lambda>kvs.
     Option.bind (dec_str [] (field ''assignment_id'' kvs)) (\<lambda>a.
     Option.bind (dec_str [] (field ''container_id'' kvs)) (\<lambda>c.
     Some \<lparr>un_AssignmentID = a, un_ContainerID = c\<rparr>)))"

subsection \<open>node.id.status: worker to scheduler and controller manager\<close>

record statusMessage =
  st_AssignmentID :: string
  st_ContainerID :: string
  st_Status :: string
  st_ExitCode :: int
  st_Ports :: "portBinding list"
  st_Timestamp :: time

definition enc_status :: "statusMessage \<Rightarrow> json" where
  "enc_status m = JObj
     ([(''assignment_id'', JStr (st_AssignmentID m)), (''container_id'', JStr (st_ContainerID m)),
       (''status'', JStr (st_Status m)), (''exit_code'', JNum (st_ExitCode m))] @
      enc_ports (st_Ports m) @ [(''timestamp'', JTime (st_Timestamp m))])"

text \<open>The scheduler's copy has no ports; the controller manager's has only what it needs.\<close>

record schedulerStatus =
  ss_AssignmentID :: string
  ss_ContainerID :: string
  ss_Status :: string
  ss_ExitCode :: int
  ss_Timestamp :: time

definition dec_schedulerStatus :: "json option \<Rightarrow> schedulerStatus option" where
  "dec_schedulerStatus = dec_struct (\<lambda>kvs.
     Option.bind (dec_str [] (field ''assignment_id'' kvs)) (\<lambda>a.
     Option.bind (dec_str [] (field ''container_id'' kvs)) (\<lambda>c.
     Option.bind (dec_str [] (field ''status'' kvs)) (\<lambda>s.
     Option.bind (dec_int 0 (field ''exit_code'' kvs)) (\<lambda>e.
     Option.bind (dec_time 0 (field ''timestamp'' kvs)) (\<lambda>t.
     Some \<lparr>ss_AssignmentID = a, ss_ContainerID = c, ss_Status = s, ss_ExitCode = e, ss_Timestamp = t\<rparr>))))))"

record controllerStatus =
  cs_AssignmentID :: string
  cs_Status :: string
  cs_Ports :: "portBinding list"

definition dec_controllerStatus :: "json option \<Rightarrow> controllerStatus option" where
  "dec_controllerStatus = dec_struct (\<lambda>kvs.
     Option.bind (dec_str [] (field ''assignment_id'' kvs)) (\<lambda>a.
     Option.bind (dec_str [] (field ''status'' kvs)) (\<lambda>s.
     Option.bind (dec_ports kvs) (\<lambda>p.
     Some \<lparr>cs_AssignmentID = a, cs_Status = s, cs_Ports = p\<rparr>))))"

subsection \<open>node.id.register and node.id.heartbeat: worker to scheduler\<close>

record registerMessage =
  rg_NodeID :: string
  rg_Hostname :: string
  rg_IP :: string
  rg_CPUCapacityMillicores :: int
  rg_MemoryCapacityMB :: int
  rg_Labels :: "(string \<times> string) list"

definition enc_register :: "registerMessage \<Rightarrow> json" where
  "enc_register m = JObj
     [(''node_id'', JStr (rg_NodeID m)), (''hostname'', JStr (rg_Hostname m)), (''ip'', JStr (rg_IP m)),
      (''cpu_capacity_millicores'', JNum (rg_CPUCapacityMillicores m)),
      (''memory_capacity_mb'', JNum (rg_MemoryCapacityMB m)),
      (''labels'', JObj (map (\<lambda>(k, v). (k, JStr v)) (rg_Labels m)))]"

definition dec_register :: "json option \<Rightarrow> registerMessage option" where
  "dec_register = dec_struct (\<lambda>kvs.
     Option.bind (dec_str [] (field ''node_id'' kvs)) (\<lambda>n.
     Option.bind (dec_str [] (field ''hostname'' kvs)) (\<lambda>h.
     Option.bind (dec_str [] (field ''ip'' kvs)) (\<lambda>i.
     Option.bind (dec_int 0 (field ''cpu_capacity_millicores'' kvs)) (\<lambda>c.
     Option.bind (dec_int 0 (field ''memory_capacity_mb'' kvs)) (\<lambda>m.
     Option.bind (dec_map [] (field ''labels'' kvs)) (\<lambda>l.
     Some \<lparr>rg_NodeID = n, rg_Hostname = h, rg_IP = i, rg_CPUCapacityMillicores = c,
           rg_MemoryCapacityMB = m, rg_Labels = l\<rparr>)))))))"

record heartbeatMessage =
  hb_NodeID :: string
  hb_Timestamp :: time

definition enc_heartbeat :: "heartbeatMessage \<Rightarrow> json" where
  "enc_heartbeat m = JObj [(''node_id'', JStr (hb_NodeID m)), (''timestamp'', JTime (hb_Timestamp m))]"

definition dec_heartbeat :: "json option \<Rightarrow> heartbeatMessage option" where
  "dec_heartbeat = dec_struct (\<lambda>kvs.
     Option.bind (dec_str [] (field ''node_id'' kvs)) (\<lambda>n.
     Option.bind (dec_time 0 (field ''timestamp'' kvs)) (\<lambda>t.
     Some \<lparr>hb_NodeID = n, hb_Timestamp = t\<rparr>)))"

subsection \<open>service.updated: controller manager to load balancer\<close>

record updatedMessage =
  up_ContainerID :: string

definition enc_updated :: "updatedMessage \<Rightarrow> json" where
  "enc_updated m = JObj [(''container_id'', JStr (up_ContainerID m))]"

definition dec_updated :: "json option \<Rightarrow> updatedMessage option" where
  "dec_updated = dec_struct (\<lambda>kvs.
     Option.bind (dec_str [] (field ''container_id'' kvs)) (\<lambda>c. Some \<lparr>up_ContainerID = c\<rparr>))"

subsection \<open>build.requested and build.completed: API server and image builder\<close>

record buildRequestedMessage =
  br_BuildID :: string
  br_OrgID :: string
  br_ApplicationID :: string
  br_GitURL :: string
  br_GitRef :: string
  br_ImageRepository :: string

definition enc_buildRequested :: "buildRequestedMessage \<Rightarrow> json" where
  "enc_buildRequested m = JObj
     [(''build_id'', JStr (br_BuildID m)), (''org_id'', JStr (br_OrgID m)),
      (''application_id'', JStr (br_ApplicationID m)), (''git_url'', JStr (br_GitURL m)),
      (''git_ref'', JStr (br_GitRef m)), (''image_repository'', JStr (br_ImageRepository m))]"

definition dec_buildRequested :: "json option \<Rightarrow> buildRequestedMessage option" where
  "dec_buildRequested = dec_struct (\<lambda>kvs.
     Option.bind (dec_str [] (field ''build_id'' kvs)) (\<lambda>b.
     Option.bind (dec_str [] (field ''org_id'' kvs)) (\<lambda>or.
     Option.bind (dec_str [] (field ''application_id'' kvs)) (\<lambda>a.
     Option.bind (dec_str [] (field ''git_url'' kvs)) (\<lambda>u.
     Option.bind (dec_str [] (field ''git_ref'' kvs)) (\<lambda>r.
     Option.bind (dec_str [] (field ''image_repository'' kvs)) (\<lambda>i.
     Some \<lparr>br_BuildID = b, br_OrgID = or, br_ApplicationID = a, br_GitURL = u, br_GitRef = r,
           br_ImageRepository = i\<rparr>)))))))"

record buildCompletedMessage =
  bc_BuildID :: string
  bc_OrgID :: string
  bc_Status :: string
  bc_CommitSHA :: string
  bc_Image :: string
  bc_Error :: string

definition enc_opt :: "string \<Rightarrow> string \<Rightarrow> (string \<times> json) list" where
  "enc_opt name v = (if v \<noteq> [] then [(name, JStr v)] else [])"

definition enc_buildCompleted :: "buildCompletedMessage \<Rightarrow> json" where
  "enc_buildCompleted m = JObj
     ([(''build_id'', JStr (bc_BuildID m)), (''org_id'', JStr (bc_OrgID m)), (''status'', JStr (bc_Status m))] @
      enc_opt ''commit_sha'' (bc_CommitSHA m) @ enc_opt ''image'' (bc_Image m) @ enc_opt ''error'' (bc_Error m))"

definition dec_buildCompleted :: "json option \<Rightarrow> buildCompletedMessage option" where
  "dec_buildCompleted = dec_struct (\<lambda>kvs.
     Option.bind (dec_str [] (field ''build_id'' kvs)) (\<lambda>b.
     Option.bind (dec_str [] (field ''org_id'' kvs)) (\<lambda>or.
     Option.bind (dec_str [] (field ''status'' kvs)) (\<lambda>s.
     Option.bind (dec_str [] (field ''commit_sha'' kvs)) (\<lambda>c.
     Option.bind (dec_str [] (field ''image'' kvs)) (\<lambda>i.
     Option.bind (dec_str [] (field ''error'' kvs)) (\<lambda>e.
     Some \<lparr>bc_BuildID = b, bc_OrgID = or, bc_Status = s, bc_CommitSHA = c, bc_Image = i, bc_Error = e\<rparr>)))))))"

subsection \<open>Round trips\<close>

lemma field_Cons [simp]:
  "field name ((k, v) # kvs) = (if ToLower k = name then v # field name kvs else field name kvs)"
  "field name [] = []"
  by (simp_all add: field_def)

lemma field_append: "field name (xs @ ys) = field name xs @ field name ys"
  by (simp add: field_def)

lemma field_ports [simp]:
  "field ''ports'' (enc_ports ps) = (if ps = [] then [] else [JArr (map enc_port ps)])"
  "name \<noteq> ''ports'' \<Longrightarrow> field name (enc_ports ps) = []"
  by (simp_all add: enc_ports_def field_simps)

lemma field_env [simp]:
  "field ''env'' (enc_env m) = (if m = [] then [] else [JObj (map (\<lambda>(k, v). (k, JStr v)) m)])"
  "name \<noteq> ''env'' \<Longrightarrow> field name (enc_env m) = []"
  by (simp_all add: enc_env_def field_simps)

lemma field_command [simp]:
  "field ''command'' (enc_command c) = (if c = [] then [] else [JArr (map JStr c)])"
  "name \<noteq> ''command'' \<Longrightarrow> field name (enc_command c) = []"
  by (simp_all add: enc_command_def field_simps)

lemma field_opt [simp]:
  "ToLower n = n \<Longrightarrow> field name (enc_opt n v) = (if name = n \<and> v \<noteq> [] then [JStr v] else [])"
  by (simp add: enc_opt_def field_def)

lemma dec_command_enc [simp]: "dec_elems dec_command (map JStr c) = Some c"
  by (rule dec_elems_map) (simp add: list_all_iff dec_command_def)

lemma dec_entries_enc_nil [simp]:
  "distinct (map fst m) \<Longrightarrow> dec_entries [] (map (\<lambda>(k, v). (k, JStr v)) m) = Some m"
  using dec_entries_enc [of "[]" m] by simp

lemmas wire = dec_struct_def dec_ports_def field_append dec_ports_enc_ports
  ToLower_def lower_char_def is_upper_def byte_def

lemma dec_placementRequested_enc:
  "distinct (map fst (pr_Env m)) \<Longrightarrow> list_all port_ok (pr_Ports m) \<Longrightarrow>
   dec_placementRequested (Some (enc_placementRequested m)) = Some m"
  by (cases m) (simp add: dec_placementRequested_def enc_placementRequested_def wire)

lemma dec_assign_enc:
  "distinct (map fst (as_Env m)) \<Longrightarrow> list_all port_ok (as_Ports m) \<Longrightarrow>
   dec_assign (Some (enc_assign m)) = Some m"
  by (cases m) (simp add: dec_assign_def enc_assign_def wire)

lemma dec_unassign_enc: "dec_unassign (Some (enc_unassign m)) = Some m"
  by (cases m) (simp add: dec_unassign_def enc_unassign_def wire)

lemma dec_schedulerStatus_enc:
  "int64_ok (st_ExitCode m) \<Longrightarrow> dec_schedulerStatus (Some (enc_status m)) =
     Some \<lparr>ss_AssignmentID = st_AssignmentID m, ss_ContainerID = st_ContainerID m, ss_Status = st_Status m,
           ss_ExitCode = st_ExitCode m, ss_Timestamp = st_Timestamp m\<rparr>"
  by (simp add: dec_schedulerStatus_def enc_status_def wire)

lemma dec_controllerStatus_enc:
  "list_all port_ok (st_Ports m) \<Longrightarrow> dec_controllerStatus (Some (enc_status m)) =
     Some \<lparr>cs_AssignmentID = st_AssignmentID m, cs_Status = st_Status m, cs_Ports = st_Ports m\<rparr>"
  by (simp add: dec_controllerStatus_def enc_status_def wire)

lemma dec_register_enc:
  "int64_ok (rg_CPUCapacityMillicores m) \<Longrightarrow> int64_ok (rg_MemoryCapacityMB m) \<Longrightarrow>
   distinct (map fst (rg_Labels m)) \<Longrightarrow> dec_register (Some (enc_register m)) = Some m"
  by (cases m) (simp add: dec_register_def enc_register_def wire)

lemma dec_heartbeat_enc: "dec_heartbeat (Some (enc_heartbeat m)) = Some m"
  by (cases m) (simp add: dec_heartbeat_def enc_heartbeat_def wire)

lemma dec_updated_enc: "dec_updated (Some (enc_updated m)) = Some m"
  by (cases m) (simp add: dec_updated_def enc_updated_def wire)

lemma dec_buildRequested_enc: "dec_buildRequested (Some (enc_buildRequested m)) = Some m"
  by (cases m) (simp add: dec_buildRequested_def enc_buildRequested_def wire)

lemma dec_buildCompleted_enc: "dec_buildCompleted (Some (enc_buildCompleted m)) = Some m"
  by (cases m) (simp add: dec_buildCompleted_def enc_buildCompleted_def wire)

lemmas wire_round_trips [simp] =
  dec_placementRequested_enc dec_assign_enc dec_unassign_enc dec_schedulerStatus_enc
  dec_controllerStatus_enc dec_register_enc dec_heartbeat_enc dec_updated_enc
  dec_buildRequested_enc dec_buildCompleted_enc

text \<open>
  C30. The services agree on the wire: although each keeps its own copy of the message structs,
  every consumer decodes exactly the values the producer put in, with fields omitted when empty
  restored as empty, for every subject of the contract. The scheduler and the controller manager
  read two different projections of the same status message.
\<close>

theorem wire_contract_holds:
  assumes "distinct (map fst (pr_Env p))" "list_all port_ok (pr_Ports p)"
    and "distinct (map fst (as_Env a))" "list_all port_ok (as_Ports a)"
    and "int64_ok (st_ExitCode s)" "list_all port_ok (st_Ports s)"
    and "int64_ok (rg_CPUCapacityMillicores r)" "int64_ok (rg_MemoryCapacityMB r)"
      "distinct (map fst (rg_Labels r))"
  shows "dec_placementRequested (Some (enc_placementRequested p)) = Some p \<and>
    dec_assign (Some (enc_assign a)) = Some a \<and>
    dec_unassign (Some (enc_unassign u)) = Some u \<and>
    dec_schedulerStatus (Some (enc_status s)) =
      Some \<lparr>ss_AssignmentID = st_AssignmentID s, ss_ContainerID = st_ContainerID s, ss_Status = st_Status s,
            ss_ExitCode = st_ExitCode s, ss_Timestamp = st_Timestamp s\<rparr> \<and>
    dec_controllerStatus (Some (enc_status s)) =
      Some \<lparr>cs_AssignmentID = st_AssignmentID s, cs_Status = st_Status s, cs_Ports = st_Ports s\<rparr> \<and>
    dec_register (Some (enc_register r)) = Some r \<and>
    dec_heartbeat (Some (enc_heartbeat h)) = Some h \<and>
    dec_updated (Some (enc_updated v)) = Some v \<and>
    dec_buildRequested (Some (enc_buildRequested b)) = Some b \<and>
    dec_buildCompleted (Some (enc_buildCompleted c)) = Some c"
  using assms by simp

theorem wire_contract_holds_witness:
  "dec_placementRequested (Some (enc_placementRequested
     \<lparr>pr_DeploymentID = ''d'', pr_ApplicationID = ''a'', pr_Image = ''nginx'', pr_Env = [],
      pr_Ports = [\<lparr>ContainerPort = 80, HostPort = 0, Protocol = []\<rparr>], pr_Command = []\<rparr>)) =
   Some \<lparr>pr_DeploymentID = ''d'', pr_ApplicationID = ''a'', pr_Image = ''nginx'', pr_Env = [],
      pr_Ports = [\<lparr>ContainerPort = 80, HostPort = 0, Protocol = []\<rparr>], pr_Command = []\<rparr>"
  by (rule wire_contract_holds [where
        a = "\<lparr>as_AssignmentID = [], as_DeploymentID = [], as_Image = [], as_Env = [], as_Ports = [], as_Command = []\<rparr>"
        and s = "\<lparr>st_AssignmentID = [], st_ContainerID = [], st_Status = [], st_ExitCode = 0, st_Ports = [], st_Timestamp = 0\<rparr>"
        and r = "\<lparr>rg_NodeID = [], rg_Hostname = [], rg_IP = [], rg_CPUCapacityMillicores = 0, rg_MemoryCapacityMB = 0, rg_Labels = []\<rparr>",
        THEN conjunct1])
    (simp_all add: port_ok_def int64_ok_def)

subsection \<open>Streams\<close>

text \<open>
  JetStream keeps for each stream the list of subject filters it captures. \<open>EnsureStream\<close> is
  \<open>CreateOrUpdateStream\<close>, which replaces the configuration of an existing stream; a durable
  publish is refused when no stream captures its subject. In a filter the token \<open>*\<close> matches
  any one token.
\<close>

type_synonym streams = "string \<rightharpoonup> string list"

definition EnsureStream :: "string \<Rightarrow> string list \<Rightarrow> streams \<Rightarrow> streams" where
  "EnsureStream name subjects st = st(name \<mapsto> subjects)"

fun tokens :: "string \<Rightarrow> string \<Rightarrow> string list" where
  "tokens acc [] = [rev acc]"
| "tokens acc (c # s) = (if c = CHR ''.'' then rev acc # tokens [] s else tokens (c # acc) s)"

definition subject_matches :: "string \<Rightarrow> string \<Rightarrow> bool" where
  "subject_matches pat subject \<longleftrightarrow>
     list_all2 (\<lambda>f t. f = ''*'' \<or> f = t) (tokens [] pat) (tokens [] subject)"

definition captured :: "streams \<Rightarrow> string \<Rightarrow> bool" where
  "captured st subject \<longleftrightarrow> (\<exists>subjects \<in> ran st. list_ex (\<lambda>f. subject_matches f subject) subjects)"

lemma tokens_node:
  "CHR ''.'' \<notin> set n \<Longrightarrow> tokens acc (n @ CHR ''.'' # s) = (rev acc @ n) # tokens [] s"
  by (induction n arbitrary: acc) auto

lemma tokens_subject:
  "CHR ''.'' \<notin> set n \<Longrightarrow> tokens [] (''node.'' @ n @ CHR ''.'' # s) = ''node'' # n # tokens [] s"
  using tokens_node [of n "[]" s] by simp

lemma matches_node:
  assumes "CHR ''.'' \<notin> set n"
  shows "subject_matches NodeAssignmentsStreamFilter (NodeUnassignSubject n) = False"
    "subject_matches NodeUnassignStreamFilter (NodeUnassignSubject n) = True"
    "subject_matches NodeAssignmentsStreamFilter (NodeAssignSubject n) = True"
    "subject_matches NodeUnassignStreamFilter (NodeAssignSubject n) = False"
    "subject_matches NodeStatusStreamFilter (NodeUnassignSubject n) = False"
    "subject_matches PlacementStreamFilter (NodeUnassignSubject n) = False"
    "subject_matches BuildRequestedSubject (NodeUnassignSubject n) = False"
    "subject_matches BuildCompletedSubject (NodeUnassignSubject n) = False"
  using tokens_subject [OF assms, of "''unassign''"] tokens_subject [OF assms, of "''assign''"]
  by (simp_all add: subject_matches_def NodeAssignmentsStreamFilter_def NodeUnassignStreamFilter_def
      NodeStatusStreamFilter_def PlacementStreamFilter_def BuildRequestedSubject_def
      BuildCompletedSubject_def NodeUnassignSubject_def NodeAssignSubject_def)

end
