(* ===== verification/Effects.thy ===== *)
theory Effects
  imports Messages
begin

section \<open>Execution: errors, statements, transactions, publishing\<close>

text \<open>
  A Go function that uses the database or the bus is an operation: it maps a world to an error or
  a result, and the world after it. The world holds the tables, the session of the connection in
  use, the clock, what the environment will do (which statements meet a broken connection, which
  publishes fail, which random identifiers are drawn), and the log of the messages published so
  far. Nothing is assumed of the environment: a theorem that needs a working connection says so
  (\<open>no_faults\<close>, \<open>bus_up\<close>).

  \<open>bindE\<close> is the code's \<open>if err != nil { return err }\<close>. A handler that logs an error and
  returns is \<open>catchE\<close> with a handler that answers \<open>()\<close>; logging itself has no effect here.
\<close>

datatype err =
  ErrNotFound
| ErrConflict
| Pg pg_error
| Plain string
| Wrap string err
| ApiError nat string string

text \<open>\<open>errors.Is\<close> looks through wrapped errors.\<close>

fun errors_Is :: "err \<Rightarrow> err \<Rightarrow> bool" where
  "errors_Is (Wrap msg e) target \<longleftrightarrow> Wrap msg e = target \<or> errors_Is e target"
| "errors_Is e target \<longleftrightarrow> e = target"

record world =
  w_db :: db
  w_sess :: session
  w_now :: time
  w_fresh :: "nat \<Rightarrow> uuid"
  w_fault :: "nat \<Rightarrow> bool"
  w_stmts :: nat
  w_pubfail :: "nat \<Rightarrow> bool"
  w_pubs :: nat
  w_bus :: "(string \<times> json) list"

type_synonym 'a op = "world \<Rightarrow> (err + 'a) \<times> world"

definition ret :: "'a \<Rightarrow> 'a op" where
  "ret x w = (Inr x, w)"

definition throw :: "err \<Rightarrow> 'a op" where
  "throw e w = (Inl e, w)"

definition bindE :: "'a op \<Rightarrow> ('a \<Rightarrow> 'b op) \<Rightarrow> 'b op" where
  "bindE m f w = (case m w of (Inl e, w1) \<Rightarrow> (Inl e, w1) | (Inr x, w1) \<Rightarrow> f x w1)"

definition catchE :: "'a op \<Rightarrow> (err \<Rightarrow> 'a op) \<Rightarrow> 'a op" where
  "catchE m h w = (case m w of (Inl e, w1) \<Rightarrow> h e w1 | (Inr x, w1) \<Rightarrow> (Inr x, w1))"

definition mapErr :: "(err \<Rightarrow> err) \<Rightarrow> 'a op \<Rightarrow> 'a op" where
  "mapErr g m = catchE m (\<lambda>e. throw (g e))"

definition wrapE :: "string \<Rightarrow> 'a op \<Rightarrow> 'a op" where
  "wrapE msg m = mapErr (Wrap msg) m"

definition logged :: "unit op \<Rightarrow> unit op" where
  "logged m = catchE m (\<lambda>_. ret ())"

definition lift :: "err \<Rightarrow> 'a option \<Rightarrow> 'a op" where
  "lift e x = (case x of None \<Rightarrow> throw e | Some y \<Rightarrow> ret y)"

fun foreach :: "('a \<Rightarrow> unit op) \<Rightarrow> 'a list \<Rightarrow> unit op" where
  "foreach f [] = ret ()"
| "foreach f (x # xs) = bindE (f x) (\<lambda>_. foreach f xs)"

fun mapE :: "('a \<Rightarrow> 'b op) \<Rightarrow> 'a list \<Rightarrow> 'b list op" where
  "mapE f [] = ret []"
| "mapE f (x # xs) = bindE (f x) (\<lambda>y. bindE (mapE f xs) (\<lambda>ys. ret (y # ys)))"

subsection \<open>Statements\<close>

definition tick :: "world \<Rightarrow> world" where
  "tick w = w\<lparr>w_stmts := Suc (w_stmts w)\<rparr>"

definition exec :: "'a stmt \<Rightarrow> 'a op" where
  "exec f w =
     (if w_fault w (w_stmts w) then (Inl (Pg ConnectionFailure), tick w)
      else (case f (w_sess w) (w_now w) (w_fresh w (w_stmts w)) (w_db w) of
              Inl e \<Rightarrow> (Inl (Pg e), tick w)
            | Inr (x, d) \<Rightarrow> (Inr x, (tick w)\<lparr>w_db := d\<rparr>)))"

definition query :: "(session \<Rightarrow> time \<Rightarrow> db \<Rightarrow> 'a) \<Rightarrow> 'a op" where
  "query f = exec (\<lambda>s now u d. Inr (f s now d, d))"

text \<open>\<open>QueryRow(...).Scan\<close>: no row is \<open>pgx.ErrNoRows\<close>, which the repositories turn into \<open>ErrNotFound\<close>.\<close>

definition queryRow :: "string \<Rightarrow> (session \<Rightarrow> time \<Rightarrow> db \<Rightarrow> 'a option) \<Rightarrow> 'a op" where
  "queryRow msg f = bindE (wrapE msg (query f)) (lift ErrNotFound)"

text \<open>An \<open>Exec\<close> that answers the number of rows it affected: none is \<open>ErrNotFound\<close>.\<close>

definition execRows :: "string \<Rightarrow> nat stmt \<Rightarrow> unit op" where
  "execRows msg f = bindE (wrapE msg (exec f)) (\<lambda>n. if n = 0 then throw ErrNotFound else ret ())"

text \<open>A repository's treatment of unique violations.\<close>

definition orConflict :: "string \<Rightarrow> 'a op \<Rightarrow> 'a op" where
  "orConflict msg = mapErr (\<lambda>e. if e = Pg UniqueViolation then ErrConflict else Wrap msg e)"

definition newUUID :: "uuid op" where
  "newUUID w = (Inr (w_fresh w (w_stmts w)), tick w)"

definition now_op :: "time op" where
  "now_op w = (Inr (w_now w), w)"

subsection \<open>Transactions\<close>

definition SetCurrentUser :: "uuid \<Rightarrow> unit op" where
  "SetCurrentUser userID = wrapE ''setting app.current_user_id'' (\<lambda>w.
     if w_fault w (w_stmts w) then (Inl (Pg ConnectionFailure), tick w)
     else (Inr (), (tick w)\<lparr>w_sess := (w_sess w)\<lparr>current_user := Some userID\<rparr>\<rparr>))"

definition SetCurrentOrg :: "uuid \<Rightarrow> unit op" where
  "SetCurrentOrg orgID = wrapE ''setting app.current_org_id'' (\<lambda>w.
     if w_fault w (w_stmts w) then (Inl (Pg ConnectionFailure), tick w)
     else (Inr (), (tick w)\<lparr>w_sess := (w_sess w)\<lparr>current_org := Some orgID\<rparr>\<rparr>))"

definition begin_tx :: "unit op" where
  "begin_tx = wrapE ''beginning transaction'' (\<lambda>w.
     if w_fault w (w_stmts w) then (Inl (Pg ConnectionFailure), tick w)
     else (Inr (), (tick w)\<lparr>w_sess := (w_sess w)\<lparr>current_user := None, current_org := None\<rparr>\<rparr>))"

definition commit_tx :: "unit op" where
  "commit_tx = wrapE ''committing transaction'' (\<lambda>w.
     if w_fault w (w_stmts w) then (Inl (Pg ConnectionFailure), tick w) else (Inr (), tick w))"

text \<open>
  \<open>Pool.WithTx\<close>: the deferred rollback undoes every statement of a transaction that did not
  commit, and the session variables end with the transaction. What was published meanwhile stays
  published. Handlers of one process are atomic here; see the header of the root theory for what
  concurrent transactions add.
\<close>

definition WithTx :: "uuid \<Rightarrow> uuid \<Rightarrow> 'a op \<Rightarrow> 'a op" where
  "WithTx userID orgID fn w =
     (case bindE begin_tx (\<lambda>_.
             bindE (if userID \<noteq> uuid_Nil then SetCurrentUser userID else ret ()) (\<lambda>_.
             bindE (if orgID \<noteq> uuid_Nil then SetCurrentOrg orgID else ret ()) (\<lambda>_.
             bindE fn (\<lambda>x. bindE commit_tx (\<lambda>_. ret x))))) w of
        (Inl e, w1) \<Rightarrow> (Inl e, w1\<lparr>w_db := w_db w, w_sess := w_sess w\<rparr>)
      | (Inr x, w1) \<Rightarrow> (Inr x, w1\<lparr>w_sess := w_sess w\<rparr>))"

text \<open>What the admin connection runs is not subject to row-level security.\<close>

definition as_admin :: "'a op \<Rightarrow> 'a op" where
  "as_admin m w =
     (case m (w\<lparr>w_sess := (w_sess w)\<lparr>bypass_rls := True\<rparr>\<rparr>) of (r, w1) \<Rightarrow> (r, w1\<lparr>w_sess := w_sess w\<rparr>))"

subsection \<open>Publishing\<close>

definition PublishDurable :: "string \<Rightarrow> json \<Rightarrow> unit op" where
  "PublishDurable subject data w =
     (if w_pubfail w (w_pubs w)
      then (Inl (Wrap (''publishing durably to '' @ subject) (Plain ''nats'')), w\<lparr>w_pubs := Suc (w_pubs w)\<rparr>)
      else (Inr (), w\<lparr>w_pubs := Suc (w_pubs w), w_bus := w_bus w @ [(subject, data)]\<rparr>))"

definition Publish :: "string \<Rightarrow> json \<Rightarrow> unit op" where
  "Publish subject data w =
     (if w_pubfail w (w_pubs w)
      then (Inl (Wrap (''publishing to '' @ subject) (Plain ''nats'')), w\<lparr>w_pubs := Suc (w_pubs w)\<rparr>)
      else (Inr (), w\<lparr>w_pubs := Suc (w_pubs w), w_bus := w_bus w @ [(subject, data)]\<rparr>))"

definition no_faults :: "world \<Rightarrow> bool" where
  "no_faults w \<longleftrightarrow> (\<forall>n. \<not> w_fault w n)"

definition bus_up :: "world \<Rightarrow> bool" where
  "bus_up w \<longleftrightarrow> (\<forall>n. \<not> w_pubfail w n)"

subsection \<open>Laws\<close>

lemma bindE_Inr [op_simps]:
  "bindE m f w = (Inr b, w2) \<longleftrightarrow> (\<exists>a w1. m w = (Inr a, w1) \<and> f a w1 = (Inr b, w2))"
  by (auto simp: bindE_def split: prod.splits sum.splits)

lemma bindE_Inl:
  "bindE m f w = (Inl e, w2) \<longleftrightarrow> m w = (Inl e, w2) \<or> (\<exists>a w1. m w = (Inr a, w1) \<and> f a w1 = (Inl e, w2))"
  by (auto simp: bindE_def split: prod.splits sum.splits)

lemma ret_Inr [op_simps]: "ret x w = (Inr y, w') \<longleftrightarrow> x = y \<and> w' = w"
  by (auto simp: ret_def)

lemma ret_Inl [op_simps]: "ret x w = (Inl e, w') \<longleftrightarrow> False"
  by (simp add: ret_def)

lemma throw_Inr [op_simps]: "throw e w = (Inr y, w') \<longleftrightarrow> False"
  by (simp add: throw_def)

lemma throw_Inl [op_simps]: "throw e w = (Inl e', w') \<longleftrightarrow> e' = e \<and> w' = w"
  by (auto simp: throw_def)

lemma mapErr_Inr [op_simps]: "mapErr g m w = (Inr x, w') \<longleftrightarrow> m w = (Inr x, w')"
  by (auto simp: mapErr_def catchE_def throw_def split: prod.splits sum.splits)

lemma wrapE_Inr [op_simps]: "wrapE msg m w = (Inr x, w') \<longleftrightarrow> m w = (Inr x, w')"
  by (simp add: wrapE_def mapErr_Inr)

lemma orConflict_Inr [op_simps]: "orConflict msg m w = (Inr x, w') \<longleftrightarrow> m w = (Inr x, w')"
  by (simp add: orConflict_def mapErr_Inr)

lemma lift_Inr [op_simps]: "lift e x w = (Inr y, w') \<longleftrightarrow> x = Some y \<and> w' = w"
  by (auto simp: lift_def ret_def throw_def split: option.splits)

lemma exec_Inr [op_simps]:
  "exec f w = (Inr x, w') \<longleftrightarrow> \<not> w_fault w (w_stmts w) \<and>
   (\<exists>d. f (w_sess w) (w_now w) (w_fresh w (w_stmts w)) (w_db w) = Inr (x, d) \<and> w' = (tick w)\<lparr>w_db := d\<rparr>)"
  by (auto simp: exec_def split: sum.splits)

lemma tick_sel [simp]:
  "w_db (tick w) = w_db w" "w_sess (tick w) = w_sess w" "w_now (tick w) = w_now w"
  "w_fresh (tick w) = w_fresh w" "w_fault (tick w) = w_fault w" "w_pubfail (tick w) = w_pubfail w"
  "w_pubs (tick w) = w_pubs w" "w_bus (tick w) = w_bus w" "w_stmts (tick w) = Suc (w_stmts w)"
  by (simp_all add: tick_def)

lemma tick_db_id [simp]: "(tick w)\<lparr>w_db := w_db w\<rparr> = tick w"
  by (simp add: tick_def)

lemma query_Inr [op_simps]:
  "query f w = (Inr x, w') \<longleftrightarrow> \<not> w_fault w (w_stmts w) \<and> x = f (w_sess w) (w_now w) (w_db w) \<and> w' = tick w"
  by (auto simp: query_def exec_Inr)

lemma queryRow_Inr [op_simps]:
  "queryRow msg f w = (Inr x, w') \<longleftrightarrow>
   \<not> w_fault w (w_stmts w) \<and> f (w_sess w) (w_now w) (w_db w) = Some x \<and> w' = tick w"
  by (auto simp: queryRow_def op_simps)

lemma execRows_Inr [op_simps]:
  "execRows msg f w = (Inr (), w') \<longleftrightarrow> \<not> w_fault w (w_stmts w) \<and>
   (\<exists>n d. f (w_sess w) (w_now w) (w_fresh w (w_stmts w)) (w_db w) = Inr (n, d) \<and> n \<noteq> 0 \<and>
     w' = (tick w)\<lparr>w_db := d\<rparr>)"
  by (auto simp: execRows_def op_simps split: if_splits)

lemma newUUID_Inr [op_simps]: "newUUID w = (Inr u, w') \<longleftrightarrow> u = w_fresh w (w_stmts w) \<and> w' = tick w"
  by (auto simp: newUUID_def)

lemma now_op_Inr [op_simps]: "now_op w = (Inr t, w') \<longleftrightarrow> t = w_now w \<and> w' = w"
  by (auto simp: now_op_def)

lemma SetCurrentUser_Inr [op_simps]:
  "SetCurrentUser u w = (Inr x, w') \<longleftrightarrow> \<not> w_fault w (w_stmts w) \<and>
   w' = (tick w)\<lparr>w_sess := (w_sess w)\<lparr>current_user := Some u\<rparr>\<rparr>"
  by (auto simp: SetCurrentUser_def op_simps)

lemma SetCurrentOrg_Inr [op_simps]:
  "SetCurrentOrg u w = (Inr x, w') \<longleftrightarrow> \<not> w_fault w (w_stmts w) \<and>
   w' = (tick w)\<lparr>w_sess := (w_sess w)\<lparr>current_org := Some u\<rparr>\<rparr>"
  by (auto simp: SetCurrentOrg_def op_simps)

lemma begin_tx_Inr [op_simps]:
  "begin_tx w = (Inr x, w') \<longleftrightarrow> \<not> w_fault w (w_stmts w) \<and>
   w' = (tick w)\<lparr>w_sess := (w_sess w)\<lparr>current_user := None, current_org := None\<rparr>\<rparr>"
  by (auto simp: begin_tx_def op_simps)

lemma commit_tx_Inr [op_simps]:
  "commit_tx w = (Inr x, w') \<longleftrightarrow> \<not> w_fault w (w_stmts w) \<and> w' = tick w"
  by (auto simp: commit_tx_def op_simps)

lemma exec_Inl: "exec f w = (Inl e, w') \<Longrightarrow> w' = tick w"
  by (auto simp: exec_def split: if_splits sum.splits)

lemma wrapE_Inl: "wrapE msg m w = (Inl e, w') \<longleftrightarrow> (\<exists>e0. m w = (Inl e0, w') \<and> e = Wrap msg e0)"
  by (auto simp: wrapE_def mapErr_def catchE_def throw_def split: prod.splits sum.splits)

lemma orConflict_Inl:
  "orConflict msg m w = (Inl e, w') \<longleftrightarrow>
   (\<exists>e0. m w = (Inl e0, w') \<and> e = (if e0 = Pg UniqueViolation then ErrConflict else Wrap msg e0))"
  by (auto simp: orConflict_def mapErr_def catchE_def throw_def split: prod.splits sum.splits)

lemma execRows_Inl:
  "execRows msg f w = (Inl e, w') \<Longrightarrow> w' = tick w \<or>
   (\<exists>d. f (w_sess w) (w_now w) (w_fresh w (w_stmts w)) (w_db w) = Inr (0, d) \<and> w' = (tick w)\<lparr>w_db := d\<rparr> \<and> e = ErrNotFound)"
  by (auto simp: execRows_def bindE_Inl wrapE_Inl op_simps dest: exec_Inl split: if_splits)

lemma PublishDurable_Inr [op_simps]:
  "PublishDurable subject data w = (Inr x, w') \<longleftrightarrow> \<not> w_pubfail w (w_pubs w) \<and>
   w' = w\<lparr>w_pubs := Suc (w_pubs w), w_bus := w_bus w @ [(subject, data)]\<rparr>"
  by (auto simp: PublishDurable_def)

lemma PublishDurable_Inl:
  "PublishDurable subject data w = (Inl e, w') \<longleftrightarrow> w_pubfail w (w_pubs w) \<and>
   e = Wrap (''publishing durably to '' @ subject) (Plain ''nats'') \<and> w' = w\<lparr>w_pubs := Suc (w_pubs w)\<rparr>"
  by (auto simp: PublishDurable_def)

lemma logged_result: "fst (logged m w) = Inr ()"
  by (auto simp: logged_def catchE_def ret_def split: prod.splits sum.splits)

lemma logged_snd: "snd (logged m w) = snd (m w)"
  by (auto simp: logged_def catchE_def ret_def split: prod.splits sum.splits)

lemma logged_eq: "logged m w = (Inr (), snd (m w))"
  by (metis logged_result logged_snd prod.collapse)

subsection \<open>Transactions are atomic\<close>

definition tx_session :: "uuid \<Rightarrow> uuid \<Rightarrow> session \<Rightarrow> session" where
  "tx_session userID orgID s =
     s\<lparr>current_user := (if userID \<noteq> uuid_Nil then Some userID else None),
       current_org := (if orgID \<noteq> uuid_Nil then Some orgID else None)\<rparr>"

text \<open>The statements before the body: they leave everything but the session and the counter.\<close>

definition tx_prologue :: "uuid \<Rightarrow> uuid \<Rightarrow> world \<Rightarrow> world" where
  "tx_prologue userID orgID w =
     w\<lparr>w_stmts := w_stmts w + 1 + (if userID \<noteq> uuid_Nil then 1 else 0) + (if orgID \<noteq> uuid_Nil then 1 else 0),
       w_sess := tx_session userID orgID (w_sess w)\<rparr>"

lemma tx_prologue_sel [simp]:
  "w_db (tx_prologue u og w) = w_db w" "w_sess (tx_prologue u og w) = tx_session u og (w_sess w)"
  "w_now (tx_prologue u og w) = w_now w" "w_fresh (tx_prologue u og w) = w_fresh w"
  "w_fault (tx_prologue u og w) = w_fault w" "w_pubfail (tx_prologue u og w) = w_pubfail w"
  "w_pubs (tx_prologue u og w) = w_pubs w" "w_bus (tx_prologue u og w) = w_bus w"
  by (simp_all add: tx_prologue_def)

lemma tx_session_sel [simp]:
  "bypass_rls (tx_session u og s) = bypass_rls s"
  "current_user (tx_session u og s) = (if u \<noteq> uuid_Nil then Some u else None)"
  "current_org (tx_session u og s) = (if og \<noteq> uuid_Nil then Some og else None)"
  by (simp_all add: tx_session_def)

lemma session_swap:
  "s\<lparr>current_org := b, current_user := a\<rparr> = s\<lparr>current_user := a, current_org := b\<rparr>"
  by simp

lemma tx_prologue_run:
  "bindE begin_tx (\<lambda>_. bindE (if u \<noteq> uuid_Nil then SetCurrentUser u else ret ()) (\<lambda>_.
     bindE (if og \<noteq> uuid_Nil then SetCurrentOrg og else ret ()) f)) w = (Inr x, w') \<Longrightarrow>
   f () (tx_prologue u og w) = (Inr x, w')"
  by (auto simp: op_simps tx_prologue_def tx_session_def tick_def session_swap split: if_splits)

lemma WithTx_Inl: "WithTx u og m w = (Inl e, w') \<Longrightarrow> w_db w' = w_db w \<and> w_sess w' = w_sess w"
  by (auto simp: WithTx_def split: prod.splits sum.splits)

lemma WithTx_Inr:
  assumes "WithTx u og m w = (Inr x, w')"
  shows "\<exists>w1. m (tx_prologue u og w) = (Inr x, w1) \<and> w' = (tick w1)\<lparr>w_sess := w_sess w\<rparr>"
proof -
  let ?run = "bindE begin_tx (\<lambda>_. bindE (if u \<noteq> uuid_Nil then SetCurrentUser u else ret ()) (\<lambda>_.
     bindE (if og \<noteq> uuid_Nil then SetCurrentOrg og else ret ()) (\<lambda>_.
     bindE m (\<lambda>x. bindE commit_tx (\<lambda>_. ret x))))) w"
  from assms obtain w1 where run: "?run = (Inr x, w1)" and w': "w' = w1\<lparr>w_sess := w_sess w\<rparr>"
    by (auto simp: WithTx_def split: prod.splits sum.splits)
  from tx_prologue_run [OF run] show ?thesis using w' by (auto simp: op_simps)
qed

subsection \<open>Operations that cannot publish or write\<close>

text \<open>\<open>silent\<close>: no message leaves; \<open>readonly\<close>: the tables stay as they are.\<close>

definition silent :: "'a op \<Rightarrow> bool" where
  "silent m \<longleftrightarrow> (\<forall>w. w_bus (snd (m w)) = w_bus w)"

definition readonly :: "'a op \<Rightarrow> bool" where
  "readonly m \<longleftrightarrow> (\<forall>w. w_db (snd (m w)) = w_db w)"

lemma silentD: "silent m \<Longrightarrow> m w = (r, w') \<Longrightarrow> w_bus w' = w_bus w"
  by (metis silent_def snd_conv)

lemma readonlyD: "readonly m \<Longrightarrow> m w = (r, w') \<Longrightarrow> w_db w' = w_db w"
  by (metis readonly_def snd_conv)

lemma silent_prim [frame]:
  "silent (ret x)" "silent (throw e)" "silent (exec f)" "silent (query g)" "silent (lift e y)"
  "silent newUUID" "silent now_op" "silent (SetCurrentUser u)" "silent (SetCurrentOrg u)"
  "silent begin_tx" "silent commit_tx"
  by (auto simp: silent_def ret_def throw_def exec_def query_def lift_def newUUID_def now_op_def
      SetCurrentUser_def SetCurrentOrg_def begin_tx_def commit_tx_def wrapE_def mapErr_def catchE_def
      split: sum.splits option.splits)

lemma silent_bindE [frame]: "silent m \<Longrightarrow> (\<And>x. silent (f x)) \<Longrightarrow> silent (bindE m f)"
  unfolding silent_def bindE_def by (auto split: prod.splits sum.splits) (metis snd_conv)+

lemma silent_catchE [frame]: "silent m \<Longrightarrow> (\<And>e. silent (h e)) \<Longrightarrow> silent (catchE m h)"
  unfolding silent_def catchE_def by (auto split: prod.splits sum.splits) (metis snd_conv)+

lemma silent_derived [frame]:
  "silent m \<Longrightarrow> silent (mapErr g m)" "silent m \<Longrightarrow> silent (wrapE msg m)"
  "silent m \<Longrightarrow> silent (orConflict msg m)"
  by (simp_all add: mapErr_def wrapE_def orConflict_def silent_catchE silent_prim)

lemma silent_rows [frame]: "silent (queryRow msg f)" "silent (execRows msg g)"
  by (auto simp: queryRow_def execRows_def silent_prim intro!: silent_bindE silent_derived)

lemma silent_if [frame]: "silent m \<Longrightarrow> silent n \<Longrightarrow> silent (if b then m else n)"
  by simp

lemma readonly_prim [frame]:
  "readonly (ret x)" "readonly (throw e)" "readonly (query g)" "readonly (lift e y)"
  "readonly newUUID" "readonly now_op" "readonly (SetCurrentUser u)" "readonly (SetCurrentOrg u)"
  "readonly (PublishDurable s d)" "readonly (Publish s d)"
  by (auto simp: readonly_def ret_def throw_def exec_def query_def lift_def newUUID_def now_op_def
      SetCurrentUser_def SetCurrentOrg_def PublishDurable_def Publish_def wrapE_def mapErr_def catchE_def
      split: sum.splits option.splits)

lemma readonly_bindE [frame]: "readonly m \<Longrightarrow> (\<And>x. readonly (f x)) \<Longrightarrow> readonly (bindE m f)"
  unfolding readonly_def bindE_def by (auto split: prod.splits sum.splits) (metis snd_conv)+

lemma readonly_catchE [frame]: "readonly m \<Longrightarrow> (\<And>e. readonly (h e)) \<Longrightarrow> readonly (catchE m h)"
  unfolding readonly_def catchE_def by (auto split: prod.splits sum.splits) (metis snd_conv)+

lemma readonly_derived [frame]:
  "readonly m \<Longrightarrow> readonly (mapErr g m)" "readonly m \<Longrightarrow> readonly (wrapE msg m)"
  "readonly m \<Longrightarrow> readonly (orConflict msg m)" "readonly (queryRow msg' f)"
  by (auto simp: mapErr_def wrapE_def orConflict_def queryRow_def readonly_prim
      intro!: readonly_catchE readonly_bindE)

lemma readonly_if [frame]: "readonly m \<Longrightarrow> readonly n \<Longrightarrow> readonly (if b then m else n)"
  by simp

lemma silent_foreach [frame]: "(\<And>x. silent (f x)) \<Longrightarrow> silent (foreach f xs)"
  by (induction xs) (auto intro: silent_bindE simp: silent_prim)

lemma readonly_foreach [frame]: "(\<And>x. readonly (f x)) \<Longrightarrow> readonly (foreach f xs)"
  by (induction xs) (auto intro: readonly_bindE simp: readonly_prim)

lemma silent_WithTx [frame]: "silent m \<Longrightarrow> silent (WithTx u og m)"
proof -
  assume m: "silent m"
  let ?run = "bindE begin_tx (\<lambda>_. bindE (if u \<noteq> uuid_Nil then SetCurrentUser u else ret ()) (\<lambda>_.
     bindE (if og \<noteq> uuid_Nil then SetCurrentOrg og else ret ()) (\<lambda>_.
     bindE m (\<lambda>x. bindE commit_tx (\<lambda>_. ret x)))))"
  have "silent ?run" by (intro silent_bindE silent_if silent_prim m)
  then show ?thesis unfolding silent_def WithTx_def
    by (auto split: prod.splits sum.splits) (metis snd_conv)+
qed

subsection \<open>Without faults\<close>

text \<open>\<open>ticks k w\<close>: the world after \<open>k\<close> statements that changed nothing.\<close>

definition ticks :: "nat \<Rightarrow> world \<Rightarrow> world" where
  "ticks k w = w\<lparr>w_stmts := w_stmts w + k\<rparr>"

lemma ticks_sel [simp]:
  "w_db (ticks k w) = w_db w" "w_sess (ticks k w) = w_sess w" "w_now (ticks k w) = w_now w"
  "w_fresh (ticks k w) = w_fresh w" "w_fault (ticks k w) = w_fault w" "w_pubfail (ticks k w) = w_pubfail w"
  "w_pubs (ticks k w) = w_pubs w" "w_bus (ticks k w) = w_bus w" "w_stmts (ticks k w) = w_stmts w + k"
  by (simp_all add: ticks_def)

lemma ticks_ticks [simp]: "ticks j (ticks k w) = ticks (k + j) w" "tick w = ticks 1 w"
  by (simp_all add: ticks_def tick_def)

lemma ticks_db_id [simp]: "(ticks k w)\<lparr>w_db := w_db w\<rparr> = ticks k w"
  by (simp add: ticks_def)

lemma no_faults_ticks [simp]: "no_faults (ticks k w) = no_faults w"
  by (simp add: no_faults_def)

lemma no_faults_sess [simp]: "no_faults (w\<lparr>w_sess := s\<rparr>) = no_faults w"
  by (simp add: no_faults_def)

lemma no_faultsD: "no_faults w \<Longrightarrow> \<not> w_fault w n"
  by (simp add: no_faults_def)

lemma query_ok: "no_faults w \<Longrightarrow> query f w = (Inr (f (w_sess w) (w_now w) (w_db w)), ticks 1 w)"
  by (simp add: query_Inr no_faultsD)

lemma wrapE_ok: "m w = (Inr x, w') \<Longrightarrow> wrapE msg m w = (Inr x, w')"
  by (simp add: wrapE_Inr)

lemma queryRow_ok:
  "no_faults w \<Longrightarrow> queryRow msg f w =
   (case f (w_sess w) (w_now w) (w_db w) of None \<Rightarrow> Inl ErrNotFound | Some x \<Rightarrow> Inr x, ticks 1 w)"
  using query_ok [of w f]
  by (auto simp: queryRow_def bindE_def wrapE_def mapErr_def catchE_def lift_def ret_def throw_def
      split: option.splits)

lemma bus_up_ticks [simp]: "bus_up (ticks k w) = bus_up w" "bus_up (w\<lparr>w_db := d\<rparr>) = bus_up w"
  by (simp_all add: bus_up_def)

text \<open>
  \<open>published msgs w w'\<close>: from \<open>w\<close> to \<open>w'\<close> exactly \<open>msgs\<close> were published and
  no table changed. \<open>sends msgs m w\<close>: that is all the operation \<open>m\<close> does, and it succeeds.
\<close>

definition published :: "(string \<times> json) list \<Rightarrow> world \<Rightarrow> world \<Rightarrow> bool" where
  "published msgs w w' \<longleftrightarrow> w_db w' = w_db w \<and> w_sess w' = w_sess w \<and> w_now w' = w_now w \<and>
     w_fresh w' = w_fresh w \<and> w_fault w' = w_fault w \<and> w_pubfail w' = w_pubfail w \<and> w_bus w' = w_bus w @ msgs"

definition sends :: "(string \<times> json) list \<Rightarrow> unit op \<Rightarrow> world \<Rightarrow> bool" where
  "sends msgs m w \<longleftrightarrow> fst (m w) = Inr () \<and> published msgs w (snd (m w))"

lemma published_refl [simp]: "published [] w w" "published [] w (ticks k w)"
  by (simp_all add: published_def)

lemma published_trans: "published a w w1 \<Longrightarrow> published b w1 w2 \<Longrightarrow> published (a @ b) w w2"
  by (simp add: published_def)

lemma published_calm [simp]:
  "published msgs w w' \<Longrightarrow> no_faults w' = no_faults w" "published msgs w w' \<Longrightarrow> bus_up w' = bus_up w"
  by (simp_all add: published_def no_faults_def bus_up_def)

lemma publishedD: "published msgs w w' \<Longrightarrow> w_db w' = w_db w" "published msgs w w' \<Longrightarrow> w_bus w' = w_bus w @ msgs"
  by (simp_all add: published_def)

lemma sends_ret [simp]: "sends [] (ret ()) w"
  by (simp add: sends_def ret_def)

lemma sends_PublishDurable: "bus_up w \<Longrightarrow> sends [(s, d)] (PublishDurable s d) w"
  by (simp add: sends_def PublishDurable_def bus_up_def published_def)

lemma sends_Publish: "bus_up w \<Longrightarrow> sends [(s, d)] (Publish s d) w"
  by (simp add: sends_def Publish_def bus_up_def published_def)

lemma sends_logged: "sends msgs m w \<Longrightarrow> sends msgs (logged m) w"
  by (simp add: sends_def logged_eq)

lemma sends_after_read: "m w = (Inr x, ticks k w) \<Longrightarrow> sends msgs (f x) (ticks k w) \<Longrightarrow> sends msgs (bindE m f) w"
  by (auto simp: sends_def bindE_def published_def)

lemma sends_foreach:
  assumes "\<And>x w'. x \<in> set xs \<Longrightarrow> no_faults w' \<Longrightarrow> bus_up w' \<Longrightarrow> w_db w' = w_db w \<Longrightarrow> sends (g x) (f x) w'"
    and "no_faults w" "bus_up w"
  shows "sends (concat (map g xs)) (foreach f xs) w"
  using assms
proof (induction xs arbitrary: w)
  case (Cons x xs)
  have "sends (g x) (f x) w" using Cons.prems by simp
  then obtain w1 where w1: "f x w = (Inr (), w1)" "published (g x) w w1"
    by (metis sends_def prod.collapse)
  have "sends (concat (map g xs)) (foreach f xs) w1"
    using w1(2) Cons.prems by (intro Cons.IH) (simp_all add: publishedD)
  with w1 show ?case by (auto simp: sends_def bindE_def intro: published_trans)
qed simp

subsection \<open>The admin connection\<close>

lemma as_admin_run:
  "m (w\<lparr>w_sess := (w_sess w)\<lparr>bypass_rls := True\<rparr>\<rparr>) =
     (r, ticks k (w\<lparr>w_sess := (w_sess w)\<lparr>bypass_rls := True\<rparr>\<rparr>)) \<Longrightarrow> as_admin m w = (r, ticks k w)"
  by (simp add: as_admin_def ticks_def)

lemma readonly_as_admin [frame]: "readonly m \<Longrightarrow> readonly (as_admin m)"
  by (simp add: readonly_def as_admin_def split_def)

lemma silent_as_admin [frame]: "silent m \<Longrightarrow> silent (as_admin m)"
  by (simp add: silent_def as_admin_def split_def)

subsection \<open>HTTP answers\<close>

text \<open>The status and the JSON body, shared by the API server and the worker's HTTP server.\<close>

record http_response =
  rsp_Status :: nat
  rsp_Body :: "json option"

definition writeJSON :: "nat \<Rightarrow> json \<Rightarrow> http_response" where
  "writeJSON status v = \<lparr>rsp_Status = status, rsp_Body = Some v\<rparr>"

definition error_body :: "string \<Rightarrow> string \<Rightarrow> json" where
  "error_body code message = JObj [(''error'', JObj [(''code'', JStr code), (''message'', JStr message)])]"

subsection \<open>Worlds without faults, for examples\<close>

definition calm :: "time \<Rightarrow> db \<Rightarrow> world" where
  "calm now d = \<lparr>w_db = d, w_sess = \<lparr>current_user = None, current_org = None, bypass_rls = False\<rparr>, w_now = now,
     w_fresh = (\<lambda>n. of_nat (20 + n)), w_fault = (\<lambda>_. False), w_stmts = 0, w_pubfail = (\<lambda>_. False), w_pubs = 0,
     w_bus = []\<rparr>"

text \<open>A codec with the documented round trip: an identifier as that many letters.\<close>

definition unary :: codec where
  "unary = \<lparr>UUID_String = (\<lambda>u. replicate (unat u) CHR ''x''), UUID_Parse = (\<lambda>s. Some (of_nat (length s)))\<rparr>"

lemma unary_ok: "codec_ok unary"
  by (simp add: codec_ok_def unary_def)

lemma calm_ok [simp]: "no_faults (calm now d)" "bus_up (calm now d)" "w_db (calm now d) = d"
  "w_bus (calm now d) = []" "w_now (calm now d) = now"
  by (simp_all add: calm_def no_faults_def bus_up_def)

text \<open>The same on an admin connection.\<close>

definition admin_calm :: "time \<Rightarrow> db \<Rightarrow> world" where
  "admin_calm now d = (calm now d)\<lparr>w_sess := \<lparr>current_user = None, current_org = None, bypass_rls = True\<rparr>\<rparr>"

lemma admin_calm_ok [simp]: "no_faults (admin_calm now d)" "bus_up (admin_calm now d)" "w_db (admin_calm now d) = d"
  "w_bus (admin_calm now d) = []" "w_now (admin_calm now d) = now"
  by (simp_all add: admin_calm_def calm_def no_faults_def bus_up_def)

end
