(* ===== verification/Repos.thy ===== *)
theory Repos
  imports Effects
begin

section \<open>Repositories of cluster state: nodes, containers, services\<close>

text \<open>
  The repositories of \<^verbatim>\<open>internal/db\<close> for the tables without row-level security
  (nodes, containers, services, service instances), for what the control loops read across
  tenants, and for quotas and deployments, which the scheduler and the API server share. One
  definition per method, named after the repository and the method; its statement is the SQL of
  the method with the table's constraints.
\<close>

subsection \<open>Nodes\<close>

definition Nodes_Register ::
  "uuid \<Rightarrow> string \<Rightarrow> string \<Rightarrow> int \<Rightarrow> int \<Rightarrow> (string \<times> string) list \<Rightarrow> Node op" where
  "Nodes_Register rid hostname ip cpu mem labels = wrapE ''registering node'' (exec (\<lambda>s now u d.
     check (int4_ok cpu \<and> int4_ok mem) InvalidValue
       (case find (\<lambda>n. node_ID n = rid) (nodes d) of
          Some old \<Rightarrow>
            (let n = old\<lparr>node_Hostname := hostname, node_IP := ip, node_CPUCapacityMillicores := cpu,
                         node_MemoryCapacityMB := mem, node_Labels := labels, node_LastHeartbeatAt := now,
                         node_Status := NodeStatusHealthy\<rparr>
             in Inr (n, d\<lparr>nodes := map (\<lambda>x. if node_ID x = rid then n else x) (nodes d)\<rparr>))
        | None \<Rightarrow>
            (let n = \<lparr>node_ID = rid, node_Hostname = hostname, node_IP = ip, node_CPUCapacityMillicores = cpu,
                      node_MemoryCapacityMB = mem, node_Status = NodeStatusHealthy, node_LastHeartbeatAt = now,
                      node_Labels = labels, node_CreatedAt = now\<rparr>
             in Inr (n, d\<lparr>nodes := nodes d @ [n]\<rparr>)))))"

definition update_nodes :: "uuid \<Rightarrow> (Node \<Rightarrow> Node) \<Rightarrow> nat stmt" where
  "update_nodes rid f s now u d =
     Inr (length (filter (\<lambda>n. node_ID n = rid) (nodes d)),
          d\<lparr>nodes := map (\<lambda>n. if node_ID n = rid then f n else n) (nodes d)\<rparr>)"

definition Nodes_Heartbeat :: "uuid \<Rightarrow> time \<Rightarrow> unit op" where
  "Nodes_Heartbeat rid timestamp = execRows ''recording node heartbeat''
     (update_nodes rid (\<lambda>n. n\<lparr>node_LastHeartbeatAt := timestamp, node_Status := NodeStatusHealthy\<rparr>))"

definition Nodes_SetStatus :: "uuid \<Rightarrow> NodeStatus \<Rightarrow> unit op" where
  "Nodes_SetStatus rid status = execRows ''setting node status'' (update_nodes rid (\<lambda>n. n\<lparr>node_Status := status\<rparr>))"

definition Nodes_Get :: "uuid \<Rightarrow> Node op" where
  "Nodes_Get rid = queryRow [] (\<lambda>s now d. find (\<lambda>n. node_ID n = rid) (nodes d))"

text \<open>\<open>ORDER BY created_at DESC\<close>: rows created at the same instant stay in scan order.\<close>

definition Nodes_List :: "Node list op" where
  "Nodes_List = wrapE ''listing nodes'' (query (\<lambda>s now d. sort_key (\<lambda>n. - node_CreatedAt n) (nodes d)))"

subsection \<open>Containers\<close>

definition new_container :: "uuid \<Rightarrow> uuid \<Rightarrow> uuid \<Rightarrow> Container" where
  "new_container rid deploymentID nodeID =
     \<lparr>con_ID = rid, con_DeploymentID = deploymentID, con_NodeID = nodeID, con_RuntimeID = None,
      con_Status = ContainerStatusPending, con_RestartCount = 0, con_StartedAt = None, con_StoppedAt = None\<rparr>"

definition insert_container :: "uuid \<Rightarrow> uuid \<Rightarrow> Container stmt" where
  "insert_container deploymentID nodeID s now u d =
     (let c = new_container u deploymentID nodeID in
      check (enforce_container_quota d deploymentID) CheckViolation
      (check (list_all (\<lambda>x. con_ID x \<noteq> u) (containers d)) UniqueViolation
      (check (list_ex (\<lambda>x. dep_ID x = deploymentID) (deployments d) \<and>
              list_ex (\<lambda>x. node_ID x = nodeID) (nodes d)) ForeignKeyViolation
       (Inr (c, d\<lparr>containers := containers d @ [c]\<rparr>)))))"

definition Containers_Create :: "uuid \<Rightarrow> uuid \<Rightarrow> Container op" where
  "Containers_Create deploymentID nodeID = wrapE ''creating container'' (exec (insert_container deploymentID nodeID))"

definition Containers_Get :: "uuid \<Rightarrow> Container op" where
  "Containers_Get rid = queryRow [] (\<lambda>s now d. find (\<lambda>c. con_ID c = rid) (containers d))"

definition stamp_status :: "time \<Rightarrow> ContainerStatus \<Rightarrow> string option \<Rightarrow> Container \<Rightarrow> Container" where
  "stamp_status now status runtimeID c =
     c\<lparr>con_Status := status,
       con_RuntimeID := (case runtimeID of Some r \<Rightarrow> Some r | None \<Rightarrow> con_RuntimeID c),
       con_StartedAt := (if status = ContainerStatusRunning \<and> con_StartedAt c = None then Some now else con_StartedAt c),
       con_StoppedAt := (if (status = ContainerStatusCrashed \<or> status = ContainerStatusStopped) \<and> con_StoppedAt c = None
                         then Some now else con_StoppedAt c)\<rparr>"

definition Containers_UpdateStatus :: "uuid \<Rightarrow> ContainerStatus \<Rightarrow> string option \<Rightarrow> unit op" where
  "Containers_UpdateStatus rid status runtimeID = execRows ''updating container status'' (\<lambda>s now u d.
     Inr (length (filter (\<lambda>c. con_ID c = rid) (containers d)),
          d\<lparr>containers := map (\<lambda>c. if con_ID c = rid then stamp_status now status runtimeID c else c) (containers d)\<rparr>))"

text \<open>\<open>ORDER BY started_at DESC NULLS FIRST\<close>.\<close>

definition newest_first :: "Container list \<Rightarrow> Container list" where
  "newest_first cs = filter (\<lambda>c. con_StartedAt c = None) cs @
     sort_key (\<lambda>c. - the (con_StartedAt c)) (filter (\<lambda>c. con_StartedAt c \<noteq> None) cs)"

definition Containers_ListByDeployment :: "uuid \<Rightarrow> Container list op" where
  "Containers_ListByDeployment deploymentID = wrapE ''listing containers by deployment''
     (query (\<lambda>s now d. newest_first (filter (\<lambda>c. con_DeploymentID c = deploymentID) (containers d))))"

definition Containers_ListByNode :: "uuid \<Rightarrow> Container list op" where
  "Containers_ListByNode nodeID = wrapE ''listing containers by node''
     (query (\<lambda>s now d. filter (\<lambda>c. con_NodeID c = nodeID) (containers d)))"

definition active_of_deployment :: "db \<Rightarrow> uuid \<Rightarrow> Container list" where
  "active_of_deployment d deploymentID =
     filter (\<lambda>c. con_DeploymentID c = deploymentID \<and> active_status (con_Status c)) (containers d)"

definition Containers_CountActiveByDeployment :: "uuid \<Rightarrow> int op" where
  "Containers_CountActiveByDeployment deploymentID = wrapE ''counting active containers''
     (query (\<lambda>s now d. int (length (active_of_deployment d deploymentID))))"

subsection \<open>Deployments\<close>

definition deployment_visible :: "session \<Rightarrow> db \<Rightarrow> Deployment \<Rightarrow> bool" where
  "deployment_visible s d x \<longleftrightarrow> org_visible s d (dep_OrgID x)"

definition visible_deployments :: "session \<Rightarrow> db \<Rightarrow> uuid \<Rightarrow> Deployment list" where
  "visible_deployments s d appID =
     filter (\<lambda>x. dep_ApplicationID x = appID \<and> deployment_visible s d x) (deployments d)"

definition next_revision :: "session \<Rightarrow> db \<Rightarrow> uuid \<Rightarrow> int" where
  "next_revision s d appID = (let rs = map dep_Revision (visible_deployments s d appID) in
     (if rs = [] then 0 else Max (set rs)) + 1)"

definition insert_deployment :: "uuid \<Rightarrow> uuid \<Rightarrow> string \<Rightarrow> uuid \<Rightarrow> Deployment stmt" where
  "insert_deployment orgID appID img createdBy s now u d =
     (let x = \<lparr>dep_ID = u, dep_OrgID = orgID, dep_ApplicationID = appID, dep_Image = img,
               dep_Revision = next_revision s d appID, dep_Status = DeploymentStatusPending,
               dep_Strategy = ''recreate'', dep_WorkerContainerID = None, dep_CreatedBy = createdBy,
               dep_CreatedAt = now, dep_CompletedAt = None\<rparr>
      in check (int4_ok (dep_Revision x)) InvalidValue
        (check (org_visible s d orgID) RowSecurityViolation
        (check (list_all (\<lambda>y. dep_ID y \<noteq> u \<and>
                  (dep_ApplicationID y, dep_Revision y) \<noteq> (appID, dep_Revision x)) (deployments d)) UniqueViolation
        (check (org_exists d orgID \<and> list_ex (\<lambda>a. app_ID a = appID) (applications d) \<and> user_exists d createdBy)
           ForeignKeyViolation
         (Inr (x, d\<lparr>deployments := deployments d @ [x]\<rparr>))))))"

definition Deployments_Create :: "uuid \<Rightarrow> uuid \<Rightarrow> string \<Rightarrow> uuid \<Rightarrow> Deployment op" where
  "Deployments_Create orgID appID img createdBy =
     orConflict ''creating deployment'' (exec (insert_deployment orgID appID img createdBy))"

definition Deployments_UpdateResult :: "uuid \<Rightarrow> DeploymentStatus \<Rightarrow> string option \<Rightarrow> unit op" where
  "Deployments_UpdateResult rid status workerContainerID = execRows ''updating deployment result'' (\<lambda>s now u d.
     Inr (length (filter (\<lambda>x. dep_ID x = rid \<and> deployment_visible s d x) (deployments d)),
          d\<lparr>deployments := map (\<lambda>x. if dep_ID x = rid \<and> deployment_visible s d x
             then x\<lparr>dep_Status := status, dep_WorkerContainerID := workerContainerID, dep_CompletedAt := Some now\<rparr>
             else x) (deployments d)\<rparr>))"

definition newest_revision_first :: "Deployment list \<Rightarrow> Deployment list" where
  "newest_revision_first = sort_key (\<lambda>x. - dep_Revision x)"

definition Deployments_ListByApplication :: "uuid \<Rightarrow> int \<Rightarrow> int option \<Rightarrow> Deployment list op" where
  "Deployments_ListByApplication appID limit afterRevision = wrapE ''listing deployments'' (query (\<lambda>s now d.
     take (nat limit) (newest_revision_first
       (filter (\<lambda>x. case afterRevision of Some r \<Rightarrow> dep_Revision x < r | None \<Rightarrow> True)
         (visible_deployments s d appID)))))"

definition latest_of :: "Deployment list \<Rightarrow> Deployment option" where
  "latest_of xs = (case newest_revision_first xs of [] \<Rightarrow> None | x # _ \<Rightarrow> Some x)"

definition Deployments_Latest :: "uuid \<Rightarrow> Deployment op" where
  "Deployments_Latest appID = queryRow [] (\<lambda>s now d. latest_of (visible_deployments s d appID))"

definition Deployments_OrgID :: "uuid \<Rightarrow> uuid op" where
  "Deployments_OrgID rid = queryRow ''resolving deployment org'' (\<lambda>s now d.
     map_option dep_OrgID (find (\<lambda>x. dep_ID x = rid \<and> deployment_visible s d x) (deployments d)))"

subsection \<open>Quotas\<close>

definition DefaultResourceQuota :: ResourceQuota where
  "DefaultResourceQuota = \<lparr>rq_OrgID = uuid_Nil, rq_MaxCPUMillicores = 8000, rq_MaxMemoryMB = 16384,
     rq_MaxContainers = 20, rq_MaxProjects = 10, rq_MaxDeploymentsPerDay = 100, rq_CreatedAt = 0\<rparr>"

record ResourceUsage =
  ru_Projects :: int
  ru_Containers :: int
  ru_CPUMillicores :: int
  ru_MemoryMB :: int
  ru_DeploymentsToday :: int

definition Quotas_Create :: "uuid \<Rightarrow> ResourceQuota \<Rightarrow> ResourceQuota op" where
  "Quotas_Create orgID q = orConflict ''creating resource quota'' (exec (\<lambda>s now u d.
     let r = q\<lparr>rq_OrgID := orgID, rq_CreatedAt := now\<rparr> in
     check (int4_ok (rq_MaxCPUMillicores q) \<and> int4_ok (rq_MaxMemoryMB q) \<and> int4_ok (rq_MaxContainers q) \<and>
            int4_ok (rq_MaxProjects q) \<and> int4_ok (rq_MaxDeploymentsPerDay q)) InvalidValue
     (check (org_visible s d orgID) RowSecurityViolation
     (check (quota_of d orgID = None) UniqueViolation
     (check (org_exists d orgID) ForeignKeyViolation
      (Inr (r, d\<lparr>resource_quotas := resource_quotas d @ [r]\<rparr>)))))))"

definition Quotas_Get :: "uuid \<Rightarrow> ResourceQuota op" where
  "Quotas_Get orgID = queryRow ''getting resource quota''
     (\<lambda>s now d. if org_visible s d orgID then quota_of d orgID else None)"

text \<open>
  The four queries of \<open>CurrentUsage\<close>. The products are computed in \<open>INT\<close> and overflow as an
  error; the sums and counts are \<open>BIGINT\<close>.
\<close>

definition usage_products :: "(Application \<Rightarrow> int) \<Rightarrow> session \<Rightarrow> db \<Rightarrow> uuid \<Rightarrow> int list" where
  "usage_products f s d orgID = map (\<lambda>a. f a * app_ReplicasDesired a)
     (filter (\<lambda>a. app_OrgID a = orgID \<and> org_visible s d (app_OrgID a)) (applications d))"

definition Quotas_CurrentUsage :: "uuid \<Rightarrow> ResourceUsage op" where
  "Quotas_CurrentUsage orgID =
     bindE (wrapE ''counting projects'' (query (\<lambda>s now d.
       int (length (filter (\<lambda>p. proj_OrgID p = orgID \<and> org_visible s d (proj_OrgID p)) (projects d)))))) (\<lambda>projs.
     bindE (wrapE ''counting containers'' (query (\<lambda>s now d.
       int (length (filter (\<lambda>c. active_status (con_Status c) \<and>
         list_ex (\<lambda>x. dep_ID x = con_DeploymentID c \<and> dep_OrgID x = orgID \<and> deployment_visible s d x)
           (deployments d)) (containers d)))))) (\<lambda>cons.
     bindE (wrapE ''summing desired cpu/memory'' (exec (\<lambda>s now u d.
       let cpus = usage_products app_CPUMillicores s d orgID; mems = usage_products app_MemoryMB s d orgID in
       check (list_all int4_ok cpus \<and> list_all int4_ok mems) InvalidValue
         (Inr ((sum_list cpus, sum_list mems), d))))) (\<lambda>(cpu, mem).
     bindE (wrapE ''counting today's deployments'' (query (\<lambda>s now d.
       int (length (filter (\<lambda>x. dep_OrgID x = orgID \<and> now - 24 * hour \<le> dep_CreatedAt x \<and> deployment_visible s d x)
         (deployments d)))))) (\<lambda>deps.
     ret \<lparr>ru_Projects = projs, ru_Containers = cons, ru_CPUMillicores = cpu, ru_MemoryMB = mem,
          ru_DeploymentsToday = deps\<rparr>))))"

subsection \<open>Services and service instances\<close>

definition Services_GetOrCreate :: "uuid \<Rightarrow> string \<Rightarrow> Service op" where
  "Services_GetOrCreate appID dnsName = wrapE ''getting or creating service'' (exec (\<lambda>s now u d.
     case find (\<lambda>x. svc_ApplicationID x = appID) (services d) of
       Some x \<Rightarrow> Inr (x, d)
     | None \<Rightarrow>
         (let x = \<lparr>svc_ID = u, svc_ApplicationID = appID, svc_DNSName = dnsName, svc_CreatedAt = now\<rparr> in
          check (list_all (\<lambda>y. svc_ID y \<noteq> u \<and> svc_DNSName y \<noteq> dnsName) (services d)) UniqueViolation
          (check (list_ex (\<lambda>a. app_ID a = appID) (applications d)) ForeignKeyViolation
           (Inr (x, d\<lparr>services := services d @ [x]\<rparr>))))))"

definition Services_GetByApplication :: "uuid \<Rightarrow> Service op" where
  "Services_GetByApplication appID = queryRow [] (\<lambda>s now d. find (\<lambda>x. svc_ApplicationID x = appID) (services d))"

definition upsert_instance :: "uuid \<Rightarrow> uuid \<Rightarrow> string \<Rightarrow> int \<Rightarrow> ServiceInstance stmt" where
  "upsert_instance serviceID containerID ip port s now u d =
     check (int4_ok port) InvalidValue
       (check (list_ex (\<lambda>x. svc_ID x = serviceID) (services d) \<and> list_ex (\<lambda>c. con_ID c = containerID) (containers d))
          ForeignKeyViolation
        (case find (\<lambda>x. si_ContainerID x = containerID) (service_instances d) of
           Some old \<Rightarrow>
             (let x = old\<lparr>si_ServiceID := serviceID, si_IP := ip, si_Port := port, si_Healthy := True, si_LastSeenAt := now\<rparr>
              in Inr (x, d\<lparr>service_instances :=
                   map (\<lambda>y. if si_ContainerID y = containerID then x else y) (service_instances d)\<rparr>))
         | None \<Rightarrow>
             (let x = \<lparr>si_ID = u, si_ServiceID = serviceID, si_ContainerID = containerID, si_IP = ip, si_Port = port,
                       si_Healthy = True, si_LastSeenAt = now\<rparr>
              in check (list_all (\<lambda>y. si_ID y \<noteq> u) (service_instances d)) UniqueViolation
                (Inr (x, d\<lparr>service_instances := service_instances d @ [x]\<rparr>)))))"

definition Instances_Upsert :: "uuid \<Rightarrow> uuid \<Rightarrow> string \<Rightarrow> int \<Rightarrow> ServiceInstance op" where
  "Instances_Upsert serviceID containerID ip port =
     wrapE ''upserting service instance'' (exec (upsert_instance serviceID containerID ip port))"

definition Instances_MarkUnhealthy :: "uuid \<Rightarrow> unit op" where
  "Instances_MarkUnhealthy containerID = execRows ''marking service instance unhealthy'' (\<lambda>s now u d.
     Inr (length (filter (\<lambda>x. si_ContainerID x = containerID) (service_instances d)),
          d\<lparr>service_instances := map (\<lambda>x. if si_ContainerID x = containerID then x\<lparr>si_Healthy := False\<rparr> else x)
             (service_instances d)\<rparr>))"

definition Instances_DeleteByContainer :: "uuid \<Rightarrow> unit op" where
  "Instances_DeleteByContainer containerID = execRows ''deleting service instance'' (\<lambda>s now u d.
     Inr (length (filter (\<lambda>x. si_ContainerID x = containerID) (service_instances d)),
          d\<lparr>service_instances := filter (\<lambda>x. si_ContainerID x \<noteq> containerID) (service_instances d)\<rparr>))"

definition Instances_ListHealthyByService :: "uuid \<Rightarrow> ServiceInstance list op" where
  "Instances_ListHealthyByService serviceID = wrapE ''listing healthy service instances''
     (query (\<lambda>s now d. filter (\<lambda>x. si_ServiceID x = serviceID \<and> si_Healthy x) (service_instances d)))"

subsection \<open>Cross-tenant reads of the control loops\<close>

record ReconcileTarget =
  tgt_ApplicationID :: uuid
  tgt_DeploymentID :: uuid
  tgt_Image :: string
  tgt_Ports :: "PortSpec list"
  tgt_ReplicasDesired :: int

definition active_deployment :: "session \<Rightarrow> db \<Rightarrow> Application \<Rightarrow> Deployment option" where
  "active_deployment s d a =
     (case latest_of (visible_deployments s d (app_ID a)) of
        Some x \<Rightarrow> if dead_ended (dep_Status x) then None else Some x
      | None \<Rightarrow> None)"

definition Reconcile_ListActive :: "ReconcileTarget list op" where
  "Reconcile_ListActive = wrapE ''listing reconcile targets'' (query (\<lambda>s now d.
     List.map_filter (\<lambda>a. map_option (\<lambda>x. \<lparr>tgt_ApplicationID = app_ID a, tgt_DeploymentID = dep_ID x,
         tgt_Image = dep_Image x, tgt_Ports = app_Ports a, tgt_ReplicasDesired = app_ReplicasDesired a\<rparr>)
       (if org_visible s d (app_OrgID a) then active_deployment s d a else None)) (applications d)))"

record ServiceInstanceCandidate =
  cand_ApplicationID :: uuid
  cand_ProjectSlug :: string
  cand_ApplicationName :: string
  cand_ContainerID :: uuid
  cand_NodeIP :: string

definition candidates_of :: "session \<Rightarrow> db \<Rightarrow> Application \<Rightarrow> ServiceInstanceCandidate list" where
  "candidates_of s d a =
     (case (find (\<lambda>p. proj_ID p = app_ProjectID a \<and> org_visible s d (proj_OrgID p)) (projects d), active_deployment s d a) of
        (Some p, Some x) \<Rightarrow>
          List.map_filter (\<lambda>c. map_option (\<lambda>n. \<lparr>cand_ApplicationID = app_ID a, cand_ProjectSlug = proj_Slug p,
              cand_ApplicationName = app_Name a, cand_ContainerID = con_ID c, cand_NodeIP = node_IP n\<rparr>)
            (find (\<lambda>n. node_ID n = con_NodeID c) (nodes d)))
          (filter (\<lambda>c. con_DeploymentID c = dep_ID x \<and> con_Status c = ContainerStatusRunning) (containers d))
      | _ \<Rightarrow> [])"

definition ServiceReconcile_ListRunningCandidates :: "ServiceInstanceCandidate list op" where
  "ServiceReconcile_ListRunningCandidates = wrapE ''listing service instance candidates'' (query (\<lambda>s now d.
     concat (map (candidates_of s d) (filter (\<lambda>a. org_visible s d (app_OrgID a)) (applications d)))))"

definition orphaned :: "db \<Rightarrow> ServiceInstance \<Rightarrow> bool" where
  "orphaned d x \<longleftrightarrow>
     list_ex (\<lambda>c. con_ID c = si_ContainerID x \<and> con_Status c \<noteq> ContainerStatusRunning) (containers d)"

definition ServiceReconcile_ListOrphanedInstances :: "uuid list op" where
  "ServiceReconcile_ListOrphanedInstances = wrapE ''listing orphaned service instances''
     (query (\<lambda>s now d. map si_ContainerID (filter (orphaned d) (service_instances d))))"

record ServiceRegistryEntry =
  re_DNSName :: string
  re_ContainerID :: uuid
  re_IP :: string
  re_Port :: int

definition serviceRegistryJoin :: "db \<Rightarrow> ServiceRegistryEntry list" where
  "serviceRegistryJoin d = List.map_filter (\<lambda>x. if si_Healthy x then
       map_option (\<lambda>sv. \<lparr>re_DNSName = svc_DNSName sv, re_ContainerID = si_ContainerID x, re_IP = si_IP x, re_Port = si_Port x\<rparr>)
         (find (\<lambda>sv. svc_ID sv = si_ServiceID x) (services d))
     else None) (service_instances d)"

definition LoadBalancer_ListHealthyRegistry :: "ServiceRegistryEntry list op" where
  "LoadBalancer_ListHealthyRegistry = wrapE ''listing service registry'' (query (\<lambda>s now d. serviceRegistryJoin d))"

definition LoadBalancer_GetHealthyInstanceByContainer :: "uuid \<Rightarrow> ServiceRegistryEntry option op" where
  "LoadBalancer_GetHealthyInstanceByContainer containerID = wrapE ''getting service registry entry''
     (query (\<lambda>s now d. find (\<lambda>e. re_ContainerID e = containerID) (serviceRegistryJoin d)))"

record DomainRoute =
  route_Hostname :: string
  route_DNSName :: string

definition DomainRouting_ListRoutes :: "DomainRoute list op" where
  "DomainRouting_ListRoutes = wrapE ''listing domain routes'' (query (\<lambda>s now d.
     List.map_filter (\<lambda>x. if org_visible s d (dom_OrgID x) then
         map_option (\<lambda>sv. \<lparr>route_Hostname = dom_Hostname x, route_DNSName = svc_DNSName sv\<rparr>)
           (find (\<lambda>sv. svc_ApplicationID sv = dom_ApplicationID x) (services d))
       else None) (domains d)))"

end
