(* ===== verification/Controller.thy ===== *)
theory Controller
  imports Repos
begin

section \<open>The deployment controller\<close>

text \<open>
  \<^verbatim>\<open>services/controller-manager/internal/controller/controller.go\<close>: one reconcile
  tick over every active deployment. \<open>sort.Slice\<close> is not stable, so the order it gives equal
  elements is not fixed: the sort is a parameter, with its contract as the locale
  \<open>slice_sort\<close>. The controller connects as a superuser: its session bypasses row-level
  security.
\<close>

subsection \<open>Oldest first\<close>

definition started_before :: "Container \<Rightarrow> Container \<Rightarrow> bool" where
  "started_before a b =
     (case con_StartedAt a of
        None \<Rightarrow> False
      | Some ta \<Rightarrow> (case con_StartedAt b of None \<Rightarrow> True | Some tb \<Rightarrow> ta < tb))"

locale slice_sort =
  fixes srt :: "Container list \<Rightarrow> Container list"
  assumes srt_perm: "mset (srt xs) = mset xs"
    and srt_ordered: "sorted_wrt (\<lambda>x y. \<not> started_before y x) (srt xs)"
begin

lemma set_srt [simp]: "set (srt xs) = set xs"
  using srt_perm mset_eq_setD by blast

lemma length_srt [simp]: "length (srt xs) = length xs"
  using srt_perm mset_eq_length by blast

text \<open>The first \<open>k\<close> after sorting: none of the others started before one of them.\<close>

lemma oldest_first:
  "v \<in> set (take k (srt xs)) \<Longrightarrow> r \<in> set (drop k (srt xs)) \<Longrightarrow> \<not> started_before r v"
  using srt_ordered [of xs] sorted_wrt_append [of _ "take k (srt xs)" "drop k (srt xs)"]
  by (metis append_take_drop_id)

lemma take_drop_mset: "mset (take k (srt xs)) + mset (drop k (srt xs)) = mset xs"
  by (metis append_take_drop_id mset_append srt_perm)

end

fun insert_started :: "Container \<Rightarrow> Container list \<Rightarrow> Container list" where
  "insert_started x [] = [x]"
| "insert_started x (y # ys) = (if started_before y x then y # insert_started x ys else x # y # ys)"

definition sort_started :: "Container list \<Rightarrow> Container list" where
  "sort_started xs = foldr insert_started xs []"

lemma mset_insert_started: "mset (insert_started x xs) = add_mset x (mset xs)"
  by (induction xs) auto

lemma started_before_trans2: "\<not> started_before b a \<Longrightarrow> \<not> started_before c b \<Longrightarrow> \<not> started_before c a"
  by (auto simp: started_before_def split: option.splits)

lemma started_before_asym: "started_before a b \<Longrightarrow> \<not> started_before b a"
  by (auto simp: started_before_def split: option.splits)

lemma sorted_insert_started:
  "sorted_wrt (\<lambda>x y. \<not> started_before y x) xs \<Longrightarrow> sorted_wrt (\<lambda>x y. \<not> started_before y x) (insert_started x xs)"
proof (induction xs)
  case (Cons y ys)
  have set_eq: "set (insert_started x ys) = insert x (set ys)"
    using mset_insert_started [of x ys] by (metis set_mset_add_mset_insert set_mset_mset)
  show ?case
  proof (cases "started_before y x")
    case True
    with Cons started_before_asym [OF True] set_eq show ?thesis by auto
  next
    case False
    with Cons.prems show ?thesis using started_before_trans2 [of y x] by auto
  qed
qed simp

interpretation sort_started: slice_sort sort_started
proof
  show "mset (sort_started xs) = mset xs" for xs
    unfolding sort_started_def by (induction xs) (auto simp: mset_insert_started)
  show "sorted_wrt (\<lambda>x y. \<not> started_before y x) (sort_started xs)" for xs
    unfolding sort_started_def by (induction xs) (auto intro: sorted_insert_started)
qed

subsection \<open>One tick\<close>

definition placement_message :: "codec \<Rightarrow> ReconcileTarget \<Rightarrow> placementRequestedMessage" where
  "placement_message cd t =
     \<lparr>pr_DeploymentID = UUID_String cd (tgt_DeploymentID t), pr_ApplicationID = UUID_String cd (tgt_ApplicationID t),
      pr_Image = tgt_Image t, pr_Env = [], pr_Ports = tgt_Ports t, pr_Command = []\<rparr>"

definition scaleUp :: "codec \<Rightarrow> ReconcileTarget \<Rightarrow> int \<Rightarrow> unit op" where
  "scaleUp cd t shortfall =
     logged (foreach (\<lambda>_. PublishDurable PlacementRequestedSubject (enc_placementRequested (placement_message cd t)))
       [0..<nat shortfall])"

definition unassign_of :: "codec \<Rightarrow> Container \<Rightarrow> string \<times> json" where
  "unassign_of cd c =
     (NodeUnassignSubject (UUID_String cd (con_NodeID c)),
      enc_unassign \<lparr>un_AssignmentID = UUID_String cd (con_ID c),
                    un_ContainerID = (case con_RuntimeID c of Some r \<Rightarrow> r | None \<Rightarrow> [])\<rparr>)"

definition scaleDown ::
  "codec \<Rightarrow> (Container list \<Rightarrow> Container list) \<Rightarrow> ReconcileTarget \<Rightarrow> int \<Rightarrow> unit op"
where
  "scaleDown cd srt t excess = logged (bindE (Containers_ListByDeployment (tgt_DeploymentID t)) (\<lambda>all.
     let active = srt (filter (\<lambda>c. con_Status c = ContainerStatusPending \<or> con_Status c = ContainerStatusRunning) all);
         excess' = (if excess > int (length active) then int (length active) else excess)
     in foreach (\<lambda>c. logged (PublishDurable (fst (unassign_of cd c)) (snd (unassign_of cd c))))
          (take (nat excess') active)))"

definition reconcileOne ::
  "codec \<Rightarrow> (Container list \<Rightarrow> Container list) \<Rightarrow> ReconcileTarget \<Rightarrow> unit op"
where
  "reconcileOne cd srt t = logged (bindE (Containers_CountActiveByDeployment (tgt_DeploymentID t)) (\<lambda>active.
     if active < tgt_ReplicasDesired t then scaleUp cd t (tgt_ReplicasDesired t - active)
     else if active > tgt_ReplicasDesired t then scaleDown cd srt t (active - tgt_ReplicasDesired t)
     else ret ()))"

definition controller_tick :: "codec \<Rightarrow> (Container list \<Rightarrow> Container list) \<Rightarrow> unit op" where
  "controller_tick cd srt = logged (bindE Reconcile_ListActive (foreach (reconcileOne cd srt)))"

subsection \<open>What one reconciliation publishes\<close>

definition victims :: "(Container list \<Rightarrow> Container list) \<Rightarrow> db \<Rightarrow> ReconcileTarget \<Rightarrow> Container list" where
  "victims srt d t = take (nat (int (length (active_of_deployment d (tgt_DeploymentID t))) - tgt_ReplicasDesired t))
     (srt (filter (\<lambda>c. active_status (con_Status c))
       (newest_first (filter (\<lambda>c. con_DeploymentID c = tgt_DeploymentID t) (containers d)))))"

definition corrections :: "codec \<Rightarrow> (Container list \<Rightarrow> Container list) \<Rightarrow> db \<Rightarrow> ReconcileTarget \<Rightarrow> (string \<times> json) list" where
  "corrections cd srt d t =
     (let active = int (length (active_of_deployment d (tgt_DeploymentID t))); want = tgt_ReplicasDesired t in
      if active < want
      then replicate (nat (want - active)) (PlacementRequestedSubject, enc_placementRequested (placement_message cd t))
      else map (unassign_of cd) (victims srt d t))"

lemma mset_newest_first [simp]: "mset (newest_first cs) = mset cs"
proof -
  have "mset (newest_first cs) = mset (filter (\<lambda>c. con_StartedAt c = None) cs) + mset (filter (\<lambda>c. \<not> con_StartedAt c = None) cs)"
    by (simp add: newest_first_def)
  also have "\<dots> = mset cs" using multiset_partition [of "mset cs" "\<lambda>c. con_StartedAt c = None"] by simp
  finally show ?thesis .
qed

lemma active_newest_first:
  "mset (filter (\<lambda>c. active_status (con_Status c)) (newest_first (filter (\<lambda>c. con_DeploymentID c = did) (containers d))))
   = mset (active_of_deployment d did)"
proof -
  have "mset (filter (\<lambda>c. active_status (con_Status c)) (newest_first (filter (\<lambda>c. con_DeploymentID c = did) (containers d))))
      = filter_mset (\<lambda>c. active_status (con_Status c)) (mset (newest_first (filter (\<lambda>c. con_DeploymentID c = did) (containers d))))"
    by simp
  also have "\<dots> = filter_mset (\<lambda>c. active_status (con_Status c)) (filter_mset (\<lambda>c. con_DeploymentID c = did) (mset (containers d)))"
    by simp
  also have "\<dots> = mset (active_of_deployment d did)"
    by (simp add: active_of_deployment_def filter_filter_mset conj_commute)
  finally show ?thesis .
qed

context slice_sort
begin

lemma length_victims_pool:
  "length (srt (filter (\<lambda>c. active_status (con_Status c))
     (newest_first (filter (\<lambda>c. con_DeploymentID c = did) (containers d))))) = length (active_of_deployment d did)"
  using active_newest_first [of did d] by (metis length_srt size_mset)

lemma scaleDown_sends:
  assumes "no_faults w" "bus_up w"
    and "excess = int (length (active_of_deployment (w_db w) (tgt_DeploymentID t))) - tgt_ReplicasDesired t"
  shows "sends (map (unassign_of cd) (victims srt (w_db w) t)) (scaleDown cd srt t excess) w"
proof -
  let ?all = "newest_first (filter (\<lambda>c. con_DeploymentID c = tgt_DeploymentID t) (containers (w_db w)))"
  let ?active = "srt (filter (\<lambda>c. active_status (con_Status c)) ?all)"
  have list: "Containers_ListByDeployment (tgt_DeploymentID t) w = (Inr ?all, ticks 1 w)"
    using assms(1) by (simp add: Containers_ListByDeployment_def wrapE_Inr query_ok)
  have v: "take (nat (if excess > int (length ?active) then int (length ?active) else excess)) ?active = victims srt (w_db w) t"
    using length_victims_pool assms(3) by (auto simp: victims_def)
  have "sends (concat (map (\<lambda>c. [unassign_of cd c]) (victims srt (w_db w) t)))
     (foreach (\<lambda>c. logged (PublishDurable (fst (unassign_of cd c)) (snd (unassign_of cd c)))) (victims srt (w_db w) t))
     (ticks 1 w)"
  proof (rule sends_foreach)
    fix c w' assume "bus_up w'"
    from sends_logged [OF sends_PublishDurable [OF this, of "fst (unassign_of cd c)" "snd (unassign_of cd c)"]]
    show "sends [unassign_of cd c] (logged (PublishDurable (fst (unassign_of cd c)) (snd (unassign_of cd c)))) w'"
      by simp
  qed (use assms in simp_all)
  moreover have "concat (map (\<lambda>c. [unassign_of cd c]) xs) = map (unassign_of cd) xs" for xs by (induction xs) auto
  ultimately have "sends (map (unassign_of cd) (victims srt (w_db w) t))
     (foreach (\<lambda>c. logged (PublishDurable (fst (unassign_of cd c)) (snd (unassign_of cd c)))) (victims srt (w_db w) t))
     (ticks 1 w)" by simp
  then show ?thesis
    unfolding scaleDown_def Let_def active_status_def [symmetric]
    by - (rule sends_logged, rule sends_after_read, rule list, subst v)
qed

lemma scaleUp_sends:
  assumes "no_faults w" "bus_up w"
  shows "sends (replicate (nat n) (PlacementRequestedSubject, enc_placementRequested (placement_message cd t)))
    (scaleUp cd t n) w"
proof -
  let ?m = "enc_placementRequested (placement_message cd t)"
  have "sends (concat (map (\<lambda>_. [(PlacementRequestedSubject, ?m)]) [0..<nat n]))
      (foreach (\<lambda>_. PublishDurable PlacementRequestedSubject ?m) [0..<nat n]) w"
    by (rule sends_foreach) (simp_all add: assms sends_PublishDurable)
  moreover have "concat (map (\<lambda>_. [x]) xs) = replicate (length xs) x" for x :: "string \<times> json" and xs :: "nat list"
    by (induction xs) auto
  ultimately show ?thesis by (simp add: scaleUp_def sends_logged)
qed

lemma reconcileOne_sends:
  assumes "no_faults w" "bus_up w"
  shows "sends (corrections cd srt (w_db w) t) (reconcileOne cd srt t) w"
proof -
  let ?n = "int (length (active_of_deployment (w_db w) (tgt_DeploymentID t)))" and ?want = "tgt_ReplicasDesired t"
  have cnt: "Containers_CountActiveByDeployment (tgt_DeploymentID t) w = (Inr ?n, ticks 1 w)"
    using assms(1) by (simp add: Containers_CountActiveByDeployment_def wrapE_Inr query_ok)
  have "sends (corrections cd srt (w_db w) t)
     (if ?n < ?want then scaleUp cd t (?want - ?n) else if ?n > ?want then scaleDown cd srt t (?n - ?want) else ret ())
     (ticks 1 w)"
    using scaleUp_sends [of "ticks 1 w" "?want - ?n" cd t] scaleDown_sends [of "ticks 1 w" "?n - ?want" t cd] assms
    by (auto simp: corrections_def Let_def victims_def)
  then show ?thesis
    unfolding reconcileOne_def by - (rule sends_logged, rule sends_after_read, rule cnt)
qed

lemma tick_sends:
  assumes "no_faults w" "bus_up w" and "Reconcile_ListActive w = (Inr ts, ticks 1 w)"
  shows "sends (concat (map (corrections cd srt (w_db w)) ts)) (controller_tick cd srt) w"
proof -
  have "sends (concat (map (corrections cd srt (w_db w)) ts)) (foreach (reconcileOne cd srt) ts) (ticks 1 w)"
  proof (rule sends_foreach)
    fix t w' assume "no_faults w'" "bus_up w'" "w_db w' = w_db (ticks 1 w)"
    with reconcileOne_sends [of w' cd t] show "sends (corrections cd srt (w_db w) t) (reconcileOne cd srt t) w'" by simp
  qed (use assms in simp_all)
  then show ?thesis
    unfolding controller_tick_def by - (rule sends_logged, rule sends_after_read, rule assms(3))
qed

lemma victims_pool:
  "mset (victims srt d t) \<subseteq># mset (active_of_deployment d (tgt_DeploymentID t)) \<and>
   length (victims srt d t) = nat (int (length (active_of_deployment d (tgt_DeploymentID t))) - tgt_ReplicasDesired t)
     \<or> tgt_ReplicasDesired t < 0"
proof -
  let ?f = "filter (\<lambda>c. active_status (con_Status c)) (newest_first (filter (\<lambda>c. con_DeploymentID c = tgt_DeploymentID t) (containers d)))"
  have "mset (victims srt d t) \<subseteq># mset ?f"
    using take_drop_mset [of _ ?f] unfolding victims_def by (metis mset_subset_eq_add_left)
  then show ?thesis using active_newest_first [of "tgt_DeploymentID t" d] length_victims_pool [of "tgt_DeploymentID t" d]
    by (auto simp: victims_def)
qed

lemma victims_oldest:
  assumes "v \<in> set (victims srt d t)" "c \<in> set (active_of_deployment d (tgt_DeploymentID t))" "c \<notin> set (victims srt d t)"
  shows "\<not> started_before c v"
proof -
  let ?f = "filter (\<lambda>c. active_status (con_Status c)) (newest_first (filter (\<lambda>c. con_DeploymentID c = tgt_DeploymentID t) (containers d)))"
  let ?k = "nat (int (length (active_of_deployment d (tgt_DeploymentID t))) - tgt_ReplicasDesired t)"
  have "c \<in> set ?f" using assms(2) active_newest_first [of "tgt_DeploymentID t" d] mset_eq_setD by blast
  then have "c \<in> set (take ?k (srt ?f)) \<union> set (drop ?k (srt ?f))"
    by (metis append_take_drop_id set_append set_srt)
  with assms(3) have "c \<in> set (drop ?k (srt ?f))" by (simp add: victims_def)
  with assms(1) show ?thesis using oldest_first [of v ?k ?f c] by (simp add: victims_def)
qed

end

lemma sends_snd: "sends msgs m w \<Longrightarrow> w_db (snd (m w)) = w_db w \<and> w_bus (snd (m w)) = w_bus w @ msgs"
  by (simp add: sends_def published_def)

lemma ListActive_ticks:
  "no_faults w \<Longrightarrow> Reconcile_ListActive w = (Inr ts, w1) \<Longrightarrow> w1 = ticks 1 w"
  by (simp add: Reconcile_ListActive_def op_simps)

text \<open>
  C33. One tick of the deployment controller, exactly. With the database and the bus working it
  changes no table and publishes, for the targets in order, what corrects each one's drift: one
  placement request per missing replica; nothing when the active count is the desired one; and
  for a surplus one unassign for each of that many distinct active containers of the deployment,
  oldest first, so that no container that stays started before one that goes.
\<close>

theorem controller_tick_exact:
  assumes "slice_sort srt" "no_faults w" "bus_up w" and "Reconcile_ListActive w = (Inr ts, w1)"
    and "t \<in> set ts" "0 \<le> tgt_ReplicasDesired t"
    and "active = active_of_deployment (w_db w) (tgt_DeploymentID t)"
  shows "w_db (snd (controller_tick cd srt w)) = w_db w \<and>
    w_bus (snd (controller_tick cd srt w)) = w_bus w @ concat (map (corrections cd srt (w_db w)) ts) \<and>
    (if int (length active) < tgt_ReplicasDesired t
     then corrections cd srt (w_db w) t = replicate (nat (tgt_ReplicasDesired t - int (length active)))
       (PlacementRequestedSubject, enc_placementRequested (placement_message cd t))
     else \<exists>vs. corrections cd srt (w_db w) t = map (unassign_of cd) vs \<and> mset vs \<subseteq># mset active \<and>
       int (length vs) = int (length active) - tgt_ReplicasDesired t \<and>
       (\<forall>v \<in> set vs. \<forall>c \<in> set active. c \<notin> set vs \<longrightarrow> \<not> started_before c v))"
proof -
  have "sends (concat (map (corrections cd srt (w_db w)) ts)) (controller_tick cd srt) w"
    using slice_sort.tick_sends [OF assms(1-3)] ListActive_ticks [OF assms(2,4)] assms(4) by simp
  moreover have "\<exists>vs. corrections cd srt (w_db w) t = map (unassign_of cd) vs \<and> mset vs \<subseteq># mset active \<and>
      int (length vs) = int (length active) - tgt_ReplicasDesired t \<and>
      (\<forall>v \<in> set vs. \<forall>c \<in> set active. c \<notin> set vs \<longrightarrow> \<not> started_before c v)"
    if "\<not> int (length active) < tgt_ReplicasDesired t"
    using that slice_sort.victims_pool [OF assms(1), of "w_db w" t]
      slice_sort.victims_oldest [OF assms(1), of _ "w_db w" t] assms(6,7)
    by (intro exI [of _ "victims srt (w_db w) t"]) (auto simp: corrections_def Let_def)
  ultimately show ?thesis using sends_snd assms(7) by (auto simp: corrections_def Let_def)
qed

definition demo_app :: "int \<Rightarrow> Application" where
  "demo_app n = \<lparr>app_ID = 6, app_OrgID = 5, app_ProjectID = 4, app_Name = ''web'', app_Image = ''nginx'',
     app_ReplicasDesired = n, app_CPUMillicores = 0, app_MemoryMB = 0, app_Ports = [], app_HealthCheckPath = None,
     app_CreatedAt = 0, app_UpdatedAt = 0\<rparr>"

definition demo_target :: "int \<Rightarrow> ReconcileTarget" where
  "demo_target n = \<lparr>tgt_ApplicationID = 6, tgt_DeploymentID = 7, tgt_Image = ''nginx'', tgt_Ports = [], tgt_ReplicasDesired = n\<rparr>"

theorem controller_tick_exact_witness:
  "let x = \<lparr>dep_ID = 7, dep_OrgID = 5, dep_ApplicationID = 6, dep_Image = ''nginx'', dep_Revision = 1,
         dep_Status = DeploymentStatusPending, dep_Strategy = ''recreate'', dep_WorkerContainerID = None, dep_CreatedBy = 1,
         dep_CreatedAt = 0, dep_CompletedAt = None\<rparr>;
       d = empty_db\<lparr>applications := [demo_app 2], deployments := [x], containers := [new_container 9 7 3]\<rparr>
   in w_bus (snd (controller_tick unary sort_started (admin_calm 0 d))) =
        [(PlacementRequestedSubject, enc_placementRequested (placement_message unary (demo_target 2)))]"
proof -
  let ?x = "\<lparr>dep_ID = 7, dep_OrgID = 5, dep_ApplicationID = 6, dep_Image = ''nginx'', dep_Revision = 1,
         dep_Status = DeploymentStatusPending, dep_Strategy = ''recreate'', dep_WorkerContainerID = None, dep_CreatedBy = 1,
         dep_CreatedAt = 0, dep_CompletedAt = None\<rparr>"
  let ?d = "empty_db\<lparr>applications := [demo_app 2], deployments := [?x], containers := [new_container 9 7 3]\<rparr>"
  have la: "Reconcile_ListActive (admin_calm 0 ?d) = (Inr [demo_target 2], ticks 1 (admin_calm 0 ?d))"
    by (simp add: Reconcile_ListActive_def wrapE_Inr query_ok demo_target_def demo_app_def active_deployment_def latest_of_def
        newest_revision_first_def visible_deployments_def deployment_visible_def org_visible_def admin_calm_def dead_ended_def
        List.map_filter_def)
  have act: "active_of_deployment ?d 7 = [new_container 9 7 3]"
    by (simp add: active_of_deployment_def new_container_def active_status_def)
  have "w_bus (snd (controller_tick unary sort_started (admin_calm 0 ?d))) =
      w_bus (admin_calm 0 ?d) @ concat (map (corrections unary sort_started (w_db (admin_calm 0 ?d))) [demo_target 2])"
    using controller_tick_exact [OF sort_started.slice_sort_axioms _ _ la, where t = "demo_target 2"]
    by (simp add: demo_target_def)
  then show ?thesis using act by (simp add: corrections_def demo_target_def)
qed

end
