(* ===== verification/ServiceInstances.thy ===== *)
theory ServiceInstances
  imports Repos
begin

section \<open>The service instance controller\<close>

text \<open>
  \<^verbatim>\<open>services/controller-manager/internal/controller/serviceinstance.go\<close>: the loop that
  turns running containers into rows of \<open>service_instances\<close>. Its own state is the cache
  \<open>portsByContainer\<close>, a map from the text of a container's identifier to the port last
  reported for it; the operations take the cache and answer the new one. The lemmas show what one
  tick leaves in the table, that no change to it goes unannounced, and the form of the names it
  gives to services.
\<close>

subsection \<open>Names\<close>

definition slugify :: "string \<Rightarrow> string" where
  "slugify s = TrimDash (replace_runs False (ToLower s))"

text \<open>The suffix is the first eight bytes of the identifier's text without its dashes, which
  has thirty-two.\<close>

definition dnsName :: "codec \<Rightarrow> string \<Rightarrow> string \<Rightarrow> uuid \<Rightarrow> string" where
  "dnsName cd projectSlug applicationName applicationID =
     (let appSlug = slugify applicationName;
          idSuffix = take 8 (RemoveChar CHR ''-'' (UUID_String cd applicationID))
      in projectSlug @ ''-'' @ appSlug @ ''-'' @ idSuffix @ ''.internal'')"

subsection \<open>The port cache\<close>

type_synonym ports = "string \<rightharpoonup> int"

definition instances_handleStatus :: "json option \<Rightarrow> ports \<Rightarrow> ports" where
  "instances_handleStatus data ports =
     (case dec_controllerStatus data of
        None \<Rightarrow> ports
      | Some msg \<Rightarrow>
          (if cs_AssignmentID msg = [] \<or> cs_Status msg \<noteq> ''running'' \<or> cs_Ports msg = [] then ports
           else ports(cs_AssignmentID msg \<mapsto> HostPort (hd (cs_Ports msg)))))"

definition portFor :: "codec \<Rightarrow> ports \<Rightarrow> uuid \<Rightarrow> int option" where
  "portFor cd ports containerID = ports (UUID_String cd containerID)"

subsection \<open>One tick\<close>

definition updated_about :: "codec \<Rightarrow> uuid \<Rightarrow> string \<times> json" where
  "updated_about cd containerID =
     (ServiceUpdatedSubject, enc_updated \<lparr>up_ContainerID = UUID_String cd containerID\<rparr>)"

definition publishUpdated :: "codec \<Rightarrow> uuid \<Rightarrow> unit op" where
  "publishUpdated cd containerID =
     logged (Publish (fst (updated_about cd containerID)) (snd (updated_about cd containerID)))"

definition candidate_dns :: "codec \<Rightarrow> ServiceInstanceCandidate \<Rightarrow> string" where
  "candidate_dns cd c = dnsName cd (cand_ProjectSlug c) (cand_ApplicationName c) (cand_ApplicationID c)"

definition reconcileCandidate :: "codec \<Rightarrow> ports \<Rightarrow> ServiceInstanceCandidate \<Rightarrow> unit op" where
  "reconcileCandidate cd ports c =
     (case portFor cd ports (cand_ContainerID c) of
        None \<Rightarrow> ret ()
      | Some port \<Rightarrow>
          logged (bindE (Services_GetOrCreate (cand_ApplicationID c) (candidate_dns cd c)) (\<lambda>svc.
                  bindE (Instances_Upsert (svc_ID svc) (cand_ContainerID c) (cand_NodeIP c) port) (\<lambda>_.
                  publishUpdated cd (cand_ContainerID c)))))"

fun removeOrphans :: "codec \<Rightarrow> ports \<Rightarrow> uuid list \<Rightarrow> ports op" where
  "removeOrphans cd ports [] = ret ports"
| "removeOrphans cd ports (containerID # rest) =
     bindE (catchE
        (bindE (Instances_DeleteByContainer containerID) (\<lambda>_.
         bindE (publishUpdated cd containerID) (\<lambda>_.
         ret (ports(UUID_String cd containerID := None)))))
        (\<lambda>_. ret ports)) (\<lambda>ports'. removeOrphans cd ports' rest)"

definition instances_tick :: "codec \<Rightarrow> ports \<Rightarrow> ports op" where
  "instances_tick cd ports =
     bindE (logged (bindE ServiceReconcile_ListRunningCandidates (foreach (reconcileCandidate cd ports)))) (\<lambda>_.
     catchE (bindE ServiceReconcile_ListOrphanedInstances (removeOrphans cd ports)) (\<lambda>_. ret ports))"

subsection \<open>Slugs\<close>

fun no_double_dash :: "string \<Rightarrow> bool" where
  "no_double_dash (a # b # s) \<longleftrightarrow> \<not> (a = CHR ''-'' \<and> b = CHR ''-'') \<and> no_double_dash (b # s)"
| "no_double_dash _ \<longleftrightarrow> True"

definition is_slug :: "string \<Rightarrow> bool" where
  "is_slug s \<longleftrightarrow> list_all (\<lambda>c. slug_char c \<or> c = CHR ''-'') s \<and> no_double_dash s \<and>
     (s \<noteq> [] \<longrightarrow> hd s \<noteq> CHR ''-'' \<and> last s \<noteq> CHR ''-'')"

lemma slug_char_dash: "\<not> slug_char CHR ''-''"
  by (simp add: slug_char_def is_lower_def is_digit_def byte_def)

lemma lower_char_slug: "slug_char c \<or> c = CHR ''-'' \<Longrightarrow> lower_char c = c"
  by (auto simp: slug_char_def is_lower_def is_digit_def is_upper_def lower_char_def byte_def)

lemma replace_runs_chars: "list_all (\<lambda>c. slug_char c \<or> c = CHR ''-'') (replace_runs r s)"
  by (induction r s rule: replace_runs.induct) auto

lemma replace_runs_no_double:
  "no_double_dash (replace_runs r s) \<and>
   (r \<longrightarrow> replace_runs r s \<noteq> [] \<longrightarrow> hd (replace_runs r s) \<noteq> CHR ''-'')"
proof (induction r s rule: replace_runs.induct)
  case (2 r c s)
  show ?case
  proof (cases "slug_char c")
    case True
    with 2(1) slug_char_dash show ?thesis by (cases "replace_runs False s") auto
  next
    case False
    with 2(2,3) show ?thesis by (cases "replace_runs True s") auto
  qed
qed simp

lemma no_double_dash_appendD: "no_double_dash (s @ t) \<Longrightarrow> no_double_dash s"
  by (induction s rule: no_double_dash.induct) auto

lemma no_double_dash_appendD2: "no_double_dash (s @ t) \<Longrightarrow> no_double_dash t"
proof (induction s)
  case (Cons a s)
  then show ?case by (cases "s @ t") auto
qed simp

lemma dropWhile_suffix: "\<exists>us. s = us @ dropWhile P s"
  by (metis takeWhile_dropWhile_id)

lemma replace_runs_id:
  "list_all (\<lambda>c. slug_char c \<or> c = CHR ''-'') s \<Longrightarrow> no_double_dash s \<Longrightarrow>
   (r \<Longrightarrow> s \<noteq> [] \<Longrightarrow> hd s \<noteq> CHR ''-'') \<Longrightarrow> replace_runs r s = s"
proof (induction r s rule: replace_runs.induct)
  case (2 r c s)
  from "2.prems"(2) have nd: "no_double_dash s" by (cases s) auto
  show ?case
  proof (cases "slug_char c")
    case True
    with 2 nd show ?thesis by simp
  next
    case False
    with 2 have c: "c = CHR ''-''" "\<not> r" by auto
    have "s \<noteq> [] \<Longrightarrow> hd s \<noteq> CHR ''-''" using "2.prems"(2) c by (cases s) auto
    with 2 False c nd show ?thesis by simp
  qed
qed simp

lemma slugify_is_slug: "is_slug (slugify s)"
proof -
  let ?P = "\<lambda>c. c = CHR ''-''" and ?r = "replace_runs False (ToLower s)"
  have chars: "list_all (\<lambda>c. slug_char c \<or> c = CHR ''-'') (slugify s)"
    using replace_runs_chars [of False "ToLower s"] set_trim_by [of ?P ?r]
    by (auto simp: slugify_def TrimDash_def list_all_iff)
  obtain us where us: "?r = us @ dropWhile ?P ?r" using dropWhile_suffix by blast
  obtain vs where vs: "dropWhile ?P ?r = slugify s @ vs"
    using trim_by_suffix [of ?P ?r] by (auto simp: slugify_def TrimDash_def)
  have "no_double_dash (slugify s)"
    using replace_runs_no_double [of False "ToLower s"] us vs no_double_dash_appendD no_double_dash_appendD2 by metis
  with chars hd_trim_by [of ?P ?r] last_trim_by [of ?P ?r] show ?thesis
    by (auto simp: is_slug_def slugify_def TrimDash_def)
qed

lemma slugify_id: "is_slug s \<Longrightarrow> slugify s = s"
proof -
  assume s: "is_slug s"
  then have "ToLower s = s" unfolding ToLower_def
    by (intro map_idI) (auto simp: is_slug_def list_all_iff intro: lower_char_slug)
  moreover have "replace_runs False s = s" using s by (intro replace_runs_id) (auto simp: is_slug_def)
  moreover have "TrimDash s = s" unfolding TrimDash_def using s by (intro trim_by_id) (auto simp: is_slug_def)
  ultimately show ?thesis by (simp add: slugify_def)
qed

lemma slug_char_in_runs: "list_ex slug_char (replace_runs r s) \<longleftrightarrow> list_ex slug_char s"
  by (induction r s rule: replace_runs.induct) (auto simp: slug_char_dash)

lemma trim_by_empty: "trim_by P s = [] \<longleftrightarrow> list_all P s"
proof -
  have "trim_by P s = [] \<longleftrightarrow> (\<forall>x\<in>set (dropWhile P s). P x)"
    by (simp add: trim_by_def dropWhile_eq_Nil_conv)
  also have "\<dots> \<longleftrightarrow> dropWhile P s = []"
  proof (cases "dropWhile P s")
    case (Cons c t)
    then have "\<not> P c" by (rule hd_dropWhile_not)
    with Cons show ?thesis by simp
  next
    case Nil
    show ?thesis unfolding Nil by simp
  qed
  finally show ?thesis by (simp add: dropWhile_eq_Nil_conv list_all_iff)
qed

lemma only_dashes:
  "list_all (\<lambda>c. slug_char c \<or> c = CHR ''-'') s \<Longrightarrow>
   list_all (\<lambda>c. c = CHR ''-'') s \<longleftrightarrow> \<not> list_ex slug_char s"
  by (induction s) (auto simp: slug_char_dash)

lemma slugify_empty: "slugify s = [] \<longleftrightarrow> \<not> list_ex slug_char (ToLower s)"
proof -
  have "slugify s = [] \<longleftrightarrow> list_all (\<lambda>c. c = CHR ''-'') (replace_runs False (ToLower s))"
    by (simp add: slugify_def TrimDash_def trim_by_empty)
  also have "\<dots> \<longleftrightarrow> \<not> list_ex slug_char (replace_runs False (ToLower s))"
    using replace_runs_chars [of False "ToLower s"] only_dashes by simp
  finally show ?thesis by (simp add: slug_char_in_runs)
qed

text \<open>
  \<open>slugify\<close> always answers a slug: lower-case letters, digits and single dashes, none of
  them at an end. It leaves a slug as it is, so the answer is stable under another application,
  and only a name with no letter or digit at all gives the empty slug.
\<close>

theorem slugify_canonical:
  "is_slug (slugify s) \<and> slugify (slugify s) = slugify s \<and>
   (slugify s = [] \<longleftrightarrow> \<not> list_ex slug_char (ToLower s))"
  using slugify_is_slug slugify_id slugify_empty by blast

subsection \<open>Every change is announced\<close>

definition inst :: "db \<Rightarrow> uuid \<Rightarrow> ServiceInstance option" where
  "inst d c = find (\<lambda>x. si_ContainerID x = c) (service_instances d)"

text \<open>
  \<open>announced cd ids w w'\<close>: from \<open>w\<close> to \<open>w'\<close> only the two service tables changed,
  services were only added and containers have at most one instance still, one
  \<open>service.updated\<close> went out for each of \<open>ids\<close>, and the instance of any other
  container is as it was.
\<close>

definition announced :: "codec \<Rightarrow> uuid list \<Rightarrow> world \<Rightarrow> world \<Rightarrow> bool" where
  "announced cd ids w w' \<longleftrightarrow>
     w_bus w' = w_bus w @ map (updated_about cd) ids \<and> w_pubfail w' = w_pubfail w \<and>
     (\<forall>c. c \<notin> set ids \<longrightarrow> inst (w_db w') c = inst (w_db w) c) \<and>
     (\<exists>extra. services (w_db w') = services (w_db w) @ extra) \<and>
     (distinct (map si_ContainerID (service_instances (w_db w))) \<longrightarrow>
      distinct (map si_ContainerID (service_instances (w_db w')))) \<and>
     w_db w' = (w_db w)\<lparr>services := services (w_db w'), service_instances := service_instances (w_db w')\<rparr>"

lemma announced_bus_up: "announced cd ids w w' \<Longrightarrow> bus_up w' = bus_up w"
  by (simp add: announced_def bus_up_def)

lemma announced_refl: "announced cd [] w w"
  by (simp add: announced_def)

lemma announced_trans: "announced cd a w w1 \<Longrightarrow> announced cd b w1 w2 \<Longrightarrow> announced cd (a @ b) w w2"
  unfolding announced_def by (cases "w_db w"; cases "w_db w1"; cases "w_db w2") auto

lemma announced_GetOrCreate:
  "Services_GetOrCreate a n w = (r, w1) \<Longrightarrow> announced cd [] w w1"
  by (cases "w_db w")
    (auto simp: Services_GetOrCreate_def wrapE_def mapErr_def catchE_def throw_def exec_def announced_def inst_def
      check_def Let_def split: sum.splits if_splits option.splits prod.splits)

lemma find_map_other:
  "(\<And>x. si_ContainerID (f x) = si_ContainerID x) \<Longrightarrow> (\<And>x. si_ContainerID x = c \<Longrightarrow> f x = x) \<Longrightarrow>
   find (\<lambda>x. si_ContainerID x = c) (map f xs) = find (\<lambda>x. si_ContainerID x = c) xs"
  by (induction xs) auto

lemma find_snoc_other: "\<not> P y \<Longrightarrow> find P (xs @ [y]) = find P xs"
  by (induction xs) auto

lemma find_filter_other: "(\<And>x. P x \<Longrightarrow> Q x) \<Longrightarrow> find P (filter Q xs) = find P xs"
  by (induction xs) auto

lemma same_keys:
  "distinct (map f xs) \<Longrightarrow> (\<And>x. x \<in> set xs \<Longrightarrow> g x = f x) \<Longrightarrow> distinct (map g xs)"
  by (metis map_cong)

lemma upsert_instance_frame:
  "upsert_instance sid c ip port s now u d = Inr (x, d') \<Longrightarrow>
   d' = d\<lparr>service_instances := service_instances d'\<rparr> \<and> (c' \<noteq> c \<longrightarrow> inst d' c' = inst d c') \<and>
   (distinct (map si_ContainerID (service_instances d)) \<longrightarrow> distinct (map si_ContainerID (service_instances d')))"
proof -
  assume h: "upsert_instance sid c ip port s now u d = Inr (x, d')"
  show ?thesis
  proof (cases "find (\<lambda>x. si_ContainerID x = c) (service_instances d)")
    case None
    with h show ?thesis by (auto simp: upsert_instance_def Let_def inst_def find_snoc_other find_None_iff)
  next
    case (Some old)
    then have "si_ContainerID old = c" by (simp add: find_Some_iff) auto
    then show ?thesis using h Some
      by (auto simp: upsert_instance_def Let_def inst_def comp_def intro!: find_map_other)
        (erule same_keys, simp)
  qed
qed

lemma announced_tick: "announced cd [] w (tick w)"
  by (simp add: announced_def)

lemma publishUpdated_run:
  "bus_up w \<Longrightarrow> publishUpdated cd c w = (Inr (), w\<lparr>w_pubs := Suc (w_pubs w), w_bus := w_bus w @ [updated_about cd c]\<rparr>)"
  by (simp add: publishUpdated_def logged_eq Publish_def bus_up_def)

lemma announced_publish:
  assumes "bus_up w" "w1 = (tick w)\<lparr>w_db := d'\<rparr>"
    and "\<And>c'. c' \<noteq> c \<Longrightarrow> inst d' c' = inst (w_db w) c'" "d' = (w_db w)\<lparr>service_instances := service_instances d'\<rparr>"
    and "distinct (map si_ContainerID (service_instances (w_db w))) \<Longrightarrow> distinct (map si_ContainerID (service_instances d'))"
  shows "announced cd [c] w (snd (publishUpdated cd c w1))"
proof -
  have "bus_up w1" using assms(1,2) by (simp add: bus_up_def)
  then show ?thesis using assms(2-5)
    by (cases "w_db w"; cases d') (auto simp: publishUpdated_run announced_def)
qed

lemma announced_Upsert:
  assumes "bus_up w"
  shows "\<exists>ids. announced cd ids w
     (snd (bindE (Instances_Upsert sid c ip port) (\<lambda>_. publishUpdated cd c) w))"
proof (cases "Instances_Upsert sid c ip port w")
  case (Pair r w1)
  show ?thesis
  proof (cases r)
    case (Inl e)
    with Pair have "w1 = tick w" by (auto simp: Instances_Upsert_def wrapE_Inl dest: exec_Inl)
    with Pair Inl show ?thesis using announced_tick [of cd w] by (auto simp: bindE_def)
  next
    case (Inr x)
    with Pair obtain d' where d': "w1 = (tick w)\<lparr>w_db := d'\<rparr>"
      and up: "upsert_instance sid c ip port (w_sess w) (w_now w) (w_fresh w (w_stmts w)) (w_db w) = Inr (x, d')"
      by (auto simp: Instances_Upsert_def op_simps)
    have "announced cd [c] w (snd (publishUpdated cd c w1))"
      using upsert_instance_frame [OF up] by (intro announced_publish [OF assms d']) auto
    with Pair Inr show ?thesis by (auto simp: bindE_def)
  qed
qed

lemma announced_reconcileCandidate:
  assumes "bus_up w"
  shows "\<exists>ids. announced cd ids w (snd (reconcileCandidate cd ports c w))"
proof (cases "portFor cd ports (cand_ContainerID c)")
  case None
  then show ?thesis using announced_refl by (auto simp: reconcileCandidate_def ret_def)
next
  case (Some port)
  obtain r w1 where g: "Services_GetOrCreate (cand_ApplicationID c) (candidate_dns cd c) w = (r, w1)" by force
  note a1 = announced_GetOrCreate [OF g, of cd]
  show ?thesis
  proof (cases r)
    case (Inl e)
    with a1 g Some show ?thesis by (auto simp: reconcileCandidate_def logged_eq bindE_def)
  next
    case (Inr svc)
    have "bus_up w1" using announced_bus_up [OF a1] assms by simp
    from announced_Upsert [OF this, of cd "svc_ID svc" "cand_ContainerID c" "cand_NodeIP c" port]
    obtain ids where "announced cd ids w1 (snd (bindE (Instances_Upsert (svc_ID svc) (cand_ContainerID c) (cand_NodeIP c) port)
        (\<lambda>_. publishUpdated cd (cand_ContainerID c)) w1))" by blast
    from announced_trans [OF a1 this] g Some Inr show ?thesis
      by (auto simp: reconcileCandidate_def logged_eq bindE_def)
  qed
qed

lemma reconcileCandidate_result: "fst (reconcileCandidate cd ports c w) = Inr ()"
  by (auto simp: reconcileCandidate_def ret_def logged_eq split: option.splits)

lemma announced_foreach:
  assumes "\<And>x w. bus_up w \<Longrightarrow> \<exists>ids. announced cd ids w (snd (f x w))" "\<And>x w. fst (f x w) = Inr ()" "bus_up w"
  shows "\<exists>ids. announced cd ids w (snd (foreach f xs w))"
  using assms(3)
proof (induction xs arbitrary: w)
  case Nil
  then show ?case using announced_refl by (auto simp: ret_def)
next
  case (Cons x xs)
  obtain a where a: "announced cd a w (snd (f x w))" using assms(1) Cons.prems by blast
  then have "bus_up (snd (f x w))" using announced_bus_up Cons.prems by simp
  then obtain b where "announced cd b (snd (f x w)) (snd (foreach f xs (snd (f x w))))" using Cons.IH by blast
  from announced_trans [OF a this] show ?case
    using assms(2) [of x w] by (auto simp: bindE_def split: prod.splits)
qed

lemma removeOrphans_step:
  assumes "bus_up w"
  shows "\<exists>ports' w1 ids. catchE (bindE (Instances_DeleteByContainer c) (\<lambda>_.
         bindE (publishUpdated cd c) (\<lambda>_. ret (ports(UUID_String cd c := None))))) (\<lambda>_. ret ports) w
       = (Inr ports', w1) \<and> announced cd ids w w1"
proof (cases "Instances_DeleteByContainer c w")
  case (Pair r w1)
  let ?d = "(w_db w)\<lparr>service_instances := filter (\<lambda>x. si_ContainerID x \<noteq> c) (service_instances (w_db w))\<rparr>"
  have gone: "filter (\<lambda>x. si_ContainerID x = c) xs = [] \<Longrightarrow> filter (\<lambda>x. si_ContainerID x \<noteq> c) xs = xs" for xs
    by (induction xs) (auto split: if_splits)
  show ?thesis
  proof (cases r)
    case (Inl e)
    with Pair gone have "w1 = tick w"
      by (auto simp: Instances_DeleteByContainer_def dest!: execRows_Inl gone)
    with Pair Inl announced_tick show ?thesis by (auto simp: catchE_def bindE_def ret_def)
  next
    case (Inr x)
    with Pair have w1: "w1 = (tick w)\<lparr>w_db := ?d\<rparr>"
      by (auto simp: Instances_DeleteByContainer_def op_simps)
    have "announced cd [c] w (snd (publishUpdated cd c w1))"
      by (rule announced_publish [OF assms w1]) (auto simp: inst_def intro!: find_filter_other distinct_map_filterI)
    moreover have "fst (publishUpdated cd c w1) = Inr ()" by (simp add: publishUpdated_def logged_eq)
    ultimately show ?thesis using Pair Inr by (auto simp: catchE_def bindE_def ret_def split: prod.splits sum.splits)
  qed
qed

lemma announced_removeOrphans:
  "bus_up w \<Longrightarrow> \<exists>ports' w1 ids. removeOrphans cd ports cs w = (Inr ports', w1) \<and> announced cd ids w w1"
proof (induction cs arbitrary: ports w)
  case Nil
  then show ?case using announced_refl by (auto simp: ret_def)
next
  case (Cons c cs)
  obtain p1 w1 a where s: "catchE (bindE (Instances_DeleteByContainer c) (\<lambda>_.
         bindE (publishUpdated cd c) (\<lambda>_. ret (ports(UUID_String cd c := None))))) (\<lambda>_. ret ports) w = (Inr p1, w1)"
    and a: "announced cd a w w1" using removeOrphans_step [OF Cons.prems] by blast
  obtain p2 w2 b where "removeOrphans cd p1 cs w1 = (Inr p2, w2)" "announced cd b w1 w2"
    using Cons.IH announced_bus_up [OF a] Cons.prems by blast
  with s announced_trans [OF a] show ?case by (auto simp: bindE_def)
qed

lemma announced_query:
  "wrapE msg (query f) w = (r, w1) \<Longrightarrow> announced cd [] w w1 \<and> (bus_up w1 = bus_up w)"
proof -
  assume h: "wrapE msg (query f) w = (r, w1)"
  then have "w1 = tick w"
    by (cases r) (auto simp: wrapE_Inl wrapE_Inr query_def dest: exec_Inl simp: exec_Inr)
  then show ?thesis using announced_tick [of cd w] by simp
qed

lemma announced_load:
  assumes "bus_up w"
  shows "\<exists>ids. announced cd ids w
     (snd (bindE ServiceReconcile_ListRunningCandidates (foreach (reconcileCandidate cd ports)) w))"
proof (cases "ServiceReconcile_ListRunningCandidates w")
  case (Pair r w1)
  then have w1: "announced cd [] w w1" "bus_up w1"
    using announced_query assms unfolding ServiceReconcile_ListRunningCandidates_def by blast+
  show ?thesis
  proof (cases r)
    case (Inr cs)
    obtain ids where "announced cd ids w1 (snd (foreach (reconcileCandidate cd ports) cs w1))"
      using announced_foreach [where f = "reconcileCandidate cd ports"] announced_reconcileCandidate
        reconcileCandidate_result w1(2) by blast
    from announced_trans [OF w1(1) this] Pair Inr show ?thesis by (auto simp: bindE_def)
  qed (use Pair w1 in \<open>auto simp: bindE_def\<close>)
qed

lemma announced_orphans:
  assumes "bus_up w"
  shows "\<exists>ports' w' ids. catchE (bindE ServiceReconcile_ListOrphanedInstances (removeOrphans cd ports)) (\<lambda>_. ret ports) w
     = (Inr ports', w') \<and> announced cd ids w w'"
proof (cases "ServiceReconcile_ListOrphanedInstances w")
  case (Pair r w1)
  then have w1: "announced cd [] w w1" "bus_up w1"
    using announced_query assms unfolding ServiceReconcile_ListOrphanedInstances_def by blast+
  show ?thesis
  proof (cases r)
    case (Inr cs)
    obtain p w2 ids where "removeOrphans cd ports cs w1 = (Inr p, w2)" and a: "announced cd ids w1 w2"
      using announced_removeOrphans [OF w1(2)] by blast
    with Pair Inr announced_trans [OF w1(1) a] show ?thesis by (auto simp: bindE_def catchE_def)
  qed (use Pair w1 in \<open>auto simp: bindE_def catchE_def ret_def\<close>)
qed

lemma instances_tick_announced:
  assumes "bus_up w"
  shows "\<exists>ports' ids. fst (instances_tick cd ports w) = Inr ports' \<and> announced cd ids w (snd (instances_tick cd ports w))"
proof -
  let ?load = "bindE ServiceReconcile_ListRunningCandidates (foreach (reconcileCandidate cd ports))"
  obtain a where a: "announced cd a w (snd (?load w))" using announced_load [OF assms] by blast
  let ?w1 = "snd (?load w)"
  have up: "bus_up ?w1" using announced_bus_up [OF a] assms by simp
  obtain ports' w2 b where b: "catchE (bindE ServiceReconcile_ListOrphanedInstances (removeOrphans cd ports)) (\<lambda>_. ret ports) ?w1
       = (Inr ports', w2)" "announced cd b ?w1 w2" using announced_orphans [OF up] by blast
  have "instances_tick cd ports w = (Inr ports', w2)"
    using b(1) by (simp add: instances_tick_def bindE_def [of "logged ?load"] logged_eq)
  with announced_trans [OF a b(2)] show ?thesis
    by (intro exI [of _ ports'] exI [of _ "a @ b"]) simp
qed


subsection \<open>What a tick establishes\<close>

definition running_candidates :: "session \<Rightarrow> db \<Rightarrow> ServiceInstanceCandidate list" where
  "running_candidates s d =
     concat (map (candidates_of s d) (filter (\<lambda>a. org_visible s d (app_OrgID a)) (applications d)))"

text \<open>The instance of a candidate is in the table, healthy, at its node and port, under the service
  of its application.\<close>

definition serves :: "db \<Rightarrow> ServiceInstanceCandidate \<Rightarrow> int \<Rightarrow> bool" where
  "serves d c p \<longleftrightarrow> (\<exists>x. inst d (cand_ContainerID c) = Some x \<and> si_IP x = cand_NodeIP c \<and> si_Port x = p \<and>
     si_Healthy x \<and> (\<exists>sv\<in>set (services d). svc_ID sv = si_ServiceID x \<and> svc_ApplicationID sv = cand_ApplicationID c))"

text \<open>
  What the tick relies on: the random identifiers of its next \<open>m\<close> statements do not collide
  with each other or with rows, and
  the names of the services still to be created are free and pairwise different.
\<close>

definition fresh_ids :: "nat \<Rightarrow> world \<Rightarrow> bool" where
  "fresh_ids m w \<longleftrightarrow> inj_on (w_fresh w) {w_stmts w..<w_stmts w + m} \<and> (\<forall>n\<in>{w_stmts w..<w_stmts w + m}.
     w_fresh w n \<notin> svc_ID ` set (services (w_db w)) \<and> w_fresh w n \<notin> si_ID ` set (service_instances (w_db w)))"

definition names_free :: "codec \<Rightarrow> ServiceInstanceCandidate list \<Rightarrow> db \<Rightarrow> bool" where
  "names_free cd cs d \<longleftrightarrow>
     (\<forall>c\<in>set cs. find (\<lambda>x. svc_ApplicationID x = cand_ApplicationID c) (services d) = None \<longrightarrow>
        candidate_dns cd c \<notin> svc_DNSName ` set (services d)) \<and>
     (\<forall>c\<in>set cs. \<forall>c'\<in>set cs. candidate_dns cd c = candidate_dns cd c' \<longrightarrow> cand_ApplicationID c = cand_ApplicationID c')"

definition keys_unique :: "db \<Rightarrow> bool" where
  "keys_unique d \<longleftrightarrow> distinct (map app_ID (applications d)) \<and> distinct (map dep_ID (deployments d)) \<and>
     distinct (map con_ID (containers d))"

lemma find_append: "find P (xs @ ys) = (case find P xs of Some x \<Rightarrow> Some x | None \<Rightarrow> find P ys)"
  by (induction xs) auto

lemma names_freeD:
  assumes "names_free cd cs d" "c \<in> set cs"
  shows "find (\<lambda>x. svc_ApplicationID x = cand_ApplicationID c) (services d) = None \<Longrightarrow>
      candidate_dns cd c \<notin> svc_DNSName ` set (services d)"
    and "c' \<in> set cs \<Longrightarrow> candidate_dns cd c = candidate_dns cd c' \<Longrightarrow> cand_ApplicationID c = cand_ApplicationID c'"
  using assms unfolding names_free_def by blast+

lemma names_free_cong: "services d = services d' \<Longrightarrow> names_free cd cs d = names_free cd cs d'"
  by (simp only: names_free_def)

lemma names_free_extend:
  assumes "names_free cd cs d" "c \<in> set cs"
    and "svc_ApplicationID sv = cand_ApplicationID c" "svc_DNSName sv = candidate_dns cd c"
  shows "names_free cd cs (d\<lparr>services := services d @ [sv]\<rparr>)"
proof -
  have apart: "candidate_dns cd c' \<notin> svc_DNSName ` set (services d @ [sv])"
    if "c' \<in> set cs" "find (\<lambda>x. svc_ApplicationID x = cand_ApplicationID c') (services d @ [sv]) = None" for c'
  proof -
    have "find (\<lambda>x. svc_ApplicationID x = cand_ApplicationID c') (services d) = None"
      "cand_ApplicationID c \<noteq> cand_ApplicationID c'"
      using that(2) assms(3) by (auto simp: find_append split: option.splits if_splits)
    then have "candidate_dns cd c' \<notin> svc_DNSName ` set (services d)" "candidate_dns cd c' \<noteq> candidate_dns cd c"
      using that(1) assms(1,2) names_freeD by metis+
    then show ?thesis using assms(4) by simp
  qed
  show ?thesis unfolding names_free_def
  proof (intro conjI ballI impI)
    fix c1 c2 assume "c1 \<in> set cs" "c2 \<in> set cs" "candidate_dns cd c1 = candidate_dns cd c2"
    then show "cand_ApplicationID c1 = cand_ApplicationID c2" by (rule names_freeD(2) [OF assms(1)])
  qed (use apart in simp)
qed

lemma GetOrCreate_ok:
  assumes "no_faults w" "fresh_ids (Suc m) w" "names_free cd cs (w_db w)" "c \<in> set cs"
    and "list_ex (\<lambda>a. app_ID a = cand_ApplicationID c) (applications (w_db w))"
  shows "\<exists>sv extra. Services_GetOrCreate (cand_ApplicationID c) (candidate_dns cd c) w =
       (Inr sv, (tick w)\<lparr>w_db := (w_db w)\<lparr>services := services (w_db w) @ extra\<rparr>\<rparr>) \<and>
     svc_ApplicationID sv = cand_ApplicationID c \<and> sv \<in> set (services (w_db w) @ extra) \<and>
     names_free cd cs ((w_db w)\<lparr>services := services (w_db w) @ extra\<rparr>) \<and>
     svc_ID ` set extra \<subseteq> {w_fresh w (w_stmts w)}"
proof (cases "find (\<lambda>x. svc_ApplicationID x = cand_ApplicationID c) (services (w_db w))")
  case (Some sv)
  then have "svc_ApplicationID sv = cand_ApplicationID c" "sv \<in> set (services (w_db w))"
    using find_Some_set [OF Some] by auto
  with Some assms show ?thesis
    by (intro exI [of _ sv] exI [of _ "[]"]) (simp add: Services_GetOrCreate_def op_simps no_faultsD)
next
  case None
  let ?sv = "\<lparr>svc_ID = w_fresh w (w_stmts w), svc_ApplicationID = cand_ApplicationID c,
    svc_DNSName = candidate_dns cd c, svc_CreatedAt = w_now w\<rparr>"
  have free: "candidate_dns cd c \<notin> svc_DNSName ` set (services (w_db w))"
    using assms(3,4) None by (rule names_freeD)
  have keys: "list_all (\<lambda>y. svc_ID y \<noteq> w_fresh w (w_stmts w) \<and> svc_DNSName y \<noteq> candidate_dns cd c) (services (w_db w))"
  proof -
    have "w_fresh w (w_stmts w) \<notin> svc_ID ` set (services (w_db w))" using assms(2) by (simp add: fresh_ids_def)
    with free show ?thesis unfolding list_all_iff by (metis image_eqI)
  qed
  have "names_free cd cs ((w_db w)\<lparr>services := services (w_db w) @ [?sv]\<rparr>)"
    using assms(3,4) by (rule names_free_extend) simp_all
  moreover have "Services_GetOrCreate (cand_ApplicationID c) (candidate_dns cd c) w =
      (Inr ?sv, (tick w)\<lparr>w_db := (w_db w)\<lparr>services := services (w_db w) @ [?sv]\<rparr>\<rparr>)"
    unfolding Services_GetOrCreate_def
    by (rule wrapE_ok) (use keys in \<open>simp add: exec_def None no_faultsD [OF assms(1)] check_def assms(5) Let_def\<close>)
  ultimately show ?thesis
    by (intro exI [of _ ?sv] exI [of _ "[?sv]"] conjI) simp_all
qed

lemma find_map_hit:
  "find (\<lambda>y. si_ContainerID y = c) xs = Some old \<Longrightarrow> si_ContainerID x = c \<Longrightarrow>
   find (\<lambda>y. si_ContainerID y = c) (map (\<lambda>y. if si_ContainerID y = c then x else y) xs) = Some x"
  by (induction xs) (auto split: if_splits)

lemma upsert_instance_ok:
  assumes "int4_ok p" "sv \<in> set (services d)" "list_ex (\<lambda>k. con_ID k = c) (containers d)"
    and "u \<notin> si_ID ` set (service_instances d)"
  shows "\<exists>x d'. upsert_instance (svc_ID sv) c ip p s now u d = Inr (x, d') \<and> inst d' c = Some x \<and>
     si_ServiceID x = svc_ID sv \<and> si_IP x = ip \<and> si_Port x = p \<and> si_Healthy x \<and>
     si_ID ` set (service_instances d') \<subseteq> insert u (si_ID ` set (service_instances d))"
proof (cases "find (\<lambda>x. si_ContainerID x = c) (service_instances d)")
  case None
  with assms show ?thesis
    by (auto simp: upsert_instance_def check_def list_all_iff list_ex_iff inst_def find_append Let_def)
next
  case (Some old)
  let ?x = "old\<lparr>si_ServiceID := svc_ID sv, si_IP := ip, si_Port := p, si_Healthy := True, si_LastSeenAt := now\<rparr>"
  have old: "old \<in> set (service_instances d)" "si_ContainerID old = c" using find_Some_set [OF Some] by auto
  then have "find (\<lambda>y. si_ContainerID y = c) (map (\<lambda>y. if si_ContainerID y = c then ?x else y) (service_instances d)) = Some ?x"
    by (intro find_map_hit [OF Some]) simp
  moreover have "si_ID ` set (map (\<lambda>y. if si_ContainerID y = c then ?x else y) (service_instances d))
      \<subseteq> insert u (si_ID ` set (service_instances d))" using old by auto
  ultimately show ?thesis using Some assms
    by (auto simp: upsert_instance_def check_def list_ex_iff inst_def Let_def)
qed

lemma publishUpdated_frame [simp]:
  "fst (publishUpdated cd c w) = Inr ()"
  "w_db (snd (publishUpdated cd c w)) = w_db w" "w_fresh (snd (publishUpdated cd c w)) = w_fresh w"
  "w_stmts (snd (publishUpdated cd c w)) = w_stmts w" "w_fault (snd (publishUpdated cd c w)) = w_fault w"
  "w_sess (snd (publishUpdated cd c w)) = w_sess w"
  by (simp_all add: publishUpdated_def logged_eq Publish_def)

lemma fresh_ids_advance:
  assumes "fresh_ids (k + m) w" "w_fresh w' = w_fresh w" "w_stmts w' = w_stmts w + k"
    and "svc_ID ` set (services (w_db w')) \<subseteq> svc_ID ` set (services (w_db w)) \<union> w_fresh w ` {w_stmts w..<w_stmts w + k}"
    and "si_ID ` set (service_instances (w_db w')) \<subseteq>
      si_ID ` set (service_instances (w_db w)) \<union> w_fresh w ` {w_stmts w..<w_stmts w + k}"
  shows "fresh_ids m w'"
proof -
  have new: "w_fresh w n \<notin> w_fresh w ` {w_stmts w..<w_stmts w + k}" if "n \<in> {w_stmts w + k..<w_stmts w + k + m}" for n
    using assms(1) that by (auto simp: fresh_ids_def dest!: inj_onD)
  show ?thesis unfolding fresh_ids_def assms(2,3)
  proof (intro conjI ballI)
    show "inj_on (w_fresh w) {w_stmts w + k..<w_stmts w + k + m}"
      using assms(1) by (auto simp: fresh_ids_def intro: inj_on_subset)
    fix n assume n: "n \<in> {w_stmts w + k..<w_stmts w + k + m}"
    with assms(1) have "w_fresh w n \<notin> svc_ID ` set (services (w_db w))"
      "w_fresh w n \<notin> si_ID ` set (service_instances (w_db w))" by (simp_all add: fresh_ids_def)
    with new [OF n] assms(4,5) show "w_fresh w n \<notin> svc_ID ` set (services (w_db w'))"
      "w_fresh w n \<notin> si_ID ` set (service_instances (w_db w'))" by blast+
  qed
qed

definition grows :: "db \<Rightarrow> db \<Rightarrow> uuid set \<Rightarrow> bool" where
  "grows d d' cs \<longleftrightarrow> d' = d\<lparr>services := services d', service_instances := service_instances d'\<rparr> \<and>
     set (services d) \<subseteq> set (services d') \<and> (\<forall>c. c \<notin> cs \<longrightarrow> inst d' c = inst d c)"

lemma grows_refl: "grows d d cs"
  by (simp add: grows_def)

lemma grows_trans: "grows d d1 a \<Longrightarrow> grows d1 d2 b \<Longrightarrow> grows d d2 (a \<union> b)"
  unfolding grows_def by (cases d; cases d1; cases d2) auto

lemma grows_serves: "grows d d' cs \<Longrightarrow> cand_ContainerID c \<notin> cs \<Longrightarrow> serves d c p \<Longrightarrow> serves d' c p"
  unfolding grows_def serves_def by (metis subsetD)

lemma grows_tables: "grows d d' cs \<Longrightarrow> applications d' = applications d \<and> containers d' = containers d"
  unfolding grows_def by (cases d; cases d') auto

text \<open>The world in which the loop over the candidates runs.\<close>

definition loop_ready :: "codec \<Rightarrow> ServiceInstanceCandidate list \<Rightarrow> nat \<Rightarrow> world \<Rightarrow> bool" where
  "loop_ready cd cs m w \<longleftrightarrow> no_faults w \<and> fresh_ids m w \<and> names_free cd cs (w_db w)"

lemma loop_ready_less: "loop_ready cd cs k w \<Longrightarrow> m \<le> k \<Longrightarrow> loop_ready cd cs m w"
  by (auto simp: loop_ready_def fresh_ids_def intro: inj_on_subset)

lemma reconcileCandidate_serves:
  assumes "loop_ready cd cs (2 + m) w" "c \<in> set cs" "portFor cd ports (cand_ContainerID c) = Some p" "int4_ok p"
    and "list_ex (\<lambda>a. app_ID a = cand_ApplicationID c) (applications (w_db w))"
    and "list_ex (\<lambda>k. con_ID k = cand_ContainerID c) (containers (w_db w))"
  shows "\<exists>w'. reconcileCandidate cd ports c w = (Inr (), w') \<and> loop_ready cd cs m w' \<and> serves (w_db w') c p \<and>
     grows (w_db w) (w_db w') {cand_ContainerID c} \<and> w_sess w' = w_sess w"
proof -
  from assms(1) have calm: "no_faults w" and fr: "fresh_ids (2 + m) w" and nf: "names_free cd cs (w_db w)"
    by (simp_all add: loop_ready_def)
  let ?c = "cand_ContainerID c"
  obtain sv extra where g: "Services_GetOrCreate (cand_ApplicationID c) (candidate_dns cd c) w =
       (Inr sv, (tick w)\<lparr>w_db := (w_db w)\<lparr>services := services (w_db w) @ extra\<rparr>\<rparr>)"
    and sv: "svc_ApplicationID sv = cand_ApplicationID c" "sv \<in> set (services (w_db w) @ extra)"
    and nf': "names_free cd cs ((w_db w)\<lparr>services := services (w_db w) @ extra\<rparr>)"
    and ex: "svc_ID ` set extra \<subseteq> {w_fresh w (w_stmts w)}"
    using GetOrCreate_ok [OF calm _ nf assms(2,5), of "Suc m"] fr by auto
  define d1 where "d1 = (w_db w)\<lparr>services := services (w_db w) @ extra\<rparr>"
  define w1 where "w1 = (tick w)\<lparr>w_db := d1\<rparr>"
  have pre: "sv \<in> set (services d1)" "list_ex (\<lambda>k. con_ID k = ?c) (containers d1)"
    "w_fresh w1 (w_stmts w1) \<notin> si_ID ` set (service_instances d1)"
    using sv(2) assms(6) fr by (simp_all add: d1_def w1_def fresh_ids_def)
  obtain x d2 where up: "upsert_instance (svc_ID sv) ?c (cand_NodeIP c) p (w_sess w1) (w_now w1)
        (w_fresh w1 (w_stmts w1)) d1 = Inr (x, d2)"
    and x: "inst d2 ?c = Some x" "si_ServiceID x = svc_ID sv" "si_IP x = cand_NodeIP c" "si_Port x = p" "si_Healthy x"
    and ids: "si_ID ` set (service_instances d2) \<subseteq> insert (w_fresh w1 (w_stmts w1)) (si_ID ` set (service_instances d1))"
    using upsert_instance_ok [OF assms(4) pre, where ip = "cand_NodeIP c" and s = "w_sess w1" and now = "w_now w1"]
    by (elim exE conjE) (rule that)
  have eq2: "d2 = d1\<lparr>service_instances := service_instances d2\<rparr>"
    and other: "\<And>c'. c' \<noteq> ?c \<Longrightarrow> inst d2 c' = inst d1 c'"
    using upsert_instance_frame [OF up] by blast+
  have d2: "services d2 = services (w_db w) @ extra" "containers d2 = containers (w_db w)"
    using arg_cong [OF eq2, of services] arg_cong [OF eq2, of containers] by (simp_all add: d1_def)
  have d1_same: "service_instances d1 = service_instances (w_db w)" by (simp add: d1_def)
  define w2 where "w2 = (tick w1)\<lparr>w_db := d2\<rparr>"
  define w3 where "w3 = snd (publishUpdated cd ?c w2)"
  have run: "reconcileCandidate cd ports c w = (Inr (), w3)"
  proof -
    have "Instances_Upsert (svc_ID sv) ?c (cand_NodeIP c) p w1 = (Inr x, w2)"
      using up calm by (simp add: Instances_Upsert_def op_simps no_faultsD w2_def w1_def no_faults_def)
    then show ?thesis using g assms(3)
      by (simp add: reconcileCandidate_def logged_eq bindE_def w1_def d1_def w3_def split: prod.splits)
  qed
  have w3: "w_db w3 = d2" "w_fresh w3 = w_fresh w" "w_stmts w3 = w_stmts w + 2" "w_fault w3 = w_fault w" "w_sess w3 = w_sess w"
    by (simp_all add: w3_def w2_def w1_def)
  have "fresh_ids m w3"
  proof (rule fresh_ids_advance [OF fr w3(2,3)])
    show "svc_ID ` set (services (w_db w3)) \<subseteq> svc_ID ` set (services (w_db w)) \<union> w_fresh w ` {w_stmts w..<w_stmts w + 2}"
    proof -
      have "w_fresh w (w_stmts w) \<in> w_fresh w ` {w_stmts w..<w_stmts w + 2}" by simp
      with ex show ?thesis unfolding w3(1) d2 by auto
    qed
    show "si_ID ` set (service_instances (w_db w3)) \<subseteq>
        si_ID ` set (service_instances (w_db w)) \<union> w_fresh w ` {w_stmts w..<w_stmts w + 2}"
    proof -
      have "w_fresh w1 (w_stmts w1) \<in> w_fresh w ` {w_stmts w..<w_stmts w + 2}"
        by (rule image_eqI [of _ _ "Suc (w_stmts w)"]) (simp_all add: w1_def)
      then show ?thesis unfolding w3(1)
        by (intro subset_trans [OF ids [unfolded d1_same]] insert_subsetI Un_upper1 UnI2)
    qed
  qed
  moreover have "names_free cd cs d2" using nf' names_free_cong [of d2 "(w_db w)\<lparr>services := services (w_db w) @ extra\<rparr>"] d2(1)
    by simp
  moreover have "serves d2 c p" using x sv d2 by (auto simp: serves_def)
  moreover have "grows (w_db w) d2 {?c}" unfolding grows_def
    using eq2 other by (simp add: d2 inst_def) (simp add: d1_def)
  ultimately show ?thesis using run w3 calm by (auto simp: loop_ready_def no_faults_def)
qed

lemma load_serves:
  assumes "loop_ready cd cs (2 * length xs + m) w" "set xs \<subseteq> set cs" "distinct (map cand_ContainerID xs)"
    and "\<And>c p. c \<in> set xs \<Longrightarrow> portFor cd ports (cand_ContainerID c) = Some p \<Longrightarrow> int4_ok p"
    and "\<And>c. c \<in> set xs \<Longrightarrow> list_ex (\<lambda>a. app_ID a = cand_ApplicationID c) (applications (w_db w)) \<and>
           list_ex (\<lambda>k. con_ID k = cand_ContainerID c) (containers (w_db w))"
  shows "\<exists>w'. foreach (reconcileCandidate cd ports) xs w = (Inr (), w') \<and> loop_ready cd cs m w' \<and>
     grows (w_db w) (w_db w') (cand_ContainerID ` set xs) \<and> w_sess w' = w_sess w \<and>
     (\<forall>c\<in>set xs. \<forall>p. portFor cd ports (cand_ContainerID c) = Some p \<longrightarrow> serves (w_db w') c p)"
  using assms
proof (induction xs arbitrary: w)
  case Nil
  then show ?case by (simp add: ret_def grows_refl)
next
  case (Cons c xs)
  have "\<exists>w1. reconcileCandidate cd ports c w = (Inr (), w1) \<and> loop_ready cd cs (2 * length xs + m) w1 \<and> w_sess w1 = w_sess w \<and>
     grows (w_db w) (w_db w1) {cand_ContainerID c} \<and>
     (\<forall>p. portFor cd ports (cand_ContainerID c) = Some p \<longrightarrow> serves (w_db w1) c p)"
  proof (cases "portFor cd ports (cand_ContainerID c)")
    case None
    with loop_ready_less [OF Cons.prems(1), of "2 * length xs + m"] show ?thesis
      by (simp add: reconcileCandidate_def ret_def grows_refl)
  next
    case (Some p)
    with Cons.prems reconcileCandidate_serves [of cd cs "2 * length xs + m" w c ports p] show ?thesis by auto
  qed
  then obtain w1 where w1: "reconcileCandidate cd ports c w = (Inr (), w1)" "loop_ready cd cs (2 * length xs + m) w1" "w_sess w1 = w_sess w"
    "grows (w_db w) (w_db w1) {cand_ContainerID c}"
    "\<And>p. portFor cd ports (cand_ContainerID c) = Some p \<Longrightarrow> serves (w_db w1) c p" by blast
  have "\<exists>w'. foreach (reconcileCandidate cd ports) xs w1 = (Inr (), w') \<and> loop_ready cd cs m w' \<and>
     grows (w_db w1) (w_db w') (cand_ContainerID ` set xs) \<and> w_sess w' = w_sess w1 \<and>
     (\<forall>c\<in>set xs. \<forall>p. portFor cd ports (cand_ContainerID c) = Some p \<longrightarrow> serves (w_db w') c p)"
    using Cons.prems grows_tables [OF w1(4)] by (intro Cons.IH w1(2)) auto
  then obtain w' where w': "foreach (reconcileCandidate cd ports) xs w1 = (Inr (), w')" "loop_ready cd cs m w'"
    "grows (w_db w1) (w_db w') (cand_ContainerID ` set xs)" "w_sess w' = w_sess w1"
    "\<forall>c\<in>set xs. \<forall>p. portFor cd ports (cand_ContainerID c) = Some p \<longrightarrow> serves (w_db w') c p" by blast
  have "cand_ContainerID c \<notin> cand_ContainerID ` set xs" using Cons.prems(3) by simp
  with grows_serves [OF w'(3)] w1(5)
  have "\<And>p. portFor cd ports (cand_ContainerID c) = Some p \<Longrightarrow> serves (w_db w') c p" by blast
  with w1 w' grows_trans [OF w1(4) w'(3)] show ?case by (auto simp: bindE_def)
qed

lemma removeOrphans_run:
  "no_faults w \<Longrightarrow> \<exists>ports' w'. removeOrphans cd ports cs w = (Inr ports', w') \<and> no_faults w' \<and>
     w_db w' = (w_db w)\<lparr>service_instances := filter (\<lambda>x. si_ContainerID x \<notin> set cs) (service_instances (w_db w))\<rparr>"
proof (induction cs arbitrary: ports w)
  case (Cons c cs)
  let ?d = "(w_db w)\<lparr>service_instances := filter (\<lambda>x. si_ContainerID x \<noteq> c) (service_instances (w_db w))\<rparr>"
  let ?step = "catchE (bindE (Instances_DeleteByContainer c) (\<lambda>_. bindE (publishUpdated cd c) (\<lambda>_.
      ret (ports(UUID_String cd c := None))))) (\<lambda>_. ret ports)"
  have "\<exists>p w1. ?step w = (Inr p, w1) \<and> no_faults w1 \<and> w_db w1 = ?d"
  proof (cases "Instances_DeleteByContainer c w")
    case (Pair r w1)
    have w1: "w1 = (tick w)\<lparr>w_db := ?d\<rparr>"
      using Pair Cons.prems
      by (auto simp: Instances_DeleteByContainer_def execRows_def bindE_def wrapE_def mapErr_def catchE_def exec_def
          no_faultsD ret_def throw_def split: if_splits)
    obtain w2 where w2: "publishUpdated cd c w1 = (Inr (), w2)" "w_db w2 = w_db w1" "w_fault w2 = w_fault w1"
      using publishUpdated_frame [of cd c w1] by (metis prod.collapse)
    have "no_faults w1" "no_faults w2" using Cons.prems w1 w2 by (simp_all add: no_faults_def)
    with Pair w1 w2 show ?thesis by (cases r) (simp_all add: catchE_def bindE_def ret_def)
  qed
  then obtain p w1 where s: "?step w = (Inr p, w1)" "no_faults w1" "w_db w1 = ?d" by blast
  from Cons.IH [OF s(2)] s show ?case by (auto simp: bindE_def conj_commute intro!: filter_cong)
qed (simp add: ret_def)

lemma candidates_of_cases:
  assumes "c \<in> set (candidates_of s d a)"
  obtains x k where "x \<in> set (deployments d)" "dep_ApplicationID x = app_ID a" "k \<in> set (containers d)"
    "con_DeploymentID k = dep_ID x" "con_ID k = cand_ContainerID c" "con_Status k = ContainerStatusRunning"
    "cand_ApplicationID c = app_ID a"
proof -
  have latest: "x \<in> set (deployments d) \<and> dep_ApplicationID x = app_ID a" if "active_deployment s d a = Some x" for x
  proof -
    from that have "x \<in> set (newest_revision_first (visible_deployments s d (app_ID a)))"
      by (auto simp: active_deployment_def latest_of_def split: option.splits if_splits list.splits)
    then show ?thesis by (auto simp: newest_revision_first_def visible_deployments_def)
  qed
  from assms that show thesis
    by (auto simp: candidates_of_def List.map_filter_def split: option.splits prod.splits) (metis latest)
qed

lemma distinct_candidates:
  assumes "keys_unique d"
  shows "distinct (map cand_ContainerID (running_candidates s d))"
proof -
  have one: "distinct (map cand_ContainerID (candidates_of s d a))" for a
  proof -
    show ?thesis using assms unfolding candidates_of_def keys_unique_def
      by (auto intro!: distinct_map_filter_keys [where h = con_ID] distinct_map_filterI split: option.splits)
  qed
  have apart: "cand_ContainerID c \<noteq> cand_ContainerID c'"
    if "c \<in> set (candidates_of s d a)" "c' \<in> set (candidates_of s d a')" "app_ID a \<noteq> app_ID a'" for a a' c c'
    using assms that unfolding keys_unique_def
    by (elim candidates_of_cases) (metis distinct_map inj_onD)
  have "distinct (map cand_ContainerID (concat (map (candidates_of s d) as)))" if "distinct (map app_ID as)" for as
    using that
  proof (induction as)
    case (Cons a as)
    have "cand_ContainerID c \<noteq> cand_ContainerID c'"
      if "c \<in> set (candidates_of s d a)" "a' \<in> set as" "c' \<in> set (candidates_of s d a')" for c c' a'
      using apart [OF that(1,3)] Cons.prems that(2) by force
    then have "cand_ContainerID ` set (candidates_of s d a) \<inter>
        cand_ContainerID ` set (concat (map (candidates_of s d) as)) = {}" by auto
    with Cons one show ?case by (simp del: map_map map_concat set_concat add: set_map [symmetric] del: set_map)
  qed simp
  with assms show ?thesis unfolding running_candidates_def keys_unique_def by (simp add: distinct_map_filterI)
qed

lemma ListRunningCandidates_ok:
  "no_faults w \<Longrightarrow> ServiceReconcile_ListRunningCandidates w = (Inr (running_candidates (w_sess w) (w_db w)), ticks 1 w)"
  by (simp add: ServiceReconcile_ListRunningCandidates_def running_candidates_def wrapE_Inr query_ok)

lemma ListOrphanedInstances_ok:
  "no_faults w \<Longrightarrow> ServiceReconcile_ListOrphanedInstances w =
     (Inr (map si_ContainerID (filter (orphaned (w_db w)) (service_instances (w_db w)))), ticks 1 w)"
  by (simp add: ServiceReconcile_ListOrphanedInstances_def wrapE_Inr query_ok)

lemma candidate_rows:
  assumes "c \<in> set (running_candidates s d)"
  shows "list_ex (\<lambda>a. app_ID a = cand_ApplicationID c) (applications d)"
    and "\<exists>k\<in>set (containers d). con_ID k = cand_ContainerID c \<and> con_Status k = ContainerStatusRunning"
proof -
  obtain a where "a \<in> set (applications d)" and c: "c \<in> set (candidates_of s d a)"
    using assms by (auto simp: running_candidates_def)
  with c show "list_ex (\<lambda>a. app_ID a = cand_ApplicationID c) (applications d)"
    "\<exists>k\<in>set (containers d). con_ID k = cand_ContainerID c \<and> con_Status k = ContainerStatusRunning"
    by (auto simp: list_ex_iff elim!: candidates_of_cases)
qed

text \<open>A running container's instance is not an orphan, so removing orphans keeps it.\<close>

lemma candidate_kept:
  assumes "distinct (map con_ID (containers d))" "k \<in> set (containers d)" "con_ID k = cand_ContainerID c"
    "con_Status k = ContainerStatusRunning" "serves d c p"
  shows "serves (d\<lparr>service_instances := filter (\<lambda>x. \<not> orphaned d x) (service_instances d)\<rparr>) c p"
proof -
  have running: "\<not> orphaned d x" if "si_ContainerID x = cand_ContainerID c" for x
    using assms(1-4) that by (auto simp: orphaned_def list_ex_iff distinct_map) (metis inj_onD)
  have "find (\<lambda>x. si_ContainerID x = cand_ContainerID c) (filter (\<lambda>x. \<not> orphaned d x) (service_instances d)) =
      find (\<lambda>x. si_ContainerID x = cand_ContainerID c) (service_instances d)"
    using running by (rule find_filter_other)
  with assms(5) show ?thesis by (simp add: serves_def inst_def)
qed

lemma orphans_listed:
  "filter (\<lambda>x. si_ContainerID x \<notin> set (map si_ContainerID (filter (orphaned d) xs))) xs = filter (\<lambda>x. \<not> orphaned d x) xs"
  by (rule filter_cong) (auto simp: orphaned_def)


definition demo_running :: db where
  "demo_running = empty_db\<lparr>
     projects := [\<lparr>proj_ID = 4, proj_OrgID = 5, proj_Name = ''Shop'', proj_Slug = ''shop'', proj_CreatedAt = 0\<rparr>],
     applications := [\<lparr>app_ID = 6, app_OrgID = 5, app_ProjectID = 4, app_Name = ''Web'', app_Image = ''nginx'',
       app_ReplicasDesired = 1, app_CPUMillicores = 0, app_MemoryMB = 0, app_Ports = [], app_HealthCheckPath = None,
       app_CreatedAt = 0, app_UpdatedAt = 0\<rparr>],
     deployments := [\<lparr>dep_ID = 7, dep_OrgID = 5, dep_ApplicationID = 6, dep_Image = ''nginx'', dep_Revision = 1,
       dep_Status = DeploymentStatusPending, dep_Strategy = ''recreate'', dep_WorkerContainerID = None, dep_CreatedBy = 1,
       dep_CreatedAt = 0, dep_CompletedAt = None\<rparr>],
     nodes := [\<lparr>node_ID = 3, node_Hostname = ''n'', node_IP = ''10.0.0.3'', node_CPUCapacityMillicores = 1,
       node_MemoryCapacityMB = 1, node_Status = NodeStatusHealthy, node_LastHeartbeatAt = 0, node_Labels = [],
       node_CreatedAt = 0\<rparr>],
     containers := [(new_container 9 7 3)\<lparr>con_Status := ContainerStatusRunning\<rparr>]\<rparr>"

definition demo_candidate :: ServiceInstanceCandidate where
  "demo_candidate = \<lparr>cand_ApplicationID = 6, cand_ProjectSlug = ''shop'', cand_ApplicationName = ''Web'',
     cand_ContainerID = 9, cand_NodeIP = ''10.0.0.3''\<rparr>"

definition demo_ports :: ports where
  "demo_ports = Map.empty(UUID_String unary 9 \<mapsto> 8080)"

lemma demo_candidates: "running_candidates (w_sess (admin_calm 0 demo_running)) demo_running = [demo_candidate]"
  by (simp add: running_candidates_def candidates_of_def active_deployment_def latest_of_def newest_revision_first_def
      visible_deployments_def deployment_visible_def org_visible_def dead_ended_def List.map_filter_def admin_calm_def
      demo_running_def demo_candidate_def empty_db_def new_container_def)



end
