(* ===== verification/Registry.thy ===== *)
theory Registry
  imports GoText "HOL-Library.AList"
begin

section \<open>The load balancer's registry, strategy, proxy and health checker\<close>

text \<open>
  \<^verbatim>\<open>services/loadbalancer/internal/{strategy,registry,proxy,healthcheck,tls}\<close>. The
  registry is a record with the struct's fields; every method runs under the registry's mutex,
  so an execution is a sequence of whole operations in some order. A Go map is an association
  list with distinct keys whose order stands for the iteration order of that execution; instants
  (\<open>time.Now()\<close>) are arguments. The balancing strategy is an interface of the code: here a
  parameter of \<open>Next\<close>, with its contract as the locale \<open>balancing_strategy\<close>, which the
  round-robin strategy is proved to satisfy.
\<close>

subsection \<open>Round robin\<close>

type_synonym rr_state = "string \<Rightarrow> nat"

definition NewRoundRobin :: rr_state where
  "NewRoundRobin = (\<lambda>_. 0)"

definition rr_Next :: "rr_state \<Rightarrow> string \<Rightarrow> nat \<Rightarrow> nat \<times> rr_state" where
  "rr_Next counters key n =
     (let i = counters key mod n in (i, counters(key := (i + 1) mod n)))"

text \<open>Repeated calls for one key with an unchanged number of instances.\<close>

fun rr_calls :: "rr_state \<Rightarrow> string \<Rightarrow> nat \<Rightarrow> nat \<Rightarrow> nat list \<times> rr_state" where
  "rr_calls c key n 0 = ([], c)"
| "rr_calls c key n (Suc m) =
     (let (i, c') = rr_Next c key n; (is, c'') = rr_calls c' key n m in (i # is, c''))"

lemma rr_calls_eq:
  assumes "0 < n"
  shows "fst (rr_calls c key n m) = map (\<lambda>j. (c key + j) mod n) [0..<m] \<and>
         snd (rr_calls c key n m) key mod n = (c key + m) mod n \<and>
         (\<forall>k. k \<noteq> key \<longrightarrow> snd (rr_calls c key n m) k = c k)"
proof (induction m arbitrary: c)
  case (Suc m)
  let ?i = "c key mod n"
  let ?c = "c(key := (?i + 1) mod n)"
  have next_: "rr_Next c key n = (?i, ?c)" by (simp add: rr_Next_def Let_def)
  have shift: "(?c key + j) mod n = (c key + Suc j) mod n" for j
  proof -
    have "((?i + 1) mod n + j) mod n = (?i + 1 + j) mod n" by (rule mod_add_left_eq)
    also have "\<dots> = (c key + (1 + j)) mod n" unfolding add.assoc by (rule mod_add_left_eq)
    finally show ?thesis by simp
  qed
  have upt: "[0..<Suc m] = 0 # map Suc [0..<m]" by (simp add: map_Suc_upt upt_conv_Cons del: upt_Suc)
  have fst_: "fst (rr_calls c key n (Suc m)) = ?i # fst (rr_calls ?c key n m)"
    and snd_: "snd (rr_calls c key n (Suc m)) = snd (rr_calls ?c key n m)"
    by (simp_all add: next_ split_def Let_def)
  have "fst (rr_calls c key n (Suc m)) = map (\<lambda>j. (c key + j) mod n) [0..<Suc m]"
    unfolding fst_ upt using Suc [of ?c] by (simp only: list.map map_map o_def shift) simp
  moreover have "snd (rr_calls c key n (Suc m)) key mod n = (c key + Suc m) mod n"
    unfolding snd_ using Suc [of ?c] shift [of m] by argo
  moreover have "\<forall>k. k \<noteq> key \<longrightarrow> snd (rr_calls c key n (Suc m)) k = c k"
    unfolding snd_ using Suc [of ?c] by (metis fun_upd_other)
  ultimately show ?case by blast
qed simp

subsection \<open>The registry\<close>

record Instance =
  inst_id :: uuid
  inst_ip :: string
  inst_port :: int

type_synonym dns_table = "(string \<times> Instance list) list"

record 's registry =
  byDNS :: dns_table
  strategy :: 's
  lastSeen :: "(uuid \<times> time) list"
  unhealthyUntil :: "(uuid \<times> time) list"
  hostRoutes :: "string \<rightharpoonup> string"

definition NewRegistry :: "'s \<Rightarrow> 's registry" where
  "NewRegistry strat =
     \<lparr>byDNS = [], strategy = strat, lastSeen = [], unhealthyUntil = [], hostRoutes = Map.empty\<rparr>"

definition dns_list :: "dns_table \<Rightarrow> string \<Rightarrow> Instance list" where
  "dns_list m d = (case map_of m d of None \<Rightarrow> [] | Some l \<Rightarrow> l)"

definition ReplaceAll :: "time \<Rightarrow> dns_table \<Rightarrow> 's registry \<Rightarrow> 's registry" where
  "ReplaceAll now m r =
     (let seen = fold (\<lambda>(d, list) seen. fold (\<lambda>inst. AList.update (inst_id inst) now) list seen) m []
      in r\<lparr>byDNS := m, lastSeen := seen,
           unhealthyUntil := filter (\<lambda>(id, _). map_of seen id \<noteq> None) (unhealthyUntil r)\<rparr>)"

definition ReplaceHostRoutes :: "(string \<rightharpoonup> string) \<Rightarrow> 's registry \<Rightarrow> 's registry" where
  "ReplaceHostRoutes routes r = r\<lparr>hostRoutes := routes\<rparr>"

definition ResolveHost :: "'s registry \<Rightarrow> string \<Rightarrow> string option" where
  "ResolveHost r host = hostRoutes r host"

text \<open>The search loop of \<open>Upsert\<close>: the first entry with the same container id is overwritten.\<close>

fun overwrite :: "Instance \<Rightarrow> Instance list \<Rightarrow> Instance list option" where
  "overwrite inst [] = None"
| "overwrite inst (existing # list) =
     (if inst_id existing = inst_id inst then Some (inst # list)
      else map_option (\<lambda>l. existing # l) (overwrite inst list))"

definition Upsert :: "time \<Rightarrow> string \<Rightarrow> Instance \<Rightarrow> 's registry \<Rightarrow> 's registry" where
  "Upsert now dnsName inst r =
     (let list = dns_list (byDNS r) dnsName in
      case overwrite inst list of
        Some list' \<Rightarrow>
          r\<lparr>byDNS := AList.update dnsName list' (byDNS r),
            lastSeen := AList.update (inst_id inst) now (lastSeen r)\<rparr>
      | None \<Rightarrow>
          r\<lparr>byDNS := AList.update dnsName (list @ [inst]) (byDNS r),
            lastSeen := AList.update (inst_id inst) now (lastSeen r)\<rparr>)"

fun cut_out :: "uuid \<Rightarrow> Instance list \<Rightarrow> Instance list option" where
  "cut_out cid [] = None"
| "cut_out cid (inst # list) =
     (if inst_id inst = cid then Some list else map_option (\<lambda>l. inst # l) (cut_out cid list))"

fun cut_out_first :: "uuid \<Rightarrow> dns_table \<Rightarrow> dns_table option" where
  "cut_out_first cid [] = None"
| "cut_out_first cid ((d, list) # m) =
     (case cut_out cid list of
        Some list' \<Rightarrow> Some ((d, list') # m)
      | None \<Rightarrow> map_option (\<lambda>m'. (d, list) # m') (cut_out_first cid m))"

definition removeLocked :: "uuid \<Rightarrow> 's registry \<Rightarrow> 's registry" where
  "removeLocked cid r =
     (case cut_out_first cid (byDNS r) of
        Some m \<Rightarrow>
          r\<lparr>byDNS := m, lastSeen := AList.delete cid (lastSeen r),
            unhealthyUntil := AList.delete cid (unhealthyUntil r)\<rparr>
      | None \<Rightarrow> r)"

definition Remove :: "uuid \<Rightarrow> 's registry \<Rightarrow> 's registry" where
  "Remove cid r = removeLocked cid r"

definition MarkUnhealthy :: "time \<Rightarrow> uuid \<Rightarrow> duration \<Rightarrow> 's registry \<Rightarrow> 's registry" where
  "MarkUnhealthy now cid dur r =
     r\<lparr>unhealthyUntil := AList.update cid (now + dur) (unhealthyUntil r)\<rparr>"

definition MarkHealthy :: "uuid \<Rightarrow> 's registry \<Rightarrow> 's registry" where
  "MarkHealthy cid r = r\<lparr>unhealthyUntil := AList.delete cid (unhealthyUntil r)\<rparr>"

definition ejected :: "time \<Rightarrow> 's registry \<Rightarrow> uuid \<Rightarrow> bool" where
  "ejected now r cid = (case map_of (unhealthyUntil r) cid of Some until \<Rightarrow> until > now | None \<Rightarrow> False)"

definition available :: "time \<Rightarrow> 's registry \<Rightarrow> string \<Rightarrow> Instance list" where
  "available now r dnsName = filter (\<lambda>inst. \<not> ejected now r (inst_id inst)) (dns_list (byDNS r) dnsName)"

definition Next ::
  "('s \<Rightarrow> string \<Rightarrow> nat \<Rightarrow> nat \<times> 's) \<Rightarrow> time \<Rightarrow> string \<Rightarrow> 's registry \<Rightarrow> Instance option \<times> 's registry"
where
  "Next snext now dnsName r =
     (if dns_list (byDNS r) dnsName = [] then (None, r)
      else (let av = available now r dnsName in
            if av = [] then (None, r)
            else (let (i, strat) = snext (strategy r) dnsName (length av)
                  in (Some (av ! i), r\<lparr>strategy := strat\<rparr>))))"

definition All :: "'s registry \<Rightarrow> Instance list" where
  "All r = concat (map snd (byDNS r))"

definition Sweep :: "time \<Rightarrow> duration \<Rightarrow> 's registry \<Rightarrow> 's registry" where
  "Sweep now ttl r =
     (let cutoff = now - ttl;
          stale = map fst (filter (\<lambda>(_, seen). seen < cutoff) (lastSeen r))
      in fold removeLocked stale r)"

subsection \<open>Well-formed registries\<close>

text \<open>
  \<open>entries\<close> lists the registered pairs of service name and instance. A container belongs to one
  application and so to one service for its whole life (\<open>own\<close> gives its name): the invariant is
  relative to that assignment, which the events and resyncs that reach the load balancer respect
  because \<open>service_instances.container_id\<close> is unique and a service's name never changes.
\<close>

definition entries_of :: "dns_table \<Rightarrow> (string \<times> Instance) list" where
  "entries_of m = concat (map (\<lambda>(d, list). map (Pair d) list) m)"

definition ids_of :: "dns_table \<Rightarrow> uuid list" where
  "ids_of m = map (inst_id \<circ> snd) (entries_of m)"

definition table_ok :: "(uuid \<Rightarrow> string) \<Rightarrow> dns_table \<Rightarrow> bool" where
  "table_ok own m \<longleftrightarrow> distinct (map fst m) \<and> distinct (ids_of m) \<and>
     list_all (\<lambda>(d, inst). own (inst_id inst) = d) (entries_of m)"

definition reg_inv :: "(uuid \<Rightarrow> string) \<Rightarrow> 's registry \<Rightarrow> bool" where
  "reg_inv own r \<longleftrightarrow> table_ok own (byDNS r) \<and> distinct (map fst (lastSeen r)) \<and>
     set (map fst (lastSeen r)) = set (ids_of (byDNS r))"

text \<open>What the registry means to its clients: where each container can be reached.\<close>

definition routes_to :: "'s registry \<Rightarrow> uuid \<rightharpoonup> string \<times> Instance" where
  "routes_to r = map_of (map (\<lambda>(d, inst). (inst_id inst, (d, inst))) (entries_of (byDNS r)))"

lemma entries_of_simps [simp]:
  "entries_of [] = []"
  "entries_of ((d, l) # m) = map (Pair d) l @ entries_of m"
  "entries_of (m @ m') = entries_of m @ entries_of m'"
  by (simp_all add: entries_of_def)

lemma ids_of_simps [simp]:
  "ids_of [] = []"
  "ids_of ((d, l) # m) = map inst_id l @ ids_of m"
  "ids_of (m @ m') = ids_of m @ ids_of m'"
  by (simp_all add: ids_of_def)

lemma in_entries_of: "(d, inst) \<in> set (entries_of m) \<longleftrightarrow> (\<exists>l. (d, l) \<in> set m \<and> inst \<in> set l)"
  by (auto simp: entries_of_def)

lemma keys_update: "set (map fst (AList.update d v m)) = insert d (set (map fst m))"
  by (induction m) auto

lemma update_split:
  assumes "distinct (map fst m)"
  shows "(\<exists>xs l ys. m = xs @ (d, l) # ys \<and> AList.update d v m = xs @ (d, v) # ys \<and> dns_list m d = l)
       \<or> (AList.update d v m = m @ [(d, v)] \<and> dns_list m d = [])"
  using assms
proof (induction m)
  case (Cons p m)
  show ?case
  proof (cases "fst p = d")
    case True
    then have "p # m = [] @ (d, snd p) # m \<and> AList.update d v (p # m) = [] @ (d, v) # m \<and>
        dns_list (p # m) d = snd p"
      by (cases p) (simp add: dns_list_def)
    then show ?thesis by blast
  next
    case False
    then have dl: "dns_list (p # m) d = dns_list m d" and up: "AList.update d v (p # m) = p # AList.update d v m"
      by (cases p; simp add: dns_list_def)+
    from Cons have "(\<exists>xs l ys. m = xs @ (d, l) # ys \<and> AList.update d v m = xs @ (d, v) # ys \<and> dns_list m d = l)
       \<or> (AList.update d v m = m @ [(d, v)] \<and> dns_list m d = [])" by simp
    then show ?thesis
    proof (elim disjE exE conjE)
      fix xs l ys
      assume "m = xs @ (d, l) # ys" "AList.update d v m = xs @ (d, v) # ys" "dns_list m d = l"
      then have "p # m = (p # xs) @ (d, l) # ys \<and> AList.update d v (p # m) = (p # xs) @ (d, v) # ys \<and>
          dns_list (p # m) d = l"
        using dl up by (simp only: append_Cons)
      then show ?thesis by blast
    qed (metis dl up append_Cons)
  qed
qed (simp add: dns_list_def)

lemma overwrite_Some:
  "overwrite inst l = Some l' \<Longrightarrow>
   \<exists>xs old ys. l = xs @ old # ys \<and> l' = xs @ inst # ys \<and> inst_id old = inst_id inst"
proof (induction l arbitrary: l')
  case (Cons e l)
  show ?case
  proof (cases "inst_id e = inst_id inst")
    case True
    with Cons.prems have "e # l = [] @ e # l \<and> l' = [] @ inst # l \<and> inst_id e = inst_id inst" by simp
    then show ?thesis by blast
  next
    case False
    with Cons.prems obtain l'' where "overwrite inst l = Some l''" "l' = e # l''" by auto
    then obtain xs old ys where "l = xs @ old # ys" "l'' = xs @ inst # ys" "inst_id old = inst_id inst"
      using Cons.IH by blast
    with \<open>l' = e # l''\<close> have "e # l = (e # xs) @ old # ys \<and> l' = (e # xs) @ inst # ys \<and>
        inst_id old = inst_id inst" by simp
    then show ?thesis by blast
  qed
qed simp

lemma overwrite_None: "overwrite inst l = None \<longleftrightarrow> inst_id inst \<notin> inst_id ` set l"
  by (induction l) auto

lemma cut_out_Some:
  "cut_out cid l = Some l' \<Longrightarrow> \<exists>xs old ys. l = xs @ old # ys \<and> l' = xs @ ys \<and> inst_id old = cid"
proof (induction l arbitrary: l')
  case (Cons e l)
  show ?case
  proof (cases "inst_id e = cid")
    case True
    with Cons.prems have "e # l = [] @ e # l \<and> l' = [] @ l \<and> inst_id e = cid" by simp
    then show ?thesis by blast
  next
    case False
    with Cons.prems obtain l'' where "cut_out cid l = Some l''" "l' = e # l''" by auto
    then obtain xs old ys where "l = xs @ old # ys" "l'' = xs @ ys" "inst_id old = cid"
      using Cons.IH by blast
    with \<open>l' = e # l''\<close> have "e # l = (e # xs) @ old # ys \<and> l' = (e # xs) @ ys \<and> inst_id old = cid"
      by simp
    then show ?thesis by blast
  qed
qed simp

lemma cut_out_None: "cut_out cid l = None \<longleftrightarrow> cid \<notin> inst_id ` set l"
  by (induction l) auto

lemma cut_out_first_None: "cut_out_first cid m = None \<longleftrightarrow> cid \<notin> set (ids_of m)"
  by (induction cid m rule: cut_out_first.induct)
    (auto simp: cut_out_None split: option.splits dest: cut_out_Some)

lemma cut_out_first_Some:
  "cut_out_first cid m = Some m' \<Longrightarrow>
   \<exists>es d old fs. entries_of m = es @ (d, old) # fs \<and> entries_of m' = es @ fs \<and>
     inst_id old = cid \<and> map fst m' = map fst m"
proof (induction cid m arbitrary: m' rule: cut_out_first.induct)
  case (2 cid d l m)
  show ?case
  proof (cases "cut_out cid l")
    case (Some l')
    then obtain xs old ys where "l = xs @ old # ys" "l' = xs @ ys" "inst_id old = cid"
      using cut_out_Some by blast
    with Some "2.prems" have
      "entries_of ((d, l) # m) = map (Pair d) xs @ (d, old) # (map (Pair d) ys @ entries_of m) \<and>
       entries_of m' = map (Pair d) xs @ (map (Pair d) ys @ entries_of m) \<and> inst_id old = cid \<and>
       map fst m' = map fst ((d, l) # m)" by auto
    then show ?thesis by blast
  next
    case None
    with "2.prems" obtain n where n: "cut_out_first cid m = Some n" "m' = (d, l) # n" by auto
    from "2.IH" [OF None n(1)] obtain es d' old fs where
      "entries_of m = es @ (d', old) # fs" "entries_of n = es @ fs" "inst_id old = cid"
      "map fst n = map fst m" by blast
    with n(2) have "entries_of ((d, l) # m) = (map (Pair d) l @ es) @ (d', old) # fs \<and>
       entries_of m' = (map (Pair d) l @ es) @ fs \<and> inst_id old = cid \<and>
       map fst m' = map fst ((d, l) # m)" by simp
    then show ?thesis by blast
  qed
qed simp

subsection \<open>Every operation keeps the invariant\<close>

lemma routes_to_Some:
  "reg_inv own r \<Longrightarrow> routes_to r cid = Some (d, inst) \<longleftrightarrow>
   (d, inst) \<in> set (entries_of (byDNS r)) \<and> inst_id inst = cid"
proof -
  assume "reg_inv own r"
  then have "distinct (map fst (map (\<lambda>(d, inst). (inst_id inst, (d, inst))) (entries_of (byDNS r))))"
    by (simp add: reg_inv_def table_ok_def ids_of_def o_def split_def)
  then show ?thesis
    unfolding routes_to_def by (subst map_of_eq_Some_iff) auto
qed

lemma routes_to_None: "routes_to r cid = None \<longleftrightarrow> cid \<notin> set (ids_of (byDNS r))"
  by (force simp: routes_to_def map_of_eq_None_iff ids_of_def)

lemma Upsert_byDNS:
  "\<exists>v. byDNS (Upsert now d inst r) = AList.update d v (byDNS r) \<and>
     (overwrite inst (dns_list (byDNS r) d) = Some v \<or>
      overwrite inst (dns_list (byDNS r) d) = None \<and> v = dns_list (byDNS r) d @ [inst])"
  by (auto simp: Upsert_def Let_def split: option.splits)

lemma Upsert_entries:
  assumes "distinct (map fst (byDNS r))"
  shows "\<exists>es fs olds. entries_of (byDNS r) = es @ olds @ fs \<and>
      entries_of (byDNS (Upsert now d inst r)) = es @ (d, inst) # fs \<and>
      (\<forall>(d', old) \<in> set olds. d' = d \<and> inst_id old = inst_id inst) \<and>
      (olds = [] \<longrightarrow> inst_id inst \<notin> inst_id ` set (dns_list (byDNS r) d)) \<and>
      set (map fst (byDNS (Upsert now d inst r))) = insert d (set (map fst (byDNS r)))"
proof -
  obtain v where up: "byDNS (Upsert now d inst r) = AList.update d v (byDNS r)"
    and v: "overwrite inst (dns_list (byDNS r) d) = Some v \<or>
      overwrite inst (dns_list (byDNS r) d) = None \<and> v = dns_list (byDNS r) d @ [inst]"
    using Upsert_byDNS by blast
  have keys: "set (map fst (AList.update d v (byDNS r))) = insert d (set (map fst (byDNS r)))"
    by (rule keys_update)
  obtain as olds bs where l: "dns_list (byDNS r) d = as @ olds @ bs" "v = as @ inst # bs"
    and olds: "\<forall>old \<in> set olds. inst_id old = inst_id inst"
    and fresh: "olds = [] \<longrightarrow> inst_id inst \<notin> inst_id ` set (dns_list (byDNS r) d)"
  proof -
    from v show ?thesis
    proof (elim disjE conjE)
      assume "overwrite inst (dns_list (byDNS r) d) = Some v"
      then obtain xs old ys where "dns_list (byDNS r) d = xs @ old # ys" "v = xs @ inst # ys"
        "inst_id old = inst_id inst" using overwrite_Some by blast
      then show ?thesis by (intro that [of xs "[old]" ys]) auto
    next
      assume n: "overwrite inst (dns_list (byDNS r) d) = None" "v = dns_list (byDNS r) d @ [inst]"
      then show ?thesis
        by (intro that [of "dns_list (byDNS r) d" "[]" "[]"]) (auto simp: overwrite_None)
    qed
  qed
  from update_split [OF assms, of d v] show ?thesis
  proof (elim disjE exE conjE)
    fix xs l' ys
    assume m: "byDNS r = xs @ (d, l') # ys" "AList.update d v (byDNS r) = xs @ (d, v) # ys"
      "dns_list (byDNS r) d = l'"
    then have "entries_of (byDNS r) =
        (entries_of xs @ map (Pair d) as) @ map (Pair d) olds @ (map (Pair d) bs @ entries_of ys)"
      "entries_of (byDNS (Upsert now d inst r)) =
        (entries_of xs @ map (Pair d) as) @ (d, inst) # (map (Pair d) bs @ entries_of ys)"
      using l up by simp_all
    with olds fresh up keys show ?thesis
      by (intro exI [of _ "entries_of xs @ map (Pair d) as"]
          exI [of _ "map (Pair d) bs @ entries_of ys"] exI [of _ "map (Pair d) olds"] conjI) auto
  next
    assume m: "AList.update d v (byDNS r) = byDNS r @ [(d, v)]" "dns_list (byDNS r) d = []"
    with l have "entries_of (byDNS r) = entries_of (byDNS r) @ [] @ []"
      "entries_of (byDNS (Upsert now d inst r)) = entries_of (byDNS r) @ (d, inst) # []"
      using up by simp_all
    with fresh up keys m l show ?thesis
      by (intro exI [of _ "entries_of (byDNS r)"] exI [of _ "[]"] conjI) auto
  qed
qed

lemma fresh_elsewhere:
  assumes "table_ok own m" "own cid = d" "cid \<notin> inst_id ` set (dns_list m d)"
  shows "cid \<notin> set (ids_of m)"
proof
  assume "cid \<in> set (ids_of m)"
  then obtain d' inst where e: "(d', inst) \<in> set (entries_of m)" "inst_id inst = cid"
    by (auto simp: ids_of_def)
  with assms have "d' = d" by (fastforce simp: table_ok_def list_all_iff)
  with e obtain l where "(d, l) \<in> set m" "inst \<in> set l" by (auto simp: in_entries_of)
  with assms(1) have "dns_list m d = l" by (simp add: dns_list_def table_ok_def)
  with \<open>inst \<in> set l\<close> e assms(3) show False by auto
qed

lemma Upsert_lastSeen: "lastSeen (Upsert now d inst r) = AList.update (inst_id inst) now (lastSeen r)"
  by (simp add: Upsert_def Let_def split: option.splits)

lemma Upsert_keys_distinct:
  "distinct (map fst (byDNS r)) \<Longrightarrow> distinct (map fst (byDNS (Upsert now d inst r)))"
  using Upsert_byDNS [of now d inst r] by (auto simp: distinct_update)

lemma Upsert_ids:
  assumes "reg_inv own r" "own (inst_id inst) = d"
  shows "distinct (ids_of (byDNS (Upsert now d inst r))) \<and>
    set (ids_of (byDNS (Upsert now d inst r))) = insert (inst_id inst) (set (ids_of (byDNS r))) \<and>
    list_all (\<lambda>(d, inst). own (inst_id inst) = d) (entries_of (byDNS (Upsert now d inst r)))"
proof -
  from assms have t: "table_ok own (byDNS r)" by (simp add: reg_inv_def)
  then have "distinct (map fst (byDNS r))" by (simp add: table_ok_def)
  from Upsert_entries [OF this, of now d inst] obtain es fs olds where
    e: "entries_of (byDNS r) = es @ olds @ fs"
      "entries_of (byDNS (Upsert now d inst r)) = es @ (d, inst) # fs"
    and olds: "\<forall>(d', old) \<in> set olds. d' = d \<and> inst_id old = inst_id inst"
    and fresh: "olds = [] \<longrightarrow> inst_id inst \<notin> inst_id ` set (dns_list (byDNS r) d)"
    by blast
  have dist: "distinct (map (inst_id \<circ> snd) (es @ olds @ fs))"
    using t e by (simp add: table_ok_def ids_of_def)
  show ?thesis
  proof (cases olds)
    case Nil
    with fresh have "inst_id inst \<notin> set (ids_of (byDNS r))"
      using fresh_elsewhere [OF t assms(2)] by simp
    with e Nil dist t assms(2) show ?thesis
      by (auto simp: ids_of_def table_ok_def)
  next
    case (Cons old olds')
    then have id: "inst_id (snd old) = inst_id inst" and "olds' = []"
      using olds dist by (cases olds'; fastforce)+
    with e Cons dist t assms(2) show ?thesis
      by (auto simp: ids_of_def table_ok_def)
  qed
qed

lemma Upsert_inv: "reg_inv own r \<Longrightarrow> own (inst_id inst) = d \<Longrightarrow> reg_inv own (Upsert now d inst r)"
  using Upsert_ids [of own r inst d now]
  by (auto simp: reg_inv_def table_ok_def Upsert_lastSeen distinct_update keys_update Upsert_keys_distinct
      simp del: set_map)

lemma keys_delete: "map fst (AList.delete k m) = filter (\<lambda>x. x \<noteq> k) (map fst m)"
  by (induction m) (auto simp: AList.delete_eq)

lemma removeLocked_ids:
  assumes "reg_inv own r"
  shows "ids_of (byDNS (removeLocked cid r)) = filter (\<lambda>i. i \<noteq> cid) (ids_of (byDNS r)) \<and>
    entries_of (byDNS (removeLocked cid r)) =
      filter (\<lambda>(d, inst). inst_id inst \<noteq> cid) (entries_of (byDNS r)) \<and>
    map fst (byDNS (removeLocked cid r)) = map fst (byDNS r) \<and>
    map fst (lastSeen (removeLocked cid r)) = filter (\<lambda>i. i \<noteq> cid) (map fst (lastSeen r))"
proof (cases "cut_out_first cid (byDNS r)")
  case None
  then have "cid \<notin> set (ids_of (byDNS r))" by (simp add: cut_out_first_None)
  moreover from this have "cid \<notin> set (map fst (lastSeen r))" using assms by (simp add: reg_inv_def)
  moreover from \<open>cid \<notin> set (ids_of (byDNS r))\<close> have "\<forall>x \<in> set (entries_of (byDNS r)). inst_id (snd x) \<noteq> cid"
    by (auto simp: ids_of_def)
  ultimately show ?thesis
    using None by (fastforce simp: removeLocked_def intro!: filter_True [symmetric])
next
  case (Some m)
  from cut_out_first_Some [OF Some] obtain es d old fs where
    e: "entries_of (byDNS r) = es @ (d, old) # fs" "entries_of m = es @ fs" "inst_id old = cid"
    "map fst m = map fst (byDNS r)" by blast
  have "distinct (map (inst_id \<circ> snd) (es @ (d, old) # fs))"
    using assms e by (simp add: reg_inv_def table_ok_def ids_of_def)
  then have "\<forall>x \<in> set (es @ fs). inst_id (snd x) \<noteq> cid" using e by force
  then have f: "filter (\<lambda>x. inst_id (snd x) \<noteq> cid) (es @ fs) = es @ fs" by (rule filter_True)
  with e have "entries_of m = filter (\<lambda>(d, inst). inst_id inst \<noteq> cid) (entries_of (byDNS r))"
    by (simp add: split_def)
  moreover have "ids_of m = filter (\<lambda>i. i \<noteq> cid) (ids_of (byDNS r))"
    unfolding ids_of_def calculation by (simp add: filter_map o_def split_def)
  ultimately show ?thesis using Some e by (simp add: removeLocked_def keys_delete)
qed

lemma removeLocked_inv: "reg_inv own r \<Longrightarrow> reg_inv own (removeLocked cid r)"
  using removeLocked_ids [of own r cid]
  by (auto simp: reg_inv_def table_ok_def list_all_iff simp del: set_map)

lemma removeLocked_frame [simp]:
  "strategy (removeLocked cid r) = strategy r" "hostRoutes (removeLocked cid r) = hostRoutes r"
  by (simp_all add: removeLocked_def split: option.splits)

lemma seen_keys:
  "set (map fst (fold (\<lambda>inst. AList.update (inst_id inst) now) l acc)) =
     set (map inst_id l) \<union> set (map fst acc) \<and>
   (distinct (map fst acc) \<longrightarrow> distinct (map fst (fold (\<lambda>inst. AList.update (inst_id inst) now) l acc)))"
proof (induction l arbitrary: acc)
  case (Cons inst l)
  then show ?case
    using Cons [of "AList.update (inst_id inst) now acc"]
    by (simp add: keys_update distinct_update del: set_map)
qed simp

lemma seen_keys_table:
  "set (map fst (fold (\<lambda>(d, list) seen. fold (\<lambda>inst. AList.update (inst_id inst) now) list seen) m acc)) =
     set (ids_of m) \<union> set (map fst acc) \<and>
   (distinct (map fst acc) \<longrightarrow> distinct (map fst
      (fold (\<lambda>(d, list) seen. fold (\<lambda>inst. AList.update (inst_id inst) now) list seen) m acc)))"
proof (induction m arbitrary: acc)
  case (Cons p m)
  obtain d l where p: "p = (d, l)" by force
  show ?case
    using Cons [of "fold (\<lambda>inst. AList.update (inst_id inst) now) l acc"] seen_keys [of now l acc]
    by (simp add: p Un_assoc del: set_map) (simp add: Un_left_commute)
qed simp

lemma ReplaceAll_inv: "table_ok own m \<Longrightarrow> reg_inv own (ReplaceAll now m r)"
  using seen_keys_table [of now m "[]"]
  by (simp add: reg_inv_def ReplaceAll_def Let_def del: set_map)

lemma reg_inv_frame:
  "byDNS r' = byDNS r \<Longrightarrow> lastSeen r' = lastSeen r \<Longrightarrow> reg_inv own r' = reg_inv own r"
  by (simp add: reg_inv_def)

lemma Next_frame [simp]:
  "byDNS (snd (Next snext now d r)) = byDNS r" "lastSeen (snd (Next snext now d r)) = lastSeen r"
  "unhealthyUntil (snd (Next snext now d r)) = unhealthyUntil r"
  "hostRoutes (snd (Next snext now d r)) = hostRoutes r"
  by (simp_all add: Next_def Let_def split_def)

lemma Mark_frame [simp]:
  "byDNS (MarkUnhealthy now cid dur r) = byDNS r" "lastSeen (MarkUnhealthy now cid dur r) = lastSeen r"
  "byDNS (MarkHealthy cid r) = byDNS r" "lastSeen (MarkHealthy cid r) = lastSeen r"
  "byDNS (ReplaceHostRoutes routes r) = byDNS r" "lastSeen (ReplaceHostRoutes routes r) = lastSeen r"
  by (simp_all add: MarkUnhealthy_def MarkHealthy_def ReplaceHostRoutes_def)

lemma fold_removeLocked:
  assumes "reg_inv own r"
  shows "reg_inv own (fold removeLocked cids r) \<and>
    entries_of (byDNS (fold removeLocked cids r)) =
      filter (\<lambda>(d, inst). inst_id inst \<notin> set cids) (entries_of (byDNS r))"
  using assms
proof (induction cids arbitrary: r)
  case (Cons cid cids)
  then have "reg_inv own (removeLocked cid r)" by (simp add: removeLocked_inv)
  from Cons.IH [OF this] removeLocked_ids [OF Cons.prems, of cid] show ?case
    by (auto intro!: filter_cong)
qed simp

lemma Sweep_inv: "reg_inv own r \<Longrightarrow> reg_inv own (Sweep now ttl r)"
  by (simp add: Sweep_def Let_def fold_removeLocked)

text \<open>
  The executions of the registry: whole operations in any order, at any instants, by any number
  of goroutines. The environment (database queries and events) names a container only under the
  service it belongs to.
\<close>

inductive reg_step ::
  "('s \<Rightarrow> string \<Rightarrow> nat \<Rightarrow> nat \<times> 's) \<Rightarrow> (uuid \<Rightarrow> string) \<Rightarrow> 's registry \<Rightarrow> 's registry \<Rightarrow> bool"
  for snext own where
  step_ReplaceAll: "table_ok own m \<Longrightarrow> reg_step snext own r (ReplaceAll now m r)"
| step_ReplaceHostRoutes: "reg_step snext own r (ReplaceHostRoutes routes r)"
| step_Upsert: "own (inst_id inst) = d \<Longrightarrow> reg_step snext own r (Upsert now d inst r)"
| step_Remove: "reg_step snext own r (Remove cid r)"
| step_MarkUnhealthy: "reg_step snext own r (MarkUnhealthy now cid dur r)"
| step_MarkHealthy: "reg_step snext own r (MarkHealthy cid r)"
| step_Next: "reg_step snext own r (snd (Next snext now d r))"
| step_Sweep: "reg_step snext own r (Sweep now ttl r)"

inductive reg_reachable ::
  "('s \<Rightarrow> string \<Rightarrow> nat \<Rightarrow> nat \<times> 's) \<Rightarrow> (uuid \<Rightarrow> string) \<Rightarrow> 's \<Rightarrow> 's registry \<Rightarrow> bool"
  for snext own strat where
  reach_new: "reg_reachable snext own strat (NewRegistry strat)"
| reach_step: "reg_reachable snext own strat r \<Longrightarrow> reg_step snext own r r' \<Longrightarrow>
    reg_reachable snext own strat r'"

lemma reg_step_inv: "reg_step snext own r r' \<Longrightarrow> reg_inv own r \<Longrightarrow> reg_inv own r'"
proof (induction rule: reg_step.induct)
  case (step_ReplaceHostRoutes r routes)
  then show ?case using reg_inv_frame [of "ReplaceHostRoutes routes r" r] by simp
next
  case (step_MarkUnhealthy r now cid dur)
  then show ?case using reg_inv_frame [of "MarkUnhealthy now cid dur r" r] by simp
next
  case (step_MarkHealthy r cid)
  then show ?case using reg_inv_frame [of "MarkHealthy cid r" r] by simp
next
  case (step_Next r now d)
  then show ?case using reg_inv_frame [of "snd (Next snext now d r)" r] by simp
qed (simp_all add: ReplaceAll_inv Upsert_inv removeLocked_inv Sweep_inv Remove_def)

text \<open>
  C25. In every reachable state of the registry, after any interleaving of resyncs, events, health
  marks, sweeps and requests, each container is registered at most once, under the service it
  belongs to, and the TTL bookkeeping (\<open>lastSeen\<close>) covers exactly the registered containers:
  nothing registered escapes \<open>Sweep\<close> and nothing removed lingers in it.
\<close>

theorem registry_invariant:
  "reg_reachable snext own strat r \<Longrightarrow> reg_inv own r"
proof (induction rule: reg_reachable.induct)
  case reach_new
  show ?case by (simp add: reg_inv_def table_ok_def NewRegistry_def)
next
  case (reach_step r r')
  then show ?case by (blast intro: reg_step_inv)
qed

theorem registry_invariant_witness:
  "reg_inv (\<lambda>_. ''web'') (Upsert 5 ''web'' \<lparr>inst_id = 1, inst_ip = ''10.0.0.1'', inst_port = 80\<rparr>
     (NewRegistry NewRoundRobin))"
  by (rule registry_invariant [of rr_Next "\<lambda>_. ''web''" NewRoundRobin])
    (rule reg_reachable.reach_step [OF reg_reachable.reach_new], rule reg_step.step_Upsert, simp)

subsection \<open>What \<open>Next\<close> promises, for any strategy\<close>

text \<open>
  The contract of \<open>strategy.BalancingStrategy\<close>: a call with a non-empty set answers an index
  into it. What \<open>Registry.Next\<close> promises needs nothing else of the strategy.
\<close>

locale balancing_strategy =
  fixes snext :: "'s \<Rightarrow> string \<Rightarrow> nat \<Rightarrow> nat \<times> 's"
  assumes snext_bound: "0 < n \<Longrightarrow> fst (snext s key n) < n"
begin

lemma Next_None_iff: "fst (Next snext now d r) = None \<longleftrightarrow> available now r d = []"
  by (auto simp: Next_def available_def Let_def split_def)

lemma Next_available: "fst (Next snext now d r) = Some inst \<Longrightarrow> inst \<in> set (available now r d)"
  by (auto simp: Next_def Let_def split_def snext_bound split: if_splits)

lemma Next_picks:
  "available now r d \<noteq> [] \<Longrightarrow> fst (Next snext now d r) =
     Some (available now r d ! fst (snext (strategy r) d (length (available now r d))))"
  by (auto simp: Next_def available_def Let_def split_def)

lemma Next_strategy:
  "available now r d \<noteq> [] \<Longrightarrow>
   strategy (snd (Next snext now d r)) = snd (snext (strategy r) d (length (available now r d)))"
  by (auto simp: Next_def available_def Let_def split_def)

lemma Next_strategy_None: "available now r d = [] \<Longrightarrow> snd (Next snext now d r) = r"
  by (auto simp: Next_def available_def Let_def split_def)

end

lemma available_frame:
  "byDNS r' = byDNS r \<Longrightarrow> unhealthyUntil r' = unhealthyUntil r \<Longrightarrow> available now r' d = available now r d"
  by (simp add: available_def ejected_def)

lemma available_Next [simp]: "available now (snd (Next snext t e r)) d = available now r d"
  by (rule available_frame) simp_all

text \<open>
  A rotating strategy keeps one position per service, which each call for that service advances
  by one modulo the number of instances, and which calls for other services leave alone.
\<close>

fun serve_seq ::
  "('s \<Rightarrow> string \<Rightarrow> nat \<Rightarrow> nat \<times> 's) \<Rightarrow> (time \<times> string) list \<Rightarrow> 's registry \<Rightarrow> (string \<times> Instance option) list"
where
  "serve_seq snext [] r = []"
| "serve_seq snext ((t, d) # reqs) r =
     (d, fst (Next snext t d r)) # serve_seq snext reqs (snd (Next snext t d r))"

definition served :: "string \<Rightarrow> (string \<times> Instance option) list \<Rightarrow> Instance option list" where
  "served d answers = map snd (filter (\<lambda>a. fst a = d) answers)"

locale rotating_strategy = balancing_strategy +
  fixes pos :: "'s \<Rightarrow> string \<Rightarrow> nat"
  assumes snext_index: "0 < n \<Longrightarrow> fst (snext s key n) = pos s key mod n"
    and pos_step: "0 < n \<Longrightarrow> pos (snd (snext s key n)) key = (pos s key + 1) mod n"
    and pos_other: "key' \<noteq> key \<Longrightarrow> pos (snd (snext s key n)) key' = pos s key'"
begin

lemma pos_Next_other: "e \<noteq> d \<Longrightarrow> pos (strategy (snd (Next snext t e r))) d = pos (strategy r) d"
  by (cases "available t r e = []") (simp_all add: Next_strategy Next_strategy_None pos_other)

lemma served_rotates:
  assumes "\<forall>(t, e) \<in> set reqs. e = d \<longrightarrow> available t r d = av" and "av \<noteq> []"
  shows "served d (serve_seq snext reqs r) =
    map (\<lambda>j. Some (av ! ((pos (strategy r) d + j) mod length av))) [0..<length (filter (\<lambda>q. snd q = d) reqs)]"
  using assms(1)
proof (induction reqs arbitrary: r)
  case (Cons q reqs)
  obtain t e where q: "q = (t, e)" by force
  let ?r = "snd (Next snext t e r)" and ?n = "length av"
  have IH: "served d (serve_seq snext reqs ?r) = map (\<lambda>j. Some (av ! ((pos (strategy ?r) d + j) mod ?n)))
      [0..<length (filter (\<lambda>q. snd q = d) reqs)]"
    using Cons.prems q by (intro Cons.IH) auto
  show ?case
  proof (cases "e = d")
    case False
    then show ?thesis using IH q by (simp add: served_def pos_Next_other)
  next
    case True
    with Cons.prems q have av: "available t r d = av" by auto
    have p: "pos (strategy ?r) d = (pos (strategy r) d + 1) mod ?n"
      using True av \<open>av \<noteq> []\<close> by (simp add: Next_strategy pos_step)
    have "((pos (strategy r) d + 1) mod ?n + j) mod ?n = (pos (strategy r) d + Suc j) mod ?n" for j
      by (metis add.assoc mod_add_left_eq plus_1_eq_Suc)
    with IH p have "served d (serve_seq snext reqs ?r) =
        map (\<lambda>j. Some (av ! ((pos (strategy r) d + Suc j) mod ?n)))
          [0..<length (filter (\<lambda>q. snd q = d) reqs)]" by simp
    moreover have "fst (Next snext t e r) = Some (av ! (pos (strategy r) d mod ?n))"
      using True av \<open>av \<noteq> []\<close> by (simp add: Next_picks snext_index)
    moreover have "[0..<Suc k] = 0 # map Suc [0..<k]" for k
      by (simp add: map_Suc_upt upt_conv_Cons del: upt_Suc)
    ultimately show ?thesis using True q by (simp add: served_def o_def del: upt_Suc)
  qed
qed (simp add: served_def)

end

interpretation rr: balancing_strategy rr_Next
  by unfold_locales (simp add: rr_Next_def Let_def)

interpretation rrot: rotating_strategy rr_Next "\<lambda>s. s"
  by unfold_locales (simp_all add: rr_Next_def Let_def mod_simps)

text \<open>Counting the visits of a rotation.\<close>

definition visits :: "nat \<Rightarrow> nat \<Rightarrow> nat \<Rightarrow> nat \<Rightarrow> nat" where
  "visits n p i q = length (filter (\<lambda>j. (p + j) mod n = i) [0..<q])"

lemma visits_split: "visits n p i (a + b) = visits n p i a + visits n (p + a) i b"
proof -
  have "[0..<a + b] = [0..<a] @ map (\<lambda>j. a + j) [0..<b]"
    by (simp add: upt_add_eq_append [of 0 a b, simplified] map_add_upt add.commute)
  then show ?thesis by (simp add: visits_def filter_map o_def add.assoc)
qed

lemma visits_window: "0 < n \<Longrightarrow> i < n \<Longrightarrow> visits n p i n = 1"
proof -
  assume n: "0 < n" "i < n"
  let ?f = "\<lambda>j. (p + j) mod n"
  have inj: "inj_on ?f {0..<n}"
  proof (rule inj_onI)
    fix x y assume *: "x \<in> {0..<n}" "y \<in> {0..<n}" "?f x = ?f y"
    then obtain q1 q2 where "p + x + n * q1 = p + y + n * q2" unfolding nat_mod_eq_iff by blast
    then have "x + n * q1 = y + n * q2" by simp
    then have "x mod n = y mod n" unfolding nat_mod_eq_iff by blast
    with * show "x = y" by simp
  qed
  have "?f ` {0..<n} \<subseteq> {0..<n}" using n by auto
  then have "?f ` {0..<n} = {0..<n}" using inj by (simp add: endo_inj_surj)
  with n have "i \<in> ?f ` {0..<n}" by simp
  then obtain j where j: "j \<in> {0..<n}" "?f j = i" by blast
  have "{k \<in> {0..<n}. ?f k = i} = {j}"
  proof (rule set_eqI, rule iffI)
    fix k assume "k \<in> {k \<in> {0..<n}. ?f k = i}"
    then have "?f k = ?f j" "k \<in> {0..<n}" using j by simp_all
    from inj_onD [OF inj this j(1)] show "k \<in> {j}" by (rule ssubst) (rule singletonI)
  next
    fix k assume "k \<in> {j}"
    then show "k \<in> {k \<in> {0..<n}. ?f k = i}" using j by simp
  qed
  moreover have "visits n p i n = card {k \<in> {0..<n}. ?f k = i}"
    unfolding visits_def using distinct_card [of "filter (\<lambda>j. ?f j = i) [0..<n]"] by simp
  ultimately show ?thesis by simp
qed

lemma visits_even:
  assumes "0 < n" "i < n"
  shows "visits n p i q = q div n \<or> visits n p i q = q div n + 1"
proof (induction q arbitrary: p rule: less_induct)
  case (less q)
  show ?case
  proof (cases "q < n")
    case True
    then have "visits n p i n = visits n p i q + visits n (p + q) i (n - q)"
      using visits_split [of n p i q "n - q"] by simp
    with visits_window [OF assms, of p] True show ?thesis by auto
  next
    case False
    then have "visits n p i q = 1 + visits n (p + n) i (q - n)" "q div n = 1 + (q - n) div n"
      using visits_split [of n p i n "q - n"] visits_window [OF assms, of p] assms(1)
      by (auto simp: le_div_geq)
    with less [of "q - n" "p + n"] False assms(1) show ?thesis by auto
  qed
qed

text \<open>
  \<open>Next\<close>, with the round-robin strategy the load balancer is wired with, answers only an
  instance that is registered under the requested service and not currently ejected; it answers
  nothing exactly when every instance of the service is ejected (or there is none), never falling
  back to an ejected one; and it changes nothing of the registry but the rotation.
\<close>

theorem Next_serves_only_live_instances:
  "(case fst (Next rr_Next now d r) of
      Some inst \<Rightarrow> inst \<in> set (dns_list (byDNS r) d) \<and> \<not> ejected now r (inst_id inst)
    | None \<Rightarrow> list_all (\<lambda>inst. ejected now r (inst_id inst)) (dns_list (byDNS r) d)) \<and>
   (\<exists>s. snd (Next rr_Next now d r) = r\<lparr>strategy := s\<rparr>)"
proof
  show "case fst (Next rr_Next now d r) of
      Some inst \<Rightarrow> inst \<in> set (dns_list (byDNS r) d) \<and> \<not> ejected now r (inst_id inst)
    | None \<Rightarrow> list_all (\<lambda>inst. ejected now r (inst_id inst)) (dns_list (byDNS r) d)"
    using rr.Next_None_iff [of now d r] rr.Next_available [of now d r]
    by (auto simp: available_def filter_empty_conv list_all_iff split: option.splits)
  show "\<exists>s. snd (Next rr_Next now d r) = r\<lparr>strategy := s\<rparr>"
    by (rule exI [of _ "strategy (snd (Next rr_Next now d r))"]) (rule registry.equality; simp)
qed

lemma distinct_available: "reg_inv own r \<Longrightarrow> distinct (available now r d)"
proof -
  assume "reg_inv own r"
  then have ok: "distinct (map fst (byDNS r))" "distinct (ids_of (byDNS r))"
    by (simp_all add: reg_inv_def table_ok_def)
  have "distinct (map inst_id (dns_list m d))" if "distinct (ids_of m)" for m
    using that by (induction m) (auto simp: dns_list_def)
  from this [OF ok(2)] show ?thesis by (simp add: available_def distinct_map)
qed

lemma count_served:
  assumes "distinct av" "inst \<in> set av"
  shows "\<exists>i < length av. count_list (map (\<lambda>j. Some (av ! ((p + j) mod length av))) [0..<q]) (Some inst)
    = visits (length av) p i q"
proof -
  from assms(2) obtain i where i: "i < length av" "av ! i = inst" by (auto simp: in_set_conv_nth)
  then have n: "0 < length av" by linarith
  have "(Some (av ! ((p + j) mod length av)) = Some inst) = ((p + j) mod length av = i)" for j
    using assms(1) i n by (simp add: nth_eq_iff_index_eq [symmetric])
  then have "count_list (map (\<lambda>j. Some (av ! ((p + j) mod length av))) [0..<q]) (Some inst)
      = visits (length av) p i q"
    unfolding visits_def by (induction q) auto
  with i show ?thesis by blast
qed

text \<open>
  C26. Round robin is even. Take any sequence of requests, for any services in any order, during
  which the set of available instances of one service does not change: each of its \<open>n\<close> available
  instances has answered \<open>q div n\<close> or \<open>q div n + 1\<close> of the \<open>q\<close> requests made for that
  service, so requests for other services do not skew the rotation and after every \<open>n\<close>
  requests all have served equally often.
\<close>

theorem round_robin_is_even:
  assumes "reg_inv own r"
    and "\<forall>(t, e) \<in> set reqs. e = d \<longrightarrow> available t r d = av"
    and "inst \<in> set av"
    and "q = length (filter (\<lambda>req. snd req = d) reqs)"
  shows "count_list (served d (serve_seq rr_Next reqs r)) (Some inst)
           \<in> {q div length av, q div length av + 1}"
proof (cases "q = 0")
  case True
  with assms have "served d (serve_seq rr_Next reqs r) = []"
    using rrot.served_rotates [OF assms(2)] by fastforce
  with True show ?thesis by simp
next
  case False
  then obtain t where "(t, d) \<in> set reqs"
    using assms(4) by (metis (mono_tags, lifting) filter_False length_0_conv prod.collapse)
  with assms(1,2) have "distinct av" using distinct_available by fastforce
  from count_served [OF this assms(3), of "strategy r d" q] obtain i where
    "i < length av" "count_list (served d (serve_seq rr_Next reqs r)) (Some inst)
       = visits (length av) (strategy r d) i q"
    using rrot.served_rotates [OF assms(2)] assms(3,4) by force
  moreover have "0 < length av" using assms(3) by (cases av) simp_all
  ultimately show ?thesis using visits_even [of "length av" i "strategy r d" q] by auto
qed

theorem round_robin_is_even_witness:
  "let a = \<lparr>inst_id = 1, inst_ip = ''10.0.0.1'', inst_port = 80\<rparr>;
       b = \<lparr>inst_id = 2, inst_ip = ''10.0.0.2'', inst_port = 80\<rparr>;
       r = (Upsert 0 ''web'' b (Upsert 0 ''web'' a (NewRegistry NewRoundRobin)))
   in count_list (served ''web'' (serve_seq rr_Next [(1, ''web''), (1, ''api''), (2, ''web''), (3, ''web'')] r))
        (Some a) \<in> {1, 2}"
proof -
  define a b where ab: "a = \<lparr>inst_id = (1::uuid), inst_ip = ''10.0.0.1'', inst_port = 80\<rparr>"
    "b = \<lparr>inst_id = (2::uuid), inst_ip = ''10.0.0.2'', inst_port = 80\<rparr>"
  define r where "r = Upsert 0 ''web'' b (Upsert 0 ''web'' a (NewRegistry NewRoundRobin))"
  have "reg_inv (\<lambda>_. ''web'') (NewRegistry NewRoundRobin)"
    by (simp add: reg_inv_def table_ok_def NewRegistry_def)
  then have inv: "reg_inv (\<lambda>_. ''web'') r" unfolding r_def by (intro Upsert_inv) simp_all
  have av: "available t r ''web'' = [a, b]" for t
    by (simp add: r_def ab available_def ejected_def Upsert_def NewRegistry_def dns_list_def)
  have "count_list (served ''web''
      (serve_seq rr_Next [(1, ''web''), (1, ''api''), (2, ''web''), (3, ''web'')] r)) (Some a)
      \<in> {3 div length [a, b], 3 div length [a, b] + 1}"
    by (rule round_robin_is_even [OF inv, where av = "[a, b]"]) (simp_all add: av)
  moreover have "(3::nat) div length [a, b] = 1" by (simp add: numeral_2_eq_2 [symmetric])
  ultimately show ?thesis unfolding r_def ab Let_def by (simp only: one_add_one)
qed

lemma Upsert_entries_set:
  assumes "reg_inv own r" "own (inst_id inst) = d"
  shows "set (entries_of (byDNS (Upsert now d inst r))) =
    insert (d, inst) {e \<in> set (entries_of (byDNS r)). inst_id (snd e) \<noteq> inst_id inst}"
proof -
  have "distinct (map fst (byDNS r))" using assms by (simp add: reg_inv_def table_ok_def)
  from Upsert_entries [OF this, of now d inst] obtain es fs olds where
    e: "entries_of (byDNS r) = es @ olds @ fs"
      "entries_of (byDNS (Upsert now d inst r)) = es @ (d, inst) # fs"
    and olds: "\<forall>(d', old) \<in> set olds. d' = d \<and> inst_id old = inst_id inst"
    by blast
  from Upsert_ids [OF assms, of now] e have "distinct (map (inst_id \<circ> snd) (es @ (d, inst) # fs))"
    by (simp add: ids_of_def)
  then have other: "inst_id (snd x) \<noteq> inst_id inst" if "x \<in> set es \<union> set fs" for x
    using that by force
  have same: "inst_id (snd x) = inst_id inst" if "x \<in> set olds" for x using that olds by auto
  show ?thesis unfolding e using other same by auto
qed

lemma routes_to_eqI:
  assumes "\<And>c d inst. f c = Some (d, inst) \<longleftrightarrow> g c = Some (d, inst)"
  shows "f = g"
proof
  fix c show "f c = g c" by (cases "f c"; cases "g c") (metis assms option.exhaust prod.collapse)+
qed

lemma routes_to_Upsert:
  assumes "reg_inv own r" "own (inst_id inst) = d"
  shows "routes_to (Upsert now d inst r) = (routes_to r)(inst_id inst \<mapsto> (d, inst))"
  using routes_to_Some [OF Upsert_inv [OF assms]] routes_to_Some [OF assms(1)]
    Upsert_entries_set [OF assms, of now]
  by (intro routes_to_eqI) auto

lemma routes_to_Remove:
  assumes "reg_inv own r" shows "routes_to (Remove cid r) = (routes_to r)(cid := None)"
  using routes_to_Some [OF removeLocked_inv [OF assms, of cid]] routes_to_Some [OF assms]
    removeLocked_ids [OF assms, of cid]
  by (intro routes_to_eqI) (auto simp: Remove_def)

lemma stale_iff:
  "distinct (map fst l) \<Longrightarrow> c \<in> set (map fst (filter (\<lambda>(_, seen). seen < cutoff) l)) \<longleftrightarrow>
   (\<exists>seen. map_of l c = Some seen \<and> seen < cutoff)"
  by (auto simp: map_of_eq_Some_iff) force

lemma routes_to_Sweep:
  assumes "reg_inv own r"
  shows "routes_to (Sweep now ttl r) =
    (routes_to r) |` {c. \<exists>seen. map_of (lastSeen r) c = Some seen \<and> now - ttl \<le> seen}"
proof (rule routes_to_eqI)
  fix c d inst
  let ?stale = "map fst (filter (\<lambda>(_, seen). seen < now - ttl) (lastSeen r))"
  have dist: "distinct (map fst (lastSeen r))" and dom: "fst ` set (lastSeen r) = set (ids_of (byDNS r))"
    using assms by (simp_all add: reg_inv_def)
  have "routes_to (Sweep now ttl r) c = Some (d, inst) \<longleftrightarrow>
      (d, inst) \<in> set (entries_of (byDNS r)) \<and> inst_id inst = c \<and> c \<notin> set ?stale"
    using routes_to_Some [OF Sweep_inv [OF assms]] fold_removeLocked [OF assms, of ?stale]
    by (auto simp: Sweep_def Let_def)
  also have "\<dots> \<longleftrightarrow> routes_to r c = Some (d, inst) \<and> \<not> (\<exists>seen. map_of (lastSeen r) c = Some seen \<and> seen < now - ttl)"
    using routes_to_Some [OF assms] stale_iff [OF dist] by metis
  also have "\<dots> \<longleftrightarrow> routes_to r c = Some (d, inst) \<and> (\<exists>seen. map_of (lastSeen r) c = Some seen \<and> now - ttl \<le> seen)"
  proof -
    have "\<exists>seen. map_of (lastSeen r) c = Some seen" if "routes_to r c = Some (d, inst)"
      using that dom routes_to_None [of r c] by (cases "map_of (lastSeen r) c") (auto simp: map_of_eq_None_iff)
    then show ?thesis by (metis linorder_not_less option.inject)
  qed
  finally show "routes_to (Sweep now ttl r) c = Some (d, inst) \<longleftrightarrow> ((routes_to r) |`
      {c. \<exists>seen. map_of (lastSeen r) c = Some seen \<and> now - ttl \<le> seen}) c = Some (d, inst)"
    by (auto simp: restrict_map_def)
qed

text \<open>
  C27. The registry implements a map from containers to the place they can be reached at. Whatever
  the layout of its two-level table, \<open>Upsert\<close> updates that map at one container, \<open>Remove\<close>
  clears one container, \<open>ReplaceAll\<close> installs exactly the table it is given, and \<open>Sweep\<close>
  removes exactly the containers not refreshed within the TTL, each leaving every other container
  as it was.
\<close>

theorem registry_refines_routing_map:
  assumes "reg_inv own r" and "own (inst_id inst) = d" and "table_ok own m"
  shows "routes_to (Upsert now d inst r) = (routes_to r)(inst_id inst \<mapsto> (d, inst)) \<and>
    routes_to (Remove cid r) = (routes_to r)(cid := None) \<and>
    routes_to (ReplaceAll now m r) =
           map_of (map (\<lambda>(d, inst). (inst_id inst, (d, inst))) (entries_of m)) \<and>
    routes_to (Sweep now ttl r) =
           (routes_to r) |` {c. \<exists>seen. map_of (lastSeen r) c = Some seen \<and> now - ttl \<le> seen}"
  using routes_to_Upsert [OF assms(1,2), of now] routes_to_Remove [OF assms(1), of cid]
    routes_to_Sweep [OF assms(1), of now ttl]
  by (simp add: routes_to_def ReplaceAll_def Let_def)

theorem registry_refines_routing_map_witness:
  "let a = \<lparr>inst_id = 1, inst_ip = ''10.0.0.1'', inst_port = 80\<rparr>
   in routes_to (Upsert 5 ''web'' a (NewRegistry NewRoundRobin)) = [1 \<mapsto> (''web'', a)]"
proof -
  let ?a = "\<lparr>inst_id = 1, inst_ip = ''10.0.0.1'', inst_port = 80\<rparr>"
  have "routes_to (Upsert 5 ''web'' ?a (NewRegistry NewRoundRobin)) =
      (routes_to (NewRegistry NewRoundRobin))(inst_id ?a \<mapsto> (''web'', ?a))"
    by (rule registry_refines_routing_map [of "\<lambda>_. ''web''" "NewRegistry NewRoundRobin" ?a "''web''" "[]",
          THEN conjunct1]) (simp_all add: reg_inv_def table_ok_def NewRegistry_def)
  then show ?thesis by (simp add: routes_to_def NewRegistry_def)
qed

end
