(* ===== verification/Proxy.thy ===== *)
theory Proxy
  imports Registry
begin

section \<open>The load balancer's request path, health checker and certificates\<close>

text \<open>
  \<^verbatim>\<open>services/loadbalancer/internal/{proxy,healthcheck,tls}\<close>. The backends are outside
  the program: what a proxied request or a probe meets there (\<open>forward\<close>, \<open>probe\<close>) is an
  argument, with no assumption on it. The instants at which a method reads the clock are
  arguments too. \<open>net.SplitHostPort\<close> is written out from its specification because
  routing depends on what it refuses.
\<close>

subsection \<open>Splitting a host from its port\<close>

definition last_colon :: "string \<Rightarrow> nat" where
  "last_colon s = length s - length (takeWhile (\<lambda>c. c \<noteq> CHR '':'') (rev s)) - 1"

definition SplitHostPort :: "string \<Rightarrow> (string \<times> string) option" where
  "SplitHostPort s =
     (if CHR '':'' \<notin> set s then None
      else let i = last_colon s; port = drop (i + 1) s in
        if hd s = CHR ''['' then
          let e = length (takeWhile (\<lambda>c. c \<noteq> CHR '']'') s) in
          if CHR '']'' \<notin> set s \<or> e + 1 \<noteq> i then None
          else if CHR ''['' \<in> set (drop 1 s) \<or> CHR '']'' \<in> set (drop (e + 1) s) then None
          else Some (drop 1 (take e s), port)
        else if CHR '':'' \<in> set (take i s) then None
        else if CHR ''['' \<in> set s \<or> CHR '']'' \<in> set s then None
        else Some (take i s, port))"

definition plain_host :: "string \<Rightarrow> bool" where
  "plain_host h \<longleftrightarrow> list_all (\<lambda>c. c \<noteq> CHR '':'' \<and> c \<noteq> CHR ''['' \<and> c \<noteq> CHR '']'') h"

lemma last_colon_append:
  assumes "CHR '':'' \<notin> set port"
  shows "last_colon (h @ CHR '':'' # port) = length h"
proof -
  have "takeWhile (\<lambda>c. c \<noteq> CHR '':'') (rev port @ CHR '':'' # rev h) = rev port"
    using assms by (subst takeWhile_append2) auto
  then show ?thesis by (simp add: last_colon_def)
qed

lemma SplitHostPort_plain:
  assumes "plain_host h" "plain_host port"
  shows "SplitHostPort (h @ CHR '':'' # port) = Some (h, port)"
proof -
  have "CHR '':'' \<notin> set port" using assms(2) by (auto simp: plain_host_def list_all_iff)
  then show ?thesis
    using assms last_colon_append [of port h]
    by (cases h) (auto simp: SplitHostPort_def plain_host_def list_all_iff Let_def)
qed

lemma SplitHostPort_no_port: "CHR '':'' \<notin> set h \<Longrightarrow> SplitHostPort h = None"
  by (simp add: SplitHostPort_def)

subsection \<open>The proxy handler\<close>

definition ServiceHeader :: string where
  "ServiceHeader = ''X-Platform-Service''"

text \<open>The fields of \<open>http.Request\<close> that the handler reads; an absent header reads as empty.\<close>

record proxy_request =
  req_Host :: string
  req_Header :: "string \<Rightarrow> string"

datatype proxy_response =
  HttpError nat string
| Forwarded Instance nat

definition resolveDNSName :: "'s registry \<Rightarrow> proxy_request \<Rightarrow> string option" where
  "resolveDNSName r req =
     (let host = (case SplitHostPort (req_Host req) of Some (stripped, _) \<Rightarrow> stripped | None \<Rightarrow> req_Host req) in
      case ResolveHost r host of
        Some dnsName \<Rightarrow> Some dnsName
      | None \<Rightarrow> (if req_Header req ServiceHeader \<noteq> [] then Some (req_Header req ServiceHeader) else None))"

text \<open>
  \<open>forward target req\<close> is what the reverse proxy meets at the backend: the status it relays,
  or \<open>None\<close> when the request fails and the error handler runs (at \<open>now'\<close>).
\<close>

definition ServeHTTP ::
  "('s \<Rightarrow> string \<Rightarrow> nat \<Rightarrow> nat \<times> 's) \<Rightarrow> duration \<Rightarrow> (string \<Rightarrow> proxy_request \<Rightarrow> nat option) \<Rightarrow>
   time \<Rightarrow> time \<Rightarrow> proxy_request \<Rightarrow> 's registry \<Rightarrow> proxy_response \<times> 's registry"
where
  "ServeHTTP snext ejectionWindow forward now now' req r =
     (case resolveDNSName r req of
        None \<Rightarrow>
          (HttpError 404 (''no route registered for this host, and no '' @ ServiceHeader @ '' header''), r)
      | Some dnsName \<Rightarrow>
          (case Next snext now dnsName r of
             (None, r1) \<Rightarrow> (HttpError 503 (''no healthy instance registered for '' @ dnsName), r1)
           | (Some inst, r1) \<Rightarrow>
               (case forward (inst_ip inst @ '':'' @ Itoa (inst_port inst)) req of
                  Some status \<Rightarrow> (Forwarded inst status, r1)
                | None \<Rightarrow>
                    (HttpError 502 ''bad gateway'', MarkUnhealthy now' (inst_id inst) ejectionWindow r1))))"

subsection \<open>Active health checking\<close>

text \<open>What \<open>http.NewRequest\<close> and the client's \<open>Do\<close> give for a probe's URL.\<close>

datatype probe_result = BadRequest | NoAnswer | Answered nat

definition probe_url :: "string \<Rightarrow> Instance \<Rightarrow> string" where
  "probe_url path inst = ''http://'' @ inst_ip inst @ '':'' @ Itoa (inst_port inst) @ path"

definition probeOne ::
  "string \<Rightarrow> duration \<Rightarrow> (string \<Rightarrow> probe_result) \<Rightarrow> time \<Rightarrow> Instance \<Rightarrow> 's registry \<Rightarrow> 's registry"
where
  "probeOne path interval probe now inst r =
     (case probe (probe_url path inst) of
        BadRequest \<Rightarrow> r
      | NoAnswer \<Rightarrow> MarkUnhealthy now (inst_id inst) interval r
      | Answered status \<Rightarrow>
          if status \<ge> 500 then MarkUnhealthy now (inst_id inst) interval r
          else MarkHealthy (inst_id inst) r)"

text \<open>
  One goroutine per instance of \<open>All\<close>: they finish in some order, each marking its own
  instance in one atomic step. \<open>order\<close> is the order of a run, a permutation of \<open>All r\<close>.
\<close>

definition probeAll ::
  "string \<Rightarrow> duration \<Rightarrow> (string \<Rightarrow> probe_result) \<Rightarrow> time \<Rightarrow> Instance list \<Rightarrow> 's registry \<Rightarrow> 's registry"
where
  "probeAll path interval probe now order r = fold (probeOne path interval probe now) order r"

subsection \<open>Self-signed certificates\<close>

record cert_template =
  SerialNumber :: nat
  CommonName :: string
  DNSNames :: "string list"
  NotBefore :: time
  NotAfter :: time

text \<open>
  The crypto packages are arguments: a key pair, a random serial and the signing of a template,
  each of which may fail. A certificate is the signed template with its key.
\<close>

record ('key, 'der) entropy =
  GenerateKey :: "string + 'key"
  rand_Int :: "string + nat"
  CreateCertificate :: "cert_template \<Rightarrow> 'key \<Rightarrow> string + 'der"

definition generate ::
  "('key, 'der) entropy \<Rightarrow> time \<Rightarrow> string \<Rightarrow> duration \<Rightarrow> string + ('der \<times> 'key)"
where
  "generate crypto now hostname validity =
     (case GenerateKey crypto of
        Inl err \<Rightarrow> Inl (''generating key: '' @ err)
      | Inr key \<Rightarrow>
          (case rand_Int crypto of
             Inl err \<Rightarrow> Inl (''generating serial number: '' @ err)
           | Inr serial \<Rightarrow>
               (let template = \<lparr>SerialNumber = serial, CommonName = hostname, DNSNames = [hostname],
                                NotBefore = now - 5 * minute, NotAfter = now + validity\<rparr>
                in case CreateCertificate crypto template key of
                     Inl err \<Rightarrow> Inl (''creating certificate: '' @ err)
                   | Inr der \<Rightarrow> Inr (der, key))))"

record 'c self_signed =
  certs :: "string \<rightharpoonup> 'c"
  cert_validity :: duration

definition NewSelfSigned :: "'c self_signed" where
  "NewSelfSigned = \<lparr>certs = Map.empty, cert_validity = 10 * 365 * 24 * hour\<rparr>"

definition GetCertificate ::
  "('key, 'der) entropy \<Rightarrow> time \<Rightarrow> string \<Rightarrow> ('der \<times> 'key) self_signed \<Rightarrow>
   (string + ('der \<times> 'key)) \<times> ('der \<times> 'key) self_signed"
where
  "GetCertificate crypto now hostname s =
     (case certs s hostname of
        Some cert \<Rightarrow> (Inr cert, s)
      | None \<Rightarrow>
          (case generate crypto now hostname (cert_validity s) of
             Inl err \<Rightarrow> (Inl (''generating self-signed certificate for '' @ Quote hostname @ '': '' @ err), s)
           | Inr cert \<Rightarrow> (Inr cert, s\<lparr>certs := (certs s)(hostname \<mapsto> cert)\<rparr>)))"

text \<open>The TLS listener's callback: a handshake without a server name is refused.\<close>

definition tls_GetCertificate ::
  "('key, 'der) entropy \<Rightarrow> time \<Rightarrow> string \<Rightarrow> ('der \<times> 'key) self_signed \<Rightarrow>
   (string + ('der \<times> 'key)) \<times> ('der \<times> 'key) self_signed"
where
  "tls_GetCertificate crypto now serverName s =
     (if serverName = [] then (Inl ''loadbalancer: tls handshake with no SNI hostname'', s)
      else GetCertificate crypto now serverName s)"

subsection \<open>What a request meets\<close>

lemma resolve_registered_host:
  assumes "plain_host h" "plain_host port" "hostRoutes r h = Some d"
  shows "req_Host req = h \<or> req_Host req = h @ CHR '':'' # port \<Longrightarrow> resolveDNSName r req = Some d"
proof (elim disjE)
  assume "req_Host req = h"
  moreover have "SplitHostPort h = None"
    using assms(1) by (intro SplitHostPort_no_port) (auto simp: plain_host_def list_all_iff)
  ultimately show ?thesis using assms(3) by (simp add: resolveDNSName_def ResolveHost_def)
next
  assume "req_Host req = h @ CHR '':'' # port"
  then show ?thesis
    using assms(3) SplitHostPort_plain [OF assms(1,2)] by (simp add: resolveDNSName_def ResolveHost_def)
qed

text \<open>
  C28. The routing decision of the proxy, for every request. Without a route it answers 404 and
  without a live instance 503, in both cases contacting no backend; otherwise it contacts exactly
  one backend, a live instance of the resolved service, relays its answer, and when that backend
  fails answers 502 with the backend ejected for the window. (\<open>resolve_registered_host\<close>: a
  registered domain takes precedence over the service header, with or without a port.)
\<close>

theorem ServeHTTP_correct:
  "case resolveDNSName r req of
     None \<Rightarrow> (\<exists>msg. ServeHTTP rr_Next w fwd now now' req r = (HttpError 404 msg, r))
   | Some d \<Rightarrow>
      (if list_all (\<lambda>inst. ejected now r (inst_id inst)) (dns_list (byDNS r) d)
       then \<exists>msg. ServeHTTP rr_Next w fwd now now' req r = (HttpError 503 msg, r)
       else \<exists>inst s. inst \<in> set (dns_list (byDNS r) d) \<and> \<not> ejected now r (inst_id inst) \<and>
         ServeHTTP rr_Next w fwd now now' req r =
           (case fwd (inst_ip inst @ '':'' @ Itoa (inst_port inst)) req of
              Some status \<Rightarrow> (Forwarded inst status, r\<lparr>strategy := s\<rparr>)
            | None \<Rightarrow> (HttpError 502 ''bad gateway'',
                        r\<lparr>strategy := s, unhealthyUntil := AList.update (inst_id inst) (now' + w) (unhealthyUntil r)\<rparr>)))"
proof (cases "resolveDNSName r req")
  case None
  then show ?thesis by (simp add: ServeHTTP_def)
next
  case (Some d)
  show ?thesis
  proof (cases "list_all (\<lambda>inst. ejected now r (inst_id inst)) (dns_list (byDNS r) d)")
    case True
    then have "available now r d = []" by (auto simp: available_def list_all_iff filter_empty_conv)
    then have "Next rr_Next now d r = (None, r)"
      using rr.Next_None_iff [of now d r] rr.Next_strategy_None [of now r d] by (metis prod.collapse)
    with Some True show ?thesis by (simp add: ServeHTTP_def)
  next
    case False
    then have "available now r d \<noteq> []" by (auto simp: available_def list_all_iff filter_empty_conv)
    then obtain inst where i: "fst (Next rr_Next now d r) = Some inst"
      using rr.Next_None_iff [of now d r] by blast
    obtain s where n: "Next rr_Next now d r = (Some inst, r\<lparr>strategy := s\<rparr>)"
    proof
      show "Next rr_Next now d r = (Some inst, r\<lparr>strategy := strategy (snd (Next rr_Next now d r))\<rparr>)"
        by (rule prod_eqI) (simp_all add: i registry.equality)
    qed
    have live: "inst \<in> set (dns_list (byDNS r) d) \<and> \<not> ejected now r (inst_id inst)"
      using rr.Next_available [OF i] by (simp add: available_def)
    have "ServeHTTP rr_Next w fwd now now' req r =
        (case fwd (inst_ip inst @ '':'' @ Itoa (inst_port inst)) req of
           Some status \<Rightarrow> (Forwarded inst status, r\<lparr>strategy := s\<rparr>)
         | None \<Rightarrow> (HttpError 502 ''bad gateway'',
             r\<lparr>strategy := s, unhealthyUntil := AList.update (inst_id inst) (now' + w) (unhealthyUntil r)\<rparr>))"
      unfolding ServeHTTP_def Some option.case n prod.case
      by (simp add: MarkUnhealthy_def split: option.splits)
    with Some False live show ?thesis by auto
  qed
qed

text \<open>
  The three ways \<open>main.go\<close> refreshes the registry between two requests.
\<close>

datatype refresh =
  Resync time dns_table
| Updated time string Instance
| Routes "string \<rightharpoonup> string"

fun refresh_step :: "refresh \<Rightarrow> 's registry \<Rightarrow> 's registry" where
  "refresh_step (Resync now m) r = ReplaceAll now m r"
| "refresh_step (Updated now d inst) r = Upsert now d inst r"
| "refresh_step (Routes routes) r = ReplaceHostRoutes routes r"

fun still_lists :: "uuid \<Rightarrow> refresh \<Rightarrow> bool" where
  "still_lists cid (Resync now m) \<longleftrightarrow> cid \<in> set (ids_of m)"
| "still_lists cid _ \<longleftrightarrow> True"

lemma map_of_filter_keep: "P k \<Longrightarrow> map_of (filter (\<lambda>(k, _). P k) l) k = map_of l k"
  by (induction l) auto

lemma refresh_keeps_mark:
  assumes "still_lists cid op"
  shows "map_of (unhealthyUntil (refresh_step op r)) cid = map_of (unhealthyUntil r) cid"
proof (cases op)
  case (Resync now m)
  let ?seen = "fold (\<lambda>(d, list) seen. fold (\<lambda>inst. AList.update (inst_id inst) now) list seen) m []"
  have "cid \<in> set (map fst ?seen)"
    using assms Resync seen_keys_table [of now m "[]"] by (simp del: set_map)
  then have "map_of ?seen cid \<noteq> None" by (simp add: map_of_eq_None_iff)
  then show ?thesis
    using Resync map_of_filter_keep [of "\<lambda>id. map_of ?seen id \<noteq> None" cid "unhealthyUntil r"]
    by (simp add: ReplaceAll_def Let_def)
next
  case (Updated now d inst)
  then show ?thesis by (simp add: Upsert_def Let_def split: option.splits)
next
  case (Routes routes)
  then show ?thesis by (simp add: ReplaceHostRoutes_def)
qed

lemma refreshes_keep_mark:
  "list_all (still_lists cid) ops \<Longrightarrow>
   map_of (unhealthyUntil (fold refresh_step ops r)) cid = map_of (unhealthyUntil r) cid"
  by (induction ops arbitrary: r) (simp_all add: refresh_keeps_mark)



subsection \<open>A round of probes\<close>

lemma probeOne_other:
  "inst_id inst \<noteq> cid \<Longrightarrow>
   map_of (unhealthyUntil (probeOne path iv probe now inst r)) cid = map_of (unhealthyUntil r) cid"
  by (auto simp: probeOne_def MarkUnhealthy_def MarkHealthy_def update_conv delete_conv split: probe_result.splits)

lemma probeOne_own:
  "map_of (unhealthyUntil (probeOne path iv probe now inst r)) (inst_id inst) =
   (case probe (probe_url path inst) of
      BadRequest \<Rightarrow> map_of (unhealthyUntil r) (inst_id inst)
    | NoAnswer \<Rightarrow> Some (now + iv)
    | Answered status \<Rightarrow> (if status \<ge> 500 then Some (now + iv) else None))"
  by (auto simp: probeOne_def MarkUnhealthy_def MarkHealthy_def update_conv delete_conv split: probe_result.splits)

lemma probeAll_other:
  "cid \<notin> inst_id ` set order \<Longrightarrow>
   map_of (unhealthyUntil (probeAll path iv probe now order r)) cid = map_of (unhealthyUntil r) cid"
  by (induction order arbitrary: r) (auto simp: probeAll_def probeOne_other)

lemma probeAll_own:
  assumes "distinct (map inst_id order)" "inst \<in> set order"
  shows "map_of (unhealthyUntil (probeAll path iv probe now order r)) (inst_id inst) =
    map_of (unhealthyUntil (probeOne path iv probe now inst r)) (inst_id inst)"
  using assms
proof (induction order arbitrary: r)
  case (Cons x order)
  show ?case
  proof (cases "x = inst")
    case True
    with Cons.prems have "inst_id inst \<notin> inst_id ` set order" by simp
    with True show ?thesis
      using probeAll_other [of "inst_id inst" order path iv probe now "probeOne path iv probe now inst r"]
      by (simp add: probeAll_def)
  next
    case False
    with Cons.prems have "inst \<in> set order" "inst_id x \<noteq> inst_id inst" by (auto simp: image_iff)
    with Cons show ?thesis by (simp add: probeAll_def probeOne_own probeOne_other split: probe_result.split)
  qed
qed simp

lemma map_id_All: "map inst_id (All r) = ids_of (byDNS r)"
  by (simp add: All_def ids_of_def entries_of_def map_concat o_def split_def)

lemma probeAll_frame:
  "byDNS (probeAll path iv probe now order r) = byDNS r"
  by (induction order arbitrary: r) (auto simp: probeAll_def probeOne_def split: probe_result.splits)

text \<open>
  A probe round decides the health of every registered instance, in whatever order its
  goroutines finish. Until the next round is due, an instance whose probe got no answer or a
  server error is ejected and every instance that answered anything below 500 is not, even if it
  was ejected before the round; the set of registered instances is unchanged.
\<close>

theorem probe_round_decides:
  assumes "reg_inv own r" and "mset order = mset (All r)" and "inst \<in> set (All r)"
    and "probe (probe_url path inst) \<noteq> BadRequest" and "t < now + iv"
    and "r' = probeAll path iv probe now order r"
  shows "(ejected t r' (inst_id inst) \<longleftrightarrow>
            (case probe (probe_url path inst) of Answered status \<Rightarrow> status \<ge> 500 | _ \<Rightarrow> True)) \<and>
         byDNS r' = byDNS r"
proof -
  have "distinct (map inst_id (All r))"
    using assms(1) by (simp add: map_id_All reg_inv_def table_ok_def)
  moreover have "mset (map inst_id order) = mset (map inst_id (All r))" using assms(2) by simp
  ultimately have "distinct (map inst_id order)" using mset_eq_imp_distinct_iff by blast
  moreover have "inst \<in> set order" using assms(2,3) mset_eq_setD by blast
  ultimately show ?thesis
    using assms(4-6) probeAll_own [of order inst path iv probe now r] probeAll_frame [of path iv probe now order r]
    by (auto simp: ejected_def probeOne_own split: probe_result.splits)
qed

theorem probe_round_decides_witness:
  "let a = \<lparr>inst_id = 1, inst_ip = ''10.0.0.1'', inst_port = 80\<rparr>;
       r = MarkUnhealthy 1 1 100 (ReplaceAll 0 [(''web'', [a])] (NewRegistry NewRoundRobin))
   in ejected 2 r 1 \<and> \<not> ejected 3 (probeAll ''/'' 5 (\<lambda>_. Answered 404) 2 [a] r) 1"
proof -
  let ?a = "\<lparr>inst_id = (1::uuid), inst_ip = ''10.0.0.1'', inst_port = 80\<rparr>"
  let ?r = "MarkUnhealthy 1 1 100 (ReplaceAll 0 [(''web'', [?a])] (NewRegistry NewRoundRobin))"
  have "reg_inv (\<lambda>_. ''web'') (ReplaceAll 0 [(''web'', [?a])] (NewRegistry NewRoundRobin))"
    by (rule ReplaceAll_inv) (simp add: table_ok_def)
  then have inv: "reg_inv (\<lambda>_. ''web'') ?r" by (simp add: reg_inv_def)
  have all: "All ?r = [?a]" by (simp add: All_def ReplaceAll_def Let_def)
  have "(ejected 3 (probeAll ''/'' 5 (\<lambda>_. Answered 404) 2 [?a] ?r) (inst_id ?a) \<longleftrightarrow>
      (case Answered 404 of Answered status \<Rightarrow> status \<ge> 500 | _ \<Rightarrow> True)) \<and>
      byDNS (probeAll ''/'' 5 (\<lambda>_. Answered 404) 2 [?a] ?r) = byDNS ?r"
    by (rule probe_round_decides [OF inv]) (simp_all add: all)
  moreover have "ejected 2 ?r 1" by (simp add: ejected_def MarkUnhealthy_def update_conv)
  ultimately show ?thesis unfolding Let_def by simp
qed

subsection \<open>The certificate cache\<close>

text \<open>
  The certificates a run of handshakes may cache: each signed, by some use of the crypto
  packages, from a template for the hostname it is cached under.
\<close>

fun handshakes ::
  "(('key, 'der) entropy \<times> time \<times> string) list \<Rightarrow> ('der \<times> 'key) self_signed \<Rightarrow>
   (string + ('der \<times> 'key)) list \<times> ('der \<times> 'key) self_signed"
where
  "handshakes [] s = ([], s)"
| "handshakes ((crypto, now, name) # hs) s =
     (let (answer, s1) = tls_GetCertificate crypto now name s; (answers, s2) = handshakes hs s1
      in (answer # answers, s2))"

lemma tls_GetCertificate_mono:
  "certs s h = Some c \<Longrightarrow> certs (snd (tls_GetCertificate crypto now name s)) h = Some c"
  by (auto simp: tls_GetCertificate_def GetCertificate_def split: option.splits sum.splits)

lemma handshakes_mono: "certs s h = Some c \<Longrightarrow> certs (snd (handshakes hs s)) h = Some c"
proof (induction hs arbitrary: s)
  case (Cons x hs)
  then show ?case
    using tls_GetCertificate_mono [OF Cons.prems] by (cases x) (simp add: Let_def split_def)
qed simp

text \<open>
  The certificate presented for a hostname is stable: once a handshake for a server name has
  succeeded, every later handshake for it, after any other handshakes, presents the same
  certificate without generating another, and does not depend on the crypto packages working.
  That first certificate was signed for exactly that hostname.
\<close>

theorem certificate_is_stable:
  assumes "tls_GetCertificate crypto now name s = (Inr cert, s1)"
  shows "tls_GetCertificate crypto' now' name (snd (handshakes hs s1)) = (Inr cert, snd (handshakes hs s1))
    \<and> (certs s name = None \<longrightarrow> (\<exists>template key. CommonName template = name \<and> DNSNames template = [name] \<and>
          NotBefore template \<le> now \<and> NotAfter template = now + cert_validity s \<and>
          GenerateKey crypto = Inr key \<and> CreateCertificate crypto template key = Inr (fst cert)))"
proof -
  have name: "name \<noteq> []" using assms by (auto simp: tls_GetCertificate_def)
  have "certs s1 name = Some cert"
    using assms name by (auto simp: tls_GetCertificate_def GetCertificate_def split: option.splits sum.splits)
  then have "certs (snd (handshakes hs s1)) name = Some cert" by (rule handshakes_mono)
  then have "tls_GetCertificate crypto' now' name (snd (handshakes hs s1)) = (Inr cert, snd (handshakes hs s1))"
    using name by (simp add: tls_GetCertificate_def GetCertificate_def)
  moreover have "\<exists>template key. CommonName template = name \<and> DNSNames template = [name] \<and>
      NotBefore template \<le> now \<and> NotAfter template = now + cert_validity s \<and>
      GenerateKey crypto = Inr key \<and> CreateCertificate crypto template key = Inr (fst cert)"
    if "certs s name = None"
  proof -
    from assms name that have "generate crypto now name (cert_validity s) = Inr cert"
      by (auto simp: tls_GetCertificate_def GetCertificate_def split: sum.splits)
    then obtain key serial where "GenerateKey crypto = Inr key"
      "CreateCertificate crypto \<lparr>SerialNumber = serial, CommonName = name, DNSNames = [name],
         NotBefore = now - 5 * minute, NotAfter = now + cert_validity s\<rparr> key = Inr (fst cert)"
      by (auto simp: generate_def Let_def split: sum.splits)
    then show ?thesis
      by (intro exI [of _ "\<lparr>SerialNumber = serial, CommonName = name, DNSNames = [name],
         NotBefore = now - 5 * minute, NotAfter = now + cert_validity s\<rparr>"] exI [of _ key])
        (simp add: minute_def second_def)
  qed
  ultimately show ?thesis by blast
qed

theorem certificate_is_stable_witness:
  "let ok = \<lparr>GenerateKey = Inr (7::nat), rand_Int = Inr 42, CreateCertificate = (\<lambda>t k. Inr (DNSNames t))\<rparr>;
       broken = \<lparr>GenerateKey = Inl ''no entropy'', rand_Int = Inr 42, CreateCertificate = (\<lambda>t k. Inr (DNSNames t))\<rparr>;
       s1 = snd (tls_GetCertificate ok 100 ''a.example'' NewSelfSigned)
   in fst (tls_GetCertificate broken 200 ''a.example'' (snd (handshakes [(ok, 150, ''b.example'')] s1)))
        = Inr ([''a.example''], 7)"
proof -
  let ?ok = "\<lparr>GenerateKey = Inr (7::nat), rand_Int = Inr 42, CreateCertificate = (\<lambda>t k. Inr (DNSNames t))\<rparr>"
  let ?broken = "\<lparr>GenerateKey = Inl ''no entropy'', rand_Int = Inr 42, CreateCertificate = (\<lambda>t k. Inr (DNSNames t))\<rparr>"
  have "tls_GetCertificate ?ok 100 ''a.example'' NewSelfSigned =
      (Inr ([''a.example''], 7), snd (tls_GetCertificate ?ok 100 ''a.example'' NewSelfSigned))"
    by (simp add: tls_GetCertificate_def GetCertificate_def generate_def NewSelfSigned_def)
  from certificate_is_stable [OF this, of ?broken 200 "[(?ok, 150, ''b.example'')]"]
  show ?thesis unfolding Let_def by simp
qed

end
