(* ===== verification/LoadBalancer.thy ===== *)
theory LoadBalancer
  imports Proxy Repos
begin

section \<open>Keeping the load balancer's registry in step with the database\<close>

text \<open>
  \<^verbatim>\<open>services/loadbalancer/main.go\<close>: the periodic resync and the handler of
  \<open>service.updated\<close>. Both read the join of healthy instances and services and write the
  registry; the lemmas show that a resync makes the registry's routing map equal to that join,
  and that an event makes it equal at the container it names.
\<close>

definition instance_of :: "ServiceRegistryEntry \<Rightarrow> Instance" where
  "instance_of e = \<lparr>inst_id = re_ContainerID e, inst_ip = re_IP e, inst_port = re_Port e\<rparr>"

definition add_entry :: "dns_table \<Rightarrow> ServiceRegistryEntry \<Rightarrow> dns_table" where
  "add_entry table e = AList.update (re_DNSName e) (dns_list table (re_DNSName e) @ [instance_of e]) table"

definition group_entries :: "ServiceRegistryEntry list \<Rightarrow> dns_table" where
  "group_entries entries = foldl add_entry [] entries"

definition host_map :: "DomainRoute list \<Rightarrow> string \<rightharpoonup> string" where
  "host_map routes = foldl (\<lambda>m rt. m(route_Hostname rt \<mapsto> route_DNSName rt)) Map.empty routes"

definition resync :: "'s registry \<Rightarrow> 's registry op" where
  "resync reg =
     bindE (catchE (bindE LoadBalancer_ListHealthyRegistry (\<lambda>entries. bindE now_op (\<lambda>now.
              ret (ReplaceAll now (group_entries entries) reg))))
            (\<lambda>_. ret reg)) (\<lambda>reg1.
     catchE (bindE (as_admin DomainRouting_ListRoutes) (\<lambda>routes. ret (ReplaceHostRoutes (host_map routes) reg1)))
       (\<lambda>_. ret reg1))"

definition handleServiceUpdated :: "codec \<Rightarrow> json option \<Rightarrow> 's registry \<Rightarrow> 's registry op" where
  "handleServiceUpdated cd data reg =
     (case dec_updated data of
        None \<Rightarrow> ret reg
      | Some msg \<Rightarrow>
          (case UUID_Parse cd (up_ContainerID msg) of
             None \<Rightarrow> ret reg
           | Some containerID \<Rightarrow>
               catchE (bindE (LoadBalancer_GetHealthyInstanceByContainer containerID) (\<lambda>entry.
                 case entry of
                   None \<Rightarrow> ret (Remove containerID reg)
                 | Some e \<Rightarrow> bindE now_op (\<lambda>now. ret (Upsert now (re_DNSName e) (instance_of e) reg))))
               (\<lambda>_. ret reg)))"

subsection \<open>What the database says\<close>

text \<open>Where the database says a container can be reached, and the names of the containers' services.\<close>

definition db_route :: "db \<Rightarrow> uuid \<rightharpoonup> string \<times> Instance" where
  "db_route d c = map_option (\<lambda>e. (re_DNSName e, instance_of e))
     (find (\<lambda>e. re_ContainerID e = c) (serviceRegistryJoin d))"

definition owners_agree :: "(uuid \<Rightarrow> string) \<Rightarrow> db \<Rightarrow> bool" where
  "owners_agree own d \<longleftrightarrow> (\<forall>e\<in>set (serviceRegistryJoin d). own (re_ContainerID e) = re_DNSName e)"

lemma table_ok_update:
  assumes "table_ok own m" "inst_id i \<notin> set (ids_of m)" "own (inst_id i) = n"
  shows "table_ok own (AList.update n (dns_list m n @ [i]) m) \<and>
    set (entries_of (AList.update n (dns_list m n @ [i]) m)) = insert (n, i) (set (entries_of m))"
proof -
  have dm: "distinct (map fst m)" using assms(1) by (simp add: table_ok_def)
  let ?m = "AList.update n (dns_list m n @ [i]) m"
  have dk: "distinct (map fst ?m)" using dm by (simp add: distinct_update)
  from update_split [OF dm, of n "dns_list m n @ [i]"] show ?thesis
  proof (elim disjE exE conjE)
    fix xs l ys
    assume m: "m = xs @ (n, l) # ys" and up: "?m = xs @ (n, dns_list m n @ [i]) # ys" and l: "dns_list m n = l"
    have e: "entries_of ?m = entries_of xs @ map (Pair n) l @ (n, i) # entries_of ys"
      using arg_cong [OF up, of entries_of] by (simp add: l)
    have e0: "entries_of m = entries_of xs @ map (Pair n) l @ entries_of ys" unfolding m by simp
    have "distinct (ids_of ?m)" using assms(1,2) unfolding table_ok_def ids_of_def e e0 by auto
    moreover have "list_all (\<lambda>(d, inst). own (inst_id inst) = d) (entries_of ?m)"
      using assms(1,3) unfolding table_ok_def e e0 by simp
    ultimately show ?thesis using dk unfolding table_ok_def e e0 by auto
  next
    assume up: "?m = m @ [(n, dns_list m n @ [i])]" and l: "dns_list m n = []"
    have e: "entries_of ?m = entries_of m @ [(n, i)]" using arg_cong [OF up, of entries_of] by (simp add: l)
    have "distinct (ids_of ?m)" using assms(1,2) unfolding table_ok_def ids_of_def e by auto
    moreover have "list_all (\<lambda>(d, inst). own (inst_id inst) = d) (entries_of ?m)"
      using assms(1,3) unfolding table_ok_def e by simp
    ultimately show ?thesis using dk unfolding table_ok_def e by auto
  qed
qed

lemma group_entries_fold:
  assumes "table_ok own m" "distinct (map re_ContainerID es)" "\<forall>e\<in>set es. re_ContainerID e \<notin> set (ids_of m)"
    "\<forall>e\<in>set es. own (re_ContainerID e) = re_DNSName e"
  shows "table_ok own (foldl add_entry m es)
    \<and> set (entries_of (foldl add_entry m es))
      = set (entries_of m) \<union> (\<lambda>e. (re_DNSName e, instance_of e)) ` set es"
  using assms
proof (induction es arbitrary: m)
  case (Cons e es)
  have i: "inst_id (instance_of e) = re_ContainerID e" by (simp add: instance_of_def)
  have t: "table_ok own (add_entry m e)"
    and s: "set (entries_of (add_entry m e)) = insert (re_DNSName e, instance_of e) (set (entries_of m))"
    using table_ok_update [of own m "instance_of e" "re_DNSName e"] Cons.prems i by (auto simp: add_entry_def)
  have "set (ids_of (add_entry m e)) = insert (re_ContainerID e) (set (ids_of m))"
    using s i by (simp add: ids_of_def image_comp [symmetric])
  then have "\<forall>x\<in>set es. re_ContainerID x \<notin> set (ids_of (add_entry m e))" using Cons.prems(2,3)
    by (simp add: image_iff) metis
  from Cons.IH [OF t _ this] Cons.prems s show ?case by simp
qed simp

lemma group_entries_ok:
  assumes "distinct (map re_ContainerID es)" "\<forall>e\<in>set es. own (re_ContainerID e) = re_DNSName e"
  shows "table_ok own (group_entries es)"
    and "set (entries_of (group_entries es)) = (\<lambda>e. (re_DNSName e, instance_of e)) ` set es"
  using group_entries_fold [of own "[]" es] assms by (simp_all add: group_entries_def table_ok_def)

lemma find_unique:
  "distinct (map f xs) \<Longrightarrow> x \<in> set xs \<Longrightarrow> find (\<lambda>y. f y = f x) xs = Some x"
  by (induction xs) auto

lemma distinct_join: "distinct (map si_ContainerID (service_instances d)) \<Longrightarrow> distinct (map re_ContainerID (serviceRegistryJoin d))"
  unfolding serviceRegistryJoin_def by (rule distinct_map_filter_keys) (auto split: if_splits)

lemma db_route_Some:
  assumes "distinct (map si_ContainerID (service_instances d))"
  shows "db_route d c = Some (n, i) \<longleftrightarrow>
    (\<exists>e\<in>set (serviceRegistryJoin d). re_ContainerID e = c \<and> n = re_DNSName e \<and> i = instance_of e)"
  using find_unique [OF distinct_join [OF assms]]
  by (auto simp: db_route_def dest!: find_Some_set)

subsection \<open>Resync and events\<close>

lemma ListHealthyRegistry_ok:
  "no_faults w \<Longrightarrow> LoadBalancer_ListHealthyRegistry w = (Inr (serviceRegistryJoin (w_db w)), ticks 1 w)"
  by (simp add: LoadBalancer_ListHealthyRegistry_def wrapE_Inr query_ok)

lemma GetHealthyInstance_ok:
  "no_faults w \<Longrightarrow> LoadBalancer_GetHealthyInstanceByContainer c w =
     (Inr (find (\<lambda>e. re_ContainerID e = c) (serviceRegistryJoin (w_db w))), ticks 1 w)"
  by (simp add: LoadBalancer_GetHealthyInstanceByContainer_def wrapE_Inr query_ok)

definition all_routes :: "db \<Rightarrow> DomainRoute list" where
  "all_routes d = List.map_filter (\<lambda>x. map_option (\<lambda>sv. \<lparr>route_Hostname = dom_Hostname x, route_DNSName = svc_DNSName sv\<rparr>)
     (find (\<lambda>sv. svc_ApplicationID sv = dom_ApplicationID x) (services d))) (domains d)"

lemma ListRoutes_ok: "no_faults w \<Longrightarrow> as_admin DomainRouting_ListRoutes w = (Inr (all_routes (w_db w)), ticks 1 w)"
  by (rule as_admin_run)
    (simp add: DomainRouting_ListRoutes_def wrapE_Inr query_ok all_routes_def org_visible_def)

lemma host_map_eq: "host_map routes = map_of (rev (map (\<lambda>rt. (route_Hostname rt, route_DNSName rt)) routes))"
proof -
  have "foldl (\<lambda>m rt. m(route_Hostname rt \<mapsto> route_DNSName rt)) m0 routes =
      m0 ++ map_of (rev (map (\<lambda>rt. (route_Hostname rt, route_DNSName rt)) routes))" for m0
    by (induction routes arbitrary: m0) (auto simp: map_add_def fun_eq_iff split: option.splits)
  then show ?thesis by (simp add: host_map_def)
qed

lemma event_routes:
  assumes "no_faults w" "codec_ok cd" "reg_inv own reg" "owners_agree own (w_db w)"
  shows "\<exists>reg'. handleServiceUpdated cd (Some (enc_updated \<lparr>up_ContainerID = UUID_String cd c\<rparr>)) reg w = (Inr reg', ticks 1 w) \<and>
     reg_inv own reg' \<and> routes_to reg' = (routes_to reg)(c := db_route (w_db w) c)"
proof (cases "find (\<lambda>e. re_ContainerID e = c) (serviceRegistryJoin (w_db w))")
  case None
  have "routes_to (Remove c reg) = (routes_to reg)(c := None)" using routes_to_Remove [OF assms(3)] .
  moreover have "reg_inv own (Remove c reg)" unfolding Remove_def using removeLocked_inv [OF assms(3)] .
  ultimately show ?thesis using None assms(1,2)
    by (simp add: handleServiceUpdated_def codec_ok_def GetHealthyInstance_ok bindE_def catchE_def ret_def db_route_def)
next
  case (Some e)
  have e: "e \<in> set (serviceRegistryJoin (w_db w))" "re_ContainerID e = c" using find_Some_set [OF Some] by auto
  then have own: "own (inst_id (instance_of e)) = re_DNSName e" "inst_id (instance_of e) = c"
    using assms(4) by (auto simp: owners_agree_def instance_of_def)
  have "routes_to (Upsert now (re_DNSName e) (instance_of e) reg) = (routes_to reg)(c \<mapsto> (re_DNSName e, instance_of e))" for now
    using routes_to_Upsert [OF assms(3) own(1), of now] own(2) by simp
  moreover have "reg_inv own (Upsert now (re_DNSName e) (instance_of e) reg)" for now
    using Upsert_inv [OF assms(3) own(1)] .
  ultimately show ?thesis using Some assms(1,2)
    by (simp add: handleServiceUpdated_def codec_ok_def GetHealthyInstance_ok bindE_def catchE_def ret_def db_route_def
        now_op_def)
qed

text \<open>
  A resync with a working database makes the registry mirror it: the routing map is the join
  of healthy instances with their services, container by container, the host routes are those of
  the domains, and the registry is well formed again whatever it held. Backends that were ejected
  and are still listed stay ejected.
\<close>

theorem resync_mirrors_database:
  assumes "no_faults w" "distinct (map si_ContainerID (service_instances (w_db w)))" "owners_agree own (w_db w)"
  shows "\<exists>reg'. resync reg w = (Inr reg', ticks 2 w) \<and> reg_inv own reg' \<and>
    routes_to reg' = db_route (w_db w) \<and> hostRoutes reg' = host_map (all_routes (w_db w)) \<and>
    (\<forall>c now. db_route (w_db w) c \<noteq> None \<longrightarrow> ejected now reg' c = ejected now reg c)"
proof -
  let ?d = "w_db w"
  let ?m = "group_entries (serviceRegistryJoin ?d)"
  let ?r1 = "ReplaceAll (w_now w) ?m reg"
  let ?r = "ReplaceHostRoutes (host_map (all_routes ?d)) ?r1"
  have ok: "table_ok own ?m" and ents: "set (entries_of ?m) = (\<lambda>e. (re_DNSName e, instance_of e)) ` set (serviceRegistryJoin ?d)"
    using group_entries_ok [OF distinct_join [OF assms(2)]] assms(3) by (simp_all add: owners_agree_def)
  have inv: "reg_inv own ?r" using ReplaceAll_inv [OF ok] by (simp add: reg_inv_def ReplaceHostRoutes_def)
  have run: "resync reg w = (Inr ?r, ticks 2 w)"
    using assms(1) by (simp add: resync_def bindE_def catchE_def ret_def now_op_def ListHealthyRegistry_ok ListRoutes_ok
        numeral_2_eq_2)
  have "routes_to ?r = db_route ?d"
  proof (rule routes_to_eqI)
    fix c n i
    have "routes_to ?r c = Some (n, i) \<longleftrightarrow> (n, i) \<in> set (entries_of ?m) \<and> inst_id i = c"
      using routes_to_Some [OF inv] by (simp add: ReplaceHostRoutes_def ReplaceAll_def Let_def)
    then show "routes_to ?r c = Some (n, i) \<longleftrightarrow> db_route ?d c = Some (n, i)"
      unfolding ents db_route_Some [OF assms(2)] by (auto simp: instance_of_def)
  qed
  moreover have "ejected now ?r c = ejected now reg c" if "db_route ?d c \<noteq> None" for c now
  proof -
    have "c \<in> set (ids_of ?m)"
      using that db_route_Some [OF assms(2)] ents by (force simp: ids_of_def instance_of_def)
    then show ?thesis using refresh_keeps_mark [of c "Resync (w_now w) ?m" reg]
      by (simp add: ReplaceHostRoutes_def ejected_def)
  qed
  ultimately show ?thesis using run inv by (simp add: ReplaceHostRoutes_def)
qed

definition demo_services :: db where
  "demo_services = empty_db\<lparr>
     services := [\<lparr>svc_ID = 1, svc_ApplicationID = 6, svc_DNSName = ''web'', svc_CreatedAt = 0\<rparr>],
     service_instances := [\<lparr>si_ID = 2, si_ServiceID = 1, si_ContainerID = 9, si_IP = ''10.0.0.3'', si_Port = 8080,
       si_Healthy = True, si_LastSeenAt = 0\<rparr>],
     domains := [\<lparr>dom_ID = 3, dom_OrgID = 5, dom_ProjectID = 4, dom_ApplicationID = 6, dom_Hostname = ''shop.example'',
       dom_TLSStatus = DomainTLSStatusPending, dom_CreatedAt = 0\<rparr>]\<rparr>"

theorem resync_mirrors_database_witness:
  "\<exists>reg. fst (resync (NewRegistry NewRoundRobin) (calm 0 demo_services)) = Inr reg \<and>
     routes_to reg 9 = Some (''web'', \<lparr>inst_id = 9, inst_ip = ''10.0.0.3'', inst_port = 8080\<rparr>) \<and>
     ResolveHost reg ''shop.example'' = Some ''web''"
proof -
  have route: "db_route demo_services 9 = Some (''web'', \<lparr>inst_id = 9, inst_ip = ''10.0.0.3'', inst_port = 8080\<rparr>)"
    and hosts: "all_routes demo_services = [\<lparr>route_Hostname = ''shop.example'', route_DNSName = ''web''\<rparr>]"
    and own: "owners_agree (\<lambda>_. ''web'') demo_services"
    and dist: "distinct (map si_ContainerID (service_instances demo_services))"
    by (simp_all add: db_route_def all_routes_def owners_agree_def serviceRegistryJoin_def demo_services_def empty_db_def
        List.map_filter_def instance_of_def)
  from resync_mirrors_database [of "calm 0 demo_services" "\<lambda>_. ''web''" "NewRegistry NewRoundRobin"] route hosts own dist
  show ?thesis by (auto simp: host_map_def ResolveHost_def)
qed

end
