(* ===== verification/Discovery.thy ===== *)
theory Discovery
  imports ServiceInstances LoadBalancer
begin

section \<open>Service discovery end to end\<close>

text \<open>
  The service instance controller and the load balancer together. The controller announces its
  changes; the load balancer re-reads the container each announcement names. The property says
  that this protocol keeps the balancer's routing map equal to the database.
\<close>

text \<open>The balancer's subscription handles the messages in order; it sees only its own subject.\<close>

fun deliver :: "codec \<Rightarrow> (string \<times> json) list \<Rightarrow> 's registry \<Rightarrow> 's registry op" where
  "deliver cd [] reg = ret reg"
| "deliver cd ((subject, data) # msgs) reg =
     bindE (if subject = ServiceUpdatedSubject then handleServiceUpdated cd (Some data) reg else ret reg) (deliver cd msgs)"

lemma find_join:
  assumes "distinct (map si_ContainerID (service_instances d))"
  shows "find (\<lambda>e. re_ContainerID e = c) (serviceRegistryJoin d) =
    Option.bind (inst d c) (\<lambda>x. if si_Healthy x
      then map_option (\<lambda>sv. \<lparr>re_DNSName = svc_DNSName sv, re_ContainerID = c, re_IP = si_IP x, re_Port = si_Port x\<rparr>)
             (find (\<lambda>sv. svc_ID sv = si_ServiceID x) (services d)) else None)"
proof -
  define f where "f x = (if si_Healthy x then
       map_option (\<lambda>sv. \<lparr>re_DNSName = svc_DNSName sv, re_ContainerID = si_ContainerID x, re_IP = si_IP x, re_Port = si_Port x\<rparr>)
         (find (\<lambda>sv. svc_ID sv = si_ServiceID x) (services d)) else None)" for x :: ServiceInstance
  have key: "f x = Some e \<Longrightarrow> re_ContainerID e = si_ContainerID x" for x e by (auto simp: f_def split: if_splits)
  have by_key: "distinct (map si_ContainerID xs) \<Longrightarrow> find (\<lambda>e. re_ContainerID e = c) (List.map_filter f xs) =
      Option.bind (find (\<lambda>x. si_ContainerID x = c) xs) f" for xs :: "ServiceInstance list"
  proof (induction xs)
    case (Cons x xs)
    show ?case
    proof (cases "si_ContainerID x = c")
      case True
      with Cons.prems have "find (\<lambda>x. si_ContainerID x = c) xs = None"
        by (simp add: find_None_iff image_iff) metis
      with Cons True key show ?thesis by (cases "f x") (auto simp: List.map_filter_simps)
    next
      case False
      with Cons key show ?thesis by (cases "f x") (auto simp: List.map_filter_simps)
    qed
  qed (simp add: List.map_filter_simps)
  from by_key [OF assms] have "find (\<lambda>e. re_ContainerID e = c) (serviceRegistryJoin d) = Option.bind (inst d c) f"
    by (simp add: serviceRegistryJoin_def f_def [abs_def] inst_def)
  also have "\<dots> = Option.bind (inst d c) (\<lambda>x. if si_Healthy x
      then map_option (\<lambda>sv. \<lparr>re_DNSName = svc_DNSName sv, re_ContainerID = c, re_IP = si_IP x, re_Port = si_Port x\<rparr>)
             (find (\<lambda>sv. svc_ID sv = si_ServiceID x) (services d)) else None)"
    by (cases "inst d c") (auto simp: f_def inst_def dest: find_Some_set)
  finally show ?thesis .
qed

text \<open>Every instance belongs to a service that is in the table: the foreign key.\<close>

definition instances_owned :: "db \<Rightarrow> bool" where
  "instances_owned d \<longleftrightarrow> (\<forall>x\<in>set (service_instances d). find (\<lambda>sv. svc_ID sv = si_ServiceID x) (services d) \<noteq> None)"

lemma db_route_unchanged:
  assumes "inst d' c = inst d c" "services d' = services d @ extra" "instances_owned d"
    "distinct (map si_ContainerID (service_instances d))" "distinct (map si_ContainerID (service_instances d'))"
  shows "db_route d' c = db_route d c"
proof (cases "inst d c")
  case None
  then show ?thesis using assms by (simp add: db_route_def find_join)
next
  case (Some x)
  then have "x \<in> set (service_instances d)" unfolding inst_def by (blast dest: find_Some_set)
  then obtain sv where "find (\<lambda>sv. svc_ID sv = si_ServiceID x) (services d) = Some sv"
    using assms(3) by (auto simp: instances_owned_def)
  with Some assms show ?thesis by (simp add: db_route_def find_join find_append)
qed

lemma deliver_routes:
  assumes "no_faults w" "codec_ok cd" "reg_inv own reg" "owners_agree own (w_db w)"
  shows "\<exists>reg'. deliver cd (map (updated_about cd) ids) reg w = (Inr reg', ticks (length ids) w) \<and>
     reg_inv own reg' \<and> routes_to reg' = (\<lambda>c. if c \<in> set ids then db_route (w_db w) c else routes_to reg c)"
  using assms
proof (induction ids arbitrary: reg w)
  case Nil
  then show ?case by (auto simp: ret_def ticks_def)
next
  case (Cons c ids)
  obtain reg1 where r1: "handleServiceUpdated cd (Some (enc_updated \<lparr>up_ContainerID = UUID_String cd c\<rparr>)) reg w = (Inr reg1, ticks 1 w)"
    "reg_inv own reg1" "routes_to reg1 = (routes_to reg)(c := db_route (w_db w) c)"
    using event_routes [OF Cons.prems] by blast
  have "\<exists>reg'. deliver cd (map (updated_about cd) ids) reg1 (ticks 1 w) = (Inr reg', ticks (length ids) (ticks 1 w)) \<and>
     reg_inv own reg' \<and> routes_to reg' = (\<lambda>x. if x \<in> set ids then db_route (w_db (ticks 1 w)) x else routes_to reg1 x)"
    using Cons.prems r1(2) by (intro Cons.IH) simp_all
  then obtain reg' where r2: "deliver cd (map (updated_about cd) ids) reg1 (ticks 1 w) = (Inr reg', ticks (length ids) (ticks 1 w))"
    "reg_inv own reg'" "routes_to reg' = (\<lambda>x. if x \<in> set ids then db_route (w_db w) x else routes_to reg1 x)"
    by (auto simp only: ticks_sel)
  have "deliver cd (map (updated_about cd) (c # ids)) reg w = (Inr reg', ticks (length (c # ids)) w)"
    using r1(1) r2(1) by (simp add: updated_about_def [of cd c] bindE_def)
  moreover have "routes_to reg' = (\<lambda>x. if x \<in> set (c # ids) then db_route (w_db w) x else routes_to reg x)"
    unfolding r2(3) r1(3) by auto
  ultimately show ?case using r2(2) by blast
qed

text \<open>
  C34. Event-driven discovery is enough while messages arrive. Take any tick of the service instance
  controller, with any of its statements failing, and a load balancer whose routing map agreed with
  the database before it: after the balancer has handled, in order, the messages of that tick with
  its own database connection working, its routing map agrees with the database after the tick.
  The periodic resync is needed only for lost messages.
\<close>

theorem routing_follows_instances:
  assumes "bus_up w" "codec_ok cd" "instances_owned (w_db w)" "distinct (map si_ContainerID (service_instances (w_db w)))"
    and "w' = snd (instances_tick cd ports w)" "w_bus w' = w_bus w @ msgs"
    and "no_faults wl" "w_db wl = w_db w'" "reg_inv own reg" "owners_agree own (w_db w')" "routes_to reg = db_route (w_db w)"
  shows "\<exists>reg'. fst (deliver cd msgs reg wl) = Inr reg' \<and> reg_inv own reg' \<and> routes_to reg' = db_route (w_db w')"
proof -
  obtain ids where a: "announced cd ids w w'" using instances_tick_announced [OF assms(1)] assms(5) by blast
  then have msgs: "msgs = map (updated_about cd) ids" using assms(6) by (simp add: announced_def)
  obtain extra where sv: "services (w_db w') = services (w_db w) @ extra" using a by (auto simp: announced_def)
  have dist: "distinct (map si_ContainerID (service_instances (w_db w')))" using a assms(4) by (simp add: announced_def)
  have same: "db_route (w_db w') c = db_route (w_db w) c" if "c \<notin> set ids" for c
    using db_route_unchanged [OF _ sv assms(3,4) dist, of c] a that by (simp add: announced_def)
  obtain reg' where "deliver cd msgs reg wl = (Inr reg', ticks (length ids) wl)" "reg_inv own reg'"
    "routes_to reg' = (\<lambda>c. if c \<in> set ids then db_route (w_db w') c else routes_to reg c)"
    using deliver_routes [OF assms(7,2,9), of ids] unfolding assms(8) msgs using assms(10) by blast
  with same assms(11) show ?thesis by (auto simp: fun_eq_iff)
qed

definition owner_in :: "db \<Rightarrow> uuid \<Rightarrow> string" where
  "owner_in d c = (case db_route d c of Some (n, _) \<Rightarrow> n | None \<Rightarrow> [])"

lemma owners_agree_owner_in:
  "distinct (map si_ContainerID (service_instances d)) \<Longrightarrow> owners_agree (owner_in d) d"
  by (simp add: owners_agree_def owner_in_def db_route_def find_unique [OF distinct_join])

theorem routing_follows_instances_witness:
  "let w' = snd (instances_tick unary demo_ports (admin_calm 0 demo_running)) in
   \<exists>reg'. fst (deliver unary (w_bus w') (NewRegistry NewRoundRobin) (calm 0 (w_db w'))) = Inr reg' \<and>
     routes_to reg' = db_route (w_db w')"
proof -
  let ?w = "admin_calm 0 demo_running" and ?w' = "snd (instances_tick unary demo_ports (admin_calm 0 demo_running))"
  have none: "service_instances demo_running = []" by (simp add: demo_running_def empty_db_def)
  then have "db_route demo_running = Map.empty" by (simp add: fun_eq_iff db_route_def serviceRegistryJoin_def List.map_filter_def)
  moreover have "distinct (map si_ContainerID (service_instances (w_db ?w')))"
    using instances_tick_announced [of ?w unary demo_ports] none by (auto simp: announced_def)
  ultimately show ?thesis
    using routing_follows_instances [of ?w unary ?w' demo_ports "w_bus ?w'" "calm 0 (w_db ?w')" "owner_in (w_db ?w')"
        "NewRegistry NewRoundRobin"] none unary_ok owners_agree_owner_in [of "w_db ?w'"]
    by (auto simp: Let_def instances_owned_def reg_inv_def table_ok_def NewRegistry_def routes_to_def)
qed

end
