(* ===== verification/ImageBuilder.thy ===== *)
theory ImageBuilder
  imports Effects
begin

section \<open>The image builder\<close>

text \<open>
  \<^verbatim>\<open>services/image-builder/internal/imagebuilder\<close>: the consumer of
  \<open>build.requested\<close>, the Docker adapter of the \<open>ImageBuilder\<close> port, the clone and the
  build context. The \<^verbatim>\<open>git\<close> binary, the temporary directory and the Docker client
  are a record of functions (\<open>tools\<close>). The port is the locale \<open>image_builder\<close>, with the
  contract of its doc comment; the consumer is verified against it and the adapter is proved to
  satisfy it.
\<close>

subsection \<open>Files\<close>

text \<open>
  A cloned tree. A regular file carries what reading it gives (\<open>None\<close>: it cannot be opened),
  a symbolic link what opening and reading its target gives. Directory entries are in the lexical
  order of \<open>filepath.Walk\<close>.
\<close>

datatype node = File "string option" | Link "string option" | Dir "(string \<times> node) list"

type_synonym host = "string \<rightharpoonup> node"

text \<open>
  The entries written to the tar stream: a directory, or a file with its content. A write to a
  symbolic link's entry fails, so a link passes only when nothing is read from it.
\<close>

fun walk :: "string \<Rightarrow> node \<Rightarrow> (string \<times> string option) list option"
  and walk_entries :: "string \<Rightarrow> (string \<times> node) list \<Rightarrow> (string \<times> string option) list option"
where
  "walk rel (File c) = (case c of None \<Rightarrow> None | Some bs \<Rightarrow> Some [(rel, Some bs)])"
| "walk rel (Link c) = (if c = Some [] then Some [(rel, Some [])] else None)"
| "walk rel (Dir es) = map_option (\<lambda>out. (rel @ ''/'', None) # out) (walk_entries (rel @ ''/'') es)"
| "walk_entries pre [] = Some []"
| "walk_entries pre ((n, x) # es) =
     (if pre @ n = ''.git'' then walk_entries pre es
      else Option.bind (walk (pre @ n) x) (\<lambda>a. Option.bind (walk_entries pre es) (\<lambda>b. Some (a @ b))))"

definition tarDirectory :: "node \<Rightarrow> (string \<times> string option) list option" where
  "tarDirectory root = (case root of Dir es \<Rightarrow> walk_entries [] es | _ \<Rightarrow> None)"

subsection \<open>The adapter\<close>

record Request =
  bq_GitURL :: string
  bq_GitRef :: string
  bq_ImageRepository :: string

record Result =
  res_CommitSHA :: string
  res_Image :: string

text \<open>A response stream: its JSON documents, and whether it ends at the end of file.\<close>

type_synonym docker_stream = "json list \<times> bool"

record tools =
  MkdirTemp :: "host \<Rightarrow> string option"
  git :: "string list \<Rightarrow> host \<Rightarrow> (string \<times> string option) \<times> host"
  ImageBuild :: "string \<Rightarrow> (string \<times> string option) list \<Rightarrow> string + docker_stream"
  ImagePush :: "string \<Rightarrow> string + docker_stream"

fun err_text :: "err \<Rightarrow> string" where
  "err_text (Wrap msg e) = msg @ '': '' @ err_text e"
| "err_text (Plain msg) = msg"
| "err_text _ = []"

text \<open>A run answers its combined output and, when it failed, the text of the error.\<close>

definition runGit :: "tools \<Rightarrow> string \<Rightarrow> string list \<Rightarrow> host \<Rightarrow> (string \<times> string option) \<times> host" where
  "runGit t dir args h =
     (let args' = (if dir \<noteq> [] then [''-C'', dir] @ args else args)
      in case git t args' h of ((out, er), h') \<Rightarrow> ((TrimSpace out, er), h'))"

definition cloneRepo :: "tools \<Rightarrow> string \<Rightarrow> string \<Rightarrow> host \<Rightarrow> (err + string \<times> string) \<times> host" where
  "cloneRepo t gitURL gitRef h =
     (case MkdirTemp t h of
        None \<Rightarrow> (Inl (Wrap ''creating temp clone dir'' (Plain ''os'')), h)
      | Some dir \<Rightarrow>
          (case runGit t [] [''clone'', ''--depth'', ''1'', ''--branch'', gitRef, gitURL, dir] (h(dir \<mapsto> Dir [])) of
             ((out, Some er), h1) \<Rightarrow> (Inl (Wrap ''git clone'' (Wrap er (Plain out))), h1(dir := None))
           | ((out, None), h1) \<Rightarrow>
               (case runGit t dir [''rev-parse'', ''HEAD''] h1 of
                  ((sha, Some er), h2) \<Rightarrow> (Inl (Wrap ''git rev-parse HEAD'' (Wrap er (Plain sha))), h2(dir := None))
                | ((sha, None), h2) \<Rightarrow> (Inr (dir, TrimSpace sha), h2))))"

fun dec_detail :: "string \<Rightarrow> json list \<Rightarrow> string option" where
  "dec_detail acc [] = Some acc"
| "dec_detail acc (JNull # vs) = dec_detail acc vs"
| "dec_detail acc (JObj kvs # vs) = Option.bind (dec_str acc (field ''message'' kvs)) (\<lambda>m. dec_detail m vs)"
| "dec_detail acc (_ # vs) = None"

definition dec_stream_message :: "json option \<Rightarrow> (string \<times> string) option" where
  "dec_stream_message = dec_struct (\<lambda>kvs.
     Option.bind (dec_str [] (field ''error'' kvs)) (\<lambda>er.
     Option.bind (dec_detail [] (field ''errordetail'' kvs)) (\<lambda>detail. Some (er, detail))))"

fun drainDockerStream :: "json list \<Rightarrow> bool \<Rightarrow> err option" where
  "drainDockerStream [] eof = (if eof then None else Some (Wrap ''reading docker response stream'' (Plain ''json'')))"
| "drainDockerStream (v # vs) eof =
     (case dec_stream_message (Some v) of
        None \<Rightarrow> Some (Wrap ''reading docker response stream'' (Plain ''json''))
      | Some (er, detail) \<Rightarrow>
          (if er \<noteq> [] then Some (Plain (if detail \<noteq> [] then detail else er)) else drainDockerStream vs eof))"

text \<open>The deferred \<open>os.RemoveAll\<close> runs on every path after the clone.\<close>

definition DockerBuilder_Build :: "tools \<Rightarrow> Request \<Rightarrow> host \<Rightarrow> (err + Result) \<times> host" where
  "DockerBuilder_Build t req h =
     (case cloneRepo t (bq_GitURL req) (bq_GitRef req) h of
        (Inl e, h1) \<Rightarrow> (Inl (Wrap (''cloning '' @ bq_GitURL req @ ''@'' @ bq_GitRef req) e), h1)
      | (Inr (dir, commitSHA), h1) \<Rightarrow>
          (let tag = bq_ImageRepository req @ '':'' @ commitSHA;
               h2 = h1(dir := None)
           in case Option.bind (h1 dir) tarDirectory of
                None \<Rightarrow> (Inl (Wrap ''preparing build context'' (Plain ''tar'')), h2)
              | Some buildCtx \<Rightarrow>
                  (case ImageBuild t tag buildCtx of
                     Inl e \<Rightarrow> (Inl (Wrap ''building image'' (Plain e)), h2)
                   | Inr (vs, eof) \<Rightarrow>
                       (case drainDockerStream vs eof of
                          Some e \<Rightarrow> (Inl (Wrap ''build failed'' e), h2)
                        | None \<Rightarrow>
                            (case ImagePush t tag of
                               Inl e \<Rightarrow> (Inl (Wrap ''pushing image'' (Plain e)), h2)
                             | Inr (ps, peof) \<Rightarrow>
                                 (case drainDockerStream ps peof of
                                    Some e \<Rightarrow> (Inl (Wrap ''push failed'' e), h2)
                                  | None \<Rightarrow> (Inr \<lparr>res_CommitSHA = commitSHA, res_Image = tag\<rparr>, h2)))))))"

subsection \<open>The consumer\<close>

definition completed_message :: "buildRequestedMessage \<Rightarrow> err + Result \<Rightarrow> buildCompletedMessage" where
  "completed_message msg result =
     (case result of
        Inl e \<Rightarrow> \<lparr>bc_BuildID = br_BuildID msg, bc_OrgID = br_OrgID msg, bc_Status = ''failed'', bc_CommitSHA = [],
                  bc_Image = [], bc_Error = err_text e\<rparr>
      | Inr r \<Rightarrow> \<lparr>bc_BuildID = br_BuildID msg, bc_OrgID = br_OrgID msg, bc_Status = ''succeeded'',
                  bc_CommitSHA = res_CommitSHA r, bc_Image = res_Image r, bc_Error = []\<rparr>)"

definition build_request :: "buildRequestedMessage \<Rightarrow> Request" where
  "build_request msg = \<lparr>bq_GitURL = br_GitURL msg, bq_GitRef = br_GitRef msg, bq_ImageRepository = br_ImageRepository msg\<rparr>"

definition handleBuildRequested :: "(Request \<Rightarrow> host \<Rightarrow> (err + Result) \<times> host) \<Rightarrow> json option \<Rightarrow> host \<Rightarrow> host op" where
  "handleBuildRequested build data h =
     (case dec_buildRequested data of
        None \<Rightarrow> ret h
      | Some msg \<Rightarrow>
          (case build (build_request msg) h of
             (result, h') \<Rightarrow>
               bindE (logged (PublishDurable BuildCompletedSubject (enc_buildCompleted (completed_message msg result))))
                 (\<lambda>_. ret h')))"

subsection \<open>The port's contract\<close>

locale image_builder =
  fixes build :: "Request \<Rightarrow> host \<Rightarrow> (err + Result) \<times> host"
  assumes tagged: "build req h = (Inr r, h') \<Longrightarrow> res_Image r = bq_ImageRepository req @ '':'' @ res_CommitSHA r"
begin

lemma reports_once:
  assumes "bus_up w" "dec_buildRequested data = Some msg"
  shows "\<exists>result h' w'. build (build_request msg) h = (result, h') \<and> handleBuildRequested build data h w = (Inr h', w') \<and>
     published [(BuildCompletedSubject, enc_buildCompleted (completed_message msg result))] w w'"
proof -
  obtain result h' where b: "build (build_request msg) h = (result, h')" by force
  obtain w' where "logged (PublishDurable BuildCompletedSubject (enc_buildCompleted (completed_message msg result))) w = (Inr (), w')"
    "published [(BuildCompletedSubject, enc_buildCompleted (completed_message msg result))] w w'"
    using sends_logged [OF sends_PublishDurable [OF assms(1)]] unfolding sends_def by (metis prod.collapse)
  with b assms(2) show ?thesis by (simp add: handleBuildRequested_def bindE_def ret_def)
qed

lemma reported_image:
  assumes "build (build_request msg) h = (result, h')" "bc_Status (completed_message msg result) = ''succeeded''"
  shows "bc_Image (completed_message msg result) =
    br_ImageRepository msg @ '':'' @ bc_CommitSHA (completed_message msg result)"
  using assms tagged [of "build_request msg" h] by (cases result) (auto simp: completed_message_def build_request_def)

end

interpretation docker: image_builder "DockerBuilder_Build t" for t
  by unfold_locales
    (auto simp: DockerBuilder_Build_def Let_def split: prod.splits sum.splits option.splits)


subsection \<open>No clone is left behind\<close>

text \<open>What the tools document: a temporary directory is new, and git writes only into the clone.\<close>

definition tools_ok :: "tools \<Rightarrow> bool" where
  "tools_ok t \<longleftrightarrow> (\<forall>h dir. MkdirTemp t h = Some dir \<longrightarrow> dir \<noteq> [] \<and> h dir = None) \<and>
     (\<forall>url ref dir h d. d \<noteq> dir \<longrightarrow>
        snd (git t [''clone'', ''--depth'', ''1'', ''--branch'', ref, url, dir] h) d = h d \<and>
        snd (git t [''-C'', dir, ''rev-parse'', ''HEAD''] h) d = h d)"

lemma runGit_snd: "snd (runGit t dir args h) = snd (git t (if dir \<noteq> [] then [''-C'', dir] @ args else args) h)"
  by (simp add: runGit_def Let_def split: prod.splits)

lemma cloneRepo_host:
  assumes "tools_ok t" "cloneRepo t url ref h = (r, h')"
  shows "case r of Inl _ \<Rightarrow> h' = h | Inr (dir, sha) \<Rightarrow> h'(dir := None) = h"
proof (cases "MkdirTemp t h")
  case None
  with assms(2) show ?thesis by (auto simp: cloneRepo_def)
next
  case (Some dir)
  have new: "dir \<noteq> []" "h dir = None" using assms(1) Some by (simp_all add: tools_ok_def)
  obtain o1 e1 h1 where g1: "runGit t [] [''clone'', ''--depth'', ''1'', ''--branch'', ref, url, dir] (h(dir \<mapsto> Dir [])) = ((o1, e1), h1)"
    by (metis prod.collapse)
  obtain o2 e2 h2 where g2: "runGit t dir [''rev-parse'', ''HEAD''] h1 = ((o2, e2), h2)" by (metis prod.collapse)
  have "h1 d = h d" if "d \<noteq> dir" for d
  proof -
    have "h1 = snd (git t [''clone'', ''--depth'', ''1'', ''--branch'', ref, url, dir] (h(dir \<mapsto> Dir [])))"
      using arg_cong [OF g1, of snd] by (simp add: runGit_snd)
    with assms(1) that show ?thesis by (simp add: tools_ok_def)
  qed
  then have h1: "h1(dir := None) = h" using new(2) by (auto simp: fun_eq_iff)
  have "h2 d = h1 d" if "d \<noteq> dir" for d
  proof -
    have "h2 = snd (git t [''-C'', dir, ''rev-parse'', ''HEAD''] h1)"
      using arg_cong [OF g2, of snd] new(1) by (simp add: runGit_snd)
    with assms(1) that show ?thesis by (simp add: tools_ok_def)
  qed
  then have "h2(dir := None) = h1(dir := None)" by (auto simp: fun_eq_iff)
  with h1 have h2: "h2(dir := None) = h" by simp
  show ?thesis using assms(2) Some g1 g2 h1 h2
    by (cases e1; cases e2) (auto simp: cloneRepo_def)
qed

text \<open>
  A build leaves no clone behind: whatever step fails, from the clone to the push, the
  directories of the host are after the build what they were before it.
\<close>

theorem build_cleans_up:
  assumes "tools_ok t"
  shows "snd (DockerBuilder_Build t req h) = h"
proof -
  obtain r h' where c: "cloneRepo t (bq_GitURL req) (bq_GitRef req) h = (r, h')" by force
  show ?thesis using cloneRepo_host [OF assms c] c
    by (auto simp: DockerBuilder_Build_def Let_def split: sum.splits prod.splits option.splits)
qed

subsection \<open>The build context\<close>

text \<open>The reference: every path of the tree with its node, and the entry a node gives.\<close>

fun all_paths :: "string \<Rightarrow> node \<Rightarrow> (string \<times> node) list"
  and all_entries :: "string \<Rightarrow> (string \<times> node) list \<Rightarrow> (string \<times> node) list"
where
  "all_paths rel (Dir es) = (rel, Dir es) # all_entries (rel @ ''/'') es"
| "all_paths rel x = [(rel, x)]"
| "all_entries pre [] = []"
| "all_entries pre ((n, x) # es) = all_paths (pre @ n) x @ all_entries pre es"

fun entry :: "string \<times> node \<Rightarrow> (string \<times> string option) option" where
  "entry (rel, Dir _) = Some (rel @ ''/'', None)"
| "entry (rel, File c) = map_option (\<lambda>bs. (rel, Some bs)) c"
| "entry (rel, Link c) = (if c = Some [] then Some (rel, Some []) else None)"

definition under_git :: "string \<Rightarrow> bool" where
  "under_git p \<longleftrightarrow> p = ''.git'' \<or> HasPrefix p ''.git/''"

lemma those_append: "those (xs @ ys) = Option.bind (those xs) (\<lambda>a. Option.bind (those ys) (\<lambda>b. Some (a @ b)))"
  by (induction xs) (auto simp: bind_eq_Some_conv split: option.splits bind_splits)

lemma those_Cons: "those (x # xs) = Option.bind x (\<lambda>a. map_option (\<lambda>b. a # b) (those xs))"
  by (simp split: option.splits)

lemma walk_inner:
  "rel \<noteq> ''.git'' \<Longrightarrow> walk rel x = those (map entry (all_paths rel x))"
  "pre \<noteq> [] \<and> last pre = CHR ''/'' \<Longrightarrow> walk_entries pre es = those (map entry (all_entries pre es))"
proof (induction rel x and pre es rule: walk_walk_entries.induct)
  case (5 pre n x es)
  have "pre @ n \<noteq> ''.git''"
  proof
    assume eq: "pre @ n = ''.git''"
    then have "set pre \<subseteq> set ''.git''" by (metis Un_upper1 set_append)
    moreover have "CHR ''/'' \<in> set pre" using "5.prems" by (metis last_in_set)
    ultimately show False by auto
  qed
  with 5 show ?case by (cases "those (map entry (all_paths (pre @ n) x))") (simp_all add: those_append)
qed (auto simp: those_Cons split: option.splits)

lemma all_paths_prefix:
  "(p, y) \<in> set (all_paths rel x) \<Longrightarrow> p = rel \<or> HasPrefix p (rel @ ''/'')"
  "(p, y) \<in> set (all_entries pre es) \<Longrightarrow> HasPrefix p pre"
proof (induction rel x and pre es rule: all_paths_all_entries.induct)
qed (auto simp: HasPrefix_iff)

lemma prefix_no_slash:
  "CHR ''/'' \<notin> set n \<Longrightarrow> CHR ''/'' \<notin> set m \<Longrightarrow> (n @ ''/'') @ r = (m @ ''/'') @ s \<Longrightarrow> n = m"
  by (induction n arbitrary: m) (auto simp: Cons_eq_append_conv append_eq_Cons_conv)

lemma under_git_path:
  assumes "CHR ''/'' \<notin> set n" "(p, y) \<in> set (all_paths n x)"
  shows "under_git p \<longleftrightarrow> n = ''.git''"
proof -
  from all_paths_prefix(1) [OF assms(2)] show ?thesis
  proof
    assume "p = n"
    with assms(1) show ?thesis by (auto simp: under_git_def HasPrefix_iff)
  next
    assume "HasPrefix p (n @ ''/'')"
    then obtain r where r: "p = (n @ ''/'') @ r" by (auto simp: HasPrefix_iff)
    have "under_git p" if "n = ''.git''" using r that by (simp add: under_git_def)
    moreover have "CHR ''/'' \<in> set p" using r by simp
    then have "p \<noteq> ''.git''" by auto
    then have "n = ''.git''" if "under_git p"
      using that r prefix_no_slash [of n "''.git''" r] assms(1) by (auto simp: under_git_def HasPrefix_iff)
    ultimately show ?thesis by blast
  qed
qed

text \<open>
  C39. The build context is the tree without its top-level \<^verbatim>\<open>.git\<close>: for a clone whose
  file names hold no slash, skipping the directory during the walk gives the same as listing every
  path and dropping \<^verbatim>\<open>.git\<close> and what is below it, in order, and nothing else (a
  \<^verbatim>\<open>.gitignore\<close> stays). It fails exactly when a remaining file cannot be read, or a
  remaining entry is a symbolic link from which anything can be read.
\<close>

theorem build_context_exact:
  assumes "\<forall>(n, x) \<in> set es. CHR ''/'' \<notin> set n"
  shows "tarDirectory (Dir es) = those (map entry (filter (\<lambda>(p, _). \<not> under_git p) (all_entries [] es)))"
proof -
  have "walk_entries [] es = those (map entry (filter (\<lambda>(p, _). \<not> under_git p) (all_entries [] es)))"
    using assms
  proof (induction es)
    case (Cons e es)
    obtain n x where e: "e = (n, x)" by force
    have slash: "CHR ''/'' \<notin> set n" using Cons.prems e by simp
    have ih: "walk_entries [] es = those (map entry (filter (\<lambda>(p, _). \<not> under_git p) (all_entries [] es)))"
      using Cons by simp
    show ?case
    proof (cases "n = ''.git''")
      case True
      then have "filter (\<lambda>(p, _). \<not> under_git p) (all_paths n x) = []"
        using under_git_path [OF slash] by (auto simp: filter_empty_conv)
      with True ih show ?thesis by (simp add: e)
    next
      case False
      then have "filter (\<lambda>(p, _). \<not> under_git p) (all_paths n x) = all_paths n x"
        using under_git_path [OF slash] by (auto intro!: filter_True)
      with False ih walk_inner(1) [of n x] show ?thesis by (simp add: e those_append)
    qed
  qed simp
  then show ?thesis by (simp add: tarDirectory_def)
qed

subsection \<open>Examples\<close>

definition demo_tools :: tools where
  "demo_tools = \<lparr>MkdirTemp = (\<lambda>h. if h ''/tmp/c'' = None then Some ''/tmp/c'' else None),
     git = (\<lambda>args h. if hd args = ''clone'' then (([], None), h(last args \<mapsto> Dir [(''Dockerfile'', File (Some ''FROM scratch''))]))
                      else ((''abc'', None), h)),
     ImageBuild = (\<lambda>tag ctx. Inr ([], True)), ImagePush = (\<lambda>tag. Inr ([], True))\<rparr>"


theorem build_cleans_up_witness:
  "snd (DockerBuilder_Build demo_tools \<lparr>bq_GitURL = ''u'', bq_GitRef = ''main'', bq_ImageRepository = ''r''\<rparr> Map.empty) = Map.empty"
  by (rule build_cleans_up) (simp add: tools_ok_def demo_tools_def)

theorem build_context_exact_witness:
  "tarDirectory (Dir [(''.git'', Dir [(''HEAD'', File (Some ''x''))]), (''.gitignore'', File (Some ''y''))]) =
     Some [(''.gitignore'', Some ''y'')]"
  using build_context_exact [of "[(''.git'', Dir [(''HEAD'', File (Some ''x''))]), (''.gitignore'', File (Some ''y''))]"]
  by (simp add: under_git_def)

end
