(* ===== verification/Streams.thy ===== *)
theory Streams
  imports Prelude
begin

section \<open>Byte streams\<close>

text \<open>
  What the log routes read and write. A stream is the segments that arrive, in order, and how it
  ends: \<open>io.EOF\<close>, another error, or not at all (a followed log that is still open). A \<open>Read\<close> into a
  buffer gives at most the buffer's size of the next segment; since the segments are arbitrary, this
  covers every way in which a connection may cut its bytes. A writer accepts all writes or fails after
  some number of them.
\<close>

datatype ending = EOF | Broken | StillOpen

record log_stream =
  segments :: "string list"
  ended :: ending

definition bytes :: "log_stream \<Rightarrow> string" where
  "bytes st = concat (segments st)"

definition logBufferSize :: nat where
  "logBufferSize = 4096"

text \<open>
  The copy loop of the log handlers: read, write what was read unless it is nothing, stop when a
  write fails. The result is the writes that were made and whether the reader's end was reached.
\<close>

function copy_stream :: "nat option \<Rightarrow> string list \<Rightarrow> string list \<times> bool" where
  "copy_stream wr [] = ([], True)"
| "copy_stream wr (seg # segs) =
     (if seg = [] then copy_stream wr segs
      else if wr = Some 0 then ([], False)
      else (case copy_stream (map_option (\<lambda>k. k - 1) wr) (drop logBufferSize seg # segs) of
              (out, ok) \<Rightarrow> (take logBufferSize seg # out, ok)))"
  by pat_completeness auto

termination
  by (relation "measure (\<lambda>(wr, segs). length segs + length (concat segs))") (auto simp: logBufferSize_def)

text \<open>
  What the handler's client reads: a handler that returns ends the response, also after an error of
  the reader, and one whose connection failed leaves the response cut off.
\<close>

definition streamed :: "nat option \<Rightarrow> log_stream \<Rightarrow> log_stream" where
  "streamed wr st =
     (case copy_stream wr (segments st) of (out, reached) \<Rightarrow>
        \<lparr>segments = out, ended = (if \<not> reached then Broken else if ended st = StillOpen then StillOpen else EOF)\<rparr>)"

declare copy_stream.simps(2) [simp del]

lemma copy_skip [simp]: "copy_stream wr ([] # segs) = copy_stream wr segs"
  by (simp add: copy_stream.simps)

lemma copy_fail: "seg \<noteq> [] \<Longrightarrow> copy_stream (Some 0) (seg # segs) = ([], False)"
  by (simp add: copy_stream.simps)

lemma copy_write:
  "seg \<noteq> [] \<Longrightarrow> wr \<noteq> Some 0 \<Longrightarrow> copy_stream (map_option (\<lambda>k. k - 1) wr) (drop logBufferSize seg # segs) = (out, ok) \<Longrightarrow>
   copy_stream wr (seg # segs) = (take logBufferSize seg # out, ok)"
  by (subst copy_stream.simps(2)) simp

lemma concat_cut: "take k seg @ concat (drop k seg # segs) = concat (seg # segs)"
  by (simp add: append_assoc [symmetric] del: append_assoc)

text \<open>Every write is a non-empty piece of at most the buffer's size; the writes are a prefix of what was read, all of it unless
  the writer failed.\<close>

lemma copy_stream_prefix:
  "copy_stream wr segs = (out, reached) \<Longrightarrow>
    (\<exists>rest. concat segs = concat out @ rest \<and> (reached \<longrightarrow> rest = [])) \<and>
    (\<forall>w \<in> set out. w \<noteq> [] \<and> length w \<le> logBufferSize) \<and> (\<not> reached \<longrightarrow> wr = Some (length out))"
proof (induction wr segs arbitrary: out rule: copy_stream.induct)
  case (2 wr seg segs)
  consider (skip) "seg = []" | (fail) "seg \<noteq> []" "wr = Some 0" | (wrote) "seg \<noteq> []" "wr \<noteq> Some 0" by blast
  then show ?case
  proof cases
    case skip
    with 2(1) [of out] 2(3) show ?thesis by simp
  next
    case fail
    with 2(3) show ?thesis by (simp add: copy_fail)
  next
    case wrote
    obtain out' ok where rec: "copy_stream (map_option (\<lambda>k. k - 1) wr) (drop logBufferSize seg # segs) = (out', ok)" by force
    with 2(3) copy_write [OF wrote rec] have out: "out = take logBufferSize seg # out'" "ok = reached" by simp_all
    from 2(2) [OF wrote rec [unfolded out(2)]] obtain rest where
      rest: "concat (drop logBufferSize seg # segs) = concat out' @ rest" "reached \<longrightarrow> rest = []"
      and w: "\<forall>w \<in> set out'. w \<noteq> [] \<and> length w \<le> logBufferSize" "\<not> reached \<longrightarrow> map_option (\<lambda>k. k - 1) wr = Some (length out')" by blast
    have "concat (seg # segs) = concat out @ rest" unfolding out(1) using rest(1) concat_cut [of logBufferSize seg segs] by simp
    moreover have "\<not> reached \<longrightarrow> wr = Some (length out)" using w(2) wrote(2) out(1) by (cases wr) auto
    moreover have "\<forall>w \<in> set out. w \<noteq> [] \<and> length w \<le> logBufferSize" using w(1) wrote(1) out(1) by (auto simp: logBufferSize_def)
    ultimately show ?thesis using rest(2) by blast
  qed
qed simp

lemma streamed_all: "bytes (streamed None st) = bytes st"
  "ended (streamed None st) = (if ended st = StillOpen then StillOpen else EOF)"
proof -
  obtain out reached where run: "copy_stream None (segments st) = (out, reached)" by force
  from copy_stream_prefix [OF run] have "reached" "concat (segments st) = concat out" by auto
  with run show "bytes (streamed None st) = bytes st" "ended (streamed None st) = (if ended st = StillOpen then StillOpen else EOF)"
    by (simp_all add: streamed_def bytes_def)
qed

end
