(* ===== verification/Worker.thy ===== *)
theory Worker
  imports Effects Streams
begin

section \<open>The worker: node agent and container API\<close>

text \<open>
  \<^verbatim>\<open>services/worker/internal/nodeagent\<close> and
  \<^verbatim>\<open>services/worker/internal/server\<close>, over the interface of
  \<^verbatim>\<open>internal/runtime/runtime.go\<close>. The container engine is not part of the repository:
  the interface \<open>ContainerRuntime\<close> is a record of functions on an engine state \<open>'e\<close>, and
  every definition takes such a record; the repository's instance is in \<open>DockerRuntime\<close>. The agent's own state is its table of tracked
  containers, a Go map as an association list in the order of that execution's iteration.
\<close>

subsection \<open>The runtime interface\<close>

datatype Status = StatusPending | StatusRunning | StatusExited | StatusUnknown

fun Status_String :: "Status \<Rightarrow> string" where
  "Status_String StatusPending = ''pending''"
| "Status_String StatusRunning = ''running''"
| "Status_String StatusExited = ''exited''"
| "Status_String StatusUnknown = ''unknown''"

record ContainerSpec =
  spec_Image :: string
  spec_Name :: string
  spec_Env :: "(string \<times> string) list"
  spec_Ports :: "portBinding list"
  spec_Command :: "string list"

record ContainerStatusInfo =
  info_ID :: string
  info_Status :: Status
  info_ExitCode :: int
  info_StartedAt :: time
  info_Ports :: "portBinding list"

text \<open>An engine error: whether \<open>errdefs.IsNotFound\<close> holds of it, and its text.\<close>

record rt_error =
  IsNotFound :: bool
  rt_text :: string

record 'e ContainerRuntime =
  PullImage :: "string \<Rightarrow> 'e \<Rightarrow> (rt_error + unit) \<times> 'e"
  CreateContainer :: "ContainerSpec \<Rightarrow> 'e \<Rightarrow> (rt_error + string) \<times> 'e"
  StartContainer :: "string \<Rightarrow> 'e \<Rightarrow> (rt_error + unit) \<times> 'e"
  StopContainer :: "string \<Rightarrow> duration \<Rightarrow> 'e \<Rightarrow> (rt_error + unit) \<times> 'e"
  RemoveContainer :: "string \<Rightarrow> 'e \<Rightarrow> (rt_error + unit) \<times> 'e"
  ContainerStatus :: "string \<Rightarrow> 'e \<Rightarrow> rt_error + ContainerStatusInfo"
  StreamLogs :: "string \<Rightarrow> bool \<Rightarrow> 'e \<Rightarrow> rt_error + log_stream"

subsection \<open>Node identity\<close>

text \<open>
  The identity file: \<open>os.ReadFile\<close> answers its content, that it does not exist, or another
  error; \<open>os.WriteFile\<close> replaces it or fails.
\<close>

datatype id_file = Missing | Unreadable | Holds string

definition LoadOrCreateNodeID :: "codec \<Rightarrow> bool \<Rightarrow> uuid \<Rightarrow> id_file \<Rightarrow> (err + uuid) \<times> id_file" where
  "LoadOrCreateNodeID cd writable fresh f =
     (case f of
        Holds data \<Rightarrow>
          (case UUID_Parse cd (TrimSpace data) of
             None \<Rightarrow> (Inl (Plain ''parsing node id''), f)
           | Some i \<Rightarrow> (Inr i, f))
      | Unreadable \<Rightarrow> (Inl (Plain ''reading node id file''), f)
      | Missing \<Rightarrow>
          (if writable then (Inr fresh, Holds (UUID_String cd fresh))
           else (Inl (Plain ''writing node id file''), f)))"

subsection \<open>The agent\<close>

record trackedContainer =
  tc_containerID :: string
  tc_lastStatus :: string

type_synonym tracked = "(string \<times> trackedContainer) list"

record agent_config =
  cfg_NodeID :: uuid
  cfg_Hostname :: string
  cfg_IP :: string
  cfg_CPUCapacityMillicores :: int
  cfg_MemoryCapacityMB :: int
  cfg_Labels :: "(string \<times> string) list"

definition publishRegister :: "codec \<Rightarrow> agent_config \<Rightarrow> unit op" where
  "publishRegister cd cfg =
     Publish (NodeRegisterSubject (UUID_String cd (cfg_NodeID cfg)))
       (enc_register \<lparr>rg_NodeID = UUID_String cd (cfg_NodeID cfg), rg_Hostname = cfg_Hostname cfg, rg_IP = cfg_IP cfg,
          rg_CPUCapacityMillicores = cfg_CPUCapacityMillicores cfg, rg_MemoryCapacityMB = cfg_MemoryCapacityMB cfg,
          rg_Labels = cfg_Labels cfg\<rparr>)"

definition publishHeartbeat :: "codec \<Rightarrow> agent_config \<Rightarrow> unit op" where
  "publishHeartbeat cd cfg = bindE now_op (\<lambda>now.
     Publish (NodeHeartbeatSubject (UUID_String cd (cfg_NodeID cfg)))
       (enc_heartbeat \<lparr>hb_NodeID = UUID_String cd (cfg_NodeID cfg), hb_Timestamp = now\<rparr>))"

definition containerStatus :: "ContainerStatusInfo \<Rightarrow> string" where
  "containerStatus info =
     (case info_Status info of
        StatusPending \<Rightarrow> ''pending''
      | StatusRunning \<Rightarrow> ''running''
      | StatusExited \<Rightarrow> (if info_ExitCode info = 0 then ''stopped'' else ''crashed'')
      | StatusUnknown \<Rightarrow> ''crashed'')"

definition status_report ::
  "codec \<Rightarrow> agent_config \<Rightarrow> string \<Rightarrow> string \<Rightarrow> string \<Rightarrow> int \<Rightarrow> portBinding list \<Rightarrow> time \<Rightarrow> string \<times> json"
where
  "status_report cd cfg assignmentID containerID status exitCode ports now =
     (NodeStatusSubject (UUID_String cd (cfg_NodeID cfg)),
      enc_status \<lparr>st_AssignmentID = assignmentID, st_ContainerID = containerID, st_Status = status,
        st_ExitCode = exitCode, st_Ports = ports, st_Timestamp = now\<rparr>)"

definition publishStatus ::
  "codec \<Rightarrow> agent_config \<Rightarrow> string \<Rightarrow> string \<Rightarrow> string \<Rightarrow> int \<Rightarrow> portBinding list \<Rightarrow> unit op"
where
  "publishStatus cd cfg assignmentID containerID status exitCode ports = logged (bindE now_op (\<lambda>now.
     let m = status_report cd cfg assignmentID containerID status exitCode ports now in PublishDurable (fst m) (snd m)))"

text \<open>Pull, create, start, inspect: the first failure ends the chain with what was done so far.\<close>

definition startAssignedContainer ::
  "'e ContainerRuntime \<Rightarrow> assignMessage \<Rightarrow> 'e \<Rightarrow> (rt_error + ContainerStatusInfo) \<times> 'e"
where
  "startAssignedContainer rt msg e =
     (case PullImage rt (as_Image msg) e of
        (Inl er, e1) \<Rightarrow> (Inl er, e1)
      | (Inr _, e1) \<Rightarrow>
          (case CreateContainer rt \<lparr>spec_Image = as_Image msg, spec_Name = [], spec_Env = as_Env msg,
                  spec_Ports = as_Ports msg, spec_Command = as_Command msg\<rparr> e1 of
             (Inl er, e2) \<Rightarrow> (Inl er, e2)
           | (Inr cid, e2) \<Rightarrow>
               (case StartContainer rt cid e2 of
                  (Inl er, e3) \<Rightarrow> (Inl er, e3)
                | (Inr _, e3) \<Rightarrow> (ContainerStatus rt cid e3, e3))))"

definition handleAssignment ::
  "codec \<Rightarrow> agent_config \<Rightarrow> 'e ContainerRuntime \<Rightarrow> json option \<Rightarrow> tracked \<times> 'e \<Rightarrow> (tracked \<times> 'e) op"
where
  "handleAssignment cd cfg rt data st =
     (case dec_assign data of
        None \<Rightarrow> ret st
      | Some msg \<Rightarrow>
          (case startAssignedContainer rt msg (snd st) of
             (Inl _, e) \<Rightarrow>
               bindE (publishStatus cd cfg (as_AssignmentID msg) [] ''crashed'' 0 []) (\<lambda>_. ret (fst st, e))
           | (Inr info, e) \<Rightarrow>
               bindE (publishStatus cd cfg (as_AssignmentID msg) (info_ID info) (containerStatus info)
                        (info_ExitCode info) (info_Ports info)) (\<lambda>_.
               ret (AList.update (as_AssignmentID msg)
                      \<lparr>tc_containerID = info_ID info, tc_lastStatus = containerStatus info\<rparr> (fst st), e))))"

definition handleUnassign ::
  "codec \<Rightarrow> agent_config \<Rightarrow> 'e ContainerRuntime \<Rightarrow> json option \<Rightarrow> tracked \<times> 'e \<Rightarrow> (tracked \<times> 'e) op"
where
  "handleUnassign cd cfg rt data st =
     (case dec_unassign data of
        None \<Rightarrow> ret st
      | Some msg \<Rightarrow>
          (let e1 = snd (StopContainer rt (un_ContainerID msg) (10 * second) (snd st));
               e2 = snd (RemoveContainer rt (un_ContainerID msg) e1)
           in bindE (publishStatus cd cfg (un_AssignmentID msg) (un_ContainerID msg) ''stopped'' 0 []) (\<lambda>_.
              ret (AList.delete (un_AssignmentID msg) (fst st), e2))))"

definition set_last :: "string \<Rightarrow> string \<Rightarrow> tracked \<Rightarrow> tracked" where
  "set_last assignmentID status trk =
     map (\<lambda>(k, tc). if k = assignmentID then (k, tc\<lparr>tc_lastStatus := status\<rparr>) else (k, tc)) trk"

fun check_loop ::
  "codec \<Rightarrow> agent_config \<Rightarrow> (string \<Rightarrow> rt_error + ContainerStatusInfo) \<Rightarrow> tracked \<Rightarrow> tracked \<Rightarrow> tracked op"
where
  "check_loop cd cfg inspect [] trk = ret trk"
| "check_loop cd cfg inspect ((assignmentID, tc) # snapshot) trk =
     (case inspect (tc_containerID tc) of
        Inl _ \<Rightarrow> check_loop cd cfg inspect snapshot trk
      | Inr info \<Rightarrow>
          (let status = containerStatus info in
           if status = tc_lastStatus tc then check_loop cd cfg inspect snapshot trk
           else bindE (publishStatus cd cfg assignmentID (tc_containerID tc) status (info_ExitCode info) (info_Ports info))
                  (\<lambda>_. check_loop cd cfg inspect snapshot (set_last assignmentID status trk))))"

definition checkTrackedContainers ::
  "codec \<Rightarrow> agent_config \<Rightarrow> 'e ContainerRuntime \<Rightarrow> 'e \<Rightarrow> tracked \<Rightarrow> tracked op"
where
  "checkTrackedContainers cd cfg rt e trk = check_loop cd cfg (\<lambda>c. ContainerStatus rt c e) trk trk"

subsection \<open>What the agent reports\<close>

lemma publishStatus_sends:
  "bus_up w \<Longrightarrow> sends [status_report cd cfg a c st x ps (w_now w)] (publishStatus cd cfg a c st x ps) w"
  by (simp add: publishStatus_def sends_def logged_eq bindE_def now_op_def PublishDurable_def bus_up_def published_def Let_def)

lemma publishStatus_run:
  "bus_up w \<Longrightarrow> \<exists>w'. publishStatus cd cfg a c st x ps w = (Inr (), w') \<and>
     published [status_report cd cfg a c st x ps (w_now w)] w w'"
  using publishStatus_sends [of w cd cfg a c st x ps] by (metis sends_def prod.collapse)

text \<open>What a poll should report: the tracked containers whose inspection succeeds and shows another status.\<close>

definition changes ::
  "codec \<Rightarrow> agent_config \<Rightarrow> (string \<Rightarrow> rt_error + ContainerStatusInfo) \<Rightarrow> time \<Rightarrow> tracked \<Rightarrow> (string \<times> json) list"
where
  "changes cd cfg inspect now trk = List.map_filter (\<lambda>(a, tc).
     case inspect (tc_containerID tc) of
       Inl _ \<Rightarrow> None
     | Inr info \<Rightarrow> if containerStatus info = tc_lastStatus tc then None
         else Some (status_report cd cfg a (tc_containerID tc) (containerStatus info) (info_ExitCode info) (info_Ports info) now))
     trk"

definition observe :: "(string \<Rightarrow> rt_error + ContainerStatusInfo) \<Rightarrow> trackedContainer \<Rightarrow> trackedContainer" where
  "observe inspect tc =
     (case inspect (tc_containerID tc) of Inl _ \<Rightarrow> tc | Inr info \<Rightarrow> tc\<lparr>tc_lastStatus := containerStatus info\<rparr>)"

lemma observe_idem [simp]: "observe f (observe f tc) = observe f tc"
  by (simp add: observe_def split: sum.splits)

lemma observe_same:
  "inspect (tc_containerID tc) = Inr info \<Longrightarrow> containerStatus info = tc_lastStatus tc \<Longrightarrow> observe inspect tc = tc"
  by (simp add: observe_def)

lemma set_last_skip: "a \<notin> set (map fst trk) \<Longrightarrow> set_last a st trk = trk"
  by (induction trk) (auto simp: set_last_def)

lemma changes_Cons:
  "changes cd cfg f now ((a, tc) # trk) =
   (case f (tc_containerID tc) of
      Inl _ \<Rightarrow> []
    | Inr info \<Rightarrow> if containerStatus info = tc_lastStatus tc then []
        else [status_report cd cfg a (tc_containerID tc) (containerStatus info) (info_ExitCode info) (info_Ports info) now])
   @ changes cd cfg f now trk"
  by (simp add: changes_def List.map_filter_simps split: sum.splits)

lemma check_loop_run:
  assumes "bus_up w" "distinct (map fst (done @ todo))"
  shows "\<exists>w'. check_loop cd cfg f todo (done @ todo) w = (Inr (done @ map (\<lambda>(a, tc). (a, observe f tc)) todo), w') \<and>
     published (changes cd cfg f (w_now w) todo) w w'"
  using assms
proof (induction todo arbitrary: "done" w)
  case Nil
  then show ?case by (simp add: ret_def changes_def List.map_filter_simps)
next
  case (Cons p todo)
  obtain a tc where p: "p = (a, tc)" by force
  have d: "distinct (map fst ((done @ [(a, observe f tc)]) @ todo))" using Cons.prems(2) p by auto
  show ?case
  proof (cases "f (tc_containerID tc)")
    case (Inl er)
    then have "observe f tc = tc" by (simp add: observe_def)
    with Cons.IH [OF Cons.prems(1) d] Inl show ?thesis by (simp add: p changes_Cons)
  next
    case (Inr info)
    show ?thesis
    proof (cases "containerStatus info = tc_lastStatus tc")
      case True
      with Inr have "observe f tc = tc" by (simp add: observe_same)
      with Cons.IH [OF Cons.prems(1) d] Inr True show ?thesis by (simp add: p changes_Cons)
    next
      case False
      let ?st = "containerStatus info"
      obtain w1 where w1: "publishStatus cd cfg a (tc_containerID tc) ?st (info_ExitCode info) (info_Ports info) w = (Inr (), w1)"
        and pub: "published [status_report cd cfg a (tc_containerID tc) ?st (info_ExitCode info) (info_Ports info) (w_now w)] w w1"
        using publishStatus_run [OF Cons.prems(1)] by blast
      have set: "set_last a ?st (done @ (a, tc) # todo) = (done @ [(a, observe f tc)]) @ todo"
        using Cons.prems(2) Inr set_last_skip [of a "done" ?st] set_last_skip [of a todo ?st]
        by (simp add: p set_last_def observe_def)
      have up: "bus_up w1" and now: "w_now w1 = w_now w" using pub Cons.prems(1) by (simp_all add: published_def bus_up_def)
      from Cons.IH [OF up d] obtain w2 where
        "check_loop cd cfg f todo ((done @ [(a, observe f tc)]) @ todo) w1 =
           (Inr ((done @ [(a, observe f tc)]) @ map (\<lambda>(a, tc). (a, observe f tc)) todo), w2)"
        "published (changes cd cfg f (w_now w) todo) w1 w2" unfolding now by blast
      with published_trans [OF pub] Inr False w1 set show ?thesis
        by (simp add: p changes_Cons bindE_def Let_def)
    qed
  qed
qed

text \<open>
  A health poll reports exactly the transitions. With the bus up it publishes one status per
  tracked container whose inspection succeeded with a status other than the one last reported, and
  records that status; containers it could not inspect keep theirs. Polling again while the engine
  is unchanged publishes nothing.
\<close>

theorem poll_reports_transitions:
  assumes "bus_up w" "distinct (map fst trk)" "f = (\<lambda>c. ContainerStatus rt c e)"
    and "checkTrackedContainers cd cfg rt e trk w = (r, w1)"
  shows "r = Inr (map (\<lambda>(a, tc). (a, observe f tc)) trk) \<and> w_db w1 = w_db w \<and>
    w_bus w1 = w_bus w @ changes cd cfg f (w_now w) trk \<and>
    (\<forall>trk'. r = Inr trk' \<longrightarrow> fst (checkTrackedContainers cd cfg rt e trk' w1) = Inr trk' \<and>
       w_bus (snd (checkTrackedContainers cd cfg rt e trk' w1)) = w_bus w1)"
proof -
  let ?obs = "map (\<lambda>(a, tc). (a, observe f tc))"
  have run: "\<exists>w'. checkTrackedContainers cd cfg rt e t v = (Inr (?obs t), w') \<and> published (changes cd cfg f (w_now v) t) v w'"
    if "bus_up v" "distinct (map fst t)" for t v
    using check_loop_run [of v "[]" t cd cfg f] that assms(3) by (simp add: checkTrackedContainers_def)
  from run [OF assms(1,2)] assms(4) have r: "r = Inr (?obs trk)" and pub: "published (changes cd cfg f (w_now w) trk) w w1"
    by auto
  have keys: "map fst (?obs trk) = map fst trk" by (simp add: comp_def split_def)
  have up: "bus_up w1" using pub assms(1) by simp
  have quiet: "changes cd cfg f now (?obs t) = []" for t now
    by (induction t) (auto simp: changes_def List.map_filter_simps observe_def split: sum.splits)
  have obs2: "?obs (?obs trk) = ?obs trk" by (simp add: comp_def split_def)
  have "\<exists>w2. checkTrackedContainers cd cfg rt e (?obs trk) w1 = (Inr (?obs trk), w2) \<and> published [] w1 w2"
    using run [OF up, of "?obs trk"] assms(2) unfolding keys obs2 quiet by blast
  then have "fst (checkTrackedContainers cd cfg rt e (?obs trk) w1) = Inr (?obs trk) \<and>
      w_bus (snd (checkTrackedContainers cd cfg rt e (?obs trk) w1)) = w_bus w1"
    by (auto simp: published_def)
  with r pub show ?thesis by (simp add: published_def)
qed

subsection \<open>Assignments\<close>

lemma handleAssignment_run:
  assumes "bus_up w" "dec_assign data = Some msg" "startAssignedContainer rt msg e = (out, e')"
  shows "\<exists>w'. handleAssignment cd cfg rt data (trk, e) w =
       (Inr (case out of
           Inl _ \<Rightarrow> trk
         | Inr info \<Rightarrow> AList.update (as_AssignmentID msg)
             \<lparr>tc_containerID = info_ID info, tc_lastStatus = containerStatus info\<rparr> trk, e'), w') \<and>
     published [case out of
         Inl _ \<Rightarrow> status_report cd cfg (as_AssignmentID msg) [] ''crashed'' 0 [] (w_now w)
       | Inr info \<Rightarrow> status_report cd cfg (as_AssignmentID msg) (info_ID info) (containerStatus info)
           (info_ExitCode info) (info_Ports info) (w_now w)] w w'"
proof (cases out)
  case (Inl er)
  obtain w' where "publishStatus cd cfg (as_AssignmentID msg) [] ''crashed'' 0 [] w = (Inr (), w')"
    "published [status_report cd cfg (as_AssignmentID msg) [] ''crashed'' 0 [] (w_now w)] w w'"
    using publishStatus_run [OF assms(1)] by blast
  with Inl assms(2,3) show ?thesis by (simp add: handleAssignment_def bindE_def ret_def)
next
  case (Inr info)
  obtain w' where "publishStatus cd cfg (as_AssignmentID msg) (info_ID info) (containerStatus info)
      (info_ExitCode info) (info_Ports info) w = (Inr (), w')"
    "published [status_report cd cfg (as_AssignmentID msg) (info_ID info) (containerStatus info)
      (info_ExitCode info) (info_Ports info) (w_now w)] w w'"
    using publishStatus_run [OF assms(1)] by blast
  with Inr assms(2,3) show ?thesis by (simp add: handleAssignment_def bindE_def ret_def)
qed

lemma handleUnassign_run:
  assumes "bus_up w" "dec_unassign data = Some msg"
  shows "\<exists>w'. handleUnassign cd cfg rt data (trk, e) w =
       (Inr (AList.delete (un_AssignmentID msg) trk,
             snd (RemoveContainer rt (un_ContainerID msg) (snd (StopContainer rt (un_ContainerID msg) (10 * second) e)))), w') \<and>
     published [status_report cd cfg (un_AssignmentID msg) (un_ContainerID msg) ''stopped'' 0 [] (w_now w)] w w'"
proof -
  obtain w' where "publishStatus cd cfg (un_AssignmentID msg) (un_ContainerID msg) ''stopped'' 0 [] w = (Inr (), w')"
    "published [status_report cd cfg (un_AssignmentID msg) (un_ContainerID msg) ''stopped'' 0 [] (w_now w)] w w'"
    using publishStatus_run [OF assms(1)] by blast
  with assms(2) show ?thesis by (simp add: handleUnassign_def bindE_def ret_def Let_def)
qed

lemma distinct_tracked:
  "distinct (map fst trk) \<Longrightarrow> distinct (map fst (AList.update a tc trk))"
  "distinct (map fst trk) \<Longrightarrow> distinct (map fst (AList.delete a trk))"
  by (simp_all add: distinct_update distinct_delete)

text \<open>
  C37. The agent answers every assignment and every release it can parse with exactly one report, in
  the vocabulary of \<open>containers.status\<close>. A failure of any engine step of a start is reported
  as crashed, with no engine identifier, and the assignment is not tracked; a start is reported with
  what the engine says and tracked with that status. A release is always reported as stopped and
  forgotten, whatever the engine answered. The table keeps at most one entry per assignment.
\<close>

theorem agent_answers_once:
  assumes "bus_up w" "distinct (map fst trk)"
  shows "(\<forall>msg. dec_assign data = Some msg \<longrightarrow>
      (\<exists>cid st x ps trk' e'. fst (handleAssignment cd cfg rt data (trk, e) w) = Inr (trk', e') \<and>
         w_bus (snd (handleAssignment cd cfg rt data (trk, e) w)) =
           w_bus w @ [status_report cd cfg (as_AssignmentID msg) cid st x ps (w_now w)] \<and>
         st \<in> set (map ContainerStatus_String [ContainerStatusPending, ContainerStatusRunning,
                      ContainerStatusCrashed, ContainerStatusStopped]) \<and> distinct (map fst trk') \<and>
         (case fst (startAssignedContainer rt msg e) of
            Inl _ \<Rightarrow> st = ''crashed'' \<and> cid = [] \<and> trk' = trk
          | Inr info \<Rightarrow> st = containerStatus info \<and> cid = info_ID info \<and>
              map_of trk' (as_AssignmentID msg) = Some \<lparr>tc_containerID = cid, tc_lastStatus = st\<rparr>))) \<and>
    (\<forall>msg. dec_unassign data = Some msg \<longrightarrow>
      (\<exists>trk' e'. fst (handleUnassign cd cfg rt data (trk, e) w) = Inr (trk', e') \<and>
         w_bus (snd (handleUnassign cd cfg rt data (trk, e) w)) =
           w_bus w @ [status_report cd cfg (un_AssignmentID msg) (un_ContainerID msg) ''stopped'' 0 [] (w_now w)] \<and>
         distinct (map fst trk') \<and> map_of trk' = (map_of trk)(un_AssignmentID msg := None)))"
proof (intro conjI allI impI)
  fix msg assume m: "dec_assign data = Some msg"
  obtain out e' where out: "startAssignedContainer rt msg e = (out, e')" by force
  from handleAssignment_run [OF assms(1) m out, of cd cfg trk] show "\<exists>cid st x ps trk' e'.
     fst (handleAssignment cd cfg rt data (trk, e) w) = Inr (trk', e') \<and>
     w_bus (snd (handleAssignment cd cfg rt data (trk, e) w)) =
       w_bus w @ [status_report cd cfg (as_AssignmentID msg) cid st x ps (w_now w)] \<and>
     st \<in> set (map ContainerStatus_String [ContainerStatusPending, ContainerStatusRunning,
                  ContainerStatusCrashed, ContainerStatusStopped]) \<and> distinct (map fst trk') \<and>
     (case fst (startAssignedContainer rt msg e) of
        Inl _ \<Rightarrow> st = ''crashed'' \<and> cid = [] \<and> trk' = trk
      | Inr info \<Rightarrow> st = containerStatus info \<and> cid = info_ID info \<and>
          map_of trk' (as_AssignmentID msg) = Some \<lparr>tc_containerID = cid, tc_lastStatus = st\<rparr>)"
    using assms(2) out distinct_tracked(1) [OF assms(2)]
    by (cases out) (force simp: published_def containerStatus_def update_conv' split: Status.splits)+
next
  fix msg assume "dec_unassign data = Some msg"
  from handleUnassign_run [OF assms(1) this, of cd cfg rt trk e] distinct_tracked(2) [OF assms(2)]
  show "\<exists>trk' e'. fst (handleUnassign cd cfg rt data (trk, e) w) = Inr (trk', e') \<and>
         w_bus (snd (handleUnassign cd cfg rt data (trk, e) w)) =
           w_bus w @ [status_report cd cfg (un_AssignmentID msg) (un_ContainerID msg) ''stopped'' 0 [] (w_now w)] \<and>
         distinct (map fst trk') \<and> map_of trk' = (map_of trk)(un_AssignmentID msg := None)"
    by (auto simp: published_def delete_conv')
qed

text \<open>
  A worker keeps its identity. Whenever \<open>LoadOrCreateNodeID\<close> succeeds, every later call on
  the file it leaves answers the same identifier, whether or not the file can be written and
  whatever new identifier would be drawn; an unparseable or unreadable file is an error and is left
  alone.
\<close>

theorem node_id_stable:
  assumes "codec_ok cd" "TrimSpace (UUID_String cd fresh) = UUID_String cd fresh"
    and "LoadOrCreateNodeID cd writable fresh f = (r, f')"
  shows "(case r of
      Inr i \<Rightarrow> \<forall>writable' fresh'. LoadOrCreateNodeID cd writable' fresh' f' = (Inr i, f')
    | Inl _ \<Rightarrow> f' = f \<and> (f = Missing \<longrightarrow> \<not> writable)) \<and>
    (f = Missing \<and> writable \<longrightarrow> r = Inr fresh)"
  using assms by (auto simp: LoadOrCreateNodeID_def codec_ok_def split: id_file.splits option.splits if_splits)

subsection \<open>A small engine, for examples\<close>

definition demo_engine :: "string list ContainerRuntime" where
  "demo_engine = \<lparr>PullImage = (\<lambda>i e. (Inr (), e)), CreateContainer = (\<lambda>s e. (Inr ''c1'', e)),
     StartContainer = (\<lambda>c e. (Inr (), c # e)), StopContainer = (\<lambda>c t e. (Inr (), removeAll c e)),
     RemoveContainer = (\<lambda>c e. (Inr (), removeAll c e)),
     ContainerStatus = (\<lambda>c e. Inr \<lparr>info_ID = c, info_Status = if c \<in> set e then StatusRunning else StatusExited,
       info_ExitCode = 137, info_StartedAt = 0, info_Ports = []\<rparr>),
     StreamLogs = (\<lambda>c follow e. Inr \<lparr>segments = [''ready''], ended = EOF\<rparr>)\<rparr>"

definition demo_config :: agent_config where
  "demo_config = \<lparr>cfg_NodeID = 3, cfg_Hostname = ''n'', cfg_IP = ''10.0.0.3'', cfg_CPUCapacityMillicores = 4000,
     cfg_MemoryCapacityMB = 8192, cfg_Labels = []\<rparr>"

theorem poll_reports_transitions_witness:
  "let trk = [(''a1'', \<lparr>tc_containerID = ''c1'', tc_lastStatus = ''running''\<rparr>)] in
   fst (checkTrackedContainers unary demo_config demo_engine [] trk (calm 7 empty_db)) =
     Inr [(''a1'', \<lparr>tc_containerID = ''c1'', tc_lastStatus = ''crashed''\<rparr>)]"
proof -
  let ?trk = "[(''a1'', \<lparr>tc_containerID = ''c1'', tc_lastStatus = ''running''\<rparr>)]"
  obtain r w1 where run: "checkTrackedContainers unary demo_config demo_engine [] ?trk (calm 7 empty_db) = (r, w1)" by force
  from poll_reports_transitions [OF _ _ refl run]
  have "r = Inr (map (\<lambda>(a, tc). (a, observe (\<lambda>c. ContainerStatus demo_engine c []) tc)) ?trk)" by simp
  with run show ?thesis by (simp add: observe_def demo_engine_def containerStatus_def)
qed

theorem agent_answers_once_witness:
  "let msg = enc_assign \<lparr>as_AssignmentID = ''a1'', as_DeploymentID = ''d'', as_Image = ''nginx'', as_Env = [], as_Ports = [],
         as_Command = []\<rparr>
   in length (w_bus (snd (handleAssignment unary demo_config demo_engine (Some msg) ([], []) (calm 7 empty_db)))) = 1"
proof -
  let ?msg = "\<lparr>as_AssignmentID = ''a1'', as_DeploymentID = ''d'', as_Image = ''nginx'', as_Env = [], as_Ports = [],
      as_Command = []\<rparr> :: assignMessage"
  have "dec_assign (Some (enc_assign ?msg)) = Some ?msg" by (rule dec_assign_enc) simp_all
  with agent_answers_once [of "calm 7 empty_db" "[]" "Some (enc_assign ?msg)" unary demo_config demo_engine "[]"]
  show ?thesis by (auto simp: Let_def)
qed

theorem node_id_stable_witness:
  "fst (LoadOrCreateNodeID unary False 9 (snd (LoadOrCreateNodeID unary True 5 Missing))) = Inr 5"
proof -
  have trim: "TrimSpace (UUID_String unary 5) = UUID_String unary 5"
    by (simp add: TrimSpace_def trim_by_def unary_def is_space_def byte_def)
  obtain r f' where run: "LoadOrCreateNodeID unary True 5 Missing = (r, f')" by force
  from node_id_stable [OF unary_ok trim run] run show ?thesis by (auto split: sum.splits)
qed

subsection \<open>The container API\<close>

text \<open>
  \<^verbatim>\<open>services/worker/internal/server/server.go\<close>. A handler maps the request and the engine to a
  response and the engine after it; a request body that is not JSON is \<open>None\<close>. The log route answers
  with an error envelope or with a stream of text and status 200.
\<close>

definition worker_writeError :: "nat \<Rightarrow> string \<Rightarrow> string \<Rightarrow> http_response" where
  "worker_writeError status code message = writeJSON status (error_body code message)"

definition writeRuntimeError :: "string \<Rightarrow> string \<Rightarrow> rt_error \<Rightarrow> http_response" where
  "writeRuntimeError action cid er =
     (if IsNotFound er then worker_writeError 404 ''container_not_found'' (''no container with id '' @ cid)
      else worker_writeError 502 ''runtime_error'' (action @ '' container '' @ cid @ '': '' @ rt_text er))"

definition toContainerResponse :: "ContainerStatusInfo \<Rightarrow> json" where
  "toContainerResponse info = JObj ([(''id'', JStr (info_ID info)), (''status'', JStr (Status_String (info_Status info)))] @
     (if info_ExitCode info \<noteq> 0 then [(''exit_code'', JNum (info_ExitCode info))] else []) @
     [(''started_at'', JTime (info_StartedAt info))])"

record createContainerRequest =
  cr_Image :: string
  cr_Name :: string
  cr_Env :: "(string \<times> string) list"
  cr_Ports :: "portBinding list"
  cr_Command :: "string list"

definition dec_createContainer :: "json option \<Rightarrow> createContainerRequest option" where
  "dec_createContainer = dec_struct (\<lambda>kvs.
     Option.bind (dec_str [] (field ''image'' kvs)) (\<lambda>i.
     Option.bind (dec_str [] (field ''name'' kvs)) (\<lambda>n.
     Option.bind (dec_map [] (field ''env'' kvs)) (\<lambda>e.
     Option.bind (dec_ports kvs) (\<lambda>p.
     Option.bind (dec_list dec_command [] (field ''command'' kvs)) (\<lambda>c.
     Some \<lparr>cr_Image = i, cr_Name = n, cr_Env = e, cr_Ports = p, cr_Command = c\<rparr>))))))"

definition worker_handleCreate :: "'e ContainerRuntime \<Rightarrow> json option \<Rightarrow> 'e \<Rightarrow> http_response \<times> 'e" where
  "worker_handleCreate rt body e =
     (case dec_createContainer body of
        None \<Rightarrow> (worker_writeError 400 ''invalid_body''
                 ''request body must be valid JSON matching the create-container schema'', e)
      | Some req \<Rightarrow>
          (if cr_Image req = [] then (worker_writeError 422 ''missing_field'' ''image is required'', e)
           else case PullImage rt (cr_Image req) e of
             (Inl er, e1) \<Rightarrow>
               (worker_writeError 502 ''pull_failed'' (''pulling image '' @ cr_Image req @ '': '' @ rt_text er), e1)
           | (Inr _, e1) \<Rightarrow>
               (case CreateContainer rt \<lparr>spec_Image = cr_Image req, spec_Name = cr_Name req, spec_Env = cr_Env req,
                       spec_Ports = cr_Ports req, spec_Command = cr_Command req\<rparr> e1 of
                  (Inl er, e2) \<Rightarrow> (worker_writeError 502 ''create_failed'' (''creating container: '' @ rt_text er), e2)
                | (Inr cid, e2) \<Rightarrow>
                    (case StartContainer rt cid e2 of
                       (Inl er, e3) \<Rightarrow>
                         (worker_writeError 502 ''start_failed'' (''starting container '' @ cid @ '': '' @ rt_text er), e3)
                     | (Inr _, e3) \<Rightarrow>
                         (case ContainerStatus rt cid e3 of
                            Inl er \<Rightarrow>
                              (worker_writeError 502 ''status_failed'' (''inspecting container '' @ cid @ '': '' @ rt_text er), e3)
                          | Inr info \<Rightarrow> (writeJSON 201 (toContainerResponse info), e3))))))"

definition worker_handleStatus :: "'e ContainerRuntime \<Rightarrow> string \<Rightarrow> 'e \<Rightarrow> http_response \<times> 'e" where
  "worker_handleStatus rt cid e =
     (case ContainerStatus rt cid e of
        Inl er \<Rightarrow> (writeRuntimeError ''inspecting'' cid er, e)
      | Inr info \<Rightarrow> (writeJSON 200 (toContainerResponse info), e))"

definition dec_stop :: "json option \<Rightarrow> int option" where
  "dec_stop = dec_struct (\<lambda>kvs. dec_int 0 (field ''timeout_seconds'' kvs))"

text \<open>The product of two 64-bit durations wraps around.\<close>

definition stop_timeout :: "int \<Rightarrow> duration" where
  "stop_timeout seconds = (if seconds > 0 then wrap64 (seconds * second) else 10 * second)"

definition worker_handleStop :: "'e ContainerRuntime \<Rightarrow> string \<Rightarrow> int \<Rightarrow> json option \<Rightarrow> 'e \<Rightarrow> http_response \<times> 'e" where
  "worker_handleStop rt cid contentLength body e =
     (case (if contentLength \<noteq> 0 then dec_stop body else Some 0) of
        None \<Rightarrow> (worker_writeError 400 ''invalid_body'' ''request body must be valid JSON matching the stop schema'', e)
      | Some seconds \<Rightarrow>
          (case StopContainer rt cid (stop_timeout seconds) e of
             (Inl er, e1) \<Rightarrow> (writeRuntimeError ''stopping'' cid er, e1)
           | (Inr _, e1) \<Rightarrow> worker_handleStatus rt cid e1))"

definition worker_handleRemove :: "'e ContainerRuntime \<Rightarrow> string \<Rightarrow> 'e \<Rightarrow> http_response \<times> 'e" where
  "worker_handleRemove rt cid e =
     (case RemoveContainer rt cid e of
        (Inl er, e1) \<Rightarrow> (writeRuntimeError ''removing'' cid er, e1)
      | (Inr _, e1) \<Rightarrow> (\<lparr>rsp_Status = 204, rsp_Body = None\<rparr>, e1))"

datatype log_answer = Answered http_response | Streaming log_stream

definition worker_handleLogs :: "'e ContainerRuntime \<Rightarrow> nat option \<Rightarrow> string \<Rightarrow> string \<Rightarrow> 'e \<Rightarrow> log_answer" where
  "worker_handleLogs rt wr cid follow e =
     (case StreamLogs rt cid (follow = ''true'') e of
        Inl er \<Rightarrow> Answered (writeRuntimeError ''streaming logs for'' cid er)
      | Inr logs \<Rightarrow> Streaming (streamed wr logs))"

text \<open>
  The API and the agent start containers the same way: for a request that names an image and no
  container name, the API leaves the engine in the state the agent's start leaves it in for the same
  image, environment, ports and command, and answers 201 with the container exactly when the agent's
  start succeeds, and otherwise 502.
\<close>

theorem api_and_agent_start_alike:
  assumes "dec_createContainer body = Some req" "cr_Image req \<noteq> []" "cr_Name req = []"
    and "as_Image msg = cr_Image req" "as_Env msg = cr_Env req" "as_Ports msg = cr_Ports req" "as_Command msg = cr_Command req"
  shows "snd (worker_handleCreate rt body e) = snd (startAssignedContainer rt msg e) \<and>
    (case fst (startAssignedContainer rt msg e) of
       Inl _ \<Rightarrow> rsp_Status (fst (worker_handleCreate rt body e)) = 502
     | Inr info \<Rightarrow> fst (worker_handleCreate rt body e) = writeJSON 201 (toContainerResponse info))"
  using assms
  by (simp add: worker_handleCreate_def startAssignedContainer_def worker_writeError_def writeJSON_def split: prod.splits sum.splits)

theorem api_and_agent_start_alike_witness:
  "rsp_Status (fst (worker_handleCreate demo_engine (Some (JObj [(''image'', JStr ''nginx'')])) [])) = 201"
proof -
  let ?body = "Some (JObj [(''image'', JStr ''nginx'')])"
  let ?req = "\<lparr>cr_Image = ''nginx'', cr_Name = [], cr_Env = [], cr_Ports = [], cr_Command = []\<rparr>"
  let ?msg = "\<lparr>as_AssignmentID = [], as_DeploymentID = [], as_Image = ''nginx'', as_Env = [], as_Ports = [], as_Command = []\<rparr>
    :: assignMessage"
  have "dec_createContainer ?body = Some ?req"
    by (simp add: dec_createContainer_def dec_struct_def field_simps dec_ports_def)
  from api_and_agent_start_alike [OF this, of ?msg demo_engine "[]"] show ?thesis
    by (simp add: startAssignedContainer_def demo_engine_def writeJSON_def)
qed

text \<open>
  The stop timeout: a request for \<open>n\<close> seconds waits that long for every positive \<open>n\<close>
  up to 9223372036, and one without a positive value waits ten seconds; the next larger value already
  wraps around to a negative duration.
\<close>

theorem stop_timeout_bounds:
  "(n \<le> 0 \<longrightarrow> stop_timeout n = 10 * second) \<and>
   (0 < n \<and> n \<le> 9223372036 \<longrightarrow> stop_timeout n = n * second) \<and> stop_timeout 9223372037 < 0"
  by (auto simp: stop_timeout_def second_def wrap64_def)

theorem stop_timeout_bounds_witness: "stop_timeout 30 = 30000000000 \<and> stop_timeout 9223372037 < 0"
  using stop_timeout_bounds [of 30] by (simp add: second_def)

end
