(* ===== verification/GoTime.thy ===== *)
theory GoTime
  imports GoText
begin

section \<open>Go's package time\<close>

text \<open>
  What the sources use of \<^verbatim>\<open>time\<close> beyond arithmetic on instants: \<open>int(d.Seconds())\<close>, which passes
  through a 64-bit float, and \<open>time.Parse\<close> with the layout \<open>RFC3339Nano\<close>. Instants are nanoseconds since
  the zero \<open>time.Time\<close>, midnight of 1 January of the year 1, UTC.
\<close>

subsection \<open>Whole seconds of a duration\<close>

text \<open>
  The fraction \<open>a / b\<close> rounded to 53 significant bits, ties to even, as a mantissa and the number of its
  binary places; for fractions that are zero or between \<open>2 ^ -40\<close> and \<open>2 ^ 53\<close>, as the seconds of a
  64-bit duration and their fractional part are.
\<close>

fun bits :: "int \<Rightarrow> nat" where
  "bits n = (if n \<le> 0 then 0 else Suc (bits (n div 2)))"

declare bits.simps [simp del]

definition half_even :: "int \<Rightarrow> int \<Rightarrow> int" where
  "half_even a b = (let q = a div b; r = a mod b in
     if 2 * r < b then q else if b < 2 * r then q + 1 else if even q then q else q + 1)"

definition float64 :: "int \<Rightarrow> int \<Rightarrow> int \<times> nat" where
  "float64 a b = (let k = 93 - bits (a * 2 ^ 40 div b) in (half_even (a * 2 ^ k) b, k))"

text \<open>\<open>int(d.Seconds())\<close>. Both parts of a negative duration are negative, and rounding is symmetric.\<close>

definition Seconds :: "duration \<Rightarrow> int" where
  "Seconds d = sgn d *
     (case float64 (\<bar>d\<bar> mod second) second of (f, k) \<Rightarrow>
      case float64 (\<bar>d\<bar> div second * 2 ^ k + f) (2 ^ k) of (m, j) \<Rightarrow> m div 2 ^ j)"

text \<open>A whole number of seconds survives the float; almost one second more does not always.\<close>

lemma half_even_exact: "b > 0 \<Longrightarrow> b dvd a \<Longrightarrow> half_even a b = a div b"
  by (auto simp: half_even_def Let_def dvd_eq_mod_eq_0)

lemma Seconds_whole: "Seconds (n * second) = n"
proof -
  have abs: "\<bar>n * second\<bar> = \<bar>n\<bar> * second" by (simp add: abs_mult second_def)
  then have parts: "\<bar>n * second\<bar> mod second = 0" "\<bar>n * second\<bar> div second = \<bar>n\<bar>" by (simp_all add: second_def)
  have zero: "float64 0 second = (0, 93)" by (simp add: float64_def half_even_def bits.simps second_def)
  have "half_even (\<bar>n\<bar> * 2 ^ 93 * 2 ^ k) (2 ^ 93) = \<bar>n\<bar> * 2 ^ k" for k :: nat
    by (subst half_even_exact) (simp_all add: mult.commute mult.left_commute del: power_numeral)
  then have "case float64 (\<bar>n\<bar> * 2 ^ 93 + 0) (2 ^ 93) of (m, j) \<Rightarrow> m div 2 ^ j = \<bar>n\<bar>"
    unfolding float64_def Let_def add_0_right prod.case by (simp only: nonzero_mult_div_cancel_right [of "2 ^ _"]) simp
  moreover have "sgn (n * second) = sgn n" by (simp add: sgn_mult second_def)
  ultimately show ?thesis unfolding Seconds_def parts zero by (simp add: sgn_mult_abs split: prod.splits)
qed

lemma Seconds_rounds_up: "Seconds (16777217 * second - 1) = 16777217"
  by code_simp

lemma Seconds_cuts: "Seconds (10 * second - 1) = 9 \<and> Seconds (1 - 10 * second) = - 9"
  by code_simp

subsection \<open>Timestamps\<close>

definition expect :: "char \<Rightarrow> string \<Rightarrow> string option" where
  "expect c s = (case s of d # rest \<Rightarrow> if d = c then Some rest else None | [] \<Rightarrow> None)"

text \<open>\<open>getnum\<close>: one or two digits, two where the layout says so.\<close>

definition getnum :: "bool \<Rightarrow> string \<Rightarrow> (nat \<times> string) option" where
  "getnum fixed s =
     (case s of
        [] \<Rightarrow> None
      | c # rest \<Rightarrow>
          (if \<not> is_digit c then None
           else case rest of
             d # rest' \<Rightarrow> if is_digit d then Some (10 * digit_val c + digit_val d, rest')
                        else if fixed then None else Some (digit_val c, rest)
           | [] \<Rightarrow> if fixed then None else Some (digit_val c, [])))"

definition getyear :: "string \<Rightarrow> (nat \<times> string) option" where
  "getyear s = (if 4 \<le> length s \<and> list_all is_digit (take 4 s) then Some (digits_val (take 4 s), drop 4 s) else None)"

text \<open>The fraction after a point or a comma: any number of digits, of which nine count.\<close>

definition getnanos :: "string \<Rightarrow> nat \<times> string" where
  "getnanos s =
     (case s of
        sep # d # rest \<Rightarrow>
          (if sep \<in> {CHR ''.'', CHR '',''} \<and> is_digit d
           then let ds = take 9 (takeWhile is_digit (d # rest)) in
                (digits_val ds * 10 ^ (9 - length ds), dropWhile is_digit (d # rest))
           else (0, s))
      | _ \<Rightarrow> (0, s))"

text \<open>The offset of the zone in seconds; 24 hours and 60 minutes are let through.\<close>

definition getzone :: "string \<Rightarrow> (int \<times> string) option" where
  "getzone s =
     (case s of
        [] \<Rightarrow> None
      | c # rest \<Rightarrow>
          (if c = CHR ''Z'' then Some (0, rest)
           else Option.bind (getnum True rest) (\<lambda>(hh, r1).
                Option.bind (expect CHR '':'' r1) (\<lambda>r2.
                Option.bind (getnum True r2) (\<lambda>(mm, r3).
                  if c \<in> {CHR ''+'', CHR ''-''} \<and> hh \<le> 24 \<and> mm \<le> 60
                  then Some ((if c = CHR ''-'' then - 1 else 1) * (int hh * 3600 + int mm * 60), r3)
                  else None)))))"

definition leap :: "int \<Rightarrow> bool" where
  "leap y \<longleftrightarrow> 4 dvd y \<and> (\<not> 100 dvd y \<or> 400 dvd y)"

definition daysIn :: "int \<Rightarrow> nat \<Rightarrow> nat" where
  "daysIn y m = (if m = 2 then (if leap y then 29 else 28) else if m \<in> {4, 6, 9, 11} then 30 else 31)"

text \<open>Days from 1 January of the year 1 to the given date.\<close>

definition days_of :: "int \<Rightarrow> nat \<Rightarrow> nat \<Rightarrow> int" where
  "days_of y m d = (let p = y - 1 in 365 * p + p div 4 - p div 100 + p div 400 +
     int (sum_list (map (daysIn y) [1..<m])) + int d - 1)"

definition instant :: "int \<Rightarrow> nat \<Rightarrow> nat \<Rightarrow> nat \<Rightarrow> nat \<Rightarrow> nat \<Rightarrow> nat \<Rightarrow> time" where
  "instant y m d hh mm ss ns = (days_of y m d * 86400 + int hh * 3600 + int mm * 60 + int ss) * second + int ns"

definition time_Parse :: "string \<Rightarrow> time option" where
  "time_Parse s =
     Option.bind (getyear s) (\<lambda>(y, s).
     Option.bind (expect CHR ''-'' s) (\<lambda>s.
     Option.bind (getnum True s) (\<lambda>(m, s).
     Option.bind (expect CHR ''-'' s) (\<lambda>s.
     Option.bind (getnum True s) (\<lambda>(d, s).
     Option.bind (expect CHR ''T'' s) (\<lambda>s.
     Option.bind (getnum False s) (\<lambda>(hh, s).
     Option.bind (expect CHR '':'' s) (\<lambda>s.
     Option.bind (getnum True s) (\<lambda>(mm, s).
     Option.bind (expect CHR '':'' s) (\<lambda>s.
     Option.bind (getnum True s) (\<lambda>(ss, s).
     (case getnanos s of (ns, s) \<Rightarrow>
     Option.bind (getzone s) (\<lambda>(off, s).
       if s = [] \<and> 1 \<le> m \<and> m \<le> 12 \<and> 1 \<le> d \<and> d \<le> daysIn (int y) m \<and> hh < 24 \<and> mm < 60 \<and> ss < 60
       then Some (instant (int y) m d hh mm ss ns - off * second) else None)))))))))))))"

text \<open>What the engine writes for a moment in UTC, and that it is read back.\<close>

definition pad2 :: "nat \<Rightarrow> string" where
  "pad2 n = [digit_char (n div 10), digit_char (n mod 10)]"

definition timestamp :: "nat \<Rightarrow> nat \<Rightarrow> nat \<Rightarrow> nat \<Rightarrow> nat \<Rightarrow> nat \<Rightarrow> string \<Rightarrow> string" where
  "timestamp y m d hh mm ss fr =
     pad2 (y div 100) @ pad2 (y mod 100) @ ''-'' @ pad2 m @ ''-'' @ pad2 d @ ''T'' @ pad2 hh @ '':'' @ pad2 mm @ '':'' @ pad2 ss @
     (if fr = [] then [] else ''.'' @ fr) @ ''Z''"

lemma getnum_pad2: "n < 100 \<Longrightarrow> getnum fixed (digit_char (n div 10) # digit_char (n mod 10) # s) = Some (n, s)"
proof -
  assume "n < 100"
  then have "n div 10 < 10" "n mod 10 < 10" by simp_all
  then show ?thesis by (simp add: getnum_def is_digit_digit_char digit_val_digit_char)
qed

lemma getyear_digits:
  "a < 10 \<Longrightarrow> b < 10 \<Longrightarrow> c < 10 \<Longrightarrow> d < 10 \<Longrightarrow>
   getyear (digit_char a # digit_char b # digit_char c # digit_char d # s) = Some (((a * 10 + b) * 10 + c) * 10 + d, s)"
  by (simp add: getyear_def is_digit_digit_char digits_val_def digit_val_digit_char)

lemma getyear_pad:
  assumes "y < 10000"
  shows "getyear (digit_char (y div 100 div 10) # digit_char (y div 100 mod 10) # digit_char (y mod 100 div 10) # digit_char (y mod 100 mod 10) # s) = Some (y, s)"
proof -
  have "y div 100 div 10 < 10" "y div 100 mod 10 < 10" "y mod 100 div 10 < 10" "y mod 100 mod 10 < 10" using assms by auto
  moreover have "((y div 100 div 10 * 10 + y div 100 mod 10) * 10 + y mod 100 div 10) * 10 + y mod 100 mod 10 = y"
    unfolding div_mult_mod_eq by (simp add: add_mult_distrib)
  ultimately show ?thesis by (simp only: getyear_digits)
qed

lemma getnanos_frac:
  assumes "list_all is_digit fr" "length fr \<le> 9"
  shows "getnanos ((if fr = [] then [] else ''.'' @ fr) @ ''Z'') = (digits_val fr * 10 ^ (9 - length fr), ''Z'')"
proof (cases fr)
  case Nil
  then show ?thesis by (simp add: getnanos_def digits_val_def)
next
  case (Cons c t)
  have "\<not> is_digit CHR ''Z''" by (simp add: is_digit_def byte_def)
  moreover have "takeWhile is_digit (fr @ ''Z'') = fr" "dropWhile is_digit (fr @ ''Z'') = ''Z''"
    using assms(1) calculation by (simp_all add: list_all_iff takeWhile_append2 dropWhile_append2)
  ultimately show ?thesis using Cons assms by (simp add: getnanos_def)
qed

lemma time_Parse_timestamp:
  assumes "y < 10000" "1 \<le> m" "m \<le> 12" "1 \<le> d" "d \<le> daysIn (int y) m" "hh < 24" "mm < 60" "ss < 60"
    and "list_all is_digit fr" "length fr \<le> 9"
  shows "time_Parse (timestamp y m d hh mm ss fr) = Some (instant (int y) m d hh mm ss (digits_val fr * 10 ^ (9 - length fr)))"
proof -
  have "d < 100" using assms(5) by (auto simp: daysIn_def split: if_splits)
  then show ?thesis using assms
    by (simp add: time_Parse_def timestamp_def pad2_def getyear_pad getnum_pad2 expect_def getnanos_frac [simplified] getzone_def)
qed

lemma time_Parse_examples:
  "time_Parse ''0001-01-01T00:00:00Z'' = Some 0 \<and> time_Parse ''2023-02-29T00:00:00Z'' = None \<and>
   time_Parse ''1970-01-01T00:00:00Z'' = Some (62135596800 * second) \<and>
   time_Parse ''2024-02-29T01:30:00.5+01:30'' = Some (63844761600 * second + 500000000)"
  by (simp add: time_Parse_def getyear_def getnum_def expect_def getnanos_def getzone_def is_digit_def byte_def digits_val_def
    digit_val_def instant_def days_of_def daysIn_def leap_def second_def upt_rec)

end
