(* ===== verification/DockerRuntime.thy ===== *)
theory DockerRuntime
  imports Worker ServiceInstances GoTime
begin

section \<open>The Docker adapter of the runtime interface\<close>

text \<open>
  \<^verbatim>\<open>internal/runtime/docker.go\<close>. The Docker client is a third-party package: the record
  \<open>docker_client\<close> has one field for each of its calls that the adapter makes, on an engine state \<open>'e\<close>,
  beside \<open>network.ParsePort\<close> and \<open>stdcopy.StdCopy\<close> of the same packages. \<open>DockerRuntime\<close> is the resulting
  instance of the interface over which the node agent and the worker's API are modelled.
\<close>

subsection \<open>The client\<close>

record docker_port =
  port_Num :: int
  port_Proto :: string

text \<open>A binding of \<open>network.PortBinding\<close>: the host address and the host port as text, empty for any.\<close>

type_synonym docker_bindings = "(docker_port \<times> (string \<times> string) list) list"

record create_options =
  opt_Image :: string
  opt_Name :: string
  opt_Env :: "string list"
  opt_Cmd :: "string list"
  opt_ExposedPorts :: "docker_port list"
  opt_PortBindings :: docker_bindings

record docker_state =
  ds_Status :: string
  ds_ExitCode :: int
  ds_StartedAt :: string

record inspect_result =
  ins_ID :: string
  ins_State :: "docker_state option"
  ins_Ports :: "docker_bindings option"

record 'e docker_client =
  ImagePull :: "string \<Rightarrow> 'e \<Rightarrow> (rt_error + (json list \<times> rt_error option)) \<times> 'e"
  ContainerCreate :: "create_options \<Rightarrow> 'e \<Rightarrow> (rt_error + string) \<times> 'e"
  ContainerStart :: "string \<Rightarrow> 'e \<Rightarrow> (rt_error + unit) \<times> 'e"
  ContainerStop :: "string \<Rightarrow> int \<Rightarrow> 'e \<Rightarrow> (rt_error + unit) \<times> 'e"
  ContainerRemove :: "string \<Rightarrow> bool \<Rightarrow> 'e \<Rightarrow> (rt_error + unit) \<times> 'e"
  ContainerInspect :: "string \<Rightarrow> 'e \<Rightarrow> rt_error + inspect_result"
  ContainerLogs :: "string \<Rightarrow> bool \<Rightarrow> 'e \<Rightarrow> rt_error + log_stream"
  ParsePort :: "string \<Rightarrow> string + docker_port"
  StdCopy :: "log_stream \<Rightarrow> log_stream"

text \<open>\<open>fmt.Errorf\<close> with \<open>%w\<close>: the text grows, what the error is stays.\<close>

definition wrapf :: "string \<Rightarrow> rt_error \<Rightarrow> rt_error" where
  "wrapf what er = er\<lparr>rt_text := what @ '': '' @ rt_text er\<rparr>"

definition wrapping :: "string \<Rightarrow> (rt_error + 'a) \<times> 'e \<Rightarrow> (rt_error + 'a) \<times> 'e" where
  "wrapping what r = (case r of (Inl er, e) \<Rightarrow> (Inl (wrapf what er), e) | (Inr x, e) \<Rightarrow> (Inr x, e))"

definition other_error :: "string \<Rightarrow> rt_error" where
  "other_error t = \<lparr>IsNotFound = False, rt_text = t\<rparr>"

subsection \<open>The operations\<close>

text \<open>
  The response of a pull is a stream of progress messages and how reading it ends. The pull is over when it is
  read to the end; what the messages say is discarded.
\<close>

definition docker_PullImage :: "'e docker_client \<Rightarrow> string \<Rightarrow> 'e \<Rightarrow> (rt_error + unit) \<times> 'e" where
  "docker_PullImage cli img e =
     (case ImagePull cli img e of
        (Inl er, e1) \<Rightarrow> (Inl (wrapf (''pulling image '' @ img) er), e1)
      | (Inr (msgs, None), e1) \<Rightarrow> (Inr (), e1)
      | (Inr (msgs, Some er), e1) \<Rightarrow> (Inl (wrapf (''reading pull response for image '' @ img) er), e1))"

definition protocol_of :: "portBinding \<Rightarrow> string" where
  "protocol_of p = (if Protocol p = [] then ''tcp'' else Protocol p)"

definition port_spec :: "portBinding \<Rightarrow> string" where
  "port_spec p = Itoa (ContainerPort p) @ ''/'' @ protocol_of p"

definition host_binding :: "portBinding \<Rightarrow> string \<times> string" where
  "host_binding p = (''0.0.0.0'', if HostPort p \<noteq> 0 then Itoa (HostPort p) else [])"

text \<open>The set of exposed ports and the map of bindings; a later binding of the same port replaces the earlier.\<close>

fun port_maps :: "(string \<Rightarrow> string + docker_port) \<Rightarrow> portBinding list \<Rightarrow> docker_port list \<times> docker_bindings \<Rightarrow>
    string + (docker_port list \<times> docker_bindings)" where
  "port_maps parse [] acc = Inr acc"
| "port_maps parse (p # ps) (exposed, bindings) =
     (case parse (port_spec p) of
        Inl er \<Rightarrow> Inl (''building port spec for '' @ port_spec p @ '': '' @ er)
      | Inr cp \<Rightarrow> port_maps parse ps (List.insert cp exposed, AList.update cp [host_binding p] bindings))"

definition docker_CreateContainer :: "'e docker_client \<Rightarrow> ContainerSpec \<Rightarrow> 'e \<Rightarrow> (rt_error + string) \<times> 'e" where
  "docker_CreateContainer cli spec e =
     (case port_maps (ParsePort cli) (spec_Ports spec) ([], []) of
        Inl t \<Rightarrow> (Inl (other_error t), e)
      | Inr (exposed, bindings) \<Rightarrow>
          wrapping (''creating container from image '' @ spec_Image spec)
            (ContainerCreate cli \<lparr>opt_Image = spec_Image spec, opt_Name = spec_Name spec,
               opt_Env = map (\<lambda>(k, v). k @ ''='' @ v) (spec_Env spec), opt_Cmd = spec_Command spec,
               opt_ExposedPorts = exposed, opt_PortBindings = bindings\<rparr> e))"

definition docker_StartContainer :: "'e docker_client \<Rightarrow> string \<Rightarrow> 'e \<Rightarrow> (rt_error + unit) \<times> 'e" where
  "docker_StartContainer cli cid e = wrapping (''starting container '' @ cid) (ContainerStart cli cid e)"

definition docker_StopContainer :: "'e docker_client \<Rightarrow> string \<Rightarrow> duration \<Rightarrow> 'e \<Rightarrow> (rt_error + unit) \<times> 'e" where
  "docker_StopContainer cli cid timeout e = wrapping (''stopping container '' @ cid) (ContainerStop cli cid (Seconds timeout) e)"

definition docker_RemoveContainer :: "'e docker_client \<Rightarrow> string \<Rightarrow> 'e \<Rightarrow> (rt_error + unit) \<times> 'e" where
  "docker_RemoveContainer cli cid e = wrapping (''removing container '' @ cid) (ContainerRemove cli cid True e)"

definition docker_status :: "docker_state option \<Rightarrow> Status" where
  "docker_status st =
     (case st of
        None \<Rightarrow> StatusUnknown
      | Some s \<Rightarrow>
          (if ds_Status s = ''created'' then StatusPending
           else if ds_Status s = ''running'' then StatusRunning
           else if ds_Status s = ''exited'' \<or> ds_Status s = ''dead'' then StatusExited
           else StatusUnknown))"

definition hostPortBindings :: "docker_bindings option \<Rightarrow> portBinding list" where
  "hostPortBindings ns =
     (case ns of
        None \<Rightarrow> []
      | Some ports \<Rightarrow> List.map_filter (\<lambda>(port, bs).
          case bs of
            [] \<Rightarrow> None
          | (ip, hostPort) # _ \<Rightarrow> map_option (\<lambda>n. \<lparr>ContainerPort = port_Num port, HostPort = n, Protocol = port_Proto port\<rparr>) (Atoi hostPort))
          ports)"

definition docker_ContainerStatus :: "'e docker_client \<Rightarrow> string \<Rightarrow> 'e \<Rightarrow> rt_error + ContainerStatusInfo" where
  "docker_ContainerStatus cli cid e =
     (case ContainerInspect cli cid e of
        Inl er \<Rightarrow> Inl (wrapf (''inspecting container '' @ cid) er)
      | Inr ins \<Rightarrow> Inr \<lparr>info_ID = ins_ID ins, info_Status = docker_status (ins_State ins),
          info_ExitCode = (case ins_State ins of Some s \<Rightarrow> ds_ExitCode s | None \<Rightarrow> 0),
          info_StartedAt = (case ins_State ins of Some s \<Rightarrow> (case time_Parse (ds_StartedAt s) of Some t \<Rightarrow> t | None \<Rightarrow> 0) | None \<Rightarrow> 0),
          info_Ports = hostPortBindings (ins_Ports ins)\<rparr>)"

definition docker_StreamLogs :: "'e docker_client \<Rightarrow> string \<Rightarrow> bool \<Rightarrow> 'e \<Rightarrow> rt_error + log_stream" where
  "docker_StreamLogs cli cid follow e =
     (case ContainerLogs cli cid follow e of
        Inl er \<Rightarrow> Inl (wrapf (''streaming logs for container '' @ cid) er)
      | Inr raw \<Rightarrow> Inr (StdCopy cli raw))"

definition DockerRuntime :: "'e docker_client \<Rightarrow> 'e ContainerRuntime" where
  "DockerRuntime cli = \<lparr>PullImage = docker_PullImage cli, CreateContainer = docker_CreateContainer cli,
     StartContainer = docker_StartContainer cli, StopContainer = docker_StopContainer cli,
     RemoveContainer = docker_RemoveContainer cli, ContainerStatus = docker_ContainerStatus cli,
     StreamLogs = docker_StreamLogs cli\<rparr>"

lemma DockerRuntime_simps [simp]:
  "PullImage (DockerRuntime cli) = docker_PullImage cli" "CreateContainer (DockerRuntime cli) = docker_CreateContainer cli"
  "StartContainer (DockerRuntime cli) = docker_StartContainer cli" "StopContainer (DockerRuntime cli) = docker_StopContainer cli"
  "RemoveContainer (DockerRuntime cli) = docker_RemoveContainer cli" "ContainerStatus (DockerRuntime cli) = docker_ContainerStatus cli"
  "StreamLogs (DockerRuntime cli) = docker_StreamLogs cli"
  by (simp_all add: DockerRuntime_def)

lemma wrapf_IsNotFound [simp]: "IsNotFound (wrapf what er) = IsNotFound er"
  by (simp add: wrapf_def)

lemma wrapping_Inr [simp]: "wrapping what r = (Inr x, e) \<longleftrightarrow> r = (Inr x, e)"
  by (auto simp: wrapping_def split: prod.splits sum.splits)

subsection \<open>From the engine's port to the load balancer\<close>

text \<open>
  What Docker documents of the ports: a specification of a port and one of its protocols is parsed to them; a
  container that was created and started, and runs, is inspected under the identifier it was given and with its
  published ports: for every requested binding a host port, the requested one where one was requested, and a
  host binding for no other port.
\<close>

definition parses_ports :: "'e docker_client \<Rightarrow> bool" where
  "parses_ports cli \<longleftrightarrow> (\<forall>n proto. 0 < n \<and> n \<le> 65535 \<and> proto \<in> {''tcp'', ''udp'', ''sctp''} \<longrightarrow>
     ParsePort cli (Itoa n @ ''/'' @ proto) = Inr \<lparr>port_Num = n, port_Proto = proto\<rparr>)"

definition bound_as :: "docker_bindings \<Rightarrow> docker_port \<Rightarrow> string \<Rightarrow> bool" where
  "bound_as requested cp hostPort \<longleftrightarrow> (\<exists>n. 0 < n \<and> n \<le> 65535 \<and> hostPort = Itoa n) \<and>
     (\<exists>want. (cp, [want]) \<in> set requested \<and> (snd want \<noteq> [] \<longrightarrow> hostPort = snd want))"

definition publishes_ports :: "'e docker_client \<Rightarrow> bool" where
  "publishes_ports cli \<longleftrightarrow> (\<forall>opts e cid e1 e2 ins. ContainerCreate cli opts e = (Inr cid, e1) \<and>
     ContainerStart cli cid e1 = (Inr (), e2) \<and> ContainerInspect cli cid e2 = Inr ins \<and> docker_status (ins_State ins) = StatusRunning \<longrightarrow>
     ins_ID ins = cid \<and> (\<exists>ns. ins_Ports ins = Some ns \<and>
       (\<forall>cp b bs. (cp, b # bs) \<in> set ns \<longrightarrow> bound_as (opt_PortBindings opts) cp (snd b)) \<and>
       (\<forall>cp \<in> fst ` set (opt_PortBindings opts). \<exists>b bs. (cp, b # bs) \<in> set ns)))"

definition routable :: "portBinding \<Rightarrow> bool" where
  "routable p \<longleftrightarrow> 0 < ContainerPort p \<and> ContainerPort p \<le> 65535 \<and> 0 \<le> HostPort p \<and> HostPort p \<le> 65535 \<and>
     protocol_of p \<in> {''tcp'', ''udp'', ''sctp''}"

definition container_port :: "portBinding \<Rightarrow> docker_port" where
  "container_port p = \<lparr>port_Num = ContainerPort p, port_Proto = protocol_of p\<rparr>"

lemma ParsePort_spec: "parses_ports cli \<Longrightarrow> routable p \<Longrightarrow> ParsePort cli (port_spec p) = Inr (container_port p)"
  by (auto simp: parses_ports_def routable_def port_spec_def container_port_def)

lemma update_entry: "(a, x) \<in> set (AList.update k v al) \<Longrightarrow> (a, x) \<in> set al \<or> a = k \<and> x = v"
  by (induction al) (auto split: if_splits)

lemma port_maps_routable:
  assumes "parses_ports cli" "list_all routable ps" "port_maps (ParsePort cli) ps (ex, bs) = Inr (ex', bs')"
  shows "fst ` set bs' = fst ` set bs \<union> container_port ` set ps \<and>
    (\<forall>cp x. (cp, x) \<in> set bs' \<longrightarrow> (cp, x) \<in> set bs \<or> (\<exists>p \<in> set ps. cp = container_port p \<and> x = [host_binding p]))"
  using assms(2,3)
proof (induction ps arbitrary: ex bs)
  case (Cons p ps)
  then have "port_maps (ParsePort cli) ps (List.insert (container_port p) ex, AList.update (container_port p) [host_binding p] bs) = Inr (ex', bs')"
    by (simp add: ParsePort_spec [OF assms(1)])
  from Cons.IH [OF _ this] Cons.prems(1)
  have keys: "fst ` set bs' = fst ` set (AList.update (container_port p) [host_binding p] bs) \<union> container_port ` set ps"
    and from_ps: "\<And>cp x. (cp, x) \<in> set bs' \<Longrightarrow> (cp, x) \<in> set (AList.update (container_port p) [host_binding p] bs) \<or>
      (\<exists>p \<in> set ps. cp = container_port p \<and> x = [host_binding p])" by auto
  have "(cp, x) \<in> set bs \<or> (\<exists>p \<in> set (p # ps). cp = container_port p \<and> x = [host_binding p])" if "(cp, x) \<in> set bs'" for cp x
    using from_ps [OF that] update_entry [of cp x] by auto
  moreover have "fst ` set bs' = fst ` set bs \<union> container_port ` set (p # ps)" unfolding keys dom_update by auto
  ultimately show ?case by blast
qed auto

text \<open>What the adapter reports of a running container's ports.\<close>

lemma hostPortBindings_sound:
  "b \<in> set (hostPortBindings (Some ns)) \<Longrightarrow> \<exists>cp ip hp rest. (cp, (ip, hp) # rest) \<in> set ns \<and> Atoi hp = Some (HostPort b) \<and>
     ContainerPort b = port_Num cp \<and> Protocol b = port_Proto cp"
  by (fastforce simp: hostPortBindings_def List.map_filter_def split: list.splits)

lemma hostPortBindings_complete:
  "(cp, (ip, Itoa n) # rest) \<in> set ns \<Longrightarrow> int64_ok n \<Longrightarrow>
   \<lparr>ContainerPort = port_Num cp, HostPort = n, Protocol = port_Proto cp\<rparr> \<in> set (hostPortBindings (Some ns))"
  by (force simp: hostPortBindings_def List.map_filter_def Atoi_Itoa image_iff)

text \<open>A start that succeeds went through the calls of the client, and reports what the inspection shows.\<close>

lemma docker_start_steps:
  assumes "startAssignedContainer (DockerRuntime cli) msg e = (Inr info, e')"
  obtains ex bs opts e1 cid e2 ins where
    "port_maps (ParsePort cli) (as_Ports msg) ([], []) = Inr (ex, bs)" "opt_PortBindings opts = bs"
    "ContainerCreate cli opts e1 = (Inr cid, e2)" "ContainerStart cli cid e2 = (Inr (), e')" "ContainerInspect cli cid e' = Inr ins"
    "info_ID info = ins_ID ins" "info_Status info = docker_status (ins_State ins)" "info_Ports info = hostPortBindings (ins_Ports ins)"
proof -
  from assms obtain e1 cid e2 where
    create: "docker_CreateContainer cli \<lparr>spec_Image = as_Image msg, spec_Name = [], spec_Env = as_Env msg, spec_Ports = as_Ports msg,
      spec_Command = as_Command msg\<rparr> e1 = (Inr cid, e2)"
    and start: "docker_StartContainer cli cid e2 = (Inr (), e')" and inspect: "docker_ContainerStatus cli cid e' = Inr info"
    by (auto simp: startAssignedContainer_def split: prod.splits sum.splits)
  from create obtain ex bs where maps: "port_maps (ParsePort cli) (as_Ports msg) ([], []) = Inr (ex, bs)"
    by (auto simp: docker_CreateContainer_def split: sum.splits)
  from inspect obtain ins where ins: "ContainerInspect cli cid e' = Inr ins"
    by (auto simp: docker_ContainerStatus_def split: sum.splits)
  show ?thesis
  proof (rule that [OF maps _ _ _ ins])
    show "ContainerCreate cli \<lparr>opt_Image = as_Image msg, opt_Name = [], opt_Env = map (\<lambda>(k, v). k @ ''='' @ v) (as_Env msg),
        opt_Cmd = as_Command msg, opt_ExposedPorts = ex, opt_PortBindings = bs\<rparr> e1 = (Inr cid, e2)"
      using create by (simp add: docker_CreateContainer_def maps)
  qed (use start inspect ins in \<open>auto simp: docker_StartContainer_def docker_ContainerStatus_def\<close>)
qed

lemma Itoa_not_Nil: "Itoa i \<noteq> []"
  using nat_string_digits [of "nat i"] by (simp add: Itoa_def)

lemma reported_ports:
  assumes laws: "parses_ports cli" "publishes_ports cli" and ps: "list_all routable (as_Ports msg)"
    and run: "startAssignedContainer (DockerRuntime cli) msg e = (Inr info, e')" "info_Status info = StatusRunning"
  shows "\<exists>ins ns. ContainerInspect cli (info_ID info) e' = Inr ins \<and> ins_Ports ins = Some ns \<and>
    (\<forall>b \<in> set (info_Ports info). \<exists>p \<in> set (as_Ports msg). ContainerPort b = ContainerPort p \<and> Protocol b = protocol_of p \<and>
       0 < HostPort b \<and> HostPort b \<le> 65535 \<and> (HostPort p \<noteq> 0 \<longrightarrow> HostPort b = HostPort p) \<and>
       (\<exists>ip rest. (container_port p, (ip, Itoa (HostPort b)) # rest) \<in> set ns)) \<and>
    (\<forall>p \<in> set (as_Ports msg). \<exists>b \<in> set (info_Ports info). ContainerPort b = ContainerPort p \<and> Protocol b = protocol_of p)"
proof -
  obtain ex bs opts e1 cid e2 ins where
    maps: "port_maps (ParsePort cli) (as_Ports msg) ([], []) = Inr (ex, bs)" "opt_PortBindings opts = bs"
    and eng: "ContainerCreate cli opts e1 = (Inr cid, e2)" "ContainerStart cli cid e2 = (Inr (), e')" "ContainerInspect cli cid e' = Inr ins"
    and info: "info_ID info = ins_ID ins" "info_Status info = docker_status (ins_State ins)" "info_Ports info = hostPortBindings (ins_Ports ins)"
    by (rule docker_start_steps [OF run(1)])
  from laws(2) eng run(2) info(2) maps(2) obtain ns where cid: "ins_ID ins = cid" and ns: "ins_Ports ins = Some ns"
    and only: "\<And>cp b bs'. (cp, b # bs') \<in> set ns \<Longrightarrow> bound_as bs cp (snd b)"
    and all: "\<And>cp. cp \<in> fst ` set bs \<Longrightarrow> \<exists>b bs'. (cp, b # bs') \<in> set ns"
    unfolding publishes_ports_def by metis
  from port_maps_routable [OF laws(1) ps maps(1)] have keys: "fst ` set bs = container_port ` set (as_Ports msg)"
    and from_p: "\<And>cp x. (cp, x) \<in> set bs \<Longrightarrow> \<exists>p \<in> set (as_Ports msg). cp = container_port p \<and> x = [host_binding p]" by auto
  have bound: "\<exists>p \<in> set (as_Ports msg). cp = container_port p \<and> (\<exists>n. 0 < n \<and> n \<le> 65535 \<and> hp = Itoa n \<and> (HostPort p \<noteq> 0 \<longrightarrow> n = HostPort p))"
    if entry: "(cp, (ip, hp) # rest) \<in> set ns" for cp ip hp rest
  proof -
    from only [OF entry] obtain n want where n: "0 < n" "n \<le> 65535" "hp = Itoa n" and want: "(cp, [want]) \<in> set bs" "snd want \<noteq> [] \<longrightarrow> hp = snd want"
      unfolding bound_as_def snd_conv by blast
    from from_p [OF want(1)] obtain p where p: "p \<in> set (as_Ports msg)" "cp = container_port p" "want = host_binding p" by auto
    have "n = HostPort p" if "HostPort p \<noteq> 0"
    proof -
      from that want(2) n(3) p(3) have "Itoa n = Itoa (HostPort p)" by (auto simp: host_binding_def Itoa_not_Nil)
      moreover have "int64_ok n" "int64_ok (HostPort p)" using n p(1) ps by (auto simp: int64_ok_def list_all_iff routable_def)
      ultimately show ?thesis using Atoi_Itoa by (metis option.inject)
    qed
    with n p show ?thesis by blast
  qed
  have ok: "0 < n \<Longrightarrow> n \<le> 65535 \<Longrightarrow> int64_ok n" for n by (simp add: int64_ok_def)
  show ?thesis
  proof (rule exI [of _ ins], rule exI [of _ ns], intro conjI ballI)
    fix b
    assume "b \<in> set (info_Ports info)"
    then obtain cp ip hp rest where e: "(cp, (ip, hp) # rest) \<in> set ns" "Atoi hp = Some (HostPort b)" "ContainerPort b = port_Num cp" "Protocol b = port_Proto cp"
      using hostPortBindings_sound [of b ns] info(3) ns by auto
    from bound [OF e(1)] obtain p n where p: "p \<in> set (as_Ports msg)" "cp = container_port p" "0 < n" "n \<le> 65535" "hp = Itoa n"
      "HostPort p \<noteq> 0 \<longrightarrow> n = HostPort p" by blast
    moreover have "HostPort b = n" using e(2) p Atoi_Itoa [OF ok, of n] by simp
    ultimately show "\<exists>p \<in> set (as_Ports msg). ContainerPort b = ContainerPort p \<and> Protocol b = protocol_of p \<and>
       0 < HostPort b \<and> HostPort b \<le> 65535 \<and> (HostPort p \<noteq> 0 \<longrightarrow> HostPort b = HostPort p) \<and>
       (\<exists>ip rest. (container_port p, (ip, Itoa (HostPort b)) # rest) \<in> set ns)"
      using e by (intro bexI [of _ p]) (auto simp: container_port_def)
  next
    fix p
    assume "p \<in> set (as_Ports msg)"
    with keys all obtain ip hp rest where e: "(container_port p, (ip, hp) # rest) \<in> set ns" by fastforce
    from bound [OF e] obtain n where n: "0 < n" "n \<le> 65535" "hp = Itoa n" by blast
    from hostPortBindings_complete [OF e [unfolded n(3)] ok [OF n(1,2)]] info(3) ns
    show "\<exists>b \<in> set (info_Ports info). ContainerPort b = ContainerPort p \<and> Protocol b = protocol_of p"
      by (intro bexI [of _ "\<lparr>ContainerPort = ContainerPort p, HostPort = n, Protocol = protocol_of p\<rparr>"]) (simp_all add: container_port_def)
  qed (use eng(3) info(1) cid ns in simp_all)
qed

text \<open>
  C17. The port a container is reached at. For an assignment that exposes ports, when the engine keeps its
  documented promises and the container runs after its start, the one report that the node agent publishes
  makes the service instance controller remember, for that assignment, a host port that the engine has bound
  to one of the requested container ports: the host port asked for, where one was asked for, and otherwise the one
  the engine chose. The other assignments' ports stay.
\<close>

theorem bound_port_reaches_discovery:
  assumes laws: "parses_ports cli" "publishes_ports cli"
    and msg: "dec_assign data = Some msg" "as_AssignmentID msg \<noteq> []" "as_Ports msg \<noteq> []" "list_all routable (as_Ports msg)"
    and start: "startAssignedContainer (DockerRuntime cli) msg e = (Inr info, e')" "info_Status info = StatusRunning"
    and w: "bus_up w" "handleAssignment cd cfg (DockerRuntime cli) data (trk, e) w = (r, w')"
  shows "\<exists>m h p ins ns ip rest. w_bus w' = w_bus w @ [m] \<and>
    instances_handleStatus (Some (snd m)) ports = ports(as_AssignmentID msg \<mapsto> h) \<and>
    p \<in> set (as_Ports msg) \<and> 0 < h \<and> h \<le> 65535 \<and> (HostPort p \<noteq> 0 \<longrightarrow> h = HostPort p) \<and>
    ContainerInspect cli (info_ID info) e' = Inr ins \<and> ins_Ports ins = Some ns \<and> (container_port p, (ip, Itoa h) # rest) \<in> set ns"
proof -
  let ?m = "status_report cd cfg (as_AssignmentID msg) (info_ID info) (containerStatus info) (info_ExitCode info) (info_Ports info) (w_now w)"
  from reported_ports [OF laws msg(4) start] obtain ins ns where
    ins: "ContainerInspect cli (info_ID info) e' = Inr ins" "ins_Ports ins = Some ns"
    and sound: "\<forall>b \<in> set (info_Ports info). \<exists>p \<in> set (as_Ports msg). ContainerPort b = ContainerPort p \<and> Protocol b = protocol_of p \<and>
       0 < HostPort b \<and> HostPort b \<le> 65535 \<and> (HostPort p \<noteq> 0 \<longrightarrow> HostPort b = HostPort p) \<and>
       (\<exists>ip rest. (container_port p, (ip, Itoa (HostPort b)) # rest) \<in> set ns)"
    and some: "\<forall>p \<in> set (as_Ports msg). \<exists>b \<in> set (info_Ports info). ContainerPort b = ContainerPort p \<and> Protocol b = protocol_of p"
    by (elim exE conjE)
  from msg(3) some have nonempty: "info_Ports info \<noteq> []" by (cases "as_Ports msg") auto
  have "port_ok b" if "b \<in> set (info_Ports info)" for b
    using bspec [OF sound that] msg(4) by (auto simp: port_ok_def int64_ok_def routable_def list_all_iff)
  then have ok: "list_all port_ok (info_Ports info)" by (simp add: list_all_iff)
  from publishStatus_run [OF w(1), of cd cfg "as_AssignmentID msg" "info_ID info" "containerStatus info" "info_ExitCode info" "info_Ports info"] w(2)
  have bus: "w_bus w' = w_bus w @ [?m]"
    by (auto simp: handleAssignment_def msg(1) start(1) bindE_def ret_def published_def)
  have run: "containerStatus info = ''running''" using start(2) by (simp add: containerStatus_def)
  have "instances_handleStatus (Some (snd ?m)) ports = ports(as_AssignmentID msg \<mapsto> HostPort (hd (info_Ports info)))"
    unfolding instances_handleStatus_def status_report_def snd_conv by (subst dec_controllerStatus_enc) (use ok run msg(2) nonempty in simp_all)
  with bus ins bspec [OF sound hd_in_set [OF nonempty]] show ?thesis by blast
qed

text \<open>
  C18. How long a container may take to stop. A stop request for \<open>n\<close> seconds, up to the largest that fits a duration, makes
  the engine wait exactly \<open>n\<close> seconds although the value passes through nanoseconds and a float, and ten seconds
  when no positive number is given; the answer is the container's status after the stop. A release from the
  scheduler or the API server waits ten seconds and then removes the container by force, also when stopping failed.
\<close>

theorem stop_grace_period:
  assumes "(if contentLength \<noteq> 0 then dec_stop body else Some 0) = Some n" "n \<le> 9223372036"
  shows "worker_handleStop (DockerRuntime cli) cid contentLength body e =
      (case ContainerStop cli cid (if 0 < n then n else 10) e of
         (Inl er, e1) \<Rightarrow> (writeRuntimeError ''stopping'' cid (wrapf (''stopping container '' @ cid) er), e1)
       | (Inr _, e1) \<Rightarrow> worker_handleStatus (DockerRuntime cli) cid e1) \<and>
    (dec_unassign data = Some u \<longrightarrow> bus_up w \<longrightarrow>
      fst (handleUnassign cd cfg (DockerRuntime cli) data (trk, e) w) = Inr (AList.delete (un_AssignmentID u) trk,
        snd (ContainerRemove cli (un_ContainerID u) True (snd (ContainerStop cli (un_ContainerID u) 10 e)))))"
proof
  have t: "Seconds (stop_timeout n) = (if 0 < n then n else 10)"
    using assms(2) Seconds_whole [of n] Seconds_whole [of 10]
    by (auto simp: stop_timeout_def wrap64_id int64_ok_def second_def)
  show "worker_handleStop (DockerRuntime cli) cid contentLength body e =
      (case ContainerStop cli cid (if 0 < n then n else 10) e of
         (Inl er, e1) \<Rightarrow> (writeRuntimeError ''stopping'' cid (wrapf (''stopping container '' @ cid) er), e1)
       | (Inr _, e1) \<Rightarrow> worker_handleStatus (DockerRuntime cli) cid e1)"
    unfolding worker_handleStop_def assms(1) by (simp add: docker_StopContainer_def t wrapping_def split: prod.splits sum.splits)
  have snd_wrap: "snd (wrapping what x) = snd x" for what and x :: "(rt_error + unit) \<times> 'a"
    by (simp add: wrapping_def split: prod.splits sum.splits)
  show "dec_unassign data = Some u \<longrightarrow> bus_up w \<longrightarrow>
      fst (handleUnassign cd cfg (DockerRuntime cli) data (trk, e) w) = Inr (AList.delete (un_AssignmentID u) trk,
        snd (ContainerRemove cli (un_ContainerID u) True (snd (ContainerStop cli (un_ContainerID u) 10 e))))"
    using publishStatus_run [of w cd cfg "un_AssignmentID u" "un_ContainerID u" "''stopped''" 0 "[]"]
    by (auto simp: handleUnassign_def Let_def docker_StopContainer_def docker_RemoveContainer_def snd_wrap bindE_def ret_def Seconds_whole)
qed

subsection \<open>A small Docker engine, for examples\<close>

text \<open>
  The engine's state is the containers it was asked to create; the first is ''c1''. It binds port 32768 where no port is
  asked for, and reads the digits before the slash of a port specification.
\<close>

definition demo_bind :: "string \<times> string \<Rightarrow> string \<times> string" where
  "demo_bind b = (fst b, if snd b = [] then Itoa 32768 else snd b)"

definition demo_bindable :: "docker_bindings \<Rightarrow> bool" where
  "demo_bindable bindings = list_all (\<lambda>(cp, bs). \<exists>b \<in> set bs. bs = [b] \<and> (snd b = [] \<or> (\<exists>n \<in> {1..65535}. snd b = Itoa n))) bindings"

definition demo_docker :: "create_options option docker_client" where
  "demo_docker = \<lparr>ImagePull = (\<lambda>i e. (Inr ([], None), e)), ContainerCreate = (\<lambda>opts e.
       if demo_bindable (opt_PortBindings opts) then (Inr ''c1'', Some opts) else (Inl (other_error ''bad binding''), e)),
     ContainerStart = (\<lambda>c e. (Inr (), e)), ContainerStop = (\<lambda>c t e. (Inr (), e)), ContainerRemove = (\<lambda>c force e. (Inr (), None)),
     ContainerInspect = (\<lambda>c e. case e of
         None \<Rightarrow> Inl \<lparr>IsNotFound = True, rt_text = ''No such container: '' @ c\<rparr>
       | Some opts \<Rightarrow> Inr \<lparr>ins_ID = c, ins_State = Some \<lparr>ds_Status = ''running'', ds_ExitCode = 0, ds_StartedAt = ''2026-08-16T09:00:00Z''\<rparr>,
           ins_Ports = Some (map (\<lambda>(cp, bs). (cp, map demo_bind bs)) (opt_PortBindings opts))\<rparr>),
     ContainerLogs = (\<lambda>c follow e. case e of
         None \<Rightarrow> Inl \<lparr>IsNotFound = True, rt_text = ''No such container: '' @ c\<rparr>
       | Some _ \<Rightarrow> Inr \<lparr>segments = [''he'', ''llo''], ended = if follow then StillOpen else EOF\<rparr>),
     ParsePort = (\<lambda>s. case Cut s CHR ''/'' of (n, proto, _) \<Rightarrow>
       (case Atoi n of Some k \<Rightarrow> Inr \<lparr>port_Num = k, port_Proto = proto\<rparr> | None \<Rightarrow> Inl ''invalid port'')), StdCopy = id\<rparr>"

lemma Cut_Itoa: "0 < n \<Longrightarrow> Cut (Itoa n @ CHR ''/'' # t) CHR ''/'' = (Itoa n, t, True)"
proof -
  assume "0 < n"
  have "Cut (s @ CHR ''/'' # t) CHR ''/'' = (s, t, True)" if "list_all is_digit s" for s
    using that by (induction s) (auto simp: is_digit_def byte_def)
  moreover have "list_all is_digit (Itoa n)" using \<open>0 < n\<close> nat_string_digits by (simp add: Itoa_def)
  ultimately show ?thesis by blast
qed

lemma demo_docker_simps:
  "ImagePull demo_docker i e = (Inr ([], None), e)"
  "ContainerCreate demo_docker opts e = (if demo_bindable (opt_PortBindings opts) then (Inr ''c1'', Some opts) else (Inl (other_error ''bad binding''), e))"
  "ContainerStart demo_docker c e = (Inr (), e)" "ContainerStop demo_docker c t e = (Inr (), e)"
  "ContainerInspect demo_docker c None = Inl \<lparr>IsNotFound = True, rt_text = ''No such container: '' @ c\<rparr>"
  "ContainerInspect demo_docker c (Some opts) = Inr \<lparr>ins_ID = c,
     ins_State = Some \<lparr>ds_Status = ''running'', ds_ExitCode = 0, ds_StartedAt = ''2026-08-16T09:00:00Z''\<rparr>,
     ins_Ports = Some (map (\<lambda>(cp, bs). (cp, map demo_bind bs)) (opt_PortBindings opts))\<rparr>"
  "ContainerLogs demo_docker c follow (Some opts) = Inr \<lparr>segments = [''he'', ''llo''], ended = if follow then StillOpen else EOF\<rparr>"
  "ContainerLogs demo_docker c follow None = Inl \<lparr>IsNotFound = True, rt_text = ''No such container: '' @ c\<rparr>"
  "StdCopy demo_docker st = st"
  by (simp_all add: demo_docker_def)

lemma demo_ParsePort: "0 < n \<Longrightarrow> n \<le> 65535 \<Longrightarrow> ParsePort demo_docker (Itoa n @ CHR ''/'' # proto) = Inr \<lparr>port_Num = n, port_Proto = proto\<rparr>"
  by (simp add: demo_docker_def Cut_Itoa Atoi_Itoa int64_ok_def)

lemma demo_bound:
  assumes "demo_bindable bindings" "(cp, b # bs) \<in> set (map (\<lambda>(cp, bs). (cp, map demo_bind bs)) bindings)"
  shows "bound_as bindings cp (snd b)"
proof -
  from assms(2) obtain bs0 where in_bs: "(cp, bs0) \<in> set bindings" "b # bs = map demo_bind bs0" by auto
  moreover from this assms(1) obtain b0 where b0: "bs0 = [b0]" "snd b0 = [] \<or> (\<exists>n \<in> {1..65535}. snd b0 = Itoa n)"
    by (fastforce simp: demo_bindable_def list_all_iff)
  ultimately have b: "b = demo_bind b0" by simp
  have "\<exists>n. 0 < n \<and> n \<le> 65535 \<and> snd b = Itoa n"
  proof (cases "snd b0 = []")
    case True
    then show ?thesis unfolding b by (intro exI [of _ 32768]) (simp add: demo_bind_def)
  next
    case False
    with b0(2) obtain n where "n \<in> {1..65535}" "snd b0 = Itoa n" by blast
    with False show ?thesis unfolding b by (intro exI [of _ n]) (simp add: demo_bind_def)
  qed
  moreover have "(cp, [b0]) \<in> set bindings \<and> (snd b0 \<noteq> [] \<longrightarrow> snd b = snd b0)" using in_bs(1) b0(1) by (simp add: b demo_bind_def)
  ultimately show ?thesis unfolding bound_as_def by blast
qed

lemma demo_publishes:
  assumes "demo_bindable bindings" "cp \<in> fst ` set bindings"
  shows "\<exists>b bs. (cp, b # bs) \<in> set (map (\<lambda>(cp, bs). (cp, map demo_bind bs)) bindings)"
proof -
  from assms obtain b where "(cp, [b]) \<in> set bindings" by (fastforce simp: demo_bindable_def list_all_iff)
  then show ?thesis by (force simp: image_iff intro!: exI [of _ "demo_bind b"] exI [of _ "[]"])
qed

lemma demo_docker_laws: "parses_ports demo_docker" "publishes_ports demo_docker"
proof -
  show "parses_ports demo_docker" by (simp add: parses_ports_def demo_ParsePort)
  show "publishes_ports demo_docker"
    unfolding publishes_ports_def
  proof (intro allI impI)
    fix opts e cid e1 e2 ins
    assume "ContainerCreate demo_docker opts e = (Inr cid, e1) \<and> ContainerStart demo_docker cid e1 = (Inr (), e2) \<and>
      ContainerInspect demo_docker cid e2 = Inr ins \<and> docker_status (ins_State ins) = StatusRunning"
    then have ok: "demo_bindable (opt_PortBindings opts)"
      and ins: "ins_ID ins = cid" "ins_Ports ins = Some (map (\<lambda>(cp, bs). (cp, map demo_bind bs)) (opt_PortBindings opts))"
      by (auto simp: demo_docker_simps split: if_splits)
    show "ins_ID ins = cid \<and> (\<exists>ns. ins_Ports ins = Some ns \<and>
       (\<forall>cp b bs. (cp, b # bs) \<in> set ns \<longrightarrow> bound_as (opt_PortBindings opts) cp (snd b)) \<and>
       (\<forall>cp \<in> fst ` set (opt_PortBindings opts). \<exists>b bs. (cp, b # bs) \<in> set ns))"
      using ins demo_bound [OF ok] demo_publishes [OF ok] by blast
  qed
qed

definition demo_assign :: assignMessage where
  "demo_assign = \<lparr>as_AssignmentID = ''a1'', as_DeploymentID = ''d'', as_Image = ''nginx'', as_Env = [],
     as_Ports = [\<lparr>ContainerPort = 80, HostPort = 0, Protocol = []\<rparr>], as_Command = []\<rparr>"

theorem bound_port_reaches_discovery_witness:
  "\<exists>m h. w_bus (snd (handleAssignment unary demo_config (DockerRuntime demo_docker) (Some (enc_assign demo_assign)) ([], None) (calm 7 empty_db))) = [m] \<and>
     instances_handleStatus (Some (snd m)) Map.empty = [''a1'' \<mapsto> h] \<and> 0 < h \<and> h \<le> 65535"
proof -
  let ?h = "handleAssignment unary demo_config (DockerRuntime demo_docker) (Some (enc_assign demo_assign)) ([], None) (calm 7 empty_db)"
  have dec: "dec_assign (Some (enc_assign demo_assign)) = Some demo_assign"
    by (rule dec_assign_enc) (simp_all add: demo_assign_def port_ok_def int64_ok_def)
  have spec: "port_maps (ParsePort demo_docker) (as_Ports demo_assign) ([], []) =
      Inr ([\<lparr>port_Num = 80, port_Proto = ''tcp''\<rparr>], [(\<lparr>port_Num = 80, port_Proto = ''tcp''\<rparr>, [(''0.0.0.0'', [])])])"
    by (simp add: demo_assign_def port_spec_def protocol_of_def host_binding_def demo_ParsePort)
  obtain info e' where start: "startAssignedContainer (DockerRuntime demo_docker) demo_assign None = (Inr info, e')" "info_Status info = StatusRunning"
    using spec by (simp add: startAssignedContainer_def docker_PullImage_def docker_CreateContainer_def docker_StartContainer_def
        docker_ContainerStatus_def wrapping_def demo_docker_simps docker_status_def demo_bindable_def)
  obtain r w' where run: "?h = (r, w')" by force
  from bound_port_reaches_discovery [OF demo_docker_laws dec _ _ _ start _ run, of Map.empty] run
  show ?thesis by (auto simp: demo_assign_def routable_def protocol_of_def)
qed

theorem stop_grace_period_witness:
  "rsp_Status (fst (worker_handleStop (DockerRuntime demo_docker) ''c1'' 22 (Some (JObj [(''timeout_seconds'', JNum 30)])) None)) = 404"
  using stop_grace_period [of 22 "Some (JObj [(''timeout_seconds'', JNum 30)])" 30 demo_docker "''c1''" None None "\<lparr>un_AssignmentID = [], un_ContainerID = []\<rparr>" "calm 7 empty_db" unary demo_config "[]"]
  by (simp add: dec_stop_def dec_struct_def field_simps int64_ok_def worker_handleStatus_def docker_ContainerStatus_def demo_docker_simps
      writeRuntimeError_def worker_writeError_def writeJSON_def)

end
