(* ===== verification/HttpMux.thy ===== *)
theory HttpMux
  imports GoText
begin

section \<open>Route tables\<close>

text \<open>
  The patterns of \<open>http.ServeMux\<close> that the services register, a method and a path with wildcards for whole
  segments, and what \<^verbatim>\<open>net/http\<close> documents of matching them: a wildcard takes one segment that is not empty. Path values are
  the segments as they stand, for paths without percent escapes. The query string is read as
  \<open>url.Values.Get\<close> reads it.
\<close>

subsection \<open>Paths\<close>

fun split_on :: "char \<Rightarrow> string \<Rightarrow> string list" where
  "split_on sep [] = [[]]"
| "split_on sep (c # s) =
     (if c = sep then [] # split_on sep s
      else case split_on sep s of [] \<Rightarrow> [[c]] | seg # segs \<Rightarrow> (c # seg) # segs)"

datatype segment = Lit string | Wild string

definition parse_segment :: "string \<Rightarrow> segment" where
  "parse_segment s = (case s of [] \<Rightarrow> Lit [] | c # rest \<Rightarrow> if c = CHR ''{'' then Wild (butlast rest) else Lit s)"

definition parse_pattern :: "string \<Rightarrow> string \<times> segment list" where
  "parse_pattern p = (case Cut p CHR '' '' of (meth, path, _) \<Rightarrow> (meth, map parse_segment (split_on CHR ''/'' path)))"

fun match_segments :: "segment list \<Rightarrow> string list \<Rightarrow> (string \<times> string) list option" where
  "match_segments [] [] = Some []"
| "match_segments (Lit l # ps) (s # ss) = (if l = s then match_segments ps ss else None)"
| "match_segments (Wild n # ps) (s # ss) = (if s = [] then None else map_option (Cons (n, s)) (match_segments ps ss))"
| "match_segments _ _ = None"

definition parse_table :: "(string \<times> 'a) list \<Rightarrow> ((string \<times> segment list) \<times> 'a) list" where
  "parse_table table = map (\<lambda>(p, e). (parse_pattern p, e)) table"

definition table_matches :: "(string \<times> 'a) list \<Rightarrow> string \<Rightarrow> string \<Rightarrow> ('a \<times> (string \<times> string) list) list" where
  "table_matches table meth url = (let segs = split_on CHR ''/'' (fst (Cut url CHR ''?'')) in
     List.map_filter (\<lambda>((m, ps), e). if m = meth then map_option (Pair e) (match_segments ps segs) else None) (parse_table table))"

lemma split_on_last: "sep \<notin> set s \<Longrightarrow> split_on sep s = [s]"
  by (induction s) auto

lemma split_on_sep: "sep \<notin> set s \<Longrightarrow> split_on sep (s @ sep # t) = s # split_on sep t"
  by (induction s) auto

lemma Cut_before: "sep \<notin> set s \<Longrightarrow> fst (Cut s sep) = s" "sep \<notin> set s \<Longrightarrow> fst (Cut (s @ sep # t) sep) = s"
  by (induction s) (auto split: prod.splits)

text \<open>Identifiers as they stand in a path: not empty, no slash and no question mark. A path made of such segments splits into them.\<close>

definition plain :: "string \<Rightarrow> bool" where
  "plain s \<longleftrightarrow> s \<noteq> [] \<and> CHR ''/'' \<notin> set s \<and> CHR ''?'' \<notin> set s"

definition path_of :: "string list \<Rightarrow> string" where
  "path_of segs = concat (map (Cons CHR ''/'') segs)"

lemma split_path: "list_all plain segs \<Longrightarrow> segs \<noteq> [] \<Longrightarrow> split_on CHR ''/'' (path_of segs) = [] # segs"
proof (induction segs)
  case (Cons s segs)
  then show ?case
  proof (cases segs)
    case (Cons t ts)
    then have "path_of segs = CHR ''/'' # tl (path_of segs)" by (simp add: path_of_def)
    moreover have "split_on CHR ''/'' (path_of segs) = [] # segs" using Cons Cons.IH \<open>list_all plain (s # segs)\<close> by simp
    moreover have "CHR ''/'' \<notin> set s" using \<open>list_all plain (s # segs)\<close> by (simp add: plain_def)
    ultimately show ?thesis using split_on_sep [of "CHR ''/''" s "tl (path_of segs)"] by (simp add: path_of_def) (metis list.inject split_on.simps(2))
  qed (simp add: path_of_def plain_def split_on_last)
qed simp

lemma path_no_query: "list_all plain segs \<Longrightarrow> CHR ''?'' \<notin> set (path_of segs)"
  by (auto simp: path_of_def plain_def list_all_iff)

lemma path_of_simps: "path_of [] = []" "path_of (s # segs) = CHR ''/'' # s @ path_of segs"
  by (simp_all add: path_of_def)

lemma table_matches_path:
  assumes "list_all plain segs" "segs \<noteq> []" "url = path_of segs \<or> url = path_of segs @ CHR ''?'' # q"
  shows "table_matches table meth url =
    List.map_filter (\<lambda>((m, ps), e). if m = meth then map_option (Pair e) (match_segments ps ([] # segs)) else None) (parse_table table)"
proof -
  have "fst (Cut url CHR ''?'') = path_of segs" using assms(3) Cut_before path_no_query [OF assms(1)] by blast
  then show ?thesis unfolding table_matches_def Let_def by (simp only: split_path [OF assms(1,2)])
qed

subsection \<open>Queries\<close>

definition is_hex :: "char \<Rightarrow> bool" where
  "is_hex c \<longleftrightarrow> is_digit c \<or> 65 \<le> byte c \<and> byte c \<le> 70 \<or> 97 \<le> byte c \<and> byte c \<le> 102"

definition hex_val :: "char \<Rightarrow> nat" where
  "hex_val c = (if is_digit c then byte c - 48 else if byte c \<le> 70 then byte c - 55 else byte c - 87)"

fun QueryUnescape :: "string \<Rightarrow> string option" where
  "QueryUnescape [] = Some []"
| "QueryUnescape (c # s) =
     (if c = CHR ''%'' then
        (case s of
           h # l # rest \<Rightarrow> if is_hex h \<and> is_hex l then map_option (Cons (char_of (16 * hex_val h + hex_val l))) (QueryUnescape rest) else None
         | _ \<Rightarrow> None)
      else map_option (Cons (if c = CHR ''+'' then CHR '' '' else c)) (QueryUnescape s))"

text \<open>Pairs that are empty, contain a semicolon or a bad escape are dropped.\<close>

definition query_pair :: "string \<Rightarrow> (string \<times> string) option" where
  "query_pair s =
     (if s = [] \<or> CHR '';'' \<in> set s then None
      else case Cut s CHR ''='' of (k, v, _) \<Rightarrow>
        Option.bind (QueryUnescape k) (\<lambda>k. map_option (Pair k) (QueryUnescape v)))"

definition Query_Get :: "string \<Rightarrow> string \<Rightarrow> string" where
  "Query_Get url key =
     (case map_of (List.map_filter query_pair (split_on CHR ''&'' (fst (snd (Cut url CHR ''?''))))) key of
        Some v \<Rightarrow> v | None \<Rightarrow> [])"

lemma Cut_query: "sep \<notin> set s \<Longrightarrow> Cut (s @ sep # t) sep = (s, t, True)" "sep \<notin> set s \<Longrightarrow> Cut s sep = (s, [], False)"
  by (induction s) auto

end
