(* ===== verification/Keyset.thy ===== *)
theory Keyset
  imports Effects "HOL-Library.Product_Lexorder" "HOL-Library.Countable"
begin

section \<open>Keyset pagination\<close>

text \<open>
  The listings of audit logs and of builds page through rows newest first, by the pair of creation
  time and identifier, with an opaque cursor: the base64 text of a small JSON object. The
  \<open>ORDER BY ... LIMIT limit + 1\<close> query is \<open>keyset_rows\<close>, the cut into a page and a
  cursor is \<open>cut_page\<close>; a client that follows the cursors is \<open>read_pages\<close>. The locale
  \<open>paged\<close> is the contract of such a listing, with the result every client gets from it.

  The text of JSON documents is a record of two functions, with the round trip of
  \<open>encoding/json\<close> as a hypothesis.
\<close>

record json_text =
  Marshal :: "json \<Rightarrow> string"
  Unmarshal :: "string \<Rightarrow> json option"

definition json_text_ok :: "json_text \<Rightarrow> bool" where
  "json_text_ok jt \<longleftrightarrow> (\<forall>v. Unmarshal jt (Marshal jt v) = Some v \<and> Marshal jt v \<noteq> [])"

instance json :: countable
  by countable_datatype

type_synonym row_key = "time \<times> uuid"

subsection \<open>Cursors\<close>

definition cursor_json :: "codec \<Rightarrow> row_key \<Rightarrow> json" where
  "cursor_json cd k = JObj [(''created_at'', JTime (fst k)), (''id'', JStr (UUID_String cd (snd k)))]"

definition encode_cursor :: "codec \<Rightarrow> json_text \<Rightarrow> row_key \<Rightarrow> string" where
  "encode_cursor cd jt k = EncodeToString (Marshal jt (cursor_json cd k))"

fun dec_uuid :: "codec \<Rightarrow> uuid \<Rightarrow> json list \<Rightarrow> uuid option" where
  "dec_uuid cd acc [] = Some acc"
| "dec_uuid cd acc (JNull # vs) = dec_uuid cd acc vs"
| "dec_uuid cd acc (JStr s # vs) = Option.bind (UUID_Parse cd s) (\<lambda>u. dec_uuid cd u vs)"
| "dec_uuid cd acc (_ # vs) = None"

definition decode_cursor :: "codec \<Rightarrow> json_text \<Rightarrow> string \<Rightarrow> row_key option" where
  "decode_cursor cd jt cursor = Option.bind (DecodeString cursor) (\<lambda>data.
     dec_struct (\<lambda>kvs. Option.bind (dec_time 0 (field ''created_at'' kvs)) (\<lambda>t.
       Option.bind (dec_uuid cd uuid_Nil (field ''id'' kvs)) (\<lambda>u. Some (t, u)))) (Unmarshal jt data))"

lemma decode_encode_cursor:
  "codec_ok cd \<Longrightarrow> json_text_ok jt \<Longrightarrow> decode_cursor cd jt (encode_cursor cd jt k) = Some k"
  by (simp add: decode_cursor_def encode_cursor_def Decode_Encode json_text_ok_def cursor_json_def dec_struct_def
      codec_ok_def ToLower_def lower_char_def is_upper_def byte_def)

lemma encode_cursor_nonempty: "json_text_ok jt \<Longrightarrow> encode_cursor cd jt k \<noteq> []"
proof -
  have "sextets bs \<noteq> []" if "bs \<noteq> []" for bs using that by (cases bs rule: sextets.cases) auto
  then show "json_text_ok jt \<Longrightarrow> ?thesis" by (simp add: encode_cursor_def EncodeToString_def json_text_ok_def)
qed

subsection \<open>Pages\<close>

definition newest_order :: "('a \<Rightarrow> row_key) \<Rightarrow> 'a list \<Rightarrow> 'a list" where
  "newest_order key rows = rev (sort_key key rows)"

definition keyset_rows :: "('a \<Rightarrow> row_key) \<Rightarrow> row_key option \<Rightarrow> nat \<Rightarrow> 'a list \<Rightarrow> 'a list" where
  "keyset_rows key after n rows =
     take n (newest_order key (filter (\<lambda>x. case after of None \<Rightarrow> True | Some k \<Rightarrow> key x < k) rows))"

definition cut_page :: "('a \<Rightarrow> row_key) \<Rightarrow> nat \<Rightarrow> 'a list \<Rightarrow> 'a list \<times> row_key option" where
  "cut_page key limit rows =
     (if length rows > limit then (take limit rows, Some (key (last (take limit rows)))) else (rows, None))"

definition after_of :: "codec \<Rightarrow> json_text \<Rightarrow> string \<Rightarrow> row_key option option" where
  "after_of cd jt cursor = (if cursor \<noteq> [] then map_option Some (decode_cursor cd jt cursor) else Some None)"

definition next_cursor :: "codec \<Rightarrow> json_text \<Rightarrow> row_key option \<Rightarrow> string" where
  "next_cursor cd jt k = (case k of None \<Rightarrow> [] | Some k \<Rightarrow> encode_cursor cd jt k)"

fun read_pages :: "(string \<Rightarrow> ('a list \<times> string) op) \<Rightarrow> nat \<Rightarrow> string \<Rightarrow> 'a list op" where
  "read_pages fetch 0 cursor = throw (Plain ''more pages'')"
| "read_pages fetch (Suc n) cursor = bindE (fetch cursor) (\<lambda>(xs, nxt).
     if nxt = [] then ret xs else bindE (read_pages fetch n nxt) (\<lambda>ys. ret (xs @ ys)))"

subsection \<open>Positions in the listing\<close>

lemma newest_order_filter: "newest_order key (filter P rows) = filter P (newest_order key rows)"
  by (simp add: newest_order_def rev_filter [symmetric] filter_sort [symmetric])

lemma newest_order_decreasing:
  assumes "distinct (map key rows)"
  shows "sorted_wrt (\<lambda>x y. key y < key x) (newest_order key rows)"
proof -
  have "distinct (map key (sort_key key rows))" using assms by (metis distinct_map distinct_sort set_sort)
  then have "sorted_wrt (<) (map key (sort_key key rows))" by (simp add: strict_sorted_iff)
  then show ?thesis by (simp add: newest_order_def sorted_wrt_rev sorted_wrt_map)
qed

lemma filter_below:
  fixes key :: "'a \<Rightarrow> row_key"
  assumes "sorted_wrt (\<lambda>x y. key y < key x) xs" "i < length xs"
  shows "filter (\<lambda>x. key x < key (xs ! i)) xs = drop (Suc i) xs"
  using assms
proof (induction xs arbitrary: i)
  case (Cons x xs)
  show ?case
  proof (cases i)
    case 0
    have "filter (\<lambda>y. key y < key x) xs = xs" using Cons.prems(1) by (auto intro: filter_True)
    moreover have "\<not> key x < key x" by (rule less_irrefl)
    ultimately show ?thesis using 0 by (simp del: less_prod_simp)
  next
    case (Suc j)
    have "key (xs ! j) < key x" using Cons.prems Suc by (metis length_Cons nth_mem Suc_less_eq sorted_wrt.simps(2))
    then have "\<not> key x < key (xs ! j)" by (rule less_not_sym)
    with Cons Suc show ?thesis by simp
  qed
qed simp

text \<open>The cursor that stands for the first \<open>i\<close> rows having been read.\<close>

definition at_position :: "('a \<Rightarrow> row_key) \<Rightarrow> 'a list \<Rightarrow> nat \<Rightarrow> row_key option \<Rightarrow> bool" where
  "at_position key rows i after \<longleftrightarrow>
     (case after of None \<Rightarrow> i = 0
      | Some k \<Rightarrow> 0 < i \<and> i \<le> length rows \<and> k = key (newest_order key rows ! (i - 1)))"

lemma length_newest_order [simp]: "length (newest_order key rows) = length rows"
  by (simp add: newest_order_def)

lemma keyset_rows_at:
  assumes "distinct (map key rows)" "at_position key rows i after"
  shows "keyset_rows key after n rows = take n (drop i (newest_order key rows))"
proof (cases after)
  case None
  with assms(2) show ?thesis by (simp add: keyset_rows_def at_position_def)
next
  case (Some k)
  with assms(2) have i: "0 < i" "i \<le> length rows" "k = key (newest_order key rows ! (i - 1))"
    by (simp_all add: at_position_def)
  then have "filter (\<lambda>x. key x < k) (newest_order key rows) = drop i (newest_order key rows)"
    using filter_below [OF newest_order_decreasing [OF assms(1)], of "i - 1"] by simp
  with Some show ?thesis by (simp add: keyset_rows_def newest_order_filter)
qed

lemma cut_page_at:
  assumes "0 < limit" "i \<le> length rows" "got = take (limit + 1) (drop i (newest_order key rows))"
  shows "fst (cut_page key limit got) = take limit (drop i (newest_order key rows))"
    and "snd (cut_page key limit got) = None \<longleftrightarrow> length rows \<le> i + limit"
    and "i + limit < length rows \<Longrightarrow> at_position key rows (i + limit) (snd (cut_page key limit got))"
proof -
  have len: "length got = min (limit + 1) (length rows - i)" using assms(3) by simp
  have tk: "take limit got = take limit (drop i (newest_order key rows))" using assms(3) by (simp add: min_def)
  show "fst (cut_page key limit got) = take limit (drop i (newest_order key rows))"
    using tk len assms(3) by (auto simp: cut_page_def)
  show "snd (cut_page key limit got) = None \<longleftrightarrow> length rows \<le> i + limit"
    using len by (auto simp: cut_page_def)
  assume more: "i + limit < length rows"
  then have "last (take limit (drop i (newest_order key rows))) = newest_order key rows ! (i + limit - 1)"
    using assms(1) by (subst last_conv_nth) (auto simp: nth_append)
  with more len tk assms(1) show "at_position key rows (i + limit) (snd (cut_page key limit got))"
    by (simp add: cut_page_def at_position_def)
qed

subsection \<open>The contract of a paged listing\<close>

locale paged =
  fixes fetch :: "codec \<Rightarrow> json_text \<Rightarrow> string \<Rightarrow> int \<Rightarrow> ('a list \<times> string) op"
    and table :: "session \<Rightarrow> db \<Rightarrow> 'a list"
    and key :: "'a \<Rightarrow> row_key"
  assumes fetch_page: "no_faults w \<Longrightarrow> after_of cd jt cursor = Some after \<Longrightarrow> 0 < limit \<Longrightarrow> int64_ok (limit + 1) \<Longrightarrow>
    fetch cd jt cursor limit w =
      (let (page, nxt) = cut_page key (nat limit) (keyset_rows key after (nat limit + 1) (table (w_sess w) (w_db w)))
       in (Inr (page, next_cursor cd jt nxt), ticks 1 w))"
begin

lemma read_from:
  assumes "codec_ok cd" "json_text_ok jt" "0 < limit" "int64_ok (limit + 1)" "no_faults w"
    and "rows = table (w_sess w) (w_db w)" "distinct (map key rows)"
    and "after_of cd jt cursor = Some after" "at_position key rows i after" "i \<le> length rows"
    and "length rows < i + n * nat limit"
  shows "\<exists>k. read_pages (\<lambda>c. fetch cd jt c limit) n cursor w = (Inr (drop i (newest_order key rows)), ticks k w)"
  using assms(5-)
proof (induction n arbitrary: i cursor after w)
  case 0
  from 0(6,7) have False by linarith
  then show ?case ..
next
  case (Suc n)
  let ?got = "take (nat limit + 1) (drop i (newest_order key rows))"
  let ?page = "take (nat limit) (drop i (newest_order key rows))"
  have lim: "0 < nat limit" using assms(3) by simp
  note cut = cut_page_at [OF lim Suc.prems(6) refl, of key]
  have fetch: "fetch cd jt cursor limit w = (Inr (?page, next_cursor cd jt (snd (cut_page key (nat limit) ?got))), ticks 1 w)"
    using fetch_page [OF Suc.prems(1,4) assms(3,4)] keyset_rows_at [OF Suc.prems(3,5)] Suc.prems(2) cut(1)
    by (simp add: split_def Let_def)
  show ?case
  proof (cases "length rows \<le> i + nat limit")
    case True
    then have "snd (cut_page key (nat limit) ?got) = None" using cut(2) by simp
    moreover have "?page = drop i (newest_order key rows)" using True by simp
    ultimately show ?thesis using fetch by (auto simp: bindE_def next_cursor_def ret_def)
  next
    case False
    then obtain k where k: "snd (cut_page key (nat limit) ?got) = Some k" using cut(2) by auto
    have pos: "at_position key rows (i + nat limit) (Some k)" using cut(3) False k by simp
    have aft: "after_of cd jt (encode_cursor cd jt k) = Some (Some k)"
      by (simp add: after_of_def encode_cursor_nonempty [OF assms(2)] decode_encode_cursor [OF assms(1,2)])
    have "length rows < i + nat limit + n * nat limit" using Suc.prems(7) False by auto
    then obtain j where "read_pages (\<lambda>c. fetch cd jt c limit) n (encode_cursor cd jt k) (ticks 1 w) =
        (Inr (drop (i + nat limit) (newest_order key rows)), ticks j (ticks 1 w))"
      using Suc.IH [of "ticks 1 w" "encode_cursor cd jt k" "Some k" "i + nat limit"] Suc.prems aft pos False by auto
    moreover have "?page @ drop (i + nat limit) (newest_order key rows) = drop i (newest_order key rows)"
      by (metis add.commute append_take_drop_id drop_drop)
    ultimately show ?thesis
      using fetch k encode_cursor_nonempty [OF assms(2)] by (auto simp: bindE_def next_cursor_def ret_def)
  qed
qed

lemma read_all:
  assumes "codec_ok cd" "json_text_ok jt" "0 < limit" "int64_ok (limit + 1)" "no_faults w"
    and "rows = table (w_sess w) (w_db w)" "distinct (map key rows)" "length rows div nat limit < n"
  shows "fst (read_pages (\<lambda>c. fetch cd jt c limit) n [] w) = Inr (newest_order key rows)"
proof -
  have "length rows < n * nat limit"
    using assms(3,8) by (metis div_less_iff_less_mult zero_less_nat_eq)
  then show ?thesis
    using read_from [OF assms(1-7), of "[]" None 0 n] by (auto simp: after_of_def at_position_def)
qed

end

end
