(* ===== verification/TenantRepos.thy ===== *)
theory TenantRepos
  imports Repos Keyset
begin

section \<open>Repositories of tenant data\<close>

text \<open>
  The repositories of \<^verbatim>\<open>internal/db\<close> that the API server uses for organizations,
  users, memberships, API keys, projects, applications, refresh tokens, domains, audit logs and
  builds. A statement on a table with row-level security sees the rows its policy admits, and an
  inserted row must satisfy the policy. The listings of audit logs and of builds are paged; they
  interpret the contract of the theory on keyset pagination.
\<close>

text \<open>\<open>UPDATE ... RETURNING\<close>: no row is \<open>ErrNotFound\<close>.\<close>

definition updateRow :: "string \<Rightarrow> 'a option stmt \<Rightarrow> 'a op" where
  "updateRow msg f = bindE (wrapE msg (exec f)) (lift ErrNotFound)"

lemma updateRow_Inr [op_simps]:
  "updateRow msg f w = (Inr x, w') \<longleftrightarrow> \<not> w_fault w (w_stmts w) \<and>
   (\<exists>d. f (w_sess w) (w_now w) (w_fresh w (w_stmts w)) (w_db w) = Inr (Some x, d) \<and> w' = (tick w)\<lparr>w_db := d\<rparr>)"
  by (auto simp: updateRow_def op_simps)

subsection \<open>Organizations and users\<close>

definition Organizations_Create :: "string \<Rightarrow> string \<Rightarrow> Organization op" where
  "Organizations_Create name slug = orConflict ''creating organization'' (exec (\<lambda>s now u d.
     let x = \<lparr>org_ID = u, org_Name = name, org_Slug = slug, org_CreatedAt = now\<rparr> in
     check (list_all (\<lambda>y. org_ID y \<noteq> u \<and> org_Slug y \<noteq> slug) (organizations d)) UniqueViolation
       (Inr (x, d\<lparr>organizations := organizations d @ [x]\<rparr>))))"

definition Organizations_Get :: "uuid \<Rightarrow> Organization op" where
  "Organizations_Get rid = queryRow ''fetching organization'' (\<lambda>s now d. find (\<lambda>x. org_ID x = rid) (organizations d))"

definition Organizations_Update :: "uuid \<Rightarrow> string \<Rightarrow> Organization op" where
  "Organizations_Update rid name = updateRow ''updating organization'' (\<lambda>s now u d.
     Inr (map_option (\<lambda>x. x\<lparr>org_Name := name\<rparr>) (find (\<lambda>x. org_ID x = rid) (organizations d)),
          d\<lparr>organizations := map (\<lambda>x. if org_ID x = rid then x\<lparr>org_Name := name\<rparr> else x) (organizations d)\<rparr>))"

definition Organizations_Delete :: "uuid \<Rightarrow> unit op" where
  "Organizations_Delete rid = execRows ''deleting organization'' (\<lambda>s now u d.
     Inr (length (filter (\<lambda>x. org_ID x = rid) (organizations d)), delete_organization rid d))"

definition Users_Create :: "string \<Rightarrow> string \<Rightarrow> User op" where
  "Users_Create email passwordHash = orConflict ''creating user'' (exec (\<lambda>s now u d.
     let x = \<lparr>user_ID = u, user_Email = email, user_PasswordHash = passwordHash, user_CreatedAt = now\<rparr> in
     check (list_all (\<lambda>y. user_ID y \<noteq> u \<and> user_Email y \<noteq> email) (users d)) UniqueViolation
       (Inr (x, d\<lparr>users := users d @ [x]\<rparr>))))"

definition Users_GetByEmail :: "string \<Rightarrow> User op" where
  "Users_GetByEmail email = queryRow ''fetching user by email'' (\<lambda>s now d. find (\<lambda>x. user_Email x = email) (users d))"

definition Users_GetByID :: "uuid \<Rightarrow> User op" where
  "Users_GetByID rid = queryRow ''fetching user by id'' (\<lambda>s now d. find (\<lambda>x. user_ID x = rid) (users d))"

subsection \<open>Memberships\<close>

definition valid_role :: "Role \<Rightarrow> bool" where
  "valid_role r \<longleftrightarrow> r = RoleOwner \<or> r = RoleAdmin \<or> r = RoleDeveloper \<or> r = RoleViewer"

definition Memberships_Create :: "uuid \<Rightarrow> uuid \<Rightarrow> Role \<Rightarrow> Membership op" where
  "Memberships_Create orgID userID role = orConflict ''creating membership'' (exec (\<lambda>s now u d.
     let x = \<lparr>mem_ID = u, mem_OrgID = orgID, mem_UserID = userID, mem_Role = role, mem_CreatedAt = now\<rparr> in
     check (valid_role role) InvalidValue
     (check (membership_visible s d x) RowSecurityViolation
     (check (list_all (\<lambda>y. mem_ID y \<noteq> u \<and> (mem_OrgID y, mem_UserID y) \<noteq> (orgID, userID)) (memberships d)) UniqueViolation
     (check (org_exists d orgID \<and> user_exists d userID) ForeignKeyViolation
       (Inr (x, d\<lparr>memberships := memberships d @ [x]\<rparr>)))))))"

definition Memberships_RoleForUser :: "uuid \<Rightarrow> uuid \<Rightarrow> Role op" where
  "Memberships_RoleForUser userID orgID = queryRow ''fetching membership role'' (\<lambda>s now d.
     map_option mem_Role (find (\<lambda>m. mem_UserID m = userID \<and> mem_OrgID m = orgID \<and> membership_visible s d m) (memberships d)))"

definition Memberships_ListForUser :: "uuid \<Rightarrow> Membership list op" where
  "Memberships_ListForUser userID = wrapE ''listing memberships'' (query (\<lambda>s now d.
     filter (\<lambda>m. mem_UserID m = userID \<and> membership_visible s d m) (memberships d)))"

record MembershipWithUser =
  mu_Membership :: Membership
  mu_Email :: string

definition Memberships_ListByOrg :: "uuid \<Rightarrow> MembershipWithUser list op" where
  "Memberships_ListByOrg orgID = wrapE ''listing org members'' (query (\<lambda>s now d.
     List.map_filter (\<lambda>m. map_option (\<lambda>u. \<lparr>mu_Membership = m, mu_Email = user_Email u\<rparr>)
         (find (\<lambda>u. user_ID u = mem_UserID m) (users d)))
       (sort_key mem_CreatedAt (filter (\<lambda>m. mem_OrgID m = orgID \<and> membership_visible s d m) (memberships d)))))"

definition targeted :: "session \<Rightarrow> db \<Rightarrow> uuid \<Rightarrow> uuid \<Rightarrow> Membership \<Rightarrow> bool" where
  "targeted s d orgID userID m \<longleftrightarrow> mem_OrgID m = orgID \<and> mem_UserID m = userID \<and> membership_visible s d m"

definition Memberships_UpdateRole :: "uuid \<Rightarrow> uuid \<Rightarrow> Role \<Rightarrow> Membership op" where
  "Memberships_UpdateRole orgID userID role = updateRow ''updating membership role'' (\<lambda>s now u d.
     check (valid_role role) InvalidValue
      (Inr (map_option (\<lambda>m. m\<lparr>mem_Role := role\<rparr>) (find (targeted s d orgID userID) (memberships d)),
            d\<lparr>memberships := map (\<lambda>m. if targeted s d orgID userID m then m\<lparr>mem_Role := role\<rparr> else m) (memberships d)\<rparr>)))"

definition Memberships_Delete :: "uuid \<Rightarrow> uuid \<Rightarrow> unit op" where
  "Memberships_Delete orgID userID = execRows ''deleting membership'' (\<lambda>s now u d.
     Inr (length (filter (targeted s d orgID userID) (memberships d)),
          d\<lparr>memberships := filter (\<lambda>m. \<not> targeted s d orgID userID m) (memberships d)\<rparr>))"

definition Memberships_CountOwners :: "uuid \<Rightarrow> int op" where
  "Memberships_CountOwners orgID = wrapE ''counting org owners'' (query (\<lambda>s now d.
     int (length (filter (\<lambda>m. mem_OrgID m = orgID \<and> mem_Role m = RoleOwner \<and> membership_visible s d m) (memberships d)))))"

subsection \<open>API keys\<close>

definition APIKeys_Create :: "uuid \<Rightarrow> string \<Rightarrow> string list \<Rightarrow> uuid \<Rightarrow> string \<Rightarrow> APIKey op" where
  "APIKeys_Create orgID name scopes createdBy keyHash = wrapE ''creating api key'' (exec (\<lambda>s now u d.
     let x = \<lparr>key_ID = u, key_OrgID = orgID, key_Name = name, key_Scopes = scopes, key_CreatedBy = createdBy,
              key_CreatedAt = now, key_RevokedAt = None, key_Hash = keyHash\<rparr> in
     check (org_visible s d orgID) RowSecurityViolation
     (check (list_all (\<lambda>y. key_ID y \<noteq> u) (api_keys d)) UniqueViolation
     (check (org_exists d orgID \<and> user_exists d createdBy) ForeignKeyViolation
       (Inr (x, d\<lparr>api_keys := api_keys d @ [x]\<rparr>))))))"

definition APIKeys_ListByOrg :: "uuid \<Rightarrow> APIKey list op" where
  "APIKeys_ListByOrg orgID = wrapE ''listing api keys'' (query (\<lambda>s now d.
     sort_key key_CreatedAt (filter (\<lambda>k. key_OrgID k = orgID \<and> org_visible s d (key_OrgID k)) (api_keys d))))"

definition APIKeys_OrgID :: "uuid \<Rightarrow> uuid op" where
  "APIKeys_OrgID rid = queryRow ''resolving api key org'' (\<lambda>s now d.
     map_option key_OrgID (find (\<lambda>k. key_ID k = rid \<and> org_visible s d (key_OrgID k)) (api_keys d)))"

definition revocable :: "session \<Rightarrow> db \<Rightarrow> uuid \<Rightarrow> APIKey \<Rightarrow> bool" where
  "revocable s d rid k \<longleftrightarrow> key_ID k = rid \<and> key_RevokedAt k = None \<and> org_visible s d (key_OrgID k)"

definition APIKeys_Revoke :: "uuid \<Rightarrow> unit op" where
  "APIKeys_Revoke rid = execRows ''revoking api key'' (\<lambda>s now u d.
     Inr (length (filter (revocable s d rid) (api_keys d)),
          d\<lparr>api_keys := map (\<lambda>k. if revocable s d rid k then k\<lparr>key_RevokedAt := Some now\<rparr> else k) (api_keys d)\<rparr>))"

text \<open>\<open>lookup_active_api_key\<close> is \<open>SECURITY DEFINER\<close>: it sees every key.\<close>

definition APIKeys_LookupActiveByHash :: "string \<Rightarrow> APIKey op" where
  "APIKeys_LookupActiveByHash hash = queryRow ''looking up api key'' (\<lambda>s now d.
     find (\<lambda>k. key_Hash k = hash \<and> key_RevokedAt k = None) (api_keys d))"

subsection \<open>Projects and applications\<close>

definition Projects_Create :: "uuid \<Rightarrow> string \<Rightarrow> string \<Rightarrow> Project op" where
  "Projects_Create orgID name slug = orConflict ''creating project'' (exec (\<lambda>s now u d.
     let x = \<lparr>proj_ID = u, proj_OrgID = orgID, proj_Name = name, proj_Slug = slug, proj_CreatedAt = now\<rparr> in
     check (enforce_project_quota d orgID) CheckViolation
     (check (org_visible s d orgID) RowSecurityViolation
     (check (list_all (\<lambda>y. proj_ID y \<noteq> u \<and> (proj_OrgID y, proj_Slug y) \<noteq> (orgID, slug)) (projects d)) UniqueViolation
     (check (org_exists d orgID) ForeignKeyViolation
       (Inr (x, d\<lparr>projects := projects d @ [x]\<rparr>)))))))"

definition Projects_OrgID :: "uuid \<Rightarrow> uuid op" where
  "Projects_OrgID rid = queryRow ''resolving project org'' (\<lambda>s now d.
     map_option proj_OrgID (find (\<lambda>p. proj_ID p = rid \<and> org_visible s d (proj_OrgID p)) (projects d)))"

definition Applications_Create :: "uuid \<Rightarrow> uuid \<Rightarrow> string \<Rightarrow> string \<Rightarrow> PortSpec list \<Rightarrow> Application op" where
  "Applications_Create orgID projectID name img ports = orConflict ''creating application'' (exec (\<lambda>s now u d.
     let x = \<lparr>app_ID = u, app_OrgID = orgID, app_ProjectID = projectID, app_Name = name, app_Image = img,
              app_ReplicasDesired = 1, app_CPUMillicores = 0, app_MemoryMB = 0, app_Ports = ports,
              app_HealthCheckPath = None, app_CreatedAt = now, app_UpdatedAt = now\<rparr> in
     check (org_visible s d orgID) RowSecurityViolation
     (check (list_all (\<lambda>y. app_ID y \<noteq> u) (applications d)) UniqueViolation
     (check (org_exists d orgID \<and> list_ex (\<lambda>p. proj_ID p = projectID) (projects d)) ForeignKeyViolation
       (Inr (x, d\<lparr>applications := applications d @ [x]\<rparr>))))))"

definition visible_app :: "session \<Rightarrow> db \<Rightarrow> uuid \<Rightarrow> Application \<Rightarrow> bool" where
  "visible_app s d rid a \<longleftrightarrow> app_ID a = rid \<and> org_visible s d (app_OrgID a)"

definition Applications_Get :: "uuid \<Rightarrow> Application op" where
  "Applications_Get rid = queryRow ''fetching application'' (\<lambda>s now d. find (visible_app s d rid) (applications d))"

definition Applications_OrgID :: "uuid \<Rightarrow> uuid op" where
  "Applications_OrgID rid = queryRow ''resolving application org'' (\<lambda>s now d.
     map_option app_OrgID (find (visible_app s d rid) (applications d)))"

definition update_app :: "uuid \<Rightarrow> (Application \<Rightarrow> Application) \<Rightarrow> nat stmt" where
  "update_app rid f s now u d =
     Inr (length (filter (visible_app s d rid) (applications d)),
          d\<lparr>applications := map (\<lambda>a. if visible_app s d rid a then (f a)\<lparr>app_UpdatedAt := now\<rparr> else a) (applications d)\<rparr>)"

definition Applications_UpdateImage :: "uuid \<Rightarrow> string \<Rightarrow> unit op" where
  "Applications_UpdateImage rid img = execRows ''updating application image'' (update_app rid (\<lambda>a. a\<lparr>app_Image := img\<rparr>))"

definition Applications_UpdateReplicas :: "uuid \<Rightarrow> int \<Rightarrow> unit op" where
  "Applications_UpdateReplicas rid replicas = execRows ''updating application replicas'' (\<lambda>s now u d.
     check (int4_ok replicas) InvalidValue (update_app rid (\<lambda>a. a\<lparr>app_ReplicasDesired := replicas\<rparr>) s now u d))"

definition Applications_Delete :: "uuid \<Rightarrow> unit op" where
  "Applications_Delete rid = execRows ''deleting application'' (\<lambda>s now u d.
     Inr (length (filter (visible_app s d rid) (applications d)), delete_applications (visible_app s d rid) d))"

subsection \<open>Refresh tokens\<close>

definition RefreshTokens_Create :: "uuid \<Rightarrow> string \<Rightarrow> time \<Rightarrow> RefreshToken op" where
  "RefreshTokens_Create userID tokenHash expiresAt = orConflict ''creating refresh token'' (exec (\<lambda>s now u d.
     let x = \<lparr>rt_ID = u, rt_UserID = userID, rt_TokenHash = tokenHash, rt_CreatedAt = now, rt_ExpiresAt = expiresAt,
              rt_RevokedAt = None, rt_ReplacedByID = None\<rparr> in
     check (list_all (\<lambda>y. rt_ID y \<noteq> u \<and> rt_TokenHash y \<noteq> tokenHash) (refresh_tokens d)) UniqueViolation
     (check (user_exists d userID) ForeignKeyViolation
       (Inr (x, d\<lparr>refresh_tokens := refresh_tokens d @ [x]\<rparr>)))))"

definition RefreshTokens_GetByHash :: "string \<Rightarrow> RefreshToken op" where
  "RefreshTokens_GetByHash tokenHash = queryRow ''fetching refresh token'' (\<lambda>s now d.
     find (\<lambda>x. rt_TokenHash x = tokenHash) (refresh_tokens d))"

definition update_token :: "uuid \<Rightarrow> (RefreshToken \<Rightarrow> RefreshToken) \<Rightarrow> db \<Rightarrow> nat \<times> db" where
  "update_token rid f d = (length (filter (\<lambda>x. rt_ID x = rid) (refresh_tokens d)),
     d\<lparr>refresh_tokens := map (\<lambda>x. if rt_ID x = rid then f x else x) (refresh_tokens d)\<rparr>)"

definition RefreshTokens_Rotate :: "uuid \<Rightarrow> uuid \<Rightarrow> unit op" where
  "RefreshTokens_Rotate rid newID = execRows ''rotating refresh token'' (\<lambda>s now u d.
     check (list_ex (\<lambda>x. rt_ID x = newID) (refresh_tokens d) \<or> list_all (\<lambda>x. rt_ID x \<noteq> rid) (refresh_tokens d))
       ForeignKeyViolation
       (Inr (update_token rid (\<lambda>x. x\<lparr>rt_RevokedAt := Some now, rt_ReplacedByID := Some newID\<rparr>) d)))"

definition RefreshTokens_Revoke :: "uuid \<Rightarrow> unit op" where
  "RefreshTokens_Revoke rid = execRows ''revoking refresh token'' (\<lambda>s now u d.
     Inr (update_token rid (\<lambda>x. x\<lparr>rt_RevokedAt := Some now\<rparr>) d))"

subsection \<open>Domains\<close>

definition Domains_Create :: "uuid \<Rightarrow> uuid \<Rightarrow> uuid \<Rightarrow> string \<Rightarrow> Domain op" where
  "Domains_Create orgID projectID applicationID hostname = orConflict ''creating domain'' (exec (\<lambda>s now u d.
     let x = \<lparr>dom_ID = u, dom_OrgID = orgID, dom_ProjectID = projectID, dom_ApplicationID = applicationID,
              dom_Hostname = hostname, dom_TLSStatus = DomainTLSStatusPending, dom_CreatedAt = now\<rparr> in
     check (org_visible s d orgID) RowSecurityViolation
     (check (list_all (\<lambda>y. dom_ID y \<noteq> u \<and> dom_Hostname y \<noteq> hostname) (domains d)) UniqueViolation
     (check (org_exists d orgID \<and> list_ex (\<lambda>p. proj_ID p = projectID) (projects d) \<and>
             list_ex (\<lambda>a. app_ID a = applicationID) (applications d)) ForeignKeyViolation
       (Inr (x, d\<lparr>domains := domains d @ [x]\<rparr>))))))"

definition Domains_ListByProject :: "uuid \<Rightarrow> Domain list op" where
  "Domains_ListByProject projectID = wrapE ''listing domains'' (query (\<lambda>s now d.
     sort_key dom_CreatedAt (filter (\<lambda>x. dom_ProjectID x = projectID \<and> org_visible s d (dom_OrgID x)) (domains d))))"

definition visible_domain :: "session \<Rightarrow> db \<Rightarrow> uuid \<Rightarrow> Domain \<Rightarrow> bool" where
  "visible_domain s d rid x \<longleftrightarrow> dom_ID x = rid \<and> org_visible s d (dom_OrgID x)"

definition Domains_OrgID :: "uuid \<Rightarrow> uuid op" where
  "Domains_OrgID rid = queryRow ''resolving domain org'' (\<lambda>s now d.
     map_option dom_OrgID (find (visible_domain s d rid) (domains d)))"

definition Domains_UpdateTLSStatus :: "uuid \<Rightarrow> DomainTLSStatus \<Rightarrow> unit op" where
  "Domains_UpdateTLSStatus rid status = execRows ''updating domain tls_status'' (\<lambda>s now u d.
     Inr (length (filter (visible_domain s d rid) (domains d)),
          d\<lparr>domains := map (\<lambda>x. if visible_domain s d rid x then x\<lparr>dom_TLSStatus := status\<rparr> else x) (domains d)\<rparr>))"

definition Domains_Delete :: "uuid \<Rightarrow> unit op" where
  "Domains_Delete rid = execRows ''deleting domain'' (\<lambda>s now u d.
     Inr (length (filter (visible_domain s d rid) (domains d)),
          d\<lparr>domains := filter (\<lambda>x. \<not> visible_domain s d rid x) (domains d)\<rparr>))"

subsection \<open>Audit logs\<close>

text \<open>The identifier and the creation time of a new entry come from the table's defaults.\<close>

definition AuditLogs_Record :: "AuditLogEntry \<Rightarrow> unit op" where
  "AuditLogs_Record entry = wrapE ''recording audit log entry'' (exec (\<lambda>s now u d.
     let x = entry\<lparr>al_ID := u, al_CreatedAt := now\<rparr> in
     check (org_visible s d (al_OrgID entry)) RowSecurityViolation
     (check (list_all (\<lambda>y. al_ID y \<noteq> u) (audit_logs d)) UniqueViolation
     (check (org_exists d (al_OrgID entry) \<and>
             (case al_ActorUserID entry of Some a \<Rightarrow> user_exists d a | None \<Rightarrow> True)) ForeignKeyViolation
       (Inr ((), d\<lparr>audit_logs := audit_logs d @ [x]\<rparr>))))))"

definition al_key :: "AuditLogEntry \<Rightarrow> row_key" where
  "al_key x = (al_CreatedAt x, al_ID x)"

definition org_logs :: "uuid \<Rightarrow> session \<Rightarrow> db \<Rightarrow> AuditLogEntry list" where
  "org_logs orgID s d = filter (\<lambda>x. al_OrgID x = orgID \<and> org_visible s d (al_OrgID x)) (audit_logs d)"

definition AuditLogs_ListByOrg ::
  "codec \<Rightarrow> json_text \<Rightarrow> uuid \<Rightarrow> string \<Rightarrow> int \<Rightarrow> (AuditLogEntry list \<times> string) op" where
  "AuditLogs_ListByOrg cd jt orgID cursor limit =
     bindE (lift (Wrap ''invalid cursor'' (Plain cursor)) (after_of cd jt cursor)) (\<lambda>after.
     bindE (wrapE ''listing audit logs'' (query (\<lambda>s now d.
       keyset_rows al_key after (nat (wrap64 (limit + 1))) (org_logs orgID s d)))) (\<lambda>entries.
     let (page, nxt) = cut_page al_key (nat limit) entries in ret (page, next_cursor cd jt nxt)))"

subsection \<open>Builds\<close>

definition new_build :: "uuid \<Rightarrow> uuid \<Rightarrow> uuid \<Rightarrow> string \<Rightarrow> string \<Rightarrow> uuid \<Rightarrow> time \<Rightarrow> Build" where
  "new_build u orgID appID gitURL gitRef createdBy now =
     \<lparr>bld_ID = u, bld_OrgID = orgID, bld_ApplicationID = appID, bld_GitURL = gitURL, bld_GitRef = gitRef,
      bld_CommitSHA = None, bld_Status = BuildStatusPending, bld_Image = None, bld_ErrorMessage = None,
      bld_CreatedBy = createdBy, bld_CreatedAt = now, bld_CompletedAt = None\<rparr>"

definition Builds_Create :: "uuid \<Rightarrow> uuid \<Rightarrow> string \<Rightarrow> string \<Rightarrow> uuid \<Rightarrow> Build op" where
  "Builds_Create orgID appID gitURL gitRef createdBy = wrapE ''creating build'' (exec (\<lambda>s now u d.
     let x = new_build u orgID appID gitURL (if gitRef = [] then ''main'' else gitRef) createdBy now in
     check (org_visible s d orgID) RowSecurityViolation
     (check (list_all (\<lambda>y. bld_ID y \<noteq> u) (builds d)) UniqueViolation
     (check (org_exists d orgID \<and> list_ex (\<lambda>a. app_ID a = appID) (applications d) \<and> user_exists d createdBy)
        ForeignKeyViolation
       (Inr (x, d\<lparr>builds := builds d @ [x]\<rparr>))))))"

definition visible_build :: "session \<Rightarrow> db \<Rightarrow> uuid \<Rightarrow> Build \<Rightarrow> bool" where
  "visible_build s d rid b \<longleftrightarrow> bld_ID b = rid \<and> org_visible s d (bld_OrgID b)"

definition Builds_Get :: "uuid \<Rightarrow> Build op" where
  "Builds_Get rid = queryRow ''getting build'' (\<lambda>s now d. find (visible_build s d rid) (builds d))"

definition bld_key :: "Build \<Rightarrow> row_key" where
  "bld_key x = (bld_CreatedAt x, bld_ID x)"

definition app_builds :: "uuid \<Rightarrow> session \<Rightarrow> db \<Rightarrow> Build list" where
  "app_builds appID s d = filter (\<lambda>x. bld_ApplicationID x = appID \<and> org_visible s d (bld_OrgID x)) (builds d)"

definition Builds_ListByApplication ::
  "codec \<Rightarrow> json_text \<Rightarrow> uuid \<Rightarrow> string \<Rightarrow> int \<Rightarrow> (Build list \<times> string) op" where
  "Builds_ListByApplication cd jt appID cursor limit =
     bindE (lift (Wrap ''invalid cursor'' (Plain cursor)) (after_of cd jt cursor)) (\<lambda>after.
     bindE (wrapE ''listing builds'' (query (\<lambda>s now d.
       keyset_rows bld_key after (nat (wrap64 (limit + 1))) (app_builds appID s d)))) (\<lambda>rows.
     let (page, nxt) = cut_page bld_key (nat limit) rows in ret (page, next_cursor cd jt nxt)))"

definition Builds_OrgID :: "uuid \<Rightarrow> uuid op" where
  "Builds_OrgID rid = queryRow ''resolving build org'' (\<lambda>s now d.
     map_option bld_OrgID (find (visible_build s d rid) (builds d)))"

definition Builds_UpdateResult ::
  "uuid \<Rightarrow> BuildStatus \<Rightarrow> string option \<Rightarrow> string option \<Rightarrow> string option \<Rightarrow> unit op" where
  "Builds_UpdateResult rid status commitSHA img errMsg = execRows ''updating build result'' (\<lambda>s now u d.
     Inr (length (filter (visible_build s d rid) (builds d)),
          d\<lparr>builds := map (\<lambda>b. if visible_build s d rid b
             then b\<lparr>bld_Status := status, bld_CommitSHA := commitSHA, bld_Image := img, bld_ErrorMessage := errMsg,
                    bld_CompletedAt := Some now\<rparr>
             else b) (builds d)\<rparr>))"

subsection \<open>The paged listings\<close>

lemma paged_fetch:
  assumes "no_faults w" "after_of cd jt cursor = Some after" "0 < limit" "int64_ok (limit + 1)"
  shows "bindE (lift e (after_of cd jt cursor)) (\<lambda>after.
      bindE (wrapE msg (query (\<lambda>s now d. keyset_rows key after (nat (wrap64 (limit + 1))) (table s d)))) (\<lambda>rows.
      let (page, nxt) = cut_page key (nat limit) rows in ret (page, next_cursor cd jt nxt))) w =
    (let (page, nxt) = cut_page key (nat limit) (keyset_rows key after (nat limit + 1) (table (w_sess w) (w_db w)))
     in (Inr (page, next_cursor cd jt nxt), ticks 1 w))"
proof -
  have "nat (wrap64 (limit + 1)) = nat limit + 1" using assms(3,4) by (simp add: wrap64_id nat_add_distrib)
  then show ?thesis
    using assms(1,2) by (simp add: bindE_def lift_def ret_def wrapE_ok [OF query_ok] split_def Let_def)
qed

interpretation audit_logs: paged "\<lambda>cd jt. AuditLogs_ListByOrg cd jt orgID" "org_logs orgID" al_key for orgID
  by unfold_locales (unfold AuditLogs_ListByOrg_def, rule paged_fetch)

interpretation builds: paged "\<lambda>cd jt. Builds_ListByApplication cd jt appID" "app_builds appID" bld_key for appID
  by unfold_locales (unfold Builds_ListByApplication_def, rule paged_fetch)

text \<open>
  C40. Following the cursors reads the whole trail: for every page size from one up, a client that
  starts without a cursor and passes each answer's \<^verbatim>\<open>next_cursor\<close> to the next request stops
  after at most one page more than the number of full pages, and has then received every entry of
  the organization exactly once, newest first. The same holds for the builds of an application.
\<close>

theorem listings_complete:
  assumes "codec_ok cd" "json_text_ok jt" "0 < limit" "int64_ok (limit + 1)" "no_faults w"
    and "distinct (map al_ID (audit_logs (w_db w)))" "distinct (map bld_ID (builds (w_db w)))"
    and "length (org_logs orgID (w_sess w) (w_db w)) div nat limit < n"
    and "length (app_builds appID (w_sess w) (w_db w)) div nat limit < k"
  shows "fst (read_pages (\<lambda>c. AuditLogs_ListByOrg cd jt orgID c limit) n [] w) =
      Inr (newest_order al_key (org_logs orgID (w_sess w) (w_db w))) \<and>
    fst (read_pages (\<lambda>c. Builds_ListByApplication cd jt appID c limit) k [] w) =
      Inr (newest_order bld_key (app_builds appID (w_sess w) (w_db w)))"
proof (rule conjI)
  have keys: "distinct (map key xs)" if "distinct (map rid xs)" "\<And>x. snd (key x) = rid x"
    for key :: "'a \<Rightarrow> row_key" and rid :: "'a \<Rightarrow> uuid" and xs
    using that by (metis (mono_tags, lifting) distinct_map inj_on_def)
  have "distinct (map al_key (org_logs orgID (w_sess w) (w_db w)))"
    unfolding org_logs_def by (rule distinct_map_filterI) (rule keys [OF assms(6)], simp add: al_key_def)
  then show "fst (read_pages (\<lambda>c. AuditLogs_ListByOrg cd jt orgID c limit) n [] w) =
      Inr (newest_order al_key (org_logs orgID (w_sess w) (w_db w)))"
    by (rule audit_logs.read_all [OF assms(1-5) refl]) (rule assms(8))
  have "distinct (map bld_key (app_builds appID (w_sess w) (w_db w)))"
    unfolding app_builds_def by (rule distinct_map_filterI) (rule keys [OF assms(7)], simp add: bld_key_def)
  then show "fst (read_pages (\<lambda>c. Builds_ListByApplication cd jt appID c limit) k [] w) =
      Inr (newest_order bld_key (app_builds appID (w_sess w) (w_db w)))"
    by (rule builds.read_all [OF assms(1-5) refl]) (rule assms(9))
qed

theorem listings_complete_witness:
  "\<exists>cd jt w n. codec_ok cd \<and> json_text_ok jt \<and>
     fst (read_pages (\<lambda>c. AuditLogs_ListByOrg cd jt 7 c 1) n [] w) =
       Inr (newest_order al_key (org_logs 7 (w_sess w) (w_db w))) \<and>
     length (org_logs 7 (w_sess w) (w_db w)) = 2"
proof -
  let ?jt = "\<lparr>Marshal = (\<lambda>v. replicate (Suc (to_nat v)) CHR ''j''), Unmarshal = (\<lambda>s. Some (from_nat (length s - 1)))\<rparr>"
  have jt: "json_text_ok ?jt" by (simp add: json_text_ok_def)
  let ?e = "\<lambda>i t. \<lparr>al_ID = i, al_OrgID = 7, al_ActorUserID = None, al_Action = ''x'', al_TargetType = ''y'', al_TargetID = i,
     al_Metadata = [], al_CreatedAt = t\<rparr>"
  let ?d = "empty_db\<lparr>audit_logs := [?e 1 10, ?e 2 20]\<rparr>"
  let ?w = "admin_calm 0 ?d"
  have two: "length (org_logs 7 (w_sess ?w) (w_db ?w)) = 2"
    by (simp add: org_logs_def org_visible_def admin_calm_def)
  have "fst (read_pages (\<lambda>c. AuditLogs_ListByOrg unary ?jt 7 c 1) 3 [] ?w) =
      Inr (newest_order al_key (org_logs 7 (w_sess ?w) (w_db ?w)))"
    by (rule conjunct1 [OF listings_complete [OF unary_ok jt, where k = 1 and appID = 1]])
      (simp_all add: int64_ok_def org_logs_def app_builds_def org_visible_def empty_db_def)
  with jt two unary_ok show ?thesis by blast
qed

end
