(* ===== verification/ApiCore.thy ===== *)
theory ApiCore
  imports TenantRepos
begin

section \<open>The API server: requests, errors, authorization, quotas, audit\<close>

text \<open>
  What every handler of \<^verbatim>\<open>services/apiserver/internal/server\<close> shares: the error envelope of
  \<^verbatim>\<open>server.go\<close>, the checks of \<^verbatim>\<open>permission.go\<close>, the first quota layer of
  \<^verbatim>\<open>quota.go\<close> and \<^verbatim>\<open>audit.go\<close>. A handler is an operation that answers a response;
  every \<open>s.writeError(w, r, err); return\<close> of the code is an error of the operation, which
  \<open>serve\<close> turns into the response.

  A request is its context (what the authentication middleware established), its path values and
  query parameters, its body as the JSON decoder sees it (\<open>None\<close> when it is not JSON) and its
  content length. The server's fields and the packages it calls are the record \<open>server\<close>:
  the textual form of identifiers, the text of JSON documents, SHA-256, token signing, bcrypt, and the
  random sources, read at the point in time given by the statement counter.
\<close>

record request =
  in_ctx :: auth_ctx
  in_path :: "string \<Rightarrow> string"
  in_query :: "string \<Rightarrow> string"
  in_body :: "json option"
  in_ContentLength :: int

record server =
  sv_codec :: codec
  sv_json :: json_text
  sv_sha :: "string \<Rightarrow> string"
  sv_sign :: "string \<Rightarrow> accessClaims \<Rightarrow> string option"
  sv_signingKey :: string
  sv_hash :: "string \<Rightarrow> string option"
  sv_verify :: "string \<Rightarrow> string \<Rightarrow> bool option"
  sv_random :: "nat \<Rightarrow> string option"
  sv_bytes :: "nat \<Rightarrow> nat \<Rightarrow> 8 word list option"
  sv_pg_text :: "pg_error \<Rightarrow> string"
  sv_bus :: bool
  sv_registryAddr :: string

definition defaultImageRegistryAddr :: string where
  "defaultImageRegistryAddr = ''localhost:5000''"

definition WithImageRegistry :: "string \<Rightarrow> server \<Rightarrow> server" where
  "WithImageRegistry addr s = (if addr \<noteq> [] then s\<lparr>sv_registryAddr := addr\<rparr> else s)"

subsection \<open>The error envelope\<close>

definition errNotFound :: "string \<Rightarrow> err" where
  "errNotFound message = ApiError 404 ''not_found'' message"

definition errForbidden :: "string \<Rightarrow> err" where
  "errForbidden message = ApiError 403 ''forbidden'' message"

definition errConflict :: "string \<Rightarrow> err" where
  "errConflict message = ApiError 409 ''conflict'' message"

definition errBadRequest :: "string \<Rightarrow> err" where
  "errBadRequest message = ApiError 400 ''invalid_body'' message"

definition errUnprocessable :: "string \<Rightarrow> err" where
  "errUnprocessable message = ApiError 422 ''missing_field'' message"

definition errUnauthorized :: "string \<Rightarrow> err" where
  "errUnauthorized message = ApiError 401 ''unauthorized'' message"

definition errLastOwner :: "string \<Rightarrow> err" where
  "errLastOwner message = ApiError 422 ''last_owner'' message"

definition errQuotaExceeded :: "string \<Rightarrow> err" where
  "errQuotaExceeded message = ApiError 422 ''quota_exceeded'' message"

lemmas api_errors = errNotFound_def errForbidden_def errConflict_def errBadRequest_def errUnprocessable_def
  errUnauthorized_def errLastOwner_def errQuotaExceeded_def

definition mapDBError :: "string \<Rightarrow> string \<Rightarrow> err \<Rightarrow> err" where
  "mapDBError notFoundMessage conflictMessage e =
     (if errors_Is e ErrNotFound then errNotFound notFoundMessage
      else if errors_Is e ErrConflict then errConflict conflictMessage
      else e)"

definition api_writeError :: "err \<Rightarrow> http_response" where
  "api_writeError e =
     (case e of
        ApiError status code message \<Rightarrow> writeJSON status (error_body code message)
      | _ \<Rightarrow> writeJSON 500 (error_body ''internal_error'' ''an unexpected error occurred''))"

definition serve :: "http_response op \<Rightarrow> world \<Rightarrow> http_response \<times> world" where
  "serve h w = (case h w of (Inl e, w1) \<Rightarrow> (api_writeError e, w1) | (Inr r, w1) \<Rightarrow> (r, w1))"

definition noContent :: http_response where
  "noContent = \<lparr>rsp_Status = 204, rsp_Body = None\<rparr>"

text \<open>\<open>err.Error()\<close>, for the two handlers that put it into their answer.\<close>

fun Error_text :: "(pg_error \<Rightarrow> string) \<Rightarrow> err \<Rightarrow> string" where
  "Error_text pg ErrNotFound = ''db: not found''"
| "Error_text pg ErrConflict = ''db: conflict''"
| "Error_text pg (Pg e) = pg e"
| "Error_text pg (Plain msg) = msg"
| "Error_text pg (Wrap msg e) = msg @ '': '' @ Error_text pg e"
| "Error_text pg (ApiError status code msg) = msg"

text \<open>An early return on a condition.\<close>

definition require :: "bool \<Rightarrow> err \<Rightarrow> unit op" where
  "require ok e = (if ok then ret () else throw e)"

text \<open>A dash in two messages, in UTF-8.\<close>

definition emDash :: string where
  "emDash = [CHR 0xE2, CHR 0x80, CHR 0x94]"

definition caller :: "request \<Rightarrow> uuid" where
  "caller r = fst (UserIDFromContext (in_ctx r))"

definition path_uuid :: "server \<Rightarrow> request \<Rightarrow> string \<Rightarrow> uuid op" where
  "path_uuid sv r name = lift (errBadRequest (name @ '' must be a valid UUID'')) (UUID_Parse (sv_codec sv) (in_path r name))"

subsection \<open>Authorization\<close>

definition noOrg :: string where
  "noOrg = ''no organization with this id that you belong to''"

definition requireAPIKeyOrgMatch :: "auth_ctx \<Rightarrow> uuid \<Rightarrow> unit op" where
  "requireAPIKeyOrgMatch ctx orgID =
     (case APIKeyOrgIDFromContext ctx of
        (keyOrgID, ok) \<Rightarrow> if ok \<and> keyOrgID \<noteq> orgID then throw (errNotFound noOrg) else ret ())"

definition requirePermission :: "auth_ctx \<Rightarrow> uuid \<Rightarrow> uuid \<Rightarrow> Permission \<Rightarrow> unit op" where
  "requirePermission ctx userID orgID perm =
     bindE (requireAPIKeyOrgMatch ctx orgID) (\<lambda>_.
     bindE (Memberships_RoleForUser userID orgID) (\<lambda>role.
     if \<not> HasPermission role perm then throw (errForbidden ''your role does not permit this action'') else ret ()))"

definition requireMembership :: "auth_ctx \<Rightarrow> uuid \<Rightarrow> uuid \<Rightarrow> Role op" where
  "requireMembership ctx userID orgID =
     bindE (requireAPIKeyOrgMatch ctx orgID) (\<lambda>_. Memberships_RoleForUser userID orgID)"

definition requirePlatformAdmin :: "uuid \<Rightarrow> unit op" where
  "requirePlatformAdmin userID =
     bindE (Memberships_ListForUser userID) (\<lambda>ms.
     if list_ex (\<lambda>m. mem_Role m = RoleOwner \<or> mem_Role m = RoleAdmin) ms then ret ()
     else throw (errForbidden ''viewing nodes requires an owner or admin role in at least one organization''))"

definition api_slugify :: "string \<Rightarrow> string" where
  "api_slugify name = TrimDash (replace_runs False (ToLower (TrimSpace name)))"

text \<open>\<open>apiKeyLookupAdapter\<close>: the port through which the middleware resolves API keys.\<close>

definition LookupActiveByHash :: "string \<Rightarrow> (uuid \<times> uuid) op" where
  "LookupActiveByHash hash = bindE (APIKeys_LookupActiveByHash hash) (\<lambda>k. ret (key_CreatedBy k, key_OrgID k))"

subsection \<open>The first quota layer\<close>

definition checkProjectQuota :: "uuid \<Rightarrow> unit op" where
  "checkProjectQuota orgID =
     bindE (Quotas_Get orgID) (\<lambda>quota.
     bindE (Quotas_CurrentUsage orgID) (\<lambda>usage.
     if ru_Projects usage \<ge> rq_MaxProjects quota
     then throw (errQuotaExceeded (''organization is at its project limit ('' @ Itoa (ru_Projects usage) @ ''/'' @
       Itoa (rq_MaxProjects quota) @ '')''))
     else ret ()))"

definition checkDeploymentQuota :: "uuid \<Rightarrow> unit op" where
  "checkDeploymentQuota orgID =
     bindE (Quotas_Get orgID) (\<lambda>quota.
     bindE (Quotas_CurrentUsage orgID) (\<lambda>usage.
     if ru_DeploymentsToday usage \<ge> rq_MaxDeploymentsPerDay quota
     then throw (errQuotaExceeded (''organization has reached its daily deployment limit ('' @
       Itoa (ru_DeploymentsToday usage) @ ''/'' @ Itoa (rq_MaxDeploymentsPerDay quota) @ '' in the last 24h)''))
     else ret ()))"

text \<open>\<open>if err != nil && !errors.Is(err, db.ErrNotFound)\<close>: a missing row is not an error.\<close>

definition optional :: "'a op \<Rightarrow> 'a option op" where
  "optional m = catchE (bindE m (\<lambda>x. ret (Some x))) (\<lambda>e. if errors_Is e ErrNotFound then ret None else throw e)"

definition currentAppContainers :: "uuid \<Rightarrow> int op" where
  "currentAppContainers appID =
     bindE (optional (Deployments_Latest appID)) (\<lambda>latest.
     case latest of None \<Rightarrow> ret 0 | Some x \<Rightarrow> Containers_CountActiveByDeployment (dep_ID x))"

text \<open>Go's \<open>int\<close> arithmetic wraps around.\<close>

definition resulting :: "int \<Rightarrow> int \<Rightarrow> int \<Rightarrow> int" where
  "resulting used current new = wrap64 (wrap64 (used - current) + new)"

definition checkResourceQuota :: "uuid \<Rightarrow> Application \<Rightarrow> int \<Rightarrow> unit op" where
  "checkResourceQuota orgID app newReplicas =
     bindE (Quotas_Get orgID) (\<lambda>quota.
     bindE (Quotas_CurrentUsage orgID) (\<lambda>usage.
     bindE (currentAppContainers (app_ID app)) (\<lambda>current.
     let resultingContainers = resulting (ru_Containers usage) current newReplicas;
         resultingCPU = resulting (ru_CPUMillicores usage) (wrap64 (app_CPUMillicores app * app_ReplicasDesired app))
           (wrap64 (app_CPUMillicores app * newReplicas));
         resultingMemory = resulting (ru_MemoryMB usage) (wrap64 (app_MemoryMB app * app_ReplicasDesired app))
           (wrap64 (app_MemoryMB app * newReplicas))
     in if resultingContainers > rq_MaxContainers quota
        then throw (errQuotaExceeded (''this would use '' @ Itoa resultingContainers @ ''/'' @
          Itoa (rq_MaxContainers quota) @ '' containers for the organization''))
        else if resultingCPU > rq_MaxCPUMillicores quota
        then throw (errQuotaExceeded (''this would use '' @ Itoa resultingCPU @ ''m/'' @
          Itoa (rq_MaxCPUMillicores quota) @ ''m cpu for the organization''))
        else if resultingMemory > rq_MaxMemoryMB quota
        then throw (errQuotaExceeded (''this would use '' @ Itoa resultingMemory @ ''MB/'' @
          Itoa (rq_MaxMemoryMB quota) @ ''MB memory for the organization''))
        else ret ())))"

subsection \<open>Audit\<close>

text \<open>The identifier and the time of the entry are assigned by the insert.\<close>

definition audit_entry ::
  "uuid \<Rightarrow> uuid \<Rightarrow> string \<Rightarrow> string \<Rightarrow> uuid \<Rightarrow> (string \<times> meta) list \<Rightarrow> AuditLogEntry" where
  "audit_entry orgID actorUserID action targetType targetID metadata =
     \<lparr>al_ID = uuid_Nil, al_OrgID = orgID, al_ActorUserID = Some actorUserID, al_Action = action,
      al_TargetType = targetType, al_TargetID = targetID, al_Metadata = metadata, al_CreatedAt = 0\<rparr>"

definition recordAudit ::
  "uuid \<Rightarrow> uuid \<Rightarrow> string \<Rightarrow> string \<Rightarrow> uuid \<Rightarrow> (string \<times> meta) list \<Rightarrow> unit op" where
  "recordAudit orgID actorUserID action targetType targetID metadata =
     AuditLogs_Record (audit_entry orgID actorUserID action targetType targetID metadata)"

end
