(* ===== verification/ApiTenants.thy ===== *)
theory ApiTenants
  imports ApiCore
begin

section \<open>The API server: accounts, organizations, members, keys\<close>

text \<open>
  The handlers of \<^verbatim>\<open>handlers_auth.go\<close>, \<^verbatim>\<open>handlers_organizations.go\<close>,
  \<^verbatim>\<open>handlers_members.go\<close>, \<^verbatim>\<open>handlers_api_keys.go\<close>, \<^verbatim>\<open>handlers_quota.go\<close>,
  \<^verbatim>\<open>handlers_audit_logs.go\<close> and \<^verbatim>\<open>handlers_nodes.go\<close>.
\<close>

subsection \<open>Signing up, logging in, refreshing\<close>

definition dec_credentials :: "json option \<Rightarrow> (string \<times> string) option" where
  "dec_credentials = dec_struct (\<lambda>kvs.
     Option.bind (dec_str [] (field ''email'' kvs)) (\<lambda>email.
     Option.bind (dec_str [] (field ''password'' kvs)) (\<lambda>password. Some (email, password))))"

definition defaultOrgFor :: "server \<Rightarrow> string \<Rightarrow> (string \<times> string) op" where
  "defaultOrgFor sv email =
     bindE newUUID (\<lambda>u.
     let (local0, _, found) = Cut email CHR ''@'';
         local = (if \<not> found \<or> local0 = [] then ''personal'' else local0);
         suffix = take 8 (UUID_String (sv_codec sv) u)
     in ret (local @ CHR 0x27 # ''s Organization'', api_slugify local @ ''-'' @ suffix))"

definition newRefreshToken :: "server \<Rightarrow> (string \<times> string) op" where
  "newRefreshToken sv w =
     lift (Plain ''generating refresh token'') (GenerateRefreshToken (sv_sha sv) (sv_random sv (w_stmts w))) w"

definition accessToken :: "server \<Rightarrow> uuid \<Rightarrow> (string \<times> time) op" where
  "accessToken sv userID = bindE now_op (\<lambda>now. lift (Plain ''signing access token'')
     (IssueAccessToken (UUID_String (sv_codec sv)) (sv_sign sv) (sv_signingKey sv) now userID))"

definition auth_body :: "server \<Rightarrow> User \<Rightarrow> uuid \<Rightarrow> string \<Rightarrow> Role \<Rightarrow> string \<Rightarrow> time \<Rightarrow> string \<Rightarrow> json" where
  "auth_body sv user orgID orgSlug role access expiresAt refresh = JObj
     [(''user'', JObj [(''id'', JStr (UUID_String (sv_codec sv) (user_ID user))), (''email'', JStr (user_Email user))]),
      (''org'', JObj [(''id'', JStr (UUID_String (sv_codec sv) orgID)), (''slug'', JStr orgSlug), (''role'', JStr role)]),
      (''access_token'', JStr access), (''access_token_expires_at'', JTime expiresAt), (''refresh_token'', JStr refresh)]"

definition issueAuthResponse :: "server \<Rightarrow> User \<Rightarrow> uuid \<Rightarrow> string \<Rightarrow> Role \<Rightarrow> json op" where
  "issueAuthResponse sv user orgID orgSlug role =
     bindE (accessToken sv (user_ID user)) (\<lambda>(access, expiresAt).
     bindE (newRefreshToken sv) (\<lambda>(plainRefresh, refreshHash).
     bindE now_op (\<lambda>now.
     bindE (RefreshTokens_Create (user_ID user) refreshHash (now + RefreshTokenTTL)) (\<lambda>_.
     ret (auth_body sv user orgID orgSlug role access expiresAt plainRefresh)))))"

definition signup_tx :: "string \<Rightarrow> string \<Rightarrow> string \<Rightarrow> string \<Rightarrow> (User \<times> Organization) op" where
  "signup_tx email passwordHash orgName orgSlug' =
     bindE (mapErr (mapDBError [] ''an account with this email already exists'') (Users_Create email passwordHash)) (\<lambda>user.
     bindE (Organizations_Create orgName orgSlug') (\<lambda>org.
     bindE (SetCurrentOrg (org_ID org)) (\<lambda>_.
     bindE (Quotas_Create (org_ID org) DefaultResourceQuota) (\<lambda>_.
     bindE (SetCurrentUser (user_ID user)) (\<lambda>_.
     bindE (Memberships_Create (org_ID org) (user_ID user) RoleOwner) (\<lambda>_.
     bindE (recordAudit (org_ID org) (user_ID user) ''organization.create'' ''organization'' (org_ID org) []) (\<lambda>_.
     ret (user, org))))))))"

definition handleSignup :: "server \<Rightarrow> request \<Rightarrow> http_response op" where
  "handleSignup sv r =
     bindE (lift (errBadRequest ''request body must be valid JSON with email and password'') (dec_credentials (in_body r))) (\<lambda>(email, password).
     bindE (require (email \<noteq> [] \<and> password \<noteq> []) (errUnprocessable ''email and password are required'')) (\<lambda>_.
     bindE (lift (Plain ''hashing password'') (sv_hash sv password)) (\<lambda>passwordHash.
     bindE (defaultOrgFor sv email) (\<lambda>(orgName, orgSlug').
     bindE (WithTx uuid_Nil uuid_Nil (signup_tx email passwordHash orgName orgSlug')) (\<lambda>(user, org).
     bindE (issueAuthResponse sv user (org_ID org) (org_Slug org) RoleOwner) (\<lambda>resp.
     ret (writeJSON 201 resp)))))))"

definition orgSlug :: "uuid \<Rightarrow> string op" where
  "orgSlug orgID = bindE (query (\<lambda>s now d. map_option org_Slug (find (\<lambda>x. org_ID x = orgID) (organizations d))))
     (lift (Plain ''no rows in result set''))"

definition unauthorized_if_missing :: "string \<Rightarrow> err \<Rightarrow> err" where
  "unauthorized_if_missing message e = (if errors_Is e ErrNotFound then errUnauthorized message else e)"

definition handleLogin :: "server \<Rightarrow> request \<Rightarrow> http_response op" where
  "handleLogin sv r =
     bindE (lift (errBadRequest ''request body must be valid JSON with email and password'') (dec_credentials (in_body r))) (\<lambda>(email, password).
     bindE (mapErr (unauthorized_if_missing ''invalid email or password'') (Users_GetByEmail email)) (\<lambda>user.
     bindE (lift (Plain ''verifying password'') (sv_verify sv (user_PasswordHash user) password)) (\<lambda>ok.
     bindE (require ok (errUnauthorized ''invalid email or password'')) (\<lambda>_.
     bindE (WithTx (user_ID user) uuid_Nil (Memberships_ListForUser (user_ID user))) (\<lambda>ms.
     case ms of
       [] \<Rightarrow> throw (Plain ''user has no organization membership'')
     | primary # _ \<Rightarrow>
         bindE (orgSlug (mem_OrgID primary)) (\<lambda>slug.
         bindE (issueAuthResponse sv user (mem_OrgID primary) slug (mem_Role primary)) (\<lambda>resp.
         ret (writeJSON 200 resp))))))))"

definition dec_refresh :: "json option \<Rightarrow> string option" where
  "dec_refresh = dec_struct (\<lambda>kvs. dec_str [] (field ''refresh_token'' kvs))"

definition handleRefresh :: "server \<Rightarrow> request \<Rightarrow> http_response op" where
  "handleRefresh sv r =
     bindE (lift (errBadRequest ''request body must be valid JSON with refresh_token'') (dec_refresh (in_body r))) (\<lambda>tok.
     bindE (require (tok \<noteq> []) (errBadRequest ''request body must be valid JSON with refresh_token'')) (\<lambda>_.
     bindE (mapErr (unauthorized_if_missing ''refresh token is invalid'')
       (RefreshTokens_GetByHash (HashRefreshToken (sv_sha sv) tok))) (\<lambda>stored.
     bindE now_op (\<lambda>now.
     bindE (require (rt_RevokedAt stored = None \<and> \<not> now > rt_ExpiresAt stored) (errUnauthorized ''refresh token is invalid'')) (\<lambda>_.
     bindE (Users_GetByID (rt_UserID stored)) (\<lambda>user.
     bindE (accessToken sv (user_ID user)) (\<lambda>(access, expiresAt).
     bindE (newRefreshToken sv) (\<lambda>(newPlain, newHash).
     bindE now_op (\<lambda>now2.
     bindE (RefreshTokens_Create (user_ID user) newHash (now2 + RefreshTokenTTL)) (\<lambda>newRecord.
     bindE (RefreshTokens_Rotate (rt_ID stored) (rt_ID newRecord)) (\<lambda>_.
     ret (writeJSON 200 (JObj [(''access_token'', JStr access), (''access_token_expires_at'', JTime expiresAt),
       (''refresh_token'', JStr newPlain)])))))))))))))"

subsection \<open>Organizations\<close>

text \<open>Every route below with the organization in its path opens its transaction with it.\<close>

definition uuid_json :: "server \<Rightarrow> uuid \<Rightarrow> json" where
  "uuid_json sv u = JStr (UUID_String (sv_codec sv) u)"

definition data_json :: "json list \<Rightarrow> json" where
  "data_json xs = JObj [(''data'', JArr xs)]"

definition toOrganizationResponse :: "server \<Rightarrow> Organization \<Rightarrow> json" where
  "toOrganizationResponse sv x = JObj [(''id'', uuid_json sv (org_ID x)), (''name'', JStr (org_Name x)),
     (''slug'', JStr (org_Slug x)), (''created_at'', JTime (org_CreatedAt x))]"

definition handleGetOrganization :: "server \<Rightarrow> request \<Rightarrow> http_response op" where
  "handleGetOrganization sv r =
     bindE (path_uuid sv r ''orgId'') (\<lambda>orgID.
     bindE (WithTx (caller r) orgID (
       bindE (mapErr (mapDBError noOrg []) (requireMembership (in_ctx r) (caller r) orgID)) (\<lambda>_.
       mapErr (mapDBError noOrg []) (Organizations_Get orgID)))) (\<lambda>org.
     ret (writeJSON 200 (toOrganizationResponse sv org))))"

definition dec_name :: "json option \<Rightarrow> string option" where
  "dec_name = dec_struct (\<lambda>kvs. dec_str [] (field ''name'' kvs))"

definition handleUpdateOrganization :: "server \<Rightarrow> request \<Rightarrow> http_response op" where
  "handleUpdateOrganization sv r =
     bindE (path_uuid sv r ''orgId'') (\<lambda>orgID.
     bindE (lift (errBadRequest ''request body must be valid JSON with name'') (dec_name (in_body r))) (\<lambda>name.
     bindE (require (name \<noteq> []) (errUnprocessable ''name is required'')) (\<lambda>_.
     bindE (WithTx (caller r) orgID (
       bindE (mapErr (mapDBError noOrg []) (requirePermission (in_ctx r) (caller r) orgID PermOrganizationManage)) (\<lambda>_.
       bindE (mapErr (mapDBError noOrg []) (Organizations_Update orgID name)) (\<lambda>org.
       bindE (recordAudit orgID (caller r) ''organization.update'' ''organization'' orgID [(''name'', MetaStr (org_Name org))]) (\<lambda>_.
       ret org))))) (\<lambda>org.
     ret (writeJSON 200 (toOrganizationResponse sv org))))))"

definition handleDeleteOrganization :: "server \<Rightarrow> request \<Rightarrow> http_response op" where
  "handleDeleteOrganization sv r =
     bindE (path_uuid sv r ''orgId'') (\<lambda>orgID.
     bindE (WithTx (caller r) orgID (
       bindE (mapErr (mapDBError noOrg []) (requirePermission (in_ctx r) (caller r) orgID PermOrganizationDelete)) (\<lambda>_.
       mapErr (mapDBError noOrg []) (Organizations_Delete orgID)))) (\<lambda>_.
     ret noContent))"

subsection \<open>Members\<close>

definition toMembershipResponse :: "server \<Rightarrow> Membership \<Rightarrow> string \<Rightarrow> json" where
  "toMembershipResponse sv m email = JObj ([(''id'', uuid_json sv (mem_ID m)), (''org_id'', uuid_json sv (mem_OrgID m)),
     (''user_id'', uuid_json sv (mem_UserID m))] @ enc_opt ''email'' email @
     [(''role'', JStr (mem_Role m)), (''created_at'', JTime (mem_CreatedAt m))])"

definition parseMembershipRole :: "string \<Rightarrow> Role option" where
  "parseMembershipRole s =
     (if s = RoleOwner \<or> s = RoleAdmin \<or> s = RoleDeveloper \<or> s = RoleViewer then Some s else None)"

definition badRole :: err where
  "badRole = errUnprocessable ''role must be one of owner, admin, developer, viewer''"

definition handleListMembers :: "server \<Rightarrow> request \<Rightarrow> http_response op" where
  "handleListMembers sv r =
     bindE (path_uuid sv r ''orgId'') (\<lambda>orgID.
     bindE (WithTx (caller r) orgID (
       bindE (mapErr (mapDBError noOrg []) (requireMembership (in_ctx r) (caller r) orgID)) (\<lambda>_.
       Memberships_ListByOrg orgID))) (\<lambda>members.
     ret (writeJSON 200 (data_json (map (\<lambda>m. toMembershipResponse sv (mu_Membership m) (mu_Email m)) members)))))"

definition dec_invite :: "json option \<Rightarrow> (string \<times> string) option" where
  "dec_invite = dec_struct (\<lambda>kvs.
     Option.bind (dec_str [] (field ''email'' kvs)) (\<lambda>email.
     Option.bind (dec_str [] (field ''role'' kvs)) (\<lambda>role. Some (email, role))))"

definition handleInviteMember :: "server \<Rightarrow> request \<Rightarrow> http_response op" where
  "handleInviteMember sv r =
     bindE (path_uuid sv r ''orgId'') (\<lambda>orgID.
     bindE (lift (errBadRequest ''request body must be valid JSON with email and role'') (dec_invite (in_body r))) (\<lambda>(email, roleText).
     bindE (require (email \<noteq> []) (errUnprocessable ''email is required'')) (\<lambda>_.
     bindE (lift badRole (parseMembershipRole roleText)) (\<lambda>role.
     bindE (WithTx (caller r) orgID (
       bindE (mapErr (mapDBError noOrg []) (requirePermission (in_ctx r) (caller r) orgID PermMembersInvite)) (\<lambda>_.
       bindE (mapErr (\<lambda>e. if errors_Is e ErrNotFound
           then errNotFound (''no account exists with this email '' @ emDash @ '' they must sign up first'') else e)
         (Users_GetByEmail email)) (\<lambda>target.
       bindE (mapErr (mapDBError [] ''this user is already a member of this organization'')
         (Memberships_Create orgID (user_ID target) role)) (\<lambda>m.
       bindE (recordAudit orgID (caller r) ''member.invite'' ''membership'' (user_ID target)
         [(''email'', MetaStr (user_Email target)), (''role'', MetaStr role)]) (\<lambda>_.
       ret (m, user_Email target))))))) (\<lambda>(m, targetEmail).
     ret (writeJSON 201 (toMembershipResponse sv m targetEmail)))))))"

definition dec_role :: "json option \<Rightarrow> string option" where
  "dec_role = dec_struct (\<lambda>kvs. dec_str [] (field ''role'' kvs))"

definition noMember :: string where
  "noMember = ''no member with this id in this organization''"

definition lastOwnerGuard :: "bool \<Rightarrow> uuid \<Rightarrow> string \<Rightarrow> unit op" where
  "lastOwnerGuard applies orgID message =
     (if applies then bindE (Memberships_CountOwners orgID) (\<lambda>owners. require (\<not> owners \<le> 1) (errLastOwner message))
      else ret ())"

definition change_role_tx :: "auth_ctx \<Rightarrow> uuid \<Rightarrow> uuid \<Rightarrow> uuid \<Rightarrow> Role \<Rightarrow> Membership op" where
  "change_role_tx ctx userID orgID targetUserID newRole =
     bindE (mapErr (mapDBError noOrg []) (requirePermission ctx userID orgID PermMembersChangeRole)) (\<lambda>_.
     bindE (mapErr (mapDBError noMember []) (Memberships_RoleForUser targetUserID orgID)) (\<lambda>targetRole.
     bindE (lastOwnerGuard (targetRole = RoleOwner \<and> newRole \<noteq> RoleOwner) orgID ''cannot demote the organization's only remaining owner'') (\<lambda>_.
     bindE (mapErr (mapDBError noMember []) (Memberships_UpdateRole orgID targetUserID newRole)) (\<lambda>m.
     bindE (recordAudit orgID userID ''member.change_role'' ''membership'' targetUserID
       [(''role_from'', MetaStr targetRole), (''role_to'', MetaStr newRole)]) (\<lambda>_.
     ret m)))))"

definition handleChangeMemberRole :: "server \<Rightarrow> request \<Rightarrow> http_response op" where
  "handleChangeMemberRole sv r =
     bindE (path_uuid sv r ''orgId'') (\<lambda>orgID.
     bindE (path_uuid sv r ''userId'') (\<lambda>targetUserID.
     bindE (lift (errBadRequest ''request body must be valid JSON with role'') (dec_role (in_body r))) (\<lambda>roleText.
     bindE (lift badRole (parseMembershipRole roleText)) (\<lambda>newRole.
     bindE (WithTx (caller r) orgID (change_role_tx (in_ctx r) (caller r) orgID targetUserID newRole)) (\<lambda>m.
     ret (writeJSON 200 (toMembershipResponse sv m [])))))))"

definition remove_member_tx :: "auth_ctx \<Rightarrow> uuid \<Rightarrow> uuid \<Rightarrow> uuid \<Rightarrow> unit op" where
  "remove_member_tx ctx userID orgID targetUserID =
     bindE (mapErr (mapDBError noOrg []) (requirePermission ctx userID orgID PermMembersRemove)) (\<lambda>_.
     bindE (mapErr (mapDBError noMember []) (Memberships_RoleForUser targetUserID orgID)) (\<lambda>targetRole.
     bindE (lastOwnerGuard (targetRole = RoleOwner) orgID ''cannot remove the organization's only remaining owner'') (\<lambda>_.
     bindE (mapErr (mapDBError noMember []) (Memberships_Delete orgID targetUserID)) (\<lambda>_.
     recordAudit orgID userID ''member.remove'' ''membership'' targetUserID [(''role'', MetaStr targetRole)]))))"

definition handleRemoveMember :: "server \<Rightarrow> request \<Rightarrow> http_response op" where
  "handleRemoveMember sv r =
     bindE (path_uuid sv r ''orgId'') (\<lambda>orgID.
     bindE (path_uuid sv r ''userId'') (\<lambda>targetUserID.
     bindE (WithTx (caller r) orgID (remove_member_tx (in_ctx r) (caller r) orgID targetUserID)) (\<lambda>_.
     ret noContent)))"

subsection \<open>API keys\<close>

definition apiKey_fields :: "server \<Rightarrow> APIKey \<Rightarrow> (string \<times> json) list" where
  "apiKey_fields sv k = [(''id'', uuid_json sv (key_ID k)), (''org_id'', uuid_json sv (key_OrgID k)), (''name'', JStr (key_Name k)),
     (''scopes'', JArr (map JStr (key_Scopes k))), (''created_by'', uuid_json sv (key_CreatedBy k)),
     (''created_at'', JTime (key_CreatedAt k))] @
     (case key_RevokedAt k of Some t \<Rightarrow> [(''revoked_at'', JTime t)] | None \<Rightarrow> [])"

definition toAPIKeyResponse :: "server \<Rightarrow> APIKey \<Rightarrow> json" where
  "toAPIKeyResponse sv k = JObj (apiKey_fields sv k)"

definition dec_createAPIKey :: "json option \<Rightarrow> (string \<times> string list) option" where
  "dec_createAPIKey = dec_struct (\<lambda>kvs.
     Option.bind (dec_str [] (field ''name'' kvs)) (\<lambda>name.
     Option.bind (dec_list (\<lambda>v. dec_str [] [v]) [] (field ''scopes'' kvs)) (\<lambda>scopes. Some (name, scopes))))"

text \<open>A random source that never yields an acceptable byte would block the loop; here the draw fails.\<close>

definition newAPIKey :: "server \<Rightarrow> (string \<times> string) op" where
  "newAPIKey sv w = lift (Plain ''generating api key'')
     (Option.bind (GenerateAPIKey (sv_sha sv) (sv_bytes sv (w_stmts w))) (\<lambda>x. x)) w"

definition handleCreateAPIKey :: "server \<Rightarrow> request \<Rightarrow> http_response op" where
  "handleCreateAPIKey sv r =
     bindE (path_uuid sv r ''orgId'') (\<lambda>orgID.
     bindE (lift (errBadRequest ''request body must be valid JSON with name'') (dec_createAPIKey (in_body r))) (\<lambda>(name, scopes).
     bindE (require (name \<noteq> []) (errUnprocessable ''name is required'')) (\<lambda>_.
     bindE (newAPIKey sv) (\<lambda>(plaintext, hash).
     bindE (WithTx (caller r) orgID (
       bindE (mapErr (mapDBError noOrg []) (requirePermission (in_ctx r) (caller r) orgID PermAPIKeysCreate)) (\<lambda>_.
       bindE (APIKeys_Create orgID name scopes (caller r) hash) (\<lambda>k.
       bindE (recordAudit orgID (caller r) ''api_key.create'' ''api_key'' (key_ID k) [(''name'', MetaStr (key_Name k))]) (\<lambda>_.
       ret k))))) (\<lambda>k.
     ret (writeJSON 201 (JObj (apiKey_fields sv k @ [(''key'', JStr plaintext)]))))))))"

definition handleListAPIKeys :: "server \<Rightarrow> request \<Rightarrow> http_response op" where
  "handleListAPIKeys sv r =
     bindE (path_uuid sv r ''orgId'') (\<lambda>orgID.
     bindE (WithTx (caller r) orgID (
       bindE (mapErr (mapDBError noOrg []) (requirePermission (in_ctx r) (caller r) orgID PermAPIKeysCreate)) (\<lambda>_.
       APIKeys_ListByOrg orgID))) (\<lambda>ks.
     ret (writeJSON 200 (data_json (map (toAPIKeyResponse sv) ks)))))"

definition noKey :: string where
  "noKey = ''no api key with this id in an organization you belong to''"

definition handleRevokeAPIKey :: "server \<Rightarrow> request \<Rightarrow> http_response op" where
  "handleRevokeAPIKey sv r =
     bindE (path_uuid sv r ''keyId'') (\<lambda>keyID.
     bindE (WithTx (caller r) uuid_Nil (
       bindE (mapErr (mapDBError noKey []) (APIKeys_OrgID keyID)) (\<lambda>orgID.
       bindE (SetCurrentOrg orgID) (\<lambda>_.
       bindE (requirePermission (in_ctx r) (caller r) orgID PermAPIKeysRevoke) (\<lambda>_.
       bindE (mapErr (mapDBError noKey []) (APIKeys_Revoke keyID)) (\<lambda>_.
       recordAudit orgID (caller r) ''api_key.revoke'' ''api_key'' keyID [])))))) (\<lambda>_.
     ret noContent))"

subsection \<open>Quota, audit log, nodes\<close>

definition toQuotaResponse :: "server \<Rightarrow> ResourceQuota \<Rightarrow> ResourceUsage \<Rightarrow> json" where
  "toQuotaResponse sv q u = JObj [(''org_id'', uuid_json sv (rq_OrgID q)),
     (''max_cpu_millicores'', JNum (rq_MaxCPUMillicores q)), (''max_memory_mb'', JNum (rq_MaxMemoryMB q)),
     (''max_containers'', JNum (rq_MaxContainers q)), (''max_projects'', JNum (rq_MaxProjects q)),
     (''max_deployments_per_day'', JNum (rq_MaxDeploymentsPerDay q)),
     (''used_cpu_millicores'', JNum (ru_CPUMillicores u)), (''used_memory_mb'', JNum (ru_MemoryMB u)),
     (''used_containers'', JNum (ru_Containers u)), (''used_projects'', JNum (ru_Projects u)),
     (''used_deployments_today'', JNum (ru_DeploymentsToday u))]"

definition handleGetQuota :: "server \<Rightarrow> request \<Rightarrow> http_response op" where
  "handleGetQuota sv r =
     bindE (path_uuid sv r ''orgId'') (\<lambda>orgID.
     bindE (WithTx (caller r) orgID (
       bindE (mapErr (mapDBError noOrg []) (requireMembership (in_ctx r) (caller r) orgID)) (\<lambda>_.
       bindE (mapErr (mapDBError noOrg []) (Quotas_Get orgID)) (\<lambda>quota.
       bindE (Quotas_CurrentUsage orgID) (\<lambda>usage. ret (quota, usage)))))) (\<lambda>(quota, usage).
     ret (writeJSON 200 (toQuotaResponse sv quota usage))))"

fun meta_json :: "meta \<Rightarrow> json" where
  "meta_json (MetaStr s) = JStr s"
| "meta_json (MetaInt n) = JNum n"

definition toAuditLogResponse :: "server \<Rightarrow> AuditLogEntry \<Rightarrow> json" where
  "toAuditLogResponse sv e = JObj ([(''id'', uuid_json sv (al_ID e)), (''org_id'', uuid_json sv (al_OrgID e))] @
     (case al_ActorUserID e of Some u \<Rightarrow> [(''actor_user_id'', uuid_json sv u)] | None \<Rightarrow> []) @
     [(''action'', JStr (al_Action e)), (''target_type'', JStr (al_TargetType e)), (''target_id'', uuid_json sv (al_TargetID e)),
      (''metadata'', JObj (map (\<lambda>(k, v). (k, meta_json v)) (al_Metadata e))), (''created_at'', JTime (al_CreatedAt e))])"

definition page_limit :: "request \<Rightarrow> int" where
  "page_limit r = (case Atoi (in_query r ''limit'') of Some n \<Rightarrow> if n > 0 \<and> n \<le> 200 then n else 50 | None \<Rightarrow> 50)"

definition page_json :: "json list \<Rightarrow> string \<Rightarrow> json" where
  "page_json xs nextCursor = JObj [(''data'', JArr xs), (''next_cursor'', if nextCursor \<noteq> [] then JStr nextCursor else JNull)]"

definition handleGetAuditLogs :: "server \<Rightarrow> request \<Rightarrow> http_response op" where
  "handleGetAuditLogs sv r =
     bindE (path_uuid sv r ''orgId'') (\<lambda>orgID.
     bindE (WithTx (caller r) orgID (
       bindE (mapErr (mapDBError noOrg []) (requirePermission (in_ctx r) (caller r) orgID PermAuditLogsView)) (\<lambda>_.
       AuditLogs_ListByOrg (sv_codec sv) (sv_json sv) orgID (in_query r ''cursor'') (page_limit r)))) (\<lambda>(entries, nextCursor).
     ret (writeJSON 200 (page_json (map (toAuditLogResponse sv) entries) nextCursor))))"

fun NodeStatus_String :: "NodeStatus \<Rightarrow> string" where
  "NodeStatus_String NodeStatusHealthy = ''healthy''"
| "NodeStatus_String NodeStatusDegraded = ''degraded''"
| "NodeStatus_String NodeStatusUnreachable = ''unreachable''"

definition nodeResponse :: "server \<Rightarrow> Node \<Rightarrow> json" where
  "nodeResponse sv n = JObj [(''id'', uuid_json sv (node_ID n)), (''hostname'', JStr (node_Hostname n)),
     (''status'', JStr (NodeStatus_String (node_Status n))), (''last_heartbeat_at'', JTime (node_LastHeartbeatAt n))]"

definition handleGetNodes :: "server \<Rightarrow> request \<Rightarrow> http_response op" where
  "handleGetNodes sv r =
     bindE (WithTx (caller r) uuid_Nil (
       bindE (requirePlatformAdmin (caller r)) (\<lambda>_. Nodes_List))) (\<lambda>ns.
     ret (writeJSON 200 (data_json (map (nodeResponse sv) ns))))"

end
