(* ===== verification/ApiApps.thy ===== *)
theory ApiApps
  imports ApiTenants
begin

section \<open>The API server: projects, applications, deployments, builds, domains\<close>

text \<open>
  The handlers of \<^verbatim>\<open>handlers_projects.go\<close>, \<^verbatim>\<open>handlers_applications.go\<close>,
  \<^verbatim>\<open>handlers_deployments.go\<close>, \<^verbatim>\<open>handlers_builds.go\<close>, \<^verbatim>\<open>handlers_domains.go\<close>,
  the \<^verbatim>\<open>build.completed\<close> consumer of \<^verbatim>\<open>builds.go\<close>, and of \<^verbatim>\<open>handlers_logs.go\<close>
  the choice of the container whose log is read. Routes that name a project, an application, a domain or
  a key resolve its organization first and then check the caller's role in it.
\<close>

definition noApp :: string where
  "noApp = ''no application with this id in an organization you belong to''"

definition noProject :: string where
  "noProject = ''no project with this id in an organization you belong to''"

text \<open>Publishing needs a connected bus.\<close>

definition publishIfConnected :: "server \<Rightarrow> string \<Rightarrow> json \<Rightarrow> unit op" where
  "publishIfConnected sv subject data =
     (if sv_bus sv then PublishDurable subject data else throw (Plain ''event bus not connected''))"

subsection \<open>Projects\<close>

definition toProjectResponse :: "server \<Rightarrow> Project \<Rightarrow> json" where
  "toProjectResponse sv p = JObj [(''id'', uuid_json sv (proj_ID p)), (''org_id'', uuid_json sv (proj_OrgID p)),
     (''name'', JStr (proj_Name p)), (''slug'', JStr (proj_Slug p)), (''created_at'', JTime (proj_CreatedAt p))]"

definition dec_createProject :: "json option \<Rightarrow> (string \<times> string) option" where
  "dec_createProject = dec_struct (\<lambda>kvs.
     Option.bind (dec_str [] (field ''name'' kvs)) (\<lambda>name.
     Option.bind (dec_str [] (field ''slug'' kvs)) (\<lambda>slug. Some (name, slug))))"

definition handleCreateProject :: "server \<Rightarrow> request \<Rightarrow> http_response op" where
  "handleCreateProject sv r =
     bindE (path_uuid sv r ''orgId'') (\<lambda>orgID.
     bindE (lift (errBadRequest ''request body must be valid JSON with name'') (dec_createProject (in_body r))) (\<lambda>(name, slug0).
     bindE (require (name \<noteq> []) (errUnprocessable ''name is required'')) (\<lambda>_.
     bindE (WithTx (caller r) orgID (
       bindE (mapErr (mapDBError noOrg []) (requirePermission (in_ctx r) (caller r) orgID PermProjectCreate)) (\<lambda>_.
       bindE (checkProjectQuota orgID) (\<lambda>_.
       bindE (mapErr (mapDBError [] ''a project with this slug already exists in this organization'')
         (Projects_Create orgID name (if slug0 = [] then api_slugify name else slug0))) (\<lambda>p.
       bindE (recordAudit orgID (caller r) ''project.create'' ''project'' (proj_ID p)
         [(''name'', MetaStr (proj_Name p)), (''slug'', MetaStr (proj_Slug p))]) (\<lambda>_.
       ret p)))))) (\<lambda>p.
     ret (writeJSON 201 (toProjectResponse sv p))))))"

subsection \<open>Applications\<close>

definition toApplicationResponse :: "server \<Rightarrow> Application \<Rightarrow> json" where
  "toApplicationResponse sv a = JObj [(''id'', uuid_json sv (app_ID a)), (''org_id'', uuid_json sv (app_OrgID a)),
     (''project_id'', uuid_json sv (app_ProjectID a)), (''name'', JStr (app_Name a)), (''image'', JStr (app_Image a)),
     (''replicas_desired'', JNum (app_ReplicasDesired a)), (''ports'', JArr (map enc_port (app_Ports a))),
     (''created_at'', JTime (app_CreatedAt a))]"

definition dec_createApplication :: "json option \<Rightarrow> (string \<times> string \<times> PortSpec list) option" where
  "dec_createApplication = dec_struct (\<lambda>kvs.
     Option.bind (dec_str [] (field ''name'' kvs)) (\<lambda>name.
     Option.bind (dec_str [] (field ''image'' kvs)) (\<lambda>img.
     Option.bind (dec_ports kvs) (\<lambda>ports. Some (name, img, ports)))))"

definition handleCreateApplication :: "server \<Rightarrow> request \<Rightarrow> http_response op" where
  "handleCreateApplication sv r =
     bindE (path_uuid sv r ''projectId'') (\<lambda>projectID.
     bindE (lift (errBadRequest ''request body must be valid JSON with name and image'') (dec_createApplication (in_body r))) (\<lambda>(name, img, ports).
     bindE (require (name \<noteq> [] \<and> img \<noteq> []) (errUnprocessable ''name and image are required'')) (\<lambda>_.
     bindE (WithTx (caller r) uuid_Nil (
       bindE (mapErr (mapDBError noProject []) (Projects_OrgID projectID)) (\<lambda>orgID.
       bindE (SetCurrentOrg orgID) (\<lambda>_.
       bindE (requirePermission (in_ctx r) (caller r) orgID PermApplicationCreate) (\<lambda>_.
       bindE (mapErr (mapDBError [] ''an application with this name already exists'')
         (Applications_Create orgID projectID name img ports)) (\<lambda>a.
       bindE (recordAudit orgID (caller r) ''application.create'' ''application'' (app_ID a)
         [(''name'', MetaStr (app_Name a)), (''image'', MetaStr (app_Image a))]) (\<lambda>_.
       ret a))))))) (\<lambda>a.
     ret (writeJSON 201 (toApplicationResponse sv a))))))"

fun dec_optInt :: "int option \<Rightarrow> json list \<Rightarrow> int option option" where
  "dec_optInt acc [] = Some acc"
| "dec_optInt acc (JNull # vs) = dec_optInt None vs"
| "dec_optInt acc (JNum n # vs) = (if int64_ok n then dec_optInt (Some n) vs else None)"
| "dec_optInt acc (_ # vs) = None"

definition dec_scale :: "json option \<Rightarrow> int option option" where
  "dec_scale = dec_struct (\<lambda>kvs. dec_optInt None (field ''replicas_desired'' kvs))"

definition badReplicas :: err where
  "badReplicas = errUnprocessable ''replicas_desired is required and must be zero or greater''"

text \<open>The part of a route that names an application up to the caller's permission.\<close>

definition app_permission :: "auth_ctx \<Rightarrow> uuid \<Rightarrow> uuid \<Rightarrow> Permission \<Rightarrow> uuid op" where
  "app_permission ctx userID appID perm =
     bindE (mapErr (mapDBError noApp []) (Applications_OrgID appID)) (\<lambda>orgID.
     bindE (SetCurrentOrg orgID) (\<lambda>_.
     bindE (requirePermission ctx userID orgID perm) (\<lambda>_. ret orgID)))"

definition app_membership :: "auth_ctx \<Rightarrow> uuid \<Rightarrow> uuid \<Rightarrow> uuid op" where
  "app_membership ctx userID appID =
     bindE (mapErr (mapDBError noApp []) (Applications_OrgID appID)) (\<lambda>orgID.
     bindE (SetCurrentOrg orgID) (\<lambda>_.
     bindE (requireMembership ctx userID orgID) (\<lambda>_. ret orgID)))"

definition scale_tx :: "auth_ctx \<Rightarrow> uuid \<Rightarrow> uuid \<Rightarrow> int \<Rightarrow> Application op" where
  "scale_tx ctx userID appID replicas =
     bindE (app_permission ctx userID appID PermApplicationScale) (\<lambda>orgID.
     bindE (mapErr (mapDBError noApp []) (Applications_Get appID)) (\<lambda>current.
     bindE (checkResourceQuota orgID current replicas) (\<lambda>_.
     bindE (mapErr (mapDBError noApp []) (Applications_UpdateReplicas appID replicas)) (\<lambda>_.
     bindE (mapErr (mapDBError noApp []) (Applications_Get appID)) (\<lambda>a.
     bindE (recordAudit orgID userID ''application.scale'' ''application'' appID
       [(''replicas_desired_from'', MetaInt (app_ReplicasDesired current)), (''replicas_desired_to'', MetaInt replicas)]) (\<lambda>_.
     ret a))))))"

definition handleScaleApplication :: "server \<Rightarrow> request \<Rightarrow> http_response op" where
  "handleScaleApplication sv r =
     bindE (path_uuid sv r ''appId'') (\<lambda>appID.
     bindE (lift (errBadRequest ''request body must be valid JSON with replicas_desired'') (dec_scale (in_body r))) (\<lambda>req.
     bindE (lift badReplicas req) (\<lambda>replicas.
     bindE (require (\<not> replicas < 0) badReplicas) (\<lambda>_.
     bindE (WithTx (caller r) uuid_Nil (scale_tx (in_ctx r) (caller r) appID replicas)) (\<lambda>a.
     ret (writeJSON 200 (toApplicationResponse sv a)))))))"

definition stop_targets :: "auth_ctx \<Rightarrow> uuid \<Rightarrow> uuid \<Rightarrow> (uuid \<times> Container list) op" where
  "stop_targets ctx userID appID =
     bindE (app_permission ctx userID appID PermApplicationDelete) (\<lambda>orgID.
     bindE (optional (Deployments_Latest appID)) (\<lambda>latest.
     case latest of
       None \<Rightarrow> ret (orgID, [])
     | Some x \<Rightarrow> bindE (Containers_ListByDeployment (dep_ID x)) (\<lambda>cs. ret (orgID, cs))))"

definition api_unassign :: "server \<Rightarrow> Container \<Rightarrow> string \<Rightarrow> unit op" where
  "api_unassign sv cn runtimeID =
     mapErr (\<lambda>_. ApiError 502 ''runtime_error'' ''could not stop the running deployment; application was not deleted'')
       (publishIfConnected sv (NodeUnassignSubject (UUID_String (sv_codec sv) (con_NodeID cn)))
         (enc_unassign \<lparr>un_AssignmentID = UUID_String (sv_codec sv) (con_ID cn), un_ContainerID = runtimeID\<rparr>))"

definition delete_app_tx :: "auth_ctx \<Rightarrow> uuid \<Rightarrow> uuid \<Rightarrow> uuid \<Rightarrow> unit op" where
  "delete_app_tx ctx userID orgID appID =
     bindE (requirePermission ctx userID orgID PermApplicationDelete) (\<lambda>_.
     bindE (mapErr (mapDBError noApp []) (Applications_Delete appID)) (\<lambda>_.
     recordAudit orgID userID ''application.delete'' ''application'' appID []))"

definition handleDeleteApplication :: "server \<Rightarrow> request \<Rightarrow> http_response op" where
  "handleDeleteApplication sv r =
     bindE (path_uuid sv r ''appId'') (\<lambda>appID.
     bindE (WithTx (caller r) uuid_Nil (stop_targets (in_ctx r) (caller r) appID)) (\<lambda>(orgID, containers).
     bindE (foreach (\<lambda>cn. case con_RuntimeID cn of None \<Rightarrow> ret () | Some rid \<Rightarrow> api_unassign sv cn rid) containers) (\<lambda>_.
     bindE (WithTx (caller r) orgID (delete_app_tx (in_ctx r) (caller r) orgID appID)) (\<lambda>_.
     ret noContent))))"

subsection \<open>Deployments\<close>

fun DeploymentStatus_String :: "DeploymentStatus \<Rightarrow> string" where
  "DeploymentStatus_String DeploymentStatusPending = ''pending''"
| "DeploymentStatus_String DeploymentStatusScheduling = ''scheduling''"
| "DeploymentStatus_String DeploymentStatusRunning = ''running''"
| "DeploymentStatus_String DeploymentStatusFailed = ''failed''"
| "DeploymentStatus_String DeploymentStatusRolledBack = ''rolled_back''"

record deploymentResponse =
  dr_Deployment :: Deployment
  dr_ReplicasDesired :: int
  dr_ReplicasRunning :: int
  dr_Containers :: "Container list"
  dr_Service :: "string option"

definition toDeploymentResponse :: "Deployment \<Rightarrow> deploymentResponse" where
  "toDeploymentResponse d = \<lparr>dr_Deployment = d, dr_ReplicasDesired = 0, dr_ReplicasRunning = 0, dr_Containers = [],
     dr_Service = None\<rparr>"

definition containerSummary :: "server \<Rightarrow> Container \<Rightarrow> json" where
  "containerSummary sv c = JObj [(''node_id'', uuid_json sv (con_NodeID c)), (''status'', JStr (ContainerStatus_String (con_Status c)))]"

definition deployment_json :: "server \<Rightarrow> deploymentResponse \<Rightarrow> json" where
  "deployment_json sv x = (let d = dr_Deployment x in JObj
     ([(''id'', uuid_json sv (dep_ID d)), (''application_id'', uuid_json sv (dep_ApplicationID d)), (''image'', JStr (dep_Image d)),
       (''revision'', JNum (dep_Revision d)), (''status'', JStr (DeploymentStatus_String (dep_Status d))),
       (''strategy'', JStr (dep_Strategy d))] @
      (case dep_WorkerContainerID d of Some c \<Rightarrow> [(''worker_container_id'', JStr c)] | None \<Rightarrow> []) @
      [(''replicas_desired'', JNum (dr_ReplicasDesired x)), (''replicas_running'', JNum (dr_ReplicasRunning x))] @
      (if dr_Containers x \<noteq> [] then [(''containers'', JArr (map (containerSummary sv) (dr_Containers x)))] else []) @
      (case dr_Service x of Some n \<Rightarrow> [(''service'', JObj [(''dns_name'', JStr n)])] | None \<Rightarrow> []) @
      [(''created_at'', JTime (dep_CreatedAt d))] @
      (case dep_CompletedAt d of Some t \<Rightarrow> [(''completed_at'', JTime t)] | None \<Rightarrow> [])))"

definition attachReplicaState :: "uuid \<Rightarrow> int \<Rightarrow> deploymentResponse \<Rightarrow> deploymentResponse op" where
  "attachReplicaState deploymentID desiredReplicas resp =
     bindE (Containers_ListByDeployment deploymentID) (\<lambda>rows.
     ret (resp\<lparr>dr_ReplicasDesired := desiredReplicas,
       dr_ReplicasRunning := dr_ReplicasRunning resp + int (length (filter (\<lambda>c. con_Status c = ContainerStatusRunning) rows)),
       dr_Containers := rows\<rparr>))"

definition createDeploymentTx ::
  "server \<Rightarrow> uuid \<Rightarrow> uuid \<Rightarrow> uuid \<Rightarrow> Application \<Rightarrow> string \<Rightarrow> (Application \<times> Deployment) op" where
  "createDeploymentTx sv orgID appID actorID app0 img =
     bindE (if img \<noteq> [] \<and> img \<noteq> app_Image app0
            then bindE (Applications_UpdateImage appID img) (\<lambda>_. ret (app0\<lparr>app_Image := img\<rparr>))
            else ret app0) (\<lambda>a.
     bindE (mapErr (mapDBError [] ''a deployment for this revision already exists'')
       (Deployments_Create orgID appID (app_Image a) actorID)) (\<lambda>x.
     bindE (recordAudit orgID actorID ''deployment.create'' ''deployment'' (dep_ID x)
       [(''application_id'', MetaStr (UUID_String (sv_codec sv) appID)), (''image'', MetaStr (dep_Image x)),
        (''revision'', MetaInt (dep_Revision x))]) (\<lambda>_.
     ret (a, x))))"

definition api_placement_message :: "server \<Rightarrow> Application \<Rightarrow> Deployment \<Rightarrow> placementRequestedMessage" where
  "api_placement_message sv a x =
     \<lparr>pr_DeploymentID = UUID_String (sv_codec sv) (dep_ID x), pr_ApplicationID = UUID_String (sv_codec sv) (app_ID a),
      pr_Image = dep_Image x, pr_Env = [], pr_Ports = app_Ports a, pr_Command = []\<rparr>"

definition publishPlacement :: "server \<Rightarrow> uuid \<Rightarrow> uuid \<Rightarrow> Application \<Rightarrow> Deployment \<Rightarrow> unit op" where
  "publishPlacement sv orgID actorID a x =
     catchE (publishIfConnected sv PlacementRequestedSubject (enc_placementRequested (api_placement_message sv a x)))
       (\<lambda>e. bindE (logged (WithTx actorID orgID (Deployments_UpdateResult (dep_ID x) DeploymentStatusFailed None))) (\<lambda>_. throw e))"

definition dec_deploy :: "json option \<Rightarrow> (string \<times> string \<times> string) option" where
  "dec_deploy = dec_struct (\<lambda>kvs.
     Option.bind (dec_str [] (field ''image'' kvs)) (\<lambda>img.
     Option.bind (dec_str [] (field ''git_url'' kvs)) (\<lambda>gitURL.
     Option.bind (dec_str [] (field ''git_ref'' kvs)) (\<lambda>gitRef. Some (img, gitURL, gitRef)))))"

text \<open>What both ways of deploying check before they write.\<close>

definition deploy_checks :: "auth_ctx \<Rightarrow> uuid \<Rightarrow> uuid \<Rightarrow> (uuid \<times> Application) op" where
  "deploy_checks ctx userID appID =
     bindE (app_permission ctx userID appID PermApplicationDeploy) (\<lambda>orgID.
     bindE (mapErr (mapDBError noApp []) (Applications_Get appID)) (\<lambda>a.
     bindE (checkDeploymentQuota orgID) (\<lambda>_.
     bindE (checkResourceQuota orgID a (app_ReplicasDesired a)) (\<lambda>_.
     ret (orgID, a)))))"

definition deploy_tx :: "server \<Rightarrow> auth_ctx \<Rightarrow> uuid \<Rightarrow> uuid \<Rightarrow> string \<Rightarrow> (uuid \<times> Application \<times> Deployment) op" where
  "deploy_tx sv ctx userID appID img =
     bindE (deploy_checks ctx userID appID) (\<lambda>(orgID, a0).
     bindE (createDeploymentTx sv orgID appID userID a0 img) (\<lambda>(a, x).
     ret (orgID, a, x)))"

definition deploy_failed :: "server \<Rightarrow> string \<Rightarrow> err \<Rightarrow> err" where
  "deploy_failed sv what e = ApiError 502 ''deploy_failed'' (''failed to publish '' @ what @ '': '' @ Error_text (sv_pg_text sv) e)"

definition image_deploy :: "server \<Rightarrow> request \<Rightarrow> uuid \<Rightarrow> string \<Rightarrow> http_response op" where
  "image_deploy sv r appID img =
     bindE (WithTx (caller r) uuid_Nil (deploy_tx sv (in_ctx r) (caller r) appID img)) (\<lambda>(orgID, a, x).
     bindE (mapErr (deploy_failed sv ''placement request'') (publishPlacement sv orgID (caller r) a x)) (\<lambda>_.
     ret (writeJSON 201 (deployment_json sv ((toDeploymentResponse x)\<lparr>dr_ReplicasDesired := app_ReplicasDesired a\<rparr>)))))"

subsection \<open>Builds\<close>

fun BuildStatus_String :: "BuildStatus \<Rightarrow> string" where
  "BuildStatus_String BuildStatusPending = ''pending''"
| "BuildStatus_String BuildStatusCloning = ''cloning''"
| "BuildStatus_String BuildStatusBuilding = ''building''"
| "BuildStatus_String BuildStatusPushing = ''pushing''"
| "BuildStatus_String BuildStatusSucceeded = ''succeeded''"
| "BuildStatus_String BuildStatusFailed = ''failed''"

definition optStr :: "string \<Rightarrow> string option \<Rightarrow> (string \<times> json) list" where
  "optStr name v = (case v of Some s \<Rightarrow> [(name, JStr s)] | None \<Rightarrow> [])"

definition toBuildResponse :: "server \<Rightarrow> Build \<Rightarrow> json" where
  "toBuildResponse sv b = JObj ([(''id'', uuid_json sv (bld_ID b)), (''application_id'', uuid_json sv (bld_ApplicationID b)),
     (''git_url'', JStr (bld_GitURL b)), (''git_ref'', JStr (bld_GitRef b))] @ optStr ''commit_sha'' (bld_CommitSHA b) @
     [(''status'', JStr (BuildStatus_String (bld_Status b)))] @ optStr ''image'' (bld_Image b) @
     optStr ''error_message'' (bld_ErrorMessage b) @ [(''created_at'', JTime (bld_CreatedAt b))] @
     (case bld_CompletedAt b of Some t \<Rightarrow> [(''completed_at'', JTime t)] | None \<Rightarrow> []))"

definition imageRepositoryFor :: "server \<Rightarrow> uuid \<Rightarrow> uuid \<Rightarrow> string" where
  "imageRepositoryFor sv orgID appID =
     sv_registryAddr sv @ ''/'' @ UUID_String (sv_codec sv) orgID @ ''/'' @ UUID_String (sv_codec sv) appID"

definition build_message :: "server \<Rightarrow> Build \<Rightarrow> uuid \<Rightarrow> uuid \<Rightarrow> buildRequestedMessage" where
  "build_message sv b appID orgID =
     \<lparr>br_BuildID = UUID_String (sv_codec sv) (bld_ID b), br_OrgID = UUID_String (sv_codec sv) orgID,
      br_ApplicationID = UUID_String (sv_codec sv) appID, br_GitURL = bld_GitURL b, br_GitRef = bld_GitRef b,
      br_ImageRepository = imageRepositoryFor sv orgID appID\<rparr>"

definition publishBuildRequested :: "server \<Rightarrow> Build \<Rightarrow> uuid \<Rightarrow> uuid \<Rightarrow> unit op" where
  "publishBuildRequested sv b appID orgID =
     publishIfConnected sv BuildRequestedSubject (enc_buildRequested (build_message sv b appID orgID))"

definition git_deploy_tx :: "server \<Rightarrow> auth_ctx \<Rightarrow> uuid \<Rightarrow> uuid \<Rightarrow> string \<Rightarrow> string \<Rightarrow> (uuid \<times> Build) op" where
  "git_deploy_tx sv ctx userID appID gitURL gitRef =
     bindE (deploy_checks ctx userID appID) (\<lambda>(orgID, a).
     bindE (Builds_Create orgID appID gitURL gitRef userID) (\<lambda>b.
     bindE (recordAudit orgID userID ''build.create'' ''build'' (bld_ID b)
       [(''application_id'', MetaStr (UUID_String (sv_codec sv) appID)), (''git_url'', MetaStr (bld_GitURL b)),
        (''git_ref'', MetaStr (bld_GitRef b))]) (\<lambda>_.
     ret (orgID, b))))"

definition handleGitDeploy :: "server \<Rightarrow> request \<Rightarrow> uuid \<Rightarrow> string \<Rightarrow> string \<Rightarrow> http_response op" where
  "handleGitDeploy sv r appID gitURL gitRef =
     bindE (WithTx (caller r) uuid_Nil (git_deploy_tx sv (in_ctx r) (caller r) appID gitURL gitRef)) (\<lambda>(orgID, b).
     bindE (catchE (publishBuildRequested sv b appID orgID) (\<lambda>e.
       bindE (logged (WithTx (caller r) orgID (Builds_UpdateResult (bld_ID b) BuildStatusFailed None None
         (Some (''failed to queue build: '' @ Error_text (sv_pg_text sv) e))))) (\<lambda>_.
       throw (deploy_failed sv ''build request'' e)))) (\<lambda>_.
     ret (writeJSON 202 (toBuildResponse sv b))))"

definition handleDeploy :: "server \<Rightarrow> request \<Rightarrow> http_response op" where
  "handleDeploy sv r =
     bindE (path_uuid sv r ''appId'') (\<lambda>appID.
     bindE (if in_ContentLength r \<noteq> 0
            then lift (errBadRequest ''request body must be valid JSON with an optional image or git_url'') (dec_deploy (in_body r))
            else ret ([], [], [])) (\<lambda>(img, gitURL, gitRef).
     bindE (require (\<not> (img \<noteq> [] \<and> gitURL \<noteq> []))
       (errBadRequest (''image and git_url are mutually exclusive '' @ emDash @ '' pass one or neither''))) (\<lambda>_.
     if gitURL \<noteq> [] then handleGitDeploy sv r appID gitURL gitRef
     else image_deploy sv r appID img)))"

definition encodeRevisionCursor :: "int \<Rightarrow> string" where
  "encodeRevisionCursor revision = EncodeToString (Itoa revision)"

definition decodeRevisionCursor :: "string \<Rightarrow> int option option" where
  "decodeRevisionCursor cursor =
     (if cursor = [] then Some None else Option.bind (DecodeString cursor) (\<lambda>raw. map_option Some (Atoi raw)))"

definition deployments_tx :: "auth_ctx \<Rightarrow> uuid \<Rightarrow> uuid \<Rightarrow> int \<Rightarrow> int option \<Rightarrow> deploymentResponse list op" where
  "deployments_tx ctx userID appID limit afterRevision =
     bindE (app_membership ctx userID appID) (\<lambda>orgID.
     bindE (mapErr (mapDBError noApp []) (Applications_Get appID)) (\<lambda>a.
     bindE (Deployments_ListByApplication appID limit afterRevision) (\<lambda>ds.
     bindE (optional (Services_GetByApplication appID)) (\<lambda>svc.
     mapE (\<lambda>d. bindE (attachReplicaState (dep_ID d) (app_ReplicasDesired a) (toDeploymentResponse d)) (\<lambda>x.
       ret (x\<lparr>dr_Service := map_option svc_DNSName svc\<rparr>))) ds))))"

definition handleGetDeployments :: "server \<Rightarrow> request \<Rightarrow> http_response op" where
  "handleGetDeployments sv r =
     bindE (path_uuid sv r ''appId'') (\<lambda>appID.
     bindE (lift (errBadRequest ''cursor is invalid'') (decodeRevisionCursor (in_query r ''cursor''))) (\<lambda>afterRevision.
     bindE (WithTx (caller r) uuid_Nil (deployments_tx (in_ctx r) (caller r) appID (page_limit r) afterRevision)) (\<lambda>xs.
     ret (writeJSON 200 (page_json (map (deployment_json sv) xs)
       (if int (length xs) = page_limit r then encodeRevisionCursor (dep_Revision (dr_Deployment (last xs))) else []))))))"

definition handleGetBuilds :: "server \<Rightarrow> request \<Rightarrow> http_response op" where
  "handleGetBuilds sv r =
     bindE (path_uuid sv r ''appId'') (\<lambda>appID.
     bindE (WithTx (caller r) uuid_Nil (
       bindE (app_membership (in_ctx r) (caller r) appID) (\<lambda>_.
       Builds_ListByApplication (sv_codec sv) (sv_json sv) appID (in_query r ''cursor'') (page_limit r)))) (\<lambda>(bs, nextCursor).
     ret (writeJSON 200 (page_json (map (toBuildResponse sv) bs) nextCursor))))"

definition nullableString :: "string \<Rightarrow> string option" where
  "nullableString s = (if s = [] then None else Some s)"

definition build_completed_tx :: "server \<Rightarrow> uuid \<Rightarrow> buildCompletedMessage \<Rightarrow> (Build \<times> (Application \<times> Deployment) option) op" where
  "build_completed_tx sv buildID msg =
     bindE (Builds_Get buildID) (\<lambda>b.
     bindE (SetCurrentUser (bld_CreatedBy b)) (\<lambda>_.
     if bc_Status msg \<noteq> ''succeeded'' then
       bindE (Builds_UpdateResult buildID BuildStatusFailed None None
         (Some (if bc_Error msg = [] then ''build failed without a reported reason'' else bc_Error msg))) (\<lambda>_. ret (b, None))
     else if bc_Image msg = [] then
       bindE (Builds_UpdateResult buildID BuildStatusFailed None None
         (Some ''build reported success without an image reference'')) (\<lambda>_. ret (b, None))
     else
       bindE (Builds_UpdateResult buildID BuildStatusSucceeded (nullableString (bc_CommitSHA msg)) (Some (bc_Image msg)) None) (\<lambda>_.
       bindE (Applications_Get (bld_ApplicationID b)) (\<lambda>a0.
       bindE (createDeploymentTx sv (bld_OrgID b) (bld_ApplicationID b) (bld_CreatedBy b) a0 (bc_Image msg)) (\<lambda>ax.
       ret (b, Some ax))))))"

definition handleBuildCompleted :: "server \<Rightarrow> json option \<Rightarrow> unit op" where
  "handleBuildCompleted sv data =
     (case dec_buildCompleted data of
        None \<Rightarrow> ret ()
      | Some msg \<Rightarrow>
          (case (UUID_Parse (sv_codec sv) (bc_BuildID msg), UUID_Parse (sv_codec sv) (bc_OrgID msg)) of
             (Some buildID, Some orgHint) \<Rightarrow>
               logged (bindE (WithTx uuid_Nil orgHint (build_completed_tx sv buildID msg)) (\<lambda>(b, deployed).
                 case deployed of
                   None \<Rightarrow> ret ()
                 | Some (a, x) \<Rightarrow> publishPlacement sv (bld_OrgID b) (bld_CreatedBy b) a x))
           | _ \<Rightarrow> ret ()))"

subsection \<open>Domains\<close>

fun DomainTLSStatus_String :: "DomainTLSStatus \<Rightarrow> string" where
  "DomainTLSStatus_String DomainTLSStatusPending = ''pending''"
| "DomainTLSStatus_String DomainTLSStatusActive = ''active''"
| "DomainTLSStatus_String DomainTLSStatusFailed = ''failed''"

definition toDomainResponse :: "server \<Rightarrow> Domain \<Rightarrow> json" where
  "toDomainResponse sv d = JObj [(''id'', uuid_json sv (dom_ID d)), (''org_id'', uuid_json sv (dom_OrgID d)),
     (''project_id'', uuid_json sv (dom_ProjectID d)), (''application_id'', uuid_json sv (dom_ApplicationID d)),
     (''hostname'', JStr (dom_Hostname d)), (''tls_status'', JStr (DomainTLSStatus_String (dom_TLSStatus d))),
     (''created_at'', JTime (dom_CreatedAt d))]"

definition dec_createDomain :: "json option \<Rightarrow> (string \<times> string) option" where
  "dec_createDomain = dec_struct (\<lambda>kvs.
     Option.bind (dec_str [] (field ''hostname'' kvs)) (\<lambda>hostname.
     Option.bind (dec_str [] (field ''application_id'' kvs)) (\<lambda>appID. Some (hostname, appID))))"

definition noAppHere :: string where
  "noAppHere = ''no application with this id in this project''"

definition create_domain_tx :: "server \<Rightarrow> auth_ctx \<Rightarrow> uuid \<Rightarrow> uuid \<Rightarrow> uuid \<Rightarrow> string \<Rightarrow> Domain op" where
  "create_domain_tx sv ctx userID projectID applicationID hostname =
     bindE (mapErr (mapDBError noProject []) (Projects_OrgID projectID)) (\<lambda>orgID.
     bindE (SetCurrentOrg orgID) (\<lambda>_.
     bindE (requirePermission ctx userID orgID PermDomainsManage) (\<lambda>_.
     bindE (mapErr (mapDBError noAppHere []) (Applications_Get applicationID)) (\<lambda>a.
     bindE (require (\<not> app_ProjectID a \<noteq> projectID) (errNotFound noAppHere)) (\<lambda>_.
     bindE (mapErr (mapDBError [] ''a domain with this hostname already exists'')
       (Domains_Create orgID projectID applicationID hostname)) (\<lambda>d.
     bindE (Domains_UpdateTLSStatus (dom_ID d) DomainTLSStatusActive) (\<lambda>_.
     bindE (recordAudit orgID userID ''domain.create'' ''domain'' (dom_ID d)
       [(''hostname'', MetaStr (dom_Hostname d)), (''application_id'', MetaStr (UUID_String (sv_codec sv) applicationID))]) (\<lambda>_.
     ret (d\<lparr>dom_TLSStatus := DomainTLSStatusActive\<rparr>)))))))))"

definition handleCreateDomain :: "server \<Rightarrow> request \<Rightarrow> http_response op" where
  "handleCreateDomain sv r =
     bindE (path_uuid sv r ''projectId'') (\<lambda>projectID.
     bindE (lift (errBadRequest ''request body must be valid JSON with hostname and application_id'') (dec_createDomain (in_body r))) (\<lambda>(hostname, appText).
     bindE (require (hostname \<noteq> []) (errUnprocessable ''hostname is required'')) (\<lambda>_.
     bindE (lift (errUnprocessable ''application_id must be a valid UUID'') (UUID_Parse (sv_codec sv) appText)) (\<lambda>applicationID.
     bindE (WithTx (caller r) uuid_Nil (create_domain_tx sv (in_ctx r) (caller r) projectID applicationID hostname)) (\<lambda>d.
     ret (writeJSON 201 (toDomainResponse sv d)))))))"

definition handleListDomains :: "server \<Rightarrow> request \<Rightarrow> http_response op" where
  "handleListDomains sv r =
     bindE (path_uuid sv r ''projectId'') (\<lambda>projectID.
     bindE (WithTx (caller r) uuid_Nil (
       bindE (mapErr (mapDBError noProject []) (Projects_OrgID projectID)) (\<lambda>orgID.
       bindE (SetCurrentOrg orgID) (\<lambda>_.
       bindE (requireMembership (in_ctx r) (caller r) orgID) (\<lambda>_.
       Domains_ListByProject projectID))))) (\<lambda>ds.
     ret (writeJSON 200 (data_json (map (toDomainResponse sv) ds)))))"

definition noDomain :: string where
  "noDomain = ''no domain with this id in an organization you belong to''"

definition handleDeleteDomain :: "server \<Rightarrow> request \<Rightarrow> http_response op" where
  "handleDeleteDomain sv r =
     bindE (path_uuid sv r ''domainId'') (\<lambda>domainID.
     bindE (WithTx (caller r) uuid_Nil (
       bindE (mapErr (mapDBError noDomain []) (Domains_OrgID domainID)) (\<lambda>orgID.
       bindE (SetCurrentOrg orgID) (\<lambda>_.
       bindE (requirePermission (in_ctx r) (caller r) orgID PermDomainsManage) (\<lambda>_.
       bindE (mapErr (mapDBError noDomain []) (Domains_Delete domainID)) (\<lambda>_.
       recordAudit orgID (caller r) ''domain.delete'' ''domain'' domainID [])))))) (\<lambda>_.
     ret noContent))"

subsection \<open>Logs\<close>

definition log_container :: "auth_ctx \<Rightarrow> uuid \<Rightarrow> uuid \<Rightarrow> string op" where
  "log_container ctx userID appID =
     WithTx userID uuid_Nil (
       bindE (app_membership ctx userID appID) (\<lambda>_.
       bindE (mapErr (mapDBError ''this application has never been deployed'' []) (Deployments_Latest appID)) (\<lambda>x.
       bindE (Containers_ListByDeployment (dep_ID x)) (\<lambda>cs.
       lift (errNotFound ''this application's latest deployment has no running container to read logs from'')
         (case cs of [] \<Rightarrow> None | c # _ \<Rightarrow> con_RuntimeID c)))))"

end
