(* ===== verification/Tenancy.thy ===== *)
theory Tenancy
  imports Schema
begin

section \<open>Tenancy: what a change to an organization's data may be\<close>

text \<open>
  The abstract specification of the API server's writes. An organization's part of the database is its
  slice: its own row, the rows that carry its \<open>org_id\<close>, and the containers of its deployments.
  \<open>tenant_change action oid d d'\<close> says what one audited action may do to the tables, and
  \<open>tenant_step\<close> adds the entry in the audit log. The invariant \<open>tenant_inv\<close> holds what the
  handlers rely on: at most one membership for a user in an organization, an owner for every organization, and rows
  that refer to a project or an application of their own organization only. The lemmas show that every
  step is confined to the slice of its organization and keeps the invariant; the theory of the
  routes shows that the handlers take only such steps.
\<close>

subsection \<open>Slices\<close>

definition container_in :: "uuid \<Rightarrow> db \<Rightarrow> Container \<Rightarrow> bool" where
  "container_in oid d c \<longleftrightarrow> (\<exists>x \<in> set (deployments d). dep_ID x = con_DeploymentID c \<and> dep_OrgID x = oid)"

definition tenant_slice :: "uuid \<Rightarrow> db \<Rightarrow> db" where
  "tenant_slice oid d = empty_db\<lparr>
     organizations := filter (\<lambda>x. org_ID x = oid) (organizations d),
     memberships := filter (\<lambda>x. mem_OrgID x = oid) (memberships d),
     api_keys := filter (\<lambda>x. key_OrgID x = oid) (api_keys d),
     projects := filter (\<lambda>x. proj_OrgID x = oid) (projects d),
     applications := filter (\<lambda>x. app_OrgID x = oid) (applications d),
     deployments := filter (\<lambda>x. dep_OrgID x = oid) (deployments d),
     containers := filter (container_in oid d) (containers d),
     domains := filter (\<lambda>x. dom_OrgID x = oid) (domains d),
     resource_quotas := filter (\<lambda>x. rq_OrgID x = oid) (resource_quotas d),
     audit_logs := filter (\<lambda>x. al_OrgID x = oid) (audit_logs d),
     builds := filter (\<lambda>x. bld_OrgID x = oid) (builds d)\<rparr>"

definition confined :: "uuid \<Rightarrow> db \<Rightarrow> db \<Rightarrow> bool" where
  "confined oid d d' \<longleftrightarrow> users d' = users d \<and> refresh_tokens d' = refresh_tokens d \<and> nodes d' = nodes d \<and>
     (\<forall>o'. o' \<noteq> oid \<longrightarrow> tenant_slice o' d' = tenant_slice o' d)"

subsection \<open>The invariant\<close>

text \<open>Every \<open>child\<close> pair of identifier and organization is that of a parent row.\<close>

definition refs :: "('a \<Rightarrow> uuid \<times> uuid) \<Rightarrow> ('b \<Rightarrow> uuid \<times> uuid) \<Rightarrow> 'a list \<Rightarrow> 'b list \<Rightarrow> bool" where
  "refs child parent xs ys \<longleftrightarrow> child ` set xs \<subseteq> parent ` set ys \<and> distinct (map (fst \<circ> parent) ys)"

definition proj_key :: "Project \<Rightarrow> uuid \<times> uuid" where "proj_key p = (proj_ID p, proj_OrgID p)"
definition app_key :: "Application \<Rightarrow> uuid \<times> uuid" where "app_key a = (app_ID a, app_OrgID a)"
definition dep_key :: "Deployment \<Rightarrow> uuid \<times> uuid" where "dep_key x = (dep_ID x, dep_OrgID x)"

definition has_owner :: "Membership list \<Rightarrow> uuid \<Rightarrow> bool" where
  "has_owner ms oid \<longleftrightarrow> (\<exists>m \<in> set ms. mem_OrgID m = oid \<and> mem_Role m = RoleOwner)"

definition member_key :: "Membership \<Rightarrow> uuid \<times> uuid" where
  "member_key m = (mem_OrgID m, mem_UserID m)"

definition tenant_inv :: "db \<Rightarrow> bool" where
  "tenant_inv d \<longleftrightarrow> distinct (map member_key (memberships d)) \<and>
     (\<forall>x \<in> set (organizations d). has_owner (memberships d) (org_ID x)) \<and>
     mem_OrgID ` set (memberships d) \<subseteq> org_ID ` set (organizations d) \<and>
     refs (\<lambda>a. (app_ProjectID a, app_OrgID a)) proj_key (applications d) (projects d) \<and>
     refs (\<lambda>x. (dep_ApplicationID x, dep_OrgID x)) app_key (deployments d) (applications d) \<and>
     refs (\<lambda>x. (bld_ApplicationID x, bld_OrgID x)) app_key (builds d) (applications d) \<and>
     refs (\<lambda>x. (dom_ApplicationID x, dom_OrgID x)) app_key (domains d) (applications d) \<and>
     refs (\<lambda>x. (dom_ProjectID x, dom_OrgID x)) proj_key (domains d) (projects d) \<and>
     distinct (map key_ID (api_keys d)) \<and> distinct (map dom_ID (domains d)) \<and> distinct (map bld_ID (builds d)) \<and>
     distinct (map dep_ID (deployments d)) \<and> con_DeploymentID ` set (containers d) \<subseteq> dep_ID ` set (deployments d)"

text \<open>An edit of some rows of one organization that keeps what identifies them.\<close>

definition edits :: "uuid \<Rightarrow> ('a \<Rightarrow> uuid) \<Rightarrow> ('a \<Rightarrow> 'k) \<Rightarrow> ('a \<Rightarrow> 'a) \<Rightarrow> 'a list \<Rightarrow> bool" where
  "edits oid org key f xs \<longleftrightarrow> (\<forall>x \<in> set xs. org (f x) = org x \<and> key (f x) = key x \<and> (org x \<noteq> oid \<longrightarrow> f x = x))"

subsection \<open>Changes\<close>

inductive tenant_change :: "string \<Rightarrow> uuid \<Rightarrow> db \<Rightarrow> db \<Rightarrow> bool" where
  org_update: "edits oid org_ID org_ID f (organizations d) \<Longrightarrow>
    tenant_change ''organization.update'' oid d (d\<lparr>organizations := map f (organizations d)\<rparr>)"
| org_delete: "tenant_change ''organization.delete'' oid d (delete_organization oid d)"
| invite: "mem_OrgID m = oid \<Longrightarrow> oid \<in> org_ID ` set (organizations d) \<Longrightarrow> member_key m \<notin> member_key ` set (memberships d) \<Longrightarrow>
    tenant_change ''member.invite'' oid d (d\<lparr>memberships := memberships d @ [m]\<rparr>)"
| change_role: "edits oid mem_OrgID member_key f (memberships d) \<Longrightarrow> has_owner (map f (memberships d)) oid \<Longrightarrow>
    tenant_change ''member.change_role'' oid d (d\<lparr>memberships := map f (memberships d)\<rparr>)"
| remove_member: "(\<And>m. mem_OrgID m \<noteq> oid \<Longrightarrow> P m) \<Longrightarrow> has_owner (filter P (memberships d)) oid \<Longrightarrow>
    tenant_change ''member.remove'' oid d (d\<lparr>memberships := filter P (memberships d)\<rparr>)"
| key_create: "key_OrgID k = oid \<Longrightarrow> key_ID k \<notin> key_ID ` set (api_keys d) \<Longrightarrow>
    tenant_change ''api_key.create'' oid d (d\<lparr>api_keys := api_keys d @ [k]\<rparr>)"
| key_revoke: "edits oid key_OrgID key_ID f (api_keys d) \<Longrightarrow>
    tenant_change ''api_key.revoke'' oid d (d\<lparr>api_keys := map f (api_keys d)\<rparr>)"
| project_create: "proj_OrgID p = oid \<Longrightarrow> proj_ID p \<notin> proj_ID ` set (projects d) \<Longrightarrow>
    tenant_change ''project.create'' oid d (d\<lparr>projects := projects d @ [p]\<rparr>)"
| app_create: "app_OrgID a = oid \<Longrightarrow> app_ID a \<notin> app_ID ` set (applications d) \<Longrightarrow>
    (app_ProjectID a, oid) \<in> proj_key ` set (projects d) \<Longrightarrow>
    tenant_change ''application.create'' oid d (d\<lparr>applications := applications d @ [a]\<rparr>)"
| app_scale: "edits oid app_OrgID (\<lambda>a. (app_ID a, app_ProjectID a)) f (applications d) \<Longrightarrow>
    tenant_change ''application.scale'' oid d (d\<lparr>applications := map f (applications d)\<rparr>)"
| app_delete: "(\<And>a. a \<in> set (applications d) \<Longrightarrow> P a \<Longrightarrow> app_OrgID a = oid) \<Longrightarrow>
    tenant_change ''application.delete'' oid d (delete_applications P d)"
| deploy: "edits oid app_OrgID (\<lambda>a. (app_ID a, app_ProjectID a)) f (applications d) \<Longrightarrow> dep_OrgID x = oid \<Longrightarrow>
    dep_ID x \<notin> dep_ID ` set (deployments d) \<Longrightarrow> (dep_ApplicationID x, oid) \<in> app_key ` set (applications d) \<Longrightarrow>
    tenant_change ''deployment.create'' oid d
      (d\<lparr>applications := map f (applications d), deployments := deployments d @ [x]\<rparr>)"
| build_create: "bld_OrgID b = oid \<Longrightarrow> bld_ID b \<notin> bld_ID ` set (builds d) \<Longrightarrow> (bld_ApplicationID b, oid) \<in> app_key ` set (applications d) \<Longrightarrow>
    tenant_change ''build.create'' oid d (d\<lparr>builds := builds d @ [b]\<rparr>)"
| domain_create: "dom_OrgID x = oid \<Longrightarrow> dom_ID x \<notin> dom_ID ` set (domains d) \<Longrightarrow> (dom_ApplicationID x, oid) \<in> app_key ` set (applications d) \<Longrightarrow>
    (dom_ProjectID x, oid) \<in> proj_key ` set (projects d) \<Longrightarrow>
    tenant_change ''domain.create'' oid d (d\<lparr>domains := domains d @ [x]\<rparr>)"
| domain_delete: "(\<And>x. x \<in> set (domains d) \<Longrightarrow> dom_OrgID x \<noteq> oid \<Longrightarrow> P x) \<Longrightarrow>
    tenant_change ''domain.delete'' oid d (d\<lparr>domains := filter P (domains d)\<rparr>)"

definition audited :: "string \<Rightarrow> uuid \<Rightarrow> uuid \<Rightarrow> AuditLogEntry \<Rightarrow> bool" where
  "audited action oid u e \<longleftrightarrow> al_Action e = action \<and> al_OrgID e = oid \<and> al_ActorUserID e = Some u"

definition tenant_step :: "string \<Rightarrow> uuid \<Rightarrow> uuid \<Rightarrow> db \<Rightarrow> db \<Rightarrow> bool" where
  "tenant_step action oid u d d' \<longleftrightarrow> (\<exists>d1. tenant_change action oid d d1 \<and>
     (if action = ''organization.delete'' then d' = d1
      else \<exists>e. audited action oid u e \<and> d' = d1\<lparr>audit_logs := audit_logs d1 @ [e]\<rparr>))"

subsection \<open>Every step is confined to its organization\<close>

lemma refs_unique:
  assumes "refs child parent xs ys" "x \<in> set xs" "y \<in> set ys" "fst (parent y) = fst (child x)"
  shows "snd (parent y) = snd (child x)"
proof -
  obtain z where z: "z \<in> set ys" "child x = parent z" using assms(1,2) by (auto simp: refs_def)
  moreover have "y = z"
    using assms(1,3,4) z by (auto simp: refs_def distinct_map inj_on_def)
  ultimately show ?thesis by simp
qed

lemma filter_edits:
  "edits oid org key f xs \<Longrightarrow> o' \<noteq> oid \<Longrightarrow> filter (\<lambda>x. org x = o') (map f xs) = filter (\<lambda>x. org x = o') xs"
  by (induction xs) (auto simp: edits_def)

lemma filter_keep:
  "(\<And>x. x \<in> set xs \<Longrightarrow> Q x \<Longrightarrow> P x) \<Longrightarrow> filter Q (filter P xs) = filter Q xs"
  by (induction xs) auto

lemma filter_other:
  "o' \<noteq> oid \<Longrightarrow> filter (\<lambda>x. org x = o') (filter (\<lambda>x. org x \<noteq> oid) xs) = filter (\<lambda>x. org x = o') xs"
  by (induction xs) auto

lemma delete_applications_confined:
  assumes inv: "tenant_inv d" and P: "\<And>a. a \<in> set (applications d) \<Longrightarrow> P a \<Longrightarrow> app_OrgID a = oid" and o': "o' \<noteq> oid"
  shows "tenant_slice o' (delete_applications P d) = tenant_slice o' d"
proof -
  let ?ga = "\<lambda>a. list_ex (\<lambda>x. app_ID x = a \<and> P x) (applications d)"
  let ?gd = "\<lambda>i. list_ex (\<lambda>x. dep_ID x = i \<and> ?ga (dep_ApplicationID x)) (deployments d)"
  have app: "\<not> ?ga aid" if "refs child app_key xs (applications d)" "x \<in> set xs" "child x = (aid, o')" for child xs x aid
    using refs_unique [OF that(1,2)] that(3) P o' by (fastforce simp: list_ex_iff app_key_def)
  have dep: "\<not> ?ga (dep_ApplicationID x)" if "x \<in> set (deployments d)" "dep_OrgID x = o'" for x
    using app [of "\<lambda>x. (dep_ApplicationID x, dep_OrgID x)" "deployments d" x] inv that by (simp add: tenant_inv_def)
  have dist: "distinct (map dep_ID (deployments d))" using inv by (simp add: tenant_inv_def)
  have gone: "\<not> ?gd (con_DeploymentID c)" if c: "container_in o' d c" for c
  proof
    assume "?gd (con_DeploymentID c)"
    then obtain y where y: "y \<in> set (deployments d)" "dep_ID y = con_DeploymentID c" "?ga (dep_ApplicationID y)"
      unfolding list_ex_iff [of _ "deployments d"] by blast
    obtain x where x: "x \<in> set (deployments d)" "dep_ID x = con_DeploymentID c" "dep_OrgID x = o'"
      using c unfolding container_in_def by blast
    then have "x = y" using y dist by (metis distinct_map inj_onD)
    with dep [OF x(1,3)] y(3) show False by simp
  qed
  have cin: "container_in o' (delete_applications P d) c \<longleftrightarrow> container_in o' d c" for c
    unfolding container_in_def delete_applications_def Let_def using dep by fastforce
  have bld: "\<not> ?ga (bld_ApplicationID x)" if "x \<in> set (builds d)" "bld_OrgID x = o'" for x
    using app [of "\<lambda>x. (bld_ApplicationID x, bld_OrgID x)" "builds d" x] inv that by (simp add: tenant_inv_def)
  have dom: "\<not> ?ga (dom_ApplicationID x)" if "x \<in> set (domains d)" "dom_OrgID x = o'" for x
    using app [of "\<lambda>x. (dom_ApplicationID x, dom_OrgID x)" "domains d" x] inv that by (simp add: tenant_inv_def)
  have con: "filter (container_in o' (delete_applications P d)) (containers (delete_applications P d)) =
      filter (container_in o' d) (containers d)"
    unfolding cin by (simp add: delete_applications_def Let_def) (rule filter_cong [OF refl], use gone in blast)
  have rest: "filter (\<lambda>x. app_OrgID x = o') (applications (delete_applications P d)) = filter (\<lambda>x. app_OrgID x = o') (applications d)"
    "filter (\<lambda>x. dep_OrgID x = o') (deployments (delete_applications P d)) = filter (\<lambda>x. dep_OrgID x = o') (deployments d)"
    "filter (\<lambda>x. dom_OrgID x = o') (domains (delete_applications P d)) = filter (\<lambda>x. dom_OrgID x = o') (domains d)"
    "filter (\<lambda>x. bld_OrgID x = o') (builds (delete_applications P d)) = filter (\<lambda>x. bld_OrgID x = o') (builds d)"
    unfolding delete_applications_def Let_def
    by (simp_all, (rule filter_cong [OF refl], use P o' dep dom bld in blast)+)
  show ?thesis
    unfolding tenant_slice_def con rest by (simp add: delete_applications_def Let_def)
qed

lemma delete_applications_frame [simp]:
  "users (delete_applications P d) = users d" "refresh_tokens (delete_applications P d) = refresh_tokens d"
  "nodes (delete_applications P d) = nodes d" "organizations (delete_applications P d) = organizations d"
  "memberships (delete_applications P d) = memberships d" "api_keys (delete_applications P d) = api_keys d"
  "projects (delete_applications P d) = projects d" "resource_quotas (delete_applications P d) = resource_quotas d"
  "audit_logs (delete_applications P d) = audit_logs d"
  by (simp_all add: delete_applications_def Let_def)

lemma delete_org_rows_frame:
  "users (delete_org_rows oid gp d) = users d" "refresh_tokens (delete_org_rows oid gp d) = refresh_tokens d"
  "nodes (delete_org_rows oid gp d) = nodes d"
  "organizations (delete_org_rows oid gp d) = filter (\<lambda>x. org_ID x \<noteq> oid) (organizations d)"
  "memberships (delete_org_rows oid gp d) = filter (\<lambda>x. mem_OrgID x \<noteq> oid) (memberships d)"
  "api_keys (delete_org_rows oid gp d) = filter (\<lambda>x. key_OrgID x \<noteq> oid) (api_keys d)"
  "projects (delete_org_rows oid gp d) = filter (\<lambda>x. proj_OrgID x \<noteq> oid) (projects d)"
  "applications (delete_org_rows oid gp d) = applications d"
  "deployments (delete_org_rows oid gp d) = filter (\<lambda>x. dep_OrgID x \<noteq> oid) (deployments d)"
  "domains (delete_org_rows oid gp d) = filter (\<lambda>x. dom_OrgID x \<noteq> oid \<and> \<not> gp (dom_ProjectID x)) (domains d)"
  "builds (delete_org_rows oid gp d) = filter (\<lambda>x. bld_OrgID x \<noteq> oid) (builds d)"
  "resource_quotas (delete_org_rows oid gp d) = filter (\<lambda>x. rq_OrgID x \<noteq> oid) (resource_quotas d)"
  "audit_logs (delete_org_rows oid gp d) = filter (\<lambda>x. al_OrgID x \<noteq> oid) (audit_logs d)"
  "containers (delete_org_rows oid gp d) = filter (\<lambda>c. \<not> list_ex (\<lambda>x. dep_ID x = con_DeploymentID c \<and> dep_OrgID x = oid) (deployments d)) (containers d)"
  by (simp_all add: delete_org_rows_def Let_def)

lemma delete_org_rows_confined:
  assumes dist: "distinct (map dep_ID (deployments d))" and o': "o' \<noteq> oid"
    and dom: "\<And>x. x \<in> set (domains d) \<Longrightarrow> dom_OrgID x = o' \<Longrightarrow> \<not> gp (dom_ProjectID x)"
  shows "tenant_slice o' (delete_org_rows oid gp d) = tenant_slice o' d"
proof -
  let ?gd = "\<lambda>i. list_ex (\<lambda>x. dep_ID x = i \<and> dep_OrgID x = oid) (deployments d)"
  have gone: "\<not> ?gd (con_DeploymentID c)" if c: "container_in o' d c" for c
  proof
    assume "?gd (con_DeploymentID c)"
    then obtain y where y: "y \<in> set (deployments d)" "dep_ID y = con_DeploymentID c" "dep_OrgID y = oid"
      unfolding list_ex_iff by blast
    obtain x where x: "x \<in> set (deployments d)" "dep_ID x = con_DeploymentID c" "dep_OrgID x = o'"
      using c unfolding container_in_def by blast
    then have "x = y" using y dist by (metis distinct_map inj_onD)
    with x y o' show False by simp
  qed
  have cin: "container_in o' (delete_org_rows oid gp d) = container_in o' d"
    unfolding container_in_def delete_org_rows_frame using o' by auto
  have con: "filter (container_in o' (delete_org_rows oid gp d)) (containers (delete_org_rows oid gp d)) =
      filter (container_in o' d) (containers d)"
    unfolding cin delete_org_rows_frame by (rule filter_keep) (rule gone)
  have doms: "filter (\<lambda>x. dom_OrgID x = o') (domains (delete_org_rows oid gp d)) = filter (\<lambda>x. dom_OrgID x = o') (domains d)"
    unfolding delete_org_rows_frame using dom o' by (intro filter_keep) auto
  have apps: "applications (delete_org_rows oid gp d) = applications d" by (rule delete_org_rows_frame)
  show ?thesis
    unfolding tenant_slice_def con doms apps unfolding delete_org_rows_frame filter_other [OF o'] ..
qed

lemma delete_organization_confined:
  assumes inv: "tenant_inv d" and o': "o' \<noteq> oid"
  shows "tenant_slice o' (delete_organization oid d) = tenant_slice o' d"
proof -
  let ?gp = "\<lambda>p. list_ex (\<lambda>x. proj_ID x = p \<and> proj_OrgID x = oid) (projects d)"
  let ?P = "\<lambda>a. app_OrgID a = oid \<or> ?gp (app_ProjectID a)"
  let ?d1 = "delete_applications ?P d"
  have proj: "oid = og" if "refs child proj_key xs (projects d)" "x \<in> set xs" "child x = (pid, og)" "?gp pid" for child xs x pid og
    using refs_unique [OF that(1,2)] that(3,4) by (fastforce simp: list_ex_iff proj_key_def)
  have P: "app_OrgID a = oid" if "a \<in> set (applications d)" "?P a" for a
    using proj [of "\<lambda>a. (app_ProjectID a, app_OrgID a)" "applications d" a] inv that by (auto simp: tenant_inv_def)
  have dom: "\<not> ?gp (dom_ProjectID x)" if "x \<in> set (domains ?d1)" "dom_OrgID x = o'" for x
    using proj [of "\<lambda>x. (dom_ProjectID x, dom_OrgID x)" "domains d" x "dom_ProjectID x" "dom_OrgID x"] inv that o'
    by (auto simp: tenant_inv_def delete_applications_def Let_def)
  have dist: "distinct (map dep_ID (deployments ?d1))"
    using inv by (simp add: tenant_inv_def delete_applications_def Let_def distinct_map_filterI)
  show ?thesis
    unfolding delete_organization_def Let_def
    using delete_org_rows_confined [where gp = ?gp, OF dist o' dom] delete_applications_confined [OF inv P o'] by simp
qed

lemma container_in_deploy:
  "dep_ID x \<notin> dep_ID ` set (deployments d) \<Longrightarrow> con_DeploymentID ` set (containers d) \<subseteq> dep_ID ` set (deployments d) \<Longrightarrow>
   c \<in> set (containers d) \<Longrightarrow> container_in oid (d\<lparr>applications := as, deployments := deployments d @ [x]\<rparr>) c \<longleftrightarrow> container_in oid d c"
  by (auto simp: container_in_def)

lemma container_in_frame [simp]:
  "container_in oid (d\<lparr>organizations := a\<rparr>) = container_in oid d" "container_in oid (d\<lparr>memberships := b\<rparr>) = container_in oid d"
  "container_in oid (d\<lparr>api_keys := c\<rparr>) = container_in oid d" "container_in oid (d\<lparr>projects := e\<rparr>) = container_in oid d"
  "container_in oid (d\<lparr>applications := f\<rparr>) = container_in oid d" "container_in oid (d\<lparr>builds := g\<rparr>) = container_in oid d"
  "container_in oid (d\<lparr>domains := h\<rparr>) = container_in oid d" "container_in oid (d\<lparr>audit_logs := i\<rparr>) = container_in oid d"
  by (simp_all add: container_in_def fun_eq_iff)

lemma tenant_change_confined:
  assumes "tenant_change action oid d d'" "tenant_inv d"
  shows "confined oid d d'"
proof -
  from assms show ?thesis
  proof (induction rule: tenant_change.induct)
    case (org_delete oid d)
    then show ?case using delete_organization_confined
      by (simp add: confined_def delete_organization_def Let_def delete_org_rows_frame)
  next
    case (app_delete d P oid)
    then show ?case using delete_applications_confined [of d P oid] by (simp add: confined_def)
  next
    case (remove_member oid P d)
    then have "filter (\<lambda>m. mem_OrgID m = o') (filter P (memberships d)) = filter (\<lambda>m. mem_OrgID m = o') (memberships d)"
      if "o' \<noteq> oid" for o' using that by (intro filter_keep) auto
    then show ?case by (simp add: confined_def tenant_slice_def del: filter_filter)
  next
    case (domain_delete d oid P)
    then have "filter (\<lambda>m. dom_OrgID m = o') (filter P (domains d)) = filter (\<lambda>m. dom_OrgID m = o') (domains d)"
      if "o' \<noteq> oid" for o' using that by (intro filter_keep) auto
    then show ?case by (simp add: confined_def tenant_slice_def del: filter_filter)
  next
    case (deploy oid f d x)
    then have "filter (container_in o' (d\<lparr>applications := map f (applications d), deployments := deployments d @ [x]\<rparr>)) (containers d) =
        filter (container_in o' d) (containers d)" for o'
      by (intro filter_cong refl container_in_deploy) (auto simp: tenant_inv_def)
    with deploy show ?case by (simp add: confined_def tenant_slice_def filter_edits)
  qed (simp_all add: confined_def tenant_slice_def filter_edits)
qed

lemma confined_audit:
  "confined oid d d1 \<Longrightarrow> al_OrgID e = oid \<Longrightarrow> confined oid d (d1\<lparr>audit_logs := audit_logs d1 @ [e]\<rparr>)"
  by (simp add: confined_def tenant_slice_def)

lemma tenant_step_confined:
  assumes "tenant_step action oid u d d'" "tenant_inv d"
  shows "confined oid d d'"
proof -
  obtain d1 where d1: "tenant_change action oid d d1"
    and d': "d' = d1 \<or> (\<exists>e. al_OrgID e = oid \<and> d' = d1\<lparr>audit_logs := audit_logs d1 @ [e]\<rparr>)"
    using assms(1) unfolding tenant_step_def audited_def by metis
  from d' confined_audit [OF tenant_change_confined [OF d1 assms(2)]] tenant_change_confined [OF d1 assms(2)]
  show ?thesis by blast
qed

subsection \<open>Every step keeps the invariant\<close>

lemma refs_map_parent: "(\<And>y. y \<in> set ys \<Longrightarrow> parent (f y) = parent y) \<Longrightarrow> refs child parent xs (map f ys) = refs child parent xs ys"
  by (simp add: refs_def image_image comp_def cong: map_cong image_cong)

lemma refs_map_child: "(\<And>x. x \<in> set xs \<Longrightarrow> child (f x) = child x) \<Longrightarrow> refs child parent (map f xs) ys = refs child parent xs ys"
  by (simp add: refs_def image_image cong: image_cong)

lemma refs_add_child: "refs child parent (xs @ [x]) ys \<longleftrightarrow> refs child parent xs ys \<and> child x \<in> parent ` set ys"
  by (auto simp: refs_def)

lemma refs_add_parent: "refs child parent xs ys \<Longrightarrow> fst (parent y) \<notin> (fst \<circ> parent) ` set ys \<Longrightarrow> refs child parent xs (ys @ [y])"
  by (auto simp: refs_def)

lemma refs_filter_child: "refs child parent xs ys \<Longrightarrow> refs child parent (filter P xs) ys"
  by (auto simp: refs_def)

lemma refs_filter:
  assumes "refs child parent xs ys" "\<And>x y. x \<in> set xs \<Longrightarrow> P x \<Longrightarrow> y \<in> set ys \<Longrightarrow> child x = parent y \<Longrightarrow> Q y"
  shows "refs child parent (filter P xs) (filter Q ys)"
proof -
  have "child x \<in> parent ` set (filter Q ys)" if x: "x \<in> set xs" "P x" for x
  proof -
    obtain y where "y \<in> set ys" "child x = parent y" using assms(1) x(1) by (auto simp: refs_def)
    with assms(2) [OF x] show ?thesis by auto
  qed
  with assms(1) show ?thesis by (auto simp: refs_def distinct_map_filterI)
qed

lemma tenant_inv_container:
  "tenant_inv d \<Longrightarrow> c \<in> set (containers d) \<Longrightarrow> \<exists>x \<in> set (deployments d). dep_ID x = con_DeploymentID c"
  unfolding tenant_inv_def by (metis (no_types, lifting) image_iff image_subset_iff)

definition gone_app :: "(Application \<Rightarrow> bool) \<Rightarrow> db \<Rightarrow> uuid \<Rightarrow> bool" where
  "gone_app P d aid \<longleftrightarrow> list_ex (\<lambda>x. app_ID x = aid \<and> P x) (applications d)"

definition gone_dep :: "(Application \<Rightarrow> bool) \<Rightarrow> db \<Rightarrow> uuid \<Rightarrow> bool" where
  "gone_dep P d i \<longleftrightarrow> list_ex (\<lambda>x. dep_ID x = i \<and> gone_app P d (dep_ApplicationID x)) (deployments d)"

lemma delete_applications_tables:
  "applications (delete_applications P d) = filter (\<lambda>x. \<not> P x) (applications d)"
  "deployments (delete_applications P d) = filter (\<lambda>x. \<not> gone_app P d (dep_ApplicationID x)) (deployments d)"
  "domains (delete_applications P d) = filter (\<lambda>x. \<not> gone_app P d (dom_ApplicationID x)) (domains d)"
  "builds (delete_applications P d) = filter (\<lambda>x. \<not> gone_app P d (bld_ApplicationID x)) (builds d)"
  "containers (delete_applications P d) = filter (\<lambda>x. \<not> gone_dep P d (con_DeploymentID x)) (containers d)"
  by (simp_all add: delete_applications_def Let_def gone_app_def gone_dep_def)

lemma delete_applications_inv:
  assumes "tenant_inv d"
  shows "tenant_inv (delete_applications P d)"
proof -
  have keep: "\<not> P y" if "y \<in> set (applications d)" "(aid, og) = app_key y" "\<not> gone_app P d aid" for y aid og
    using that by (auto simp: gone_app_def list_ex_iff app_key_def)
  have con: "con_DeploymentID c \<in> dep_ID ` set (filter (\<lambda>x. \<not> gone_app P d (dep_ApplicationID x)) (deployments d))"
    if c: "c \<in> set (containers d)" "\<not> gone_dep P d (con_DeploymentID c)" for c
  proof -
    obtain x where "x \<in> set (deployments d)" "dep_ID x = con_DeploymentID c"
      using tenant_inv_container [OF assms c(1)] by blast
    moreover from this c(2) have "\<not> gone_app P d (dep_ApplicationID x)" by (auto simp: gone_dep_def list_ex_iff)
    ultimately show ?thesis by (force simp: image_iff)
  qed
  have "refs (\<lambda>x. (dep_ApplicationID x, dep_OrgID x)) app_key (deployments (delete_applications P d)) (applications (delete_applications P d))"
    unfolding delete_applications_tables using assms keep by (intro refs_filter) (auto simp: tenant_inv_def)
  moreover have "refs (\<lambda>x. (bld_ApplicationID x, bld_OrgID x)) app_key (builds (delete_applications P d)) (applications (delete_applications P d))"
    unfolding delete_applications_tables using assms keep by (intro refs_filter) (auto simp: tenant_inv_def)
  moreover have "refs (\<lambda>x. (dom_ApplicationID x, dom_OrgID x)) app_key (domains (delete_applications P d)) (applications (delete_applications P d))"
    unfolding delete_applications_tables using assms keep by (intro refs_filter) (auto simp: tenant_inv_def)
  ultimately show ?thesis
    using assms con unfolding tenant_inv_def delete_applications_frame
    by (simp add: delete_applications_tables refs_filter_child distinct_map_filterI image_subset_iff)
qed

lemma delete_org_rows_inv:
  assumes inv: "tenant_inv d" and apps: "\<And>a. a \<in> set (applications d) \<Longrightarrow> app_OrgID a \<noteq> oid"
  shows "tenant_inv (delete_org_rows oid gp d)"
proof -
  have "refs (\<lambda>a. (app_ProjectID a, app_OrgID a)) proj_key (filter (\<lambda>_. True) (applications d)) (filter (\<lambda>x. proj_OrgID x \<noteq> oid) (projects d))"
    using inv apps by (intro refs_filter) (auto simp: tenant_inv_def proj_key_def)
  moreover have "refs (\<lambda>x. (dom_ProjectID x, dom_OrgID x)) proj_key
      (filter (\<lambda>x. dom_OrgID x \<noteq> oid \<and> \<not> gp (dom_ProjectID x)) (domains d)) (filter (\<lambda>x. proj_OrgID x \<noteq> oid) (projects d))"
    using inv by (intro refs_filter) (auto simp: tenant_inv_def proj_key_def)
  moreover have "has_owner (filter (\<lambda>x. mem_OrgID x \<noteq> oid) ms) o'" if "has_owner ms o'" "o' \<noteq> oid" for ms o'
    using that by (auto simp: has_owner_def)
  moreover have "con_DeploymentID c \<in> dep_ID ` set (filter (\<lambda>x. dep_OrgID x \<noteq> oid) (deployments d))"
    if c: "c \<in> set (containers d)" "\<not> list_ex (\<lambda>x. dep_ID x = con_DeploymentID c \<and> dep_OrgID x = oid) (deployments d)" for c
  proof -
    obtain x where "x \<in> set (deployments d)" "dep_ID x = con_DeploymentID c"
      using tenant_inv_container [OF inv c(1)] by blast
    moreover from this c(2) have "dep_OrgID x \<noteq> oid" by (auto simp: list_ex_iff)
    ultimately show ?thesis by (force simp: image_iff)
  qed
  moreover have "mem_OrgID m \<in> org_ID ` set (filter (\<lambda>x. org_ID x \<noteq> oid) (organizations d))"
    if "m \<in> set (memberships d)" "mem_OrgID m \<noteq> oid" for m
  proof -
    have "mem_OrgID m \<in> org_ID ` set (organizations d)" using inv that(1) unfolding tenant_inv_def by blast
    with that(2) show ?thesis by auto
  qed
  ultimately show ?thesis
    using inv unfolding tenant_inv_def delete_org_rows_frame
    by (simp add: refs_filter_child distinct_map_filterI image_subset_iff)
qed

lemma delete_organization_inv:
  assumes "tenant_inv d"
  shows "tenant_inv (delete_organization oid d)"
  unfolding delete_organization_def Let_def
  by (rule delete_org_rows_inv [OF delete_applications_inv [OF assms]]) (simp add: delete_applications_tables)

lemma has_owner_append: "has_owner ms oid \<Longrightarrow> has_owner (ms @ ms') oid"
  by (auto simp: has_owner_def)

lemma has_owner_edits:
  "edits oid mem_OrgID member_key f ms \<Longrightarrow> o' \<noteq> oid \<Longrightarrow> has_owner ms o' \<Longrightarrow> has_owner (map f ms) o'"
  by (auto simp: has_owner_def edits_def)

lemma has_owner_filter:
  "(\<And>m. mem_OrgID m \<noteq> oid \<Longrightarrow> P m) \<Longrightarrow> o' \<noteq> oid \<Longrightarrow> has_owner ms o' \<Longrightarrow> has_owner (filter P ms) o'"
  by (auto simp: has_owner_def)

lemma app_edits_inv:
  assumes "tenant_inv d" "edits oid app_OrgID (\<lambda>a. (app_ID a, app_ProjectID a)) f (applications d)"
  shows "tenant_inv (d\<lparr>applications := map f (applications d)\<rparr>)"
proof -
  have "app_key (f a) = app_key a" "(app_ProjectID (f a), app_OrgID (f a)) = (app_ProjectID a, app_OrgID a)"
    if "a \<in> set (applications d)" for a
    using assms(2) that by (simp_all add: edits_def app_key_def)
  with assms(1) show ?thesis
    by (simp add: tenant_inv_def refs_map_parent refs_map_child [where child = "\<lambda>a. (app_ProjectID a, app_OrgID a)"])
qed

lemma tenant_change_inv:
  assumes "tenant_change action oid d d'" "tenant_inv d"
  shows "tenant_inv d'"
  using assms
proof (induction rule: tenant_change.induct)
  case (org_update oid f d)
  then have "org_ID ` f ` set (organizations d) = org_ID ` set (organizations d)" by (simp add: edits_def image_image)
  with org_update show ?case by (simp add: tenant_inv_def edits_def)
next
  case (org_delete oid d)
  then show ?case by (rule delete_organization_inv)
next
  case (invite m oid d)
  then show ?case by (auto simp: tenant_inv_def has_owner_append)
next
  case (change_role oid f d)
  have "distinct (map (member_key \<circ> f) (memberships d))"
    using change_role(1,3) by (simp add: edits_def tenant_inv_def comp_def cong: map_cong)
  moreover have "has_owner (map f (memberships d)) (org_ID x)" if "x \<in> set (organizations d)" for x
    using change_role that has_owner_edits [OF change_role(1)] by (cases "org_ID x = oid") (auto simp: tenant_inv_def)
  moreover have "mem_OrgID ` f ` set (memberships d) = mem_OrgID ` set (memberships d)"
    using change_role(1) by (simp add: edits_def image_image)
  ultimately show ?case using change_role(3) by (simp add: tenant_inv_def)
next
  case (remove_member oid P d)
  have "has_owner (filter P (memberships d)) (org_ID x)" if "x \<in> set (organizations d)" for x
    using remove_member that has_owner_filter [of oid P] by (cases "org_ID x = oid") (auto simp: tenant_inv_def)
  then show ?case using remove_member(3) by (simp add: tenant_inv_def distinct_map_filterI image_subset_iff)
next
  case (project_create p oid d)
  then show ?case by (auto simp: tenant_inv_def proj_key_def intro!: refs_add_parent)
next
  case (app_create a oid d)
  then show ?case by (auto simp: tenant_inv_def refs_add_child app_key_def intro!: refs_add_parent)
next
  case (app_scale oid f d)
  then show ?case by (intro app_edits_inv)
next
  case (app_delete d P oid)
  then show ?case by (intro delete_applications_inv)
next
  case (deploy oid f d x)
  have "app_key (f a) = app_key a" if "a \<in> set (applications d)" for a
    using deploy(1) that by (simp add: edits_def app_key_def)
  then have "(dep_ApplicationID x, oid) \<in> app_key ` set (map f (applications d))" using deploy(4) by (force simp: image_iff)
  with app_edits_inv [OF deploy(5,1)] deploy(2,3) show ?case
    by (auto simp: tenant_inv_def refs_add_child)
next
  case (domain_delete d oid P)
  then show ?case by (simp add: tenant_inv_def refs_filter_child distinct_map_filterI)
next
  case (key_revoke oid f d)
  then show ?case by (simp add: tenant_inv_def edits_def comp_def cong: map_cong)
qed (simp_all add: tenant_inv_def refs_add_child)

lemma tenant_step_inv: "tenant_step action oid u d d' \<Longrightarrow> tenant_inv d \<Longrightarrow> tenant_inv d'"
proof -
  assume step: "tenant_step action oid u d d'" and inv: "tenant_inv d"
  obtain d1 where d1: "tenant_change action oid d d1" and d': "d' = d1 \<or> (\<exists>e. d' = d1\<lparr>audit_logs := audit_logs d1 @ [e]\<rparr>)"
    using step unfolding tenant_step_def by metis
  have "tenant_inv (d1\<lparr>audit_logs := l\<rparr>) = tenant_inv d1" for l by (simp add: tenant_inv_def)
  with tenant_change_inv [OF d1 inv] d' show ?thesis by auto
qed

text \<open>A step never removes an entry of the audit log, unless it deletes the organization; it adds one.\<close>

lemma tenant_change_audit:
  "tenant_change action oid d d' \<Longrightarrow> action \<noteq> ''organization.delete'' \<Longrightarrow> audit_logs d' = audit_logs d"
  by (induction rule: tenant_change.induct) simp_all

lemma tenant_step_audit:
  assumes "tenant_step action oid u d d'" "action \<noteq> ''organization.delete''"
  shows "\<exists>e. audited action oid u e \<and> audit_logs d' = audit_logs d @ [e]"
  using assms tenant_change_audit unfolding tenant_step_def by fastforce

end
