(* ===== verification/ApiRoutes.thy ===== *)
theory ApiRoutes
  imports ApiApps Tenancy
begin

section \<open>The routes refine the specification of tenancy\<close>

text \<open>
  \<open>Server.Routes\<close>: the authenticated routes with their handlers, and what the platform's
  documentation demands of each of them: the permission it needs and the actions it may take. The main
  result is that a request either leaves the database as it was or takes one step of the tenancy
  specification, in an organization in which the caller's role has the permission.
\<close>

datatype route =
  GetOrganization | UpdateOrganization | DeleteOrganization | ListMembers | InviteMember | ChangeMemberRole | RemoveMember
| CreateAPIKey | ListAPIKeys | RevokeAPIKey | GetQuota | GetAuditLogs | CreateProject | CreateApplication | Deploy
| GetDeployments | GetBuilds | ScaleApplication | DeleteApplication | GetNodes | CreateDomain | ListDomains | DeleteDomain

fun Routes :: "route \<Rightarrow> server \<Rightarrow> request \<Rightarrow> http_response op" where
  "Routes GetOrganization = handleGetOrganization"
| "Routes UpdateOrganization = handleUpdateOrganization"
| "Routes DeleteOrganization = handleDeleteOrganization"
| "Routes ListMembers = handleListMembers"
| "Routes InviteMember = handleInviteMember"
| "Routes ChangeMemberRole = handleChangeMemberRole"
| "Routes RemoveMember = handleRemoveMember"
| "Routes CreateAPIKey = handleCreateAPIKey"
| "Routes ListAPIKeys = handleListAPIKeys"
| "Routes RevokeAPIKey = handleRevokeAPIKey"
| "Routes GetQuota = handleGetQuota"
| "Routes GetAuditLogs = handleGetAuditLogs"
| "Routes CreateProject = handleCreateProject"
| "Routes CreateApplication = handleCreateApplication"
| "Routes Deploy = handleDeploy"
| "Routes GetDeployments = handleGetDeployments"
| "Routes GetBuilds = handleGetBuilds"
| "Routes ScaleApplication = handleScaleApplication"
| "Routes DeleteApplication = handleDeleteApplication"
| "Routes GetNodes = handleGetNodes"
| "Routes CreateDomain = handleCreateDomain"
| "Routes ListDomains = handleListDomains"
| "Routes DeleteDomain = handleDeleteDomain"

text \<open>The permission and the actions of the routes that write.\<close>

fun write_permission :: "route \<Rightarrow> Permission option" where
  "write_permission UpdateOrganization = Some PermOrganizationManage"
| "write_permission DeleteOrganization = Some PermOrganizationDelete"
| "write_permission InviteMember = Some PermMembersInvite"
| "write_permission ChangeMemberRole = Some PermMembersChangeRole"
| "write_permission RemoveMember = Some PermMembersRemove"
| "write_permission CreateAPIKey = Some PermAPIKeysCreate"
| "write_permission RevokeAPIKey = Some PermAPIKeysRevoke"
| "write_permission CreateProject = Some PermProjectCreate"
| "write_permission CreateApplication = Some PermApplicationCreate"
| "write_permission Deploy = Some PermApplicationDeploy"
| "write_permission ScaleApplication = Some PermApplicationScale"
| "write_permission DeleteApplication = Some PermApplicationDelete"
| "write_permission CreateDomain = Some PermDomainsManage"
| "write_permission DeleteDomain = Some PermDomainsManage"
| "write_permission _ = None"

fun write_actions :: "route \<Rightarrow> string list" where
  "write_actions UpdateOrganization = [''organization.update'']"
| "write_actions DeleteOrganization = [''organization.delete'']"
| "write_actions InviteMember = [''member.invite'']"
| "write_actions ChangeMemberRole = [''member.change_role'']"
| "write_actions RemoveMember = [''member.remove'']"
| "write_actions CreateAPIKey = [''api_key.create'']"
| "write_actions RevokeAPIKey = [''api_key.revoke'']"
| "write_actions CreateProject = [''project.create'']"
| "write_actions CreateApplication = [''application.create'']"
| "write_actions Deploy = [''deployment.create'', ''build.create'']"
| "write_actions ScaleApplication = [''application.scale'']"
| "write_actions DeleteApplication = [''application.delete'']"
| "write_actions CreateDomain = [''domain.create'']"
| "write_actions DeleteDomain = [''domain.delete'']"
| "write_actions _ = []"

definition key_allows :: "auth_ctx \<Rightarrow> uuid \<Rightarrow> bool" where
  "key_allows ctx oid \<longleftrightarrow> (case ctx_key_org ctx of Some k \<Rightarrow> k = oid | None \<Rightarrow> True)"

definition permitted :: "auth_ctx \<Rightarrow> db \<Rightarrow> uuid \<Rightarrow> uuid \<Rightarrow> Permission \<Rightarrow> bool" where
  "permitted ctx d u oid perm \<longleftrightarrow> key_allows ctx oid \<and>
     (\<exists>m \<in> set (memberships d). mem_UserID m = u \<and> mem_OrgID m = oid \<and> HasPermission (mem_Role m) perm)"

definition authorized_step :: "auth_ctx \<Rightarrow> uuid \<Rightarrow> Permission \<Rightarrow> string \<Rightarrow> db \<Rightarrow> db \<Rightarrow> bool" where
  "authorized_step ctx u perm action d d' \<longleftrightarrow> (\<exists>oid. permitted ctx d u oid perm \<and> tenant_step action oid u d d')"

subsection \<open>Composing effects\<close>

text \<open>
  The API server's connections are subject to row-level security. \<open>effect R m\<close>: from a database
  with the invariant, \<open>m\<close> leaves the tables as they are or changes them as \<open>R\<close> allows, and leaves the session.
\<close>

definition api_ready :: "world \<Rightarrow> bool" where
  "api_ready w \<longleftrightarrow> tenant_inv (w_db w) \<and> \<not> bypass_rls (w_sess w)"

definition effect :: "(db \<Rightarrow> db \<Rightarrow> bool) \<Rightarrow> 'a op \<Rightarrow> bool" where
  "effect R m \<longleftrightarrow> (\<forall>w. api_ready w \<longrightarrow> w_sess (snd (m w)) = w_sess w \<and>
     (w_db (snd (m w)) = w_db w \<or> R (w_db w) (w_db (snd (m w)))))"

definition steady :: "'a op \<Rightarrow> bool" where
  "steady m \<longleftrightarrow> (\<forall>w. w_db (snd (m w)) = w_db w \<and> w_sess (snd (m w)) = w_sess w)"

lemma steadyD: "steady m \<Longrightarrow> m w = (r, w') \<Longrightarrow> w_db w' = w_db w \<and> w_sess w' = w_sess w"
  by (metis steady_def snd_conv)

lemma steady_prim [frame]:
  "steady (ret x)" "steady (throw e)" "steady (lift e y)" "steady (query g)" "steady now_op" "steady newUUID"
  "steady (PublishDurable s d)" "steady (require b e)"
  by (auto simp: steady_def ret_def throw_def lift_def query_def exec_def now_op_def newUUID_def PublishDurable_def
      require_def split: option.splits)

lemma steady_bindE [frame]: "steady m \<Longrightarrow> (\<And>x. steady (f x)) \<Longrightarrow> steady (bindE m f)"
  unfolding steady_def bindE_def by (auto split: prod.splits sum.splits) (metis snd_conv)+

lemma steady_mapErr [frame]: "steady m \<Longrightarrow> steady (mapErr g m)"
  by (auto simp: steady_def mapErr_def catchE_def throw_def split: prod.splits sum.splits) (metis snd_conv)+

lemma steady_if [frame]: "steady m \<Longrightarrow> steady n \<Longrightarrow> steady (if b then m else n)"
  by simp

lemma steady_foreach [frame]: "(\<And>x. steady (f x)) \<Longrightarrow> steady (foreach f xs)"
  by (induction xs) (auto intro: steady_bindE simp: steady_prim)

lemma steady_path_uuid [frame]: "steady (path_uuid sv r n)"
  by (simp add: path_uuid_def steady_prim)

lemma steady_tokens [frame]: "steady (newAPIKey sv)" "steady (newRefreshToken sv)"
  by (auto simp: steady_def newAPIKey_def newRefreshToken_def lift_def ret_def throw_def split: option.splits)

lemma steady_publish [frame]: "steady (publishIfConnected sv s d)"
  by (simp add: publishIfConnected_def steady_prim)

lemma steady_WithTx [frame]:
  assumes "readonly m"
  shows "steady (WithTx u og m)"
  unfolding steady_def
proof
  fix w
  obtain r w' where run: "WithTx u og m w = (r, w')" by fastforce
  show "w_db (snd (WithTx u og m w)) = w_db w \<and> w_sess (snd (WithTx u og m w)) = w_sess w"
  proof (cases r)
    case (Inl e)
    with run WithTx_Inl [of u og m w e w'] show ?thesis by simp
  next
    case (Inr x)
    with run WithTx_Inr [of u og m w x w'] obtain w1 where w1: "m (tx_prologue u og w) = (Inr x, w1)" "w' = (tick w1)\<lparr>w_sess := w_sess w\<rparr>" by auto
    with readonlyD [OF assms w1(1)] run show ?thesis by simp
  qed
qed

lemma effect_steady: "steady m \<Longrightarrow> effect R m"
  by (auto simp: effect_def steady_def)

lemma effect_bindE:
  assumes "steady m" "\<And>x. effect R (f x)"
  shows "effect R (bindE m f)"
  unfolding effect_def
proof (intro allI impI)
  fix w assume w: "api_ready w"
  obtain r w1 where m: "m w = (r, w1)" by fastforce
  note s = steadyD [OF assms(1) m]
  show "w_sess (snd (bindE m f w)) = w_sess w \<and> (w_db (snd (bindE m f w)) = w_db w \<or> R (w_db w) (w_db (snd (bindE m f w))))"
  proof (cases r)
    case (Inl e)
    with m s show ?thesis by (simp add: bindE_def)
  next
    case (Inr x)
    have "api_ready w1" using w s by (simp add: api_ready_def)
    with assms(2) [of x] m s Inr show ?thesis unfolding effect_def by (auto simp: bindE_def)
  qed
qed

lemma effect_then:
  assumes "effect R m" "\<And>x. steady (f x)"
  shows "effect R (bindE m f)"
proof -
  have "w_db (snd (bindE m f w)) = w_db (snd (m w)) \<and> w_sess (snd (bindE m f w)) = w_sess (snd (m w))" for w
    using assms(2) unfolding steady_def by (auto simp: bindE_def split: prod.splits sum.splits)
  with assms(1) show ?thesis by (simp add: effect_def)
qed

lemma effect_WithTx:
  assumes "\<And>w x w1. api_ready w \<Longrightarrow> m (tx_prologue u og w) = (Inr x, w1) \<Longrightarrow> R (w_db w) (w_db w1)"
  shows "effect R (WithTx u og m)"
  unfolding effect_def
proof (intro allI impI)
  fix w assume w: "api_ready w"
  obtain r w' where run: "WithTx u og m w = (r, w')" by fastforce
  show "w_sess (snd (WithTx u og m w)) = w_sess w \<and> (w_db (snd (WithTx u og m w)) = w_db w \<or> R (w_db w) (w_db (snd (WithTx u og m w))))"
  proof (cases r)
    case (Inl e)
    with run WithTx_Inl [of u og m w e w'] show ?thesis by simp
  next
    case (Inr x)
    with run WithTx_Inr [of u og m w x w'] obtain w1 where w1: "m (tx_prologue u og w) = (Inr x, w1)" "w' = (tick w1)\<lparr>w_sess := w_sess w\<rparr>" by auto
    with assms [OF w w1(1)] run show ?thesis by simp
  qed
qed

lemma effect_split: "(\<And>a b. effect R (f a b)) \<Longrightarrow> effect R (case p of (a, b) \<Rightarrow> f a b)"
  by (cases p) simp

lemma steady_split [frame]: "(\<And>a b. steady (f a b)) \<Longrightarrow> steady (case p of (a, b) \<Rightarrow> f a b)"
  by (cases p) simp

subsection \<open>What the shared checks establish\<close>

lemma requirePermission_Inr:
  assumes "requirePermission ctx u oid perm w = (Inr x, w')"
  shows "permitted ctx (w_db w) u oid perm \<and> w' = tick w \<and>
    (\<exists>m \<in> set (memberships (w_db w)). mem_UserID m = u \<and> mem_OrgID m = oid \<and> HasPermission (mem_Role m) perm \<and>
      membership_visible (w_sess w) (w_db w) m)"
  using assms
  by (auto simp: requirePermission_def requireAPIKeyOrgMatch_def APIKeyOrgIDFromContext_def Memberships_RoleForUser_def
      op_simps permitted_def key_allows_def split: option.splits if_splits dest!: find_Some_set)

lemma requireMembership_Inr:
  assumes "requireMembership ctx u oid w = (Inr role, w')"
  shows "key_allows ctx oid \<and> w' = tick w \<and>
    (\<exists>m \<in> set (memberships (w_db w)). mem_UserID m = u \<and> mem_OrgID m = oid \<and> mem_Role m = role)"
  using assms
  by (auto simp: requireMembership_def requireAPIKeyOrgMatch_def APIKeyOrgIDFromContext_def Memberships_RoleForUser_def
      op_simps key_allows_def split: option.splits if_splits dest!: find_Some_set)

lemma recordAudit_Inr:
  assumes "recordAudit oid u action targetType targetID md w = (Inr x, w')"
  shows "\<exists>e. audited action oid u e \<and> w_db w' = (w_db w)\<lparr>audit_logs := audit_logs (w_db w) @ [e]\<rparr>"
  by (rule exI [of _ "(audit_entry oid u action targetType targetID md)\<lparr>al_ID := w_fresh w (w_stmts w), al_CreatedAt := w_now w\<rparr>"])
    (use assms in \<open>auto simp: recordAudit_def AuditLogs_Record_def op_simps audit_entry_def Let_def audited_def\<close>)

lemma authorized_stepI:
  assumes "permitted ctx d u oid perm" "tenant_change action oid d d1" "action \<noteq> ''organization.delete''"
    and "\<exists>e. audited action oid u e \<and> d' = d1\<lparr>audit_logs := audit_logs d1 @ [e]\<rparr>"
  shows "authorized_step ctx u perm action d d'"
  using assms unfolding authorized_step_def tenant_step_def by metis

definition audits :: "string \<Rightarrow> uuid \<Rightarrow> uuid \<Rightarrow> 'a op \<Rightarrow> bool" where
  "audits action oid u m \<longleftrightarrow> (\<forall>w y w'. m w = (Inr y, w') \<longrightarrow>
     (\<exists>e. audited action oid u e \<and> w_db w' = (w_db w)\<lparr>audit_logs := audit_logs (w_db w) @ [e]\<rparr>))"

lemma audits_record: "audits action oid u (recordAudit oid u action tt tid md)"
  "audits action oid u (bindE (recordAudit oid u action tt tid md) (\<lambda>_. ret z))"
  by (auto simp: audits_def op_simps dest!: recordAudit_Inr)

subsection \<open>Following a transaction to its audit entry\<close>

text \<open>
  \<open>reads m\<close>: where \<open>m\<close> succeeds, it has only read. \<open>recorded action oid u m w\<close>: where \<open>m\<close>
  succeeds from \<open>w\<close>, it has made one change of the action in the organization and recorded it.
  \<open>authorized\<close> adds that the caller was permitted to. The rules follow the code of a transaction.
\<close>

definition reads :: "'a op \<Rightarrow> bool" where
  "reads m \<longleftrightarrow> (\<forall>w. \<exists>n. snd (m w) = ticks n w)"

definition recorded :: "string \<Rightarrow> uuid \<Rightarrow> uuid \<Rightarrow> 'a op \<Rightarrow> world \<Rightarrow> bool" where
  "recorded action oid u m w \<longleftrightarrow> (\<forall>y w'. m w = (Inr y, w') \<longrightarrow> tenant_step action oid u (w_db w) (w_db w'))"

definition authorized :: "auth_ctx \<Rightarrow> uuid \<Rightarrow> Permission \<Rightarrow> string \<Rightarrow> 'a op \<Rightarrow> world \<Rightarrow> bool" where
  "authorized ctx u perm action m w \<longleftrightarrow>
     (\<forall>y w'. m w = (Inr y, w') \<longrightarrow> authorized_step ctx u perm action (w_db w) (w_db w'))"

lemma readsD: "reads m \<Longrightarrow> m w = (r, w') \<Longrightarrow> \<exists>n. w' = ticks n w"
  by (metis reads_def snd_conv)

lemma ticks_0: "ticks 0 w = w"
  by (simp add: ticks_def)

lemma reads_prim [frame]:
  "reads (ret x)" "reads (throw e)" "reads (lift e y)" "reads (query g)" "reads (require b e)"
  by (auto simp: reads_def ret_def throw_def lift_def query_def exec_def require_def intro: exI [of _ 0] exI [of _ 1] ticks_0 [symmetric]
      split: option.splits)

lemma reads_exec:
  assumes "\<And>s now u d x d'. f s now u d = Inr (x, d') \<Longrightarrow> d' = d"
  shows "reads (exec f)"
proof -
  have "snd (exec f w) = ticks 1 w" for w
    using assms [of "w_sess w" "w_now w" "w_fresh w (w_stmts w)" "w_db w"] by (auto simp: exec_def split: sum.splits)
  then show ?thesis unfolding reads_def by blast
qed

lemma reads_bindE [frame]: "reads m \<Longrightarrow> (\<And>x. reads (f x)) \<Longrightarrow> reads (bindE m f)"
  unfolding reads_def bindE_def by (auto split: prod.splits sum.splits) (metis snd_conv ticks_ticks(1))+

lemma reads_catchE [frame]: "reads m \<Longrightarrow> (\<And>e. reads (h e)) \<Longrightarrow> reads (catchE m h)"
  unfolding reads_def catchE_def by (auto split: prod.splits sum.splits) (metis snd_conv ticks_ticks(1))+

lemma reads_mapErr [frame]: "reads m \<Longrightarrow> reads (mapErr g m)" "reads m \<Longrightarrow> reads (wrapE msg m)"
  by (simp_all add: mapErr_def wrapE_def reads_catchE reads_prim)

lemma reads_queryRow [frame]: "reads (queryRow msg f)"
  by (simp add: queryRow_def reads_bindE reads_mapErr reads_prim)

lemma reads_if [frame]: "reads m \<Longrightarrow> reads n \<Longrightarrow> reads (if b then m else n)"
  by simp

lemma reads_case_option [frame]: "reads m \<Longrightarrow> (\<And>x. reads (f x)) \<Longrightarrow> reads (case y of None \<Rightarrow> m | Some x \<Rightarrow> f x)"
  by (simp split: option.splits)

lemma reads_optional [frame]: "reads m \<Longrightarrow> reads (optional m)"
  by (simp add: optional_def reads_catchE reads_bindE reads_prim)

lemma recorded_read:
  "reads m \<Longrightarrow> (\<And>x n. m w = (Inr x, ticks n w) \<Longrightarrow> recorded action oid u (k x) (ticks n w)) \<Longrightarrow>
   recorded action oid u (bindE m k) w"
  unfolding recorded_def bindE_Inr by (metis readsD ticks_sel(1))

lemma recorded_change:
  assumes "\<And>x w'. m w = (Inr x, w') \<Longrightarrow> tenant_change action oid (w_db w) (w_db w')" "action \<noteq> ''organization.delete''"
    and "\<And>x. audits action oid u (k x)"
  shows "recorded action oid u (bindE m k) w"
  unfolding recorded_def tenant_step_def bindE_Inr
proof (intro allI impI, elim exE conjE)
  fix y w' x w1 assume run: "m w = (Inr x, w1)" "k x w1 = (Inr y, w')"
  from assms(3) [of x] run(2) obtain e where "audited action oid u e" "w_db w' = (w_db w1)\<lparr>audit_logs := audit_logs (w_db w1) @ [e]\<rparr>"
    unfolding audits_def by blast
  with assms(1) [OF run(1)] assms(2)
  show "\<exists>d1. tenant_change action oid (w_db w) d1 \<and> (if action = ''organization.delete'' then w_db w' = d1
      else \<exists>e. audited action oid u e \<and> w_db w' = d1\<lparr>audit_logs := audit_logs d1 @ [e]\<rparr>)" by auto
qed

lemma recorded_change2:
  assumes "\<And>x w1 y w2. m w = (Inr x, w1) \<Longrightarrow> m2 x w1 = (Inr y, w2) \<Longrightarrow> tenant_change action oid (w_db w) (w_db w2)"
    and "action \<noteq> ''organization.delete''" "\<And>x y. audits action oid u (k x y)"
  shows "recorded action oid u (bindE m (\<lambda>x. bindE (m2 x) (k x))) w"
proof -
  have "bindE m (\<lambda>x. bindE (m2 x) (k x)) w = bindE (bindE m (\<lambda>x. bindE (m2 x) (\<lambda>y. ret (x, y)))) (\<lambda>(x, y). k x y) w"
    by (simp add: bindE_def ret_def split: prod.splits sum.splits)
  moreover have "recorded action oid u (bindE (bindE m (\<lambda>x. bindE (m2 x) (\<lambda>y. ret (x, y)))) (\<lambda>(x, y). k x y)) w"
    using assms by (intro recorded_change) (auto simp: op_simps split: prod.splits)
  ultimately show ?thesis by (simp add: recorded_def)
qed

lemma authorized_read:
  "reads m \<Longrightarrow> (\<And>x n. m w = (Inr x, ticks n w) \<Longrightarrow> authorized ctx u perm action (k x) (ticks n w)) \<Longrightarrow>
   authorized ctx u perm action (bindE m k) w"
  unfolding authorized_def bindE_Inr by (metis readsD ticks_sel(1))

lemma authorized_SetCurrentOrg:
  "authorized ctx u perm action (k ()) ((ticks 1 w)\<lparr>w_sess := (w_sess w)\<lparr>current_org := Some oid\<rparr>\<rparr>) \<Longrightarrow>
   authorized ctx u perm action (bindE (SetCurrentOrg oid) k) w"
  by (auto simp: authorized_def op_simps)

lemma authorized_permission:
  assumes "\<And>m. m \<in> set (memberships (w_db w)) \<Longrightarrow> mem_UserID m = u \<Longrightarrow> mem_OrgID m = oid \<Longrightarrow> HasPermission (mem_Role m) perm \<Longrightarrow>
     membership_visible (w_sess w) (w_db w) m \<Longrightarrow> recorded action oid u (k ()) (ticks 1 w)"
  shows "authorized ctx u perm action (bindE (requirePermission ctx u oid perm) k) w"
    and "authorized ctx u perm action (bindE (mapErr g (requirePermission ctx u oid perm)) k) w"
  using assms unfolding authorized_def recorded_def bindE_Inr mapErr_Inr authorized_step_def
  by (auto dest!: requirePermission_Inr)

lemma effect_authorized:
  "(\<And>w. api_ready w \<Longrightarrow> authorized ctx u perm action m (tx_prologue u og w)) \<Longrightarrow>
   effect (authorized_step ctx u perm action) (WithTx u og m)"
  by (rule effect_WithTx) (fastforce simp: authorized_def)

lemmas tx_route = effect_bindE [OF steady_path_uuid] effect_bindE [OF steady_prim(3)] effect_bindE [OF steady_prim(8)]
  effect_bindE [OF steady_tokens(1)] effect_split effect_then effect_authorized steady_prim steady_split

subsection \<open>Organizations, keys, projects\<close>

lemma UpdateOrganization_effect:
  "effect (authorized_step (in_ctx r) (caller r) PermOrganizationManage ''organization.update'') (handleUpdateOrganization sv r)"
  unfolding handleUpdateOrganization_def
  by (intro tx_route authorized_permission recorded_change)
    (auto simp: op_simps Organizations_Update_def edits_def audits_record intro!: org_update)

lemma DeleteOrganization_effect:
  "effect (authorized_step (in_ctx r) (caller r) PermOrganizationDelete ''organization.delete'') (handleDeleteOrganization sv r)"
  unfolding handleDeleteOrganization_def
  by (intro tx_route authorized_permission)
    (auto simp: recorded_def op_simps Organizations_Delete_def tenant_step_def intro: tenant_change.org_delete)

lemma CreateAPIKey_effect:
  "effect (authorized_step (in_ctx r) (caller r) PermAPIKeysCreate ''api_key.create'') (handleCreateAPIKey sv r)"
  unfolding handleCreateAPIKey_def
  by (intro tx_route authorized_permission recorded_change)
    (auto simp: op_simps APIKeys_Create_def Let_def list_all_iff image_iff audits_record intro!: key_create)

lemma reads_quota [frame]: "reads (Quotas_Get oid)" "reads (Quotas_CurrentUsage oid)"
  unfolding Quotas_Get_def Quotas_CurrentUsage_def
  by (auto simp: Let_def check_def split_def intro!: frame reads_exec split: if_splits)

lemma reads_checkProjectQuota [frame]: "reads (checkProjectQuota oid)" "reads (checkDeploymentQuota oid)"
  unfolding checkProjectQuota_def checkDeploymentQuota_def by (intro frame)+

lemma CreateProject_effect:
  "effect (authorized_step (in_ctx r) (caller r) PermProjectCreate ''project.create'') (handleCreateProject sv r)"
  unfolding handleCreateProject_def
  by (intro tx_route authorized_permission recorded_read [OF reads_checkProjectQuota(1)] recorded_change)
    (auto simp: op_simps Projects_Create_def Let_def list_all_iff image_iff audits_record intro!: project_create)

subsection \<open>Members: the last owner stays\<close>

lemma owner_remains:
  assumes "distinct (map member_key ms)" "has_owner ms oid" "m0 \<in> set ms" "member_key m0 = (oid, t)"
    and "mem_Role m0 = RoleOwner \<Longrightarrow> 1 < length (filter (\<lambda>m. mem_OrgID m = oid \<and> mem_Role m = RoleOwner) ms)"
  shows "\<exists>m \<in> set ms. mem_OrgID m = oid \<and> mem_Role m = RoleOwner \<and> mem_UserID m \<noteq> t"
proof (rule ccontr)
  assume none: "\<not> ?thesis"
  have same: "m = m0" if "m \<in> set ms" "mem_OrgID m = oid" "mem_UserID m = t" for m
    using assms(1,3,4) that by (auto simp: distinct_map member_key_def inj_on_def)
  then have all: "m = m0" if "m \<in> set ms" "mem_OrgID m = oid" "mem_Role m = RoleOwner" for m using none that by blast
  then have owner: "mem_Role m0 = RoleOwner" using assms(2) by (auto simp: has_owner_def)
  let ?os = "filter (\<lambda>m. mem_OrgID m = oid \<and> mem_Role m = RoleOwner) ms"
  have "distinct ?os" using assms(1) by (simp add: distinct_map)
  moreover have "set ?os \<subseteq> {m0}" using all by auto
  ultimately have "length ?os \<le> 1" using distinct_card [of ?os] card_mono [of "{m0}" "set ?os"] by simp
  with assms(5) [OF owner] show False by simp
qed

text \<open>Who may change or remove members sees all members of the organization.\<close>

lemma admin_sees_members:
  assumes "mem_UserID m = u" "mem_OrgID m = oid" "HasPermission (mem_Role m) perm" "m \<in> set (memberships d)"
    and "membership_visible (tx_session u og s) d m" "\<not> bypass_rls s" "perm \<in> {PermMembersChangeRole, PermMembersRemove}"
    and "mem_OrgID m' = oid"
  shows "membership_visible (tx_session u og s) d m'"
proof -
  have "mem_Role m = RoleOwner \<or> mem_Role m = RoleAdmin"
    using assms(3,7) HasPermission_unknown [of "mem_Role m" perm] HasPermission_developer HasPermission_viewer by fastforce
  then have "is_org_admin d u oid" using assms(1,2,4) by (auto simp: is_org_admin_def list_ex_iff)
  with assms(5,6,8) show ?thesis by (auto simp: membership_visible_def split: if_splits)
qed

lemma reads_members [frame]: "reads (Memberships_RoleForUser u oid)" "reads (Memberships_CountOwners oid)" "reads (Users_GetByEmail a)"
  by (simp_all add: Memberships_RoleForUser_def Memberships_CountOwners_def Users_GetByEmail_def reads_prim reads_mapErr reads_queryRow)

lemma reads_lastOwnerGuard [frame]: "reads (lastOwnerGuard c oid message)"
  unfolding lastOwnerGuard_def by (intro frame)

lemma last_owner_guard:
  assumes inv: "tenant_inv (w_db w)" and vis: "\<And>m'. mem_OrgID m' = oid \<Longrightarrow> membership_visible (w_sess w) (w_db w) m'"
    and role: "Memberships_RoleForUser t oid w = (Inr role, w1)"
    and guard: "lastOwnerGuard g oid message w1 = (Inr x, w2)" "role = RoleOwner \<Longrightarrow> g"
  shows "\<exists>m \<in> set (memberships (w_db w)). mem_OrgID m = oid \<and> mem_Role m = RoleOwner \<and> mem_UserID m \<noteq> t"
proof -
  obtain m0 where m0: "m0 \<in> set (memberships (w_db w))" "mem_UserID m0 = t" "mem_OrgID m0 = oid" "mem_Role m0 = role" and w1: "w1 = tick w"
    using role by (auto simp: Memberships_RoleForUser_def op_simps dest!: find_Some_set)
  have "oid \<in> org_ID ` set (organizations (w_db w))" using inv m0(1,3) unfolding tenant_inv_def by blast
  then have own: "has_owner (memberships (w_db w)) oid" using inv unfolding tenant_inv_def by blast
  have dist: "distinct (map member_key (memberships (w_db w)))" using inv by (simp add: tenant_inv_def)
  have count: "1 < length (filter (\<lambda>m. mem_OrgID m = oid \<and> mem_Role m = RoleOwner) (memberships (w_db w)))" if "mem_Role m0 = RoleOwner"
  proof -
    have "filter (\<lambda>m. mem_OrgID m = oid \<and> mem_Role m = RoleOwner \<and> membership_visible (w_sess w) (w_db w) m) (memberships (w_db w)) =
        filter (\<lambda>m. mem_OrgID m = oid \<and> mem_Role m = RoleOwner) (memberships (w_db w))"
      using vis by (intro filter_cong) auto
    with guard that m0(4) w1 show ?thesis
      by (auto simp: lastOwnerGuard_def Memberships_CountOwners_def op_simps require_def split: if_splits)
  qed
  show ?thesis by (rule owner_remains [OF dist own m0(1) _ count]) (simp add: member_key_def m0)
qed

lemma org_exists_iff: "org_exists d oid \<longleftrightarrow> oid \<in> org_ID ` set (organizations d)"
  by (auto simp: org_exists_def list_ex_iff)

lemma InviteMember_effect:
  "effect (authorized_step (in_ctx r) (caller r) PermMembersInvite ''member.invite'') (handleInviteMember sv r)"
  unfolding handleInviteMember_def
  by (intro tx_route authorized_permission recorded_read [OF reads_mapErr(1) [OF reads_members(3)]] recorded_change)
    (auto simp: op_simps Memberships_Create_def Let_def list_all_iff audits_record member_key_def org_exists_iff intro!: invite)

lemma ChangeMemberRole_effect:
  "effect (authorized_step (in_ctx r) (caller r) PermMembersChangeRole ''member.change_role'') (handleChangeMemberRole sv r)"
  unfolding handleChangeMemberRole_def
proof (intro tx_route)
  fix oid t newRole w assume ready: "api_ready w"
  let ?w = "tx_prologue (caller r) oid w"
  show "authorized (in_ctx r) (caller r) PermMembersChangeRole ''member.change_role'' (change_role_tx (in_ctx r) (caller r) oid t newRole) ?w"
    unfolding change_role_tx_def
  proof (intro authorized_permission recorded_read [OF reads_mapErr(1) [OF reads_members(1)]] recorded_read [OF reads_lastOwnerGuard] recorded_change)
    fix m role n v n' x w'
    assume m: "m \<in> set (memberships (w_db ?w))" "mem_UserID m = caller r" "mem_OrgID m = oid"
        "HasPermission (mem_Role m) PermMembersChangeRole" "membership_visible (w_sess ?w) (w_db ?w) m"
      and role: "mapErr (mapDBError noMember []) (Memberships_RoleForUser t oid) (ticks 1 ?w) = (Inr role, ticks n (ticks 1 ?w))"
      and guard: "lastOwnerGuard (role = RoleOwner \<and> newRole \<noteq> RoleOwner) oid ''cannot demote the organization's only remaining owner''
        (ticks n (ticks 1 ?w)) = (Inr v, ticks n' (ticks n (ticks 1 ?w)))"
      and upd: "mapErr (mapDBError noMember []) (Memberships_UpdateRole oid t newRole) (ticks n' (ticks n (ticks 1 ?w))) = (Inr x, w')"
    let ?f = "\<lambda>m. if targeted (w_sess ?w) (w_db w) oid t m then m\<lparr>mem_Role := newRole\<rparr> else m"
    have inv: "tenant_inv (w_db (ticks 1 ?w))" using ready by (simp add: api_ready_def)
    have vis: "membership_visible (w_sess (ticks 1 ?w)) (w_db (ticks 1 ?w)) m'" if "mem_OrgID m' = oid" for m'
      using admin_sees_members [of m "caller r" oid PermMembersChangeRole "w_db w" oid "w_sess w" m'] m that ready
      by (simp add: api_ready_def)
    have owner: "has_owner (map ?f (memberships (w_db w))) oid"
    proof (cases "newRole = RoleOwner")
      case True
      from upd obtain z where "z \<in> set (memberships (w_db w))" "targeted (w_sess ?w) (w_db w) oid t z"
        by (auto simp: op_simps Memberships_UpdateRole_def dest!: find_Some_set)
      then have "?f z \<in> set (map ?f (memberships (w_db w)))" "mem_OrgID (?f z) = oid" "mem_Role (?f z) = RoleOwner"
        using True by (auto simp: targeted_def)
      then show ?thesis unfolding has_owner_def by blast
    next
      case False
      then obtain m' where "m' \<in> set (memberships (w_db w))" "mem_OrgID m' = oid" "mem_Role m' = RoleOwner" "mem_UserID m' \<noteq> t"
        using last_owner_guard [OF inv vis role [unfolded mapErr_Inr] guard] by auto
      moreover from this have "?f m' = m'" by (simp add: targeted_def)
      ultimately show ?thesis unfolding has_owner_def by force
    qed
    have ed: "edits oid mem_OrgID member_key ?f (memberships (w_db w))" by (auto simp: edits_def targeted_def member_key_def)
    show "tenant_change ''member.change_role'' oid (w_db (ticks n' (ticks n (ticks 1 ?w)))) (w_db w')"
      using change_role [OF ed owner] upd by (auto simp: op_simps Memberships_UpdateRole_def)
  qed (simp_all add: audits_record)
qed

lemma RemoveMember_effect:
  "effect (authorized_step (in_ctx r) (caller r) PermMembersRemove ''member.remove'') (handleRemoveMember sv r)"
  unfolding handleRemoveMember_def
proof (intro tx_route)
  fix oid t w assume ready: "api_ready w"
  let ?w = "tx_prologue (caller r) oid w"
  show "authorized (in_ctx r) (caller r) PermMembersRemove ''member.remove'' (remove_member_tx (in_ctx r) (caller r) oid t) ?w"
    unfolding remove_member_tx_def
  proof (intro authorized_permission recorded_read [OF reads_mapErr(1) [OF reads_members(1)]] recorded_read [OF reads_lastOwnerGuard] recorded_change)
    fix m role n v n' x w'
    assume m: "m \<in> set (memberships (w_db ?w))" "mem_UserID m = caller r" "mem_OrgID m = oid"
        "HasPermission (mem_Role m) PermMembersRemove" "membership_visible (w_sess ?w) (w_db ?w) m"
      and role: "mapErr (mapDBError noMember []) (Memberships_RoleForUser t oid) (ticks 1 ?w) = (Inr role, ticks n (ticks 1 ?w))"
      and guard: "lastOwnerGuard (role = RoleOwner) oid ''cannot remove the organization's only remaining owner''
        (ticks n (ticks 1 ?w)) = (Inr v, ticks n' (ticks n (ticks 1 ?w)))"
      and del: "mapErr (mapDBError noMember []) (Memberships_Delete oid t) (ticks n' (ticks n (ticks 1 ?w))) = (Inr x, w')"
    have inv: "tenant_inv (w_db (ticks 1 ?w))" using ready by (simp add: api_ready_def)
    have vis: "membership_visible (w_sess (ticks 1 ?w)) (w_db (ticks 1 ?w)) m'" if "mem_OrgID m' = oid" for m'
      using admin_sees_members [of m "caller r" oid PermMembersRemove "w_db w" oid "w_sess w" m'] m that ready
      by (simp add: api_ready_def)
    obtain m' where "m' \<in> set (memberships (w_db w))" "mem_OrgID m' = oid" "mem_Role m' = RoleOwner" "mem_UserID m' \<noteq> t"
      using last_owner_guard [OF inv vis role [unfolded mapErr_Inr] guard] by auto
    then have "has_owner (filter (\<lambda>m. \<not> targeted (w_sess ?w) (w_db w) oid t m) (memberships (w_db w))) oid"
      unfolding has_owner_def by (force simp: targeted_def)
    then show "tenant_change ''member.remove'' oid (w_db (ticks n' (ticks n (ticks 1 ?w)))) (w_db w')"
      using del remove_member [of oid "\<lambda>m. \<not> targeted (w_sess ?w) (w_db w) oid t m" "w_db w"]
      by (auto simp: op_simps Memberships_Delete_def targeted_def)
  qed (simp_all add: audits_record)
qed

subsection \<open>Routes that name a row and resolve its organization\<close>

lemma find_unique_row:
  "find P xs = Some a \<Longrightarrow> distinct (map rid xs) \<Longrightarrow> (\<And>x. P x \<Longrightarrow> rid x = i) \<Longrightarrow> b \<in> set xs \<Longrightarrow> rid b = i \<Longrightarrow> b = a"
  by (metis distinct_map find_Some_set inj_onD)

lemma reads_resolve [frame]:
  "reads (APIKeys_OrgID i)" "reads (Projects_OrgID i)" "reads (Applications_OrgID i)" "reads (Domains_OrgID i)" "reads (Applications_Get i)"
  "reads (Deployments_Latest i)" "reads (Containers_CountActiveByDeployment i)" "reads (Containers_ListByDeployment i)"
  by (simp_all add: APIKeys_OrgID_def Projects_OrgID_def Applications_OrgID_def Domains_OrgID_def Applications_Get_def
      Deployments_Latest_def Containers_CountActiveByDeployment_def Containers_ListByDeployment_def reads_queryRow reads_mapErr reads_prim)

lemma reads_checkResourceQuota [frame]: "reads (checkResourceQuota oid a n)"
  unfolding checkResourceQuota_def currentAppContainers_def Let_def
  by (intro reads_bindE reads_quota reads_optional reads_resolve reads_case_option reads_if reads_prim)

lemma audits_read: "reads m \<Longrightarrow> (\<And>x. audits action oid u (k x)) \<Longrightarrow> audits action oid u (bindE m k)"
  proof (unfold audits_def bindE_Inr, intro allI impI, elim exE conjE)
  fix w y w' x w1 assume rd: "reads m" and k: "\<And>x. \<forall>w y w'. k x w = (Inr y, w') \<longrightarrow>
      (\<exists>e. audited action oid u e \<and> w_db w' = (w_db w)\<lparr>audit_logs := audit_logs (w_db w) @ [e]\<rparr>)"
    and run: "m w = (Inr x, w1)" "k x w1 = (Inr y, w')"
  from readsD [OF rd run(1)] have "w_db w1 = w_db w" by auto
  with k [of x] run(2) show "\<exists>e. audited action oid u e \<and> w_db w' = (w_db w)\<lparr>audit_logs := audit_logs (w_db w) @ [e]\<rparr>" by metis
qed

lemma RevokeAPIKey_effect:
  "effect (authorized_step (in_ctx r) (caller r) PermAPIKeysRevoke ''api_key.revoke'') (handleRevokeAPIKey sv r)"
  unfolding handleRevokeAPIKey_def
proof (intro tx_route authorized_read [OF reads_mapErr(1) [OF reads_resolve(1)]] authorized_SetCurrentOrg authorized_permission recorded_change)
  fix kid w oid n x w'
  let ?w = "tx_prologue (caller r) uuid_Nil w"
  let ?w1 = "ticks 1 ((ticks 1 (ticks n ?w))\<lparr>w_sess := (w_sess (ticks n ?w))\<lparr>current_org := Some oid\<rparr>\<rparr>)"
  assume ready: "api_ready w" and res: "mapErr (mapDBError noKey []) (APIKeys_OrgID kid) ?w = (Inr oid, ticks n ?w)"
    and rev: "mapErr (mapDBError noKey []) (APIKeys_Revoke kid) ?w1 = (Inr x, w')"
  obtain k where k: "find (\<lambda>k. key_ID k = kid \<and> org_visible (w_sess ?w) (w_db w) (key_OrgID k)) (api_keys (w_db w)) = Some k" "oid = key_OrgID k"
    using res by (auto simp: op_simps APIKeys_OrgID_def)
  have "key_OrgID k' = oid" if "k' \<in> set (api_keys (w_db w))" "key_ID k' = kid" for k'
    using find_unique_row [OF k(1), of key_ID kid k'] that k(2) ready by (auto simp: api_ready_def tenant_inv_def)
  then show "tenant_change ''api_key.revoke'' oid (w_db ?w1) (w_db w')"
    using rev by (auto simp: op_simps APIKeys_Revoke_def edits_def revocable_def intro!: key_revoke)
qed (simp_all add: audits_record)

lemma CreateApplication_effect:
  "effect (authorized_step (in_ctx r) (caller r) PermApplicationCreate ''application.create'') (handleCreateApplication sv r)"
  unfolding handleCreateApplication_def
proof (intro tx_route authorized_read [OF reads_mapErr(1) [OF reads_resolve(2)]] authorized_SetCurrentOrg authorized_permission recorded_change)
  fix pid name img ports w oid n x w'
  let ?w = "tx_prologue (caller r) uuid_Nil w"
  let ?w1 = "ticks 1 ((ticks 1 (ticks n ?w))\<lparr>w_sess := (w_sess (ticks n ?w))\<lparr>current_org := Some oid\<rparr>\<rparr>)"
  assume res: "mapErr (mapDBError noProject []) (Projects_OrgID pid) ?w = (Inr oid, ticks n ?w)"
    and ins: "mapErr (mapDBError [] ''an application with this name already exists'') (Applications_Create oid pid name img ports) ?w1 = (Inr x, w')"
  have "(pid, oid) \<in> proj_key ` set (projects (w_db w))"
    using res by (force simp: op_simps Projects_OrgID_def proj_key_def dest!: find_Some_set)
  then show "tenant_change ''application.create'' oid (w_db ?w1) (w_db w')"
    using ins by (auto simp: op_simps Applications_Create_def Let_def list_all_iff intro!: app_create)
qed (simp_all add: audits_record)

lemma DeleteDomain_effect:
  "effect (authorized_step (in_ctx r) (caller r) PermDomainsManage ''domain.delete'') (handleDeleteDomain sv r)"
  unfolding handleDeleteDomain_def
proof (intro tx_route authorized_read [OF reads_mapErr(1) [OF reads_resolve(4)]] authorized_SetCurrentOrg authorized_permission recorded_change)
  fix did w oid n x w'
  let ?w = "tx_prologue (caller r) uuid_Nil w"
  let ?w1 = "ticks 1 ((ticks 1 (ticks n ?w))\<lparr>w_sess := (w_sess (ticks n ?w))\<lparr>current_org := Some oid\<rparr>\<rparr>)"
  assume ready: "api_ready w" and res: "mapErr (mapDBError noDomain []) (Domains_OrgID did) ?w = (Inr oid, ticks n ?w)"
    and del: "mapErr (mapDBError noDomain []) (Domains_Delete did) ?w1 = (Inr x, w')"
  obtain k where k: "find (visible_domain (w_sess ?w) (w_db w) did) (domains (w_db w)) = Some k" "oid = dom_OrgID k"
    using res by (auto simp: op_simps Domains_OrgID_def)
  have "dom_OrgID k' = oid" if "k' \<in> set (domains (w_db w))" "dom_ID k' = did" for k'
    using find_unique_row [OF k(1), of dom_ID did k'] that k(2) ready by (auto simp: api_ready_def tenant_inv_def visible_domain_def)
  then show "tenant_change ''domain.delete'' oid (w_db ?w1) (w_db w')"
    using del by (auto simp: op_simps Domains_Delete_def visible_domain_def intro!: domain_delete)
qed (simp_all add: audits_record)

lemma authorized_app:
  assumes "\<And>a n. find (visible_app (w_sess w) (w_db w) appID) (applications (w_db w)) = Some a \<Longrightarrow>
     recorded action (app_OrgID a) u (k (app_OrgID a)) ((ticks n w)\<lparr>w_sess := (w_sess w)\<lparr>current_org := Some (app_OrgID a)\<rparr>\<rparr>)"
  shows "authorized ctx u perm action (bindE (app_permission ctx u appID perm) k) w"
  unfolding authorized_def authorized_step_def
proof (intro allI impI)
  fix y w' assume "bindE (app_permission ctx u appID perm) k w = (Inr y, w')"
  then obtain a w1 where a: "find (visible_app (w_sess w) (w_db w) appID) (applications (w_db w)) = Some a"
    and p: "requirePermission ctx u (app_OrgID a) perm ((ticks 2 w)\<lparr>w_sess := (w_sess w)\<lparr>current_org := Some (app_OrgID a)\<rparr>\<rparr>) = (Inr (), w1)"
    and k: "k (app_OrgID a) w1 = (Inr y, w')"
    by (auto simp: app_permission_def op_simps Applications_OrgID_def numeral_2_eq_2 simp del: One_nat_def)
  from requirePermission_Inr [OF p] have w1: "w1 = (ticks 3 w)\<lparr>w_sess := (w_sess w)\<lparr>current_org := Some (app_OrgID a)\<rparr>\<rparr>"
    and perm: "permitted ctx (w_db w) u (app_OrgID a) perm" by (auto simp: ticks_def)
  with assms [OF a, of 3] k show "\<exists>oid. permitted ctx (w_db w) u oid perm \<and> tenant_step action oid u (w_db w) (w_db w')"
    unfolding recorded_def by auto
qed

lemma tenant_inv_apps: "tenant_inv d \<Longrightarrow> distinct (map app_ID (applications d))"
  by (simp add: tenant_inv_def refs_def app_key_def comp_def)

lemma visible_app_unique:
  assumes "find (visible_app s d i) (applications d) = Some a" "tenant_inv d" "b \<in> set (applications d)" "app_ID b = i"
  shows "b = a"
  using find_unique_row [OF assms(1) tenant_inv_apps [OF assms(2)] _ assms(3,4)] by (simp add: visible_app_def)

lemma ScaleApplication_effect:
  "effect (authorized_step (in_ctx r) (caller r) PermApplicationScale ''application.scale'') (handleScaleApplication sv r)"
  unfolding handleScaleApplication_def scale_tx_def
proof (intro tx_route authorized_app recorded_read [OF reads_mapErr(1) [OF reads_resolve(5)]] recorded_read [OF reads_checkResourceQuota] recorded_change)
  fix appID replicas w and a :: Application and n cur n' v n'' x w'
  let ?w = "tx_prologue (caller r) uuid_Nil w"
  let ?w1 = "ticks n'' (ticks n' ((ticks n ?w)\<lparr>w_sess := (w_sess ?w)\<lparr>current_org := Some (app_OrgID a)\<rparr>\<rparr>))"
  assume ready: "api_ready w" and a: "find (visible_app (w_sess ?w) (w_db ?w) appID) (applications (w_db ?w)) = Some a"
    and upd: "mapErr (mapDBError noApp []) (Applications_UpdateReplicas appID replicas) ?w1 = (Inr x, w')"
  have "app_OrgID b = app_OrgID a" if "b \<in> set (applications (w_db w))" "app_ID b = appID" for b
    using visible_app_unique [OF _ _ that] a ready by (auto simp: api_ready_def)
  then show "tenant_change ''application.scale'' (app_OrgID a) (w_db ?w1) (w_db w')"
    using upd by (auto simp: op_simps Applications_UpdateReplicas_def update_app_def edits_def visible_app_def intro!: app_scale)
qed (auto simp: intro!: audits_read [OF reads_mapErr(1) [OF reads_resolve(5)]] audits_record)

subsection \<open>Deleting an application, adding a domain\<close>

lemma effect_bindE_fact:
  assumes "steady m" "\<And>w x w'. api_ready w \<Longrightarrow> m w = (Inr x, w') \<Longrightarrow> Q x (w_db w)" "\<And>x. effect (\<lambda>d d'. Q x d \<longrightarrow> R d d') (f x)"
  shows "effect R (bindE m f)"
  unfolding effect_def
proof (intro allI impI)
  fix w assume w: "api_ready w"
  obtain r w1 where m: "m w = (r, w1)" by fastforce
  note st = steadyD [OF assms(1) m]
  show "w_sess (snd (bindE m f w)) = w_sess w \<and> (w_db (snd (bindE m f w)) = w_db w \<or> R (w_db w) (w_db (snd (bindE m f w))))"
  proof (cases r)
    case (Inl e)
    with m st show ?thesis by (simp add: bindE_def)
  next
    case (Inr x)
    have "api_ready w1" using w st by (simp add: api_ready_def)
    with assms(3) [of x] assms(2) [OF w] m st Inr show ?thesis unfolding effect_def by (auto simp: bindE_def)
  qed
qed

lemma readonly_reads: "reads m \<Longrightarrow> readonly m"
  unfolding reads_def readonly_def by (metis ticks_sel(1))

lemma readonly_app_permission [frame]: "readonly (app_permission ctx u appID perm)"
  unfolding app_permission_def requirePermission_def requireAPIKeyOrgMatch_def
  by (intro readonly_bindE readonly_derived readonly_if readonly_prim readonly_reads [OF reads_resolve(3)] readonly_reads [OF reads_members(1)])
    (auto intro!: readonly_if readonly_prim readonly_bindE readonly_reads [OF reads_members(1)] split: prod.splits)

lemma stop_targets_org:
  assumes "WithTx u uuid_Nil (stop_targets ctx u appID) w = (Inr (oid, cs), w')" "api_ready w"
    and "b \<in> set (applications (w_db w))" "app_ID b = appID"
  shows "app_OrgID b = oid"
proof -
  from WithTx_Inr [OF assms(1)] obtain w1 where run: "stop_targets ctx u appID (tx_prologue u uuid_Nil w) = (Inr (oid, cs), w1)" by blast
  then obtain a where "find (visible_app (tx_session u uuid_Nil (w_sess w)) (w_db w) appID) (applications (w_db w)) = Some a" "oid = app_OrgID a"
    by (auto simp: stop_targets_def app_permission_def op_simps Applications_OrgID_def split: option.splits)
  with visible_app_unique [of _ "w_db w" appID a b] assms(2-) show ?thesis by (auto simp: api_ready_def)
qed

lemma DeleteApplication_effect:
  "effect (authorized_step (in_ctx r) (caller r) PermApplicationDelete ''application.delete'') (handleDeleteApplication sv r)"
  unfolding handleDeleteApplication_def
proof (intro effect_bindE [OF steady_path_uuid])
  fix appID
  let ?Q = "\<lambda>(oid :: uuid, cs :: Container list) d. \<forall>b \<in> set (applications d). app_ID b = appID \<longrightarrow> app_OrgID b = oid"
  let ?R = "authorized_step (in_ctx r) (caller r) PermApplicationDelete ''application.delete''"
  have ro: "readonly (stop_targets (in_ctx r) (caller r) appID)"
    unfolding stop_targets_def
    by (intro readonly_bindE readonly_app_permission readonly_reads [OF reads_optional [OF reads_resolve(6)]])
      (auto intro!: readonly_bindE readonly_prim readonly_reads [OF reads_resolve(8)] split: option.splits)
  have unassign: "steady (case con_RuntimeID cn of None \<Rightarrow> ret () | Some rid \<Rightarrow> api_unassign sv cn rid)" for cn
    by (auto simp: api_unassign_def intro!: frame split: option.splits)
  have del: "effect (\<lambda>d d'. ?Q (oid, cs) d \<longrightarrow> ?R d d') (WithTx (caller r) oid (delete_app_tx (in_ctx r) (caller r) oid appID))" for oid cs
  proof (intro effect_WithTx impI)
    fix w x w1 assume ready: "api_ready w" and run: "delete_app_tx (in_ctx r) (caller r) oid appID (tx_prologue (caller r) oid w) = (Inr x, w1)"
      and org: "?Q (oid, cs) (w_db w)"
    have "authorized (in_ctx r) (caller r) PermApplicationDelete ''application.delete'' (delete_app_tx (in_ctx r) (caller r) oid appID) (tx_prologue (caller r) oid w)"
      unfolding delete_app_tx_def using org
      by (intro authorized_permission recorded_change)
        (auto simp: op_simps Applications_Delete_def visible_app_def audits_record intro!: app_delete)
    with run show "?R (w_db w) (w_db w1)" by (auto simp: authorized_def)
  qed
  show "effect ?R (bindE (WithTx (caller r) uuid_Nil (stop_targets (in_ctx r) (caller r) appID)) (\<lambda>(orgID, containers).
     bindE (foreach (\<lambda>cn. case con_RuntimeID cn of None \<Rightarrow> ret () | Some rid \<Rightarrow> api_unassign sv cn rid) containers) (\<lambda>_.
     bindE (WithTx (caller r) orgID (delete_app_tx (in_ctx r) (caller r) orgID appID)) (\<lambda>_. ret noContent))))"
    by (rule effect_bindE_fact [where Q = ?Q])
      (auto intro!: steady_WithTx [OF ro] effect_bindE [OF steady_foreach [OF unassign]] effect_then del [unfolded split_conv] steady_prim
        dest: stop_targets_org)
qed

lemma Projects_OrgID_Inr: "Projects_OrgID i w = (Inr oid, w') \<Longrightarrow> (i, oid) \<in> proj_key ` set (projects (w_db w))"
  by (force simp: op_simps Projects_OrgID_def proj_key_def dest!: find_Some_set)

lemma create_domain_recorded:
  assumes inv: "tenant_inv (w_db w)"
    and p: "(pid, oid) \<in> proj_key ` set (projects (w_db w))"
    and a: "a \<in> set (applications (w_db w))" "app_ID a = aid" "app_ProjectID a = pid"
  shows "recorded ''domain.create'' oid u (bindE (mapErr g (Domains_Create oid pid aid hostname)) (\<lambda>d.
     bindE (Domains_UpdateTLSStatus (dom_ID d) DomainTLSStatusActive) (\<lambda>_.
     bindE (recordAudit oid u ''domain.create'' ''domain'' (dom_ID d) (md d)) (\<lambda>_. ret (z d))))) w"
proof (rule recorded_change2)
  obtain q where q: "q \<in> set (projects (w_db w))" "proj_key q = (pid, oid)" using p by auto
  have "refs (\<lambda>a. (app_ProjectID a, app_OrgID a)) proj_key (applications (w_db w)) (projects (w_db w))"
    using inv by (simp add: tenant_inv_def)
  from refs_unique [OF this a(1) q(1)] have "app_OrgID a = oid" using a(3) q(2) by simp
  then have aid: "(aid, oid) \<in> app_key ` set (applications (w_db w))" using a by (force simp: app_key_def)
  fix d w2 x w3
  assume ins: "mapErr g (Domains_Create oid pid aid hostname) w = (Inr d, w2)"
    and upd: "Domains_UpdateTLSStatus (dom_ID d) DomainTLSStatusActive w2 = (Inr x, w3)"
  let ?g = "\<lambda>y. if visible_domain (w_sess w2) (w_db w2) (dom_ID d) y then y\<lparr>dom_TLSStatus := DomainTLSStatusActive\<rparr> else y"
  have d: "w_db w2 = (w_db w)\<lparr>domains := domains (w_db w) @ [d]\<rparr>" "dom_ID d \<notin> dom_ID ` set (domains (w_db w))"
      "dom_OrgID d = oid" "dom_ProjectID d = pid" "dom_ApplicationID d = aid"
    using ins by (auto simp: op_simps Domains_Create_def Let_def list_all_iff)
  have "map ?g (domains (w_db w)) = domains (w_db w)" by (rule map_other_id [OF d(2)]) (simp add: visible_domain_def)
  then have "w_db w3 = (w_db w)\<lparr>domains := domains (w_db w) @ [?g d]\<rparr>"
    using upd d(1) by (auto simp: op_simps Domains_UpdateTLSStatus_def)
  then show "tenant_change ''domain.create'' oid (w_db w) (w_db w3)"
    using domain_create [of "?g d" oid "w_db w"] d p aid by simp
qed (simp_all add: audits_record)

lemma CreateDomain_effect:
  "effect (authorized_step (in_ctx r) (caller r) PermDomainsManage ''domain.create'') (handleCreateDomain sv r)"
  unfolding handleCreateDomain_def create_domain_tx_def
  by (intro tx_route authorized_read [OF reads_mapErr(1) [OF reads_resolve(2)]] authorized_SetCurrentOrg authorized_permission
      recorded_read [OF reads_mapErr(1) [OF reads_resolve(5)]] recorded_read [OF reads_prim(5)], intro create_domain_recorded)
    (auto simp: api_ready_def op_simps Applications_Get_def visible_app_def require_def
      dest!: Projects_OrgID_Inr find_Some_set split: if_splits)

subsection \<open>Deploying\<close>

text \<open>What a deployment that was recorded leaves in the tables, before it is published.\<close>

definition deployed :: "uuid \<Rightarrow> uuid \<Rightarrow> Deployment \<Rightarrow> db \<Rightarrow> db \<Rightarrow> bool" where
  "deployed oid u x d d' \<longleftrightarrow> (\<exists>f e. edits oid app_OrgID (\<lambda>a. (app_ID a, app_ProjectID a)) f (applications d) \<and> dep_OrgID x = oid \<and>
     dep_ID x \<notin> dep_ID ` set (deployments d) \<and> (dep_ApplicationID x, oid) \<in> app_key ` set (applications d) \<and>
     audited ''deployment.create'' oid u e \<and>
     d' = d\<lparr>applications := map f (applications d), deployments := deployments d @ [x], audit_logs := audit_logs d @ [e]\<rparr>)"

lemma deployed_step: "deployed oid u x d d' \<Longrightarrow> tenant_step ''deployment.create'' oid u d d'"
  unfolding deployed_def tenant_step_def using deploy by fastforce

text \<open>Marking it failed afterwards is still that step, with the other status.\<close>

lemma deployed_failed:
  assumes "deployed oid u x d d'" "\<And>y. dep_ID (g y) = dep_ID y \<and> dep_OrgID (g y) = dep_OrgID y \<and> dep_ApplicationID (g y) = dep_ApplicationID y"
  shows "\<exists>x'. deployed oid u x' d (d'\<lparr>deployments := map (\<lambda>y. if dep_ID y = dep_ID x \<and> P y then g y else y) (deployments d')\<rparr>)"
proof -
  from assms(1) obtain f e where fe: "edits oid app_OrgID (\<lambda>a. (app_ID a, app_ProjectID a)) f (applications d)" "dep_OrgID x = oid"
     "dep_ID x \<notin> dep_ID ` set (deployments d)" "(dep_ApplicationID x, oid) \<in> app_key ` set (applications d)" "audited ''deployment.create'' oid u e"
     "d' = d\<lparr>applications := map f (applications d), deployments := deployments d @ [x], audit_logs := audit_logs d @ [e]\<rparr>"
    unfolding deployed_def by blast
  let ?h = "\<lambda>y. if dep_ID y = dep_ID x \<and> P y then g y else y"
  have "map ?h (deployments d) = deployments d" by (rule map_other_id [OF fe(3)]) simp
  then have "deployed oid u (?h x) d (d'\<lparr>deployments := map ?h (deployments d')\<rparr>)"
    unfolding deployed_def using fe assms(2) by (intro exI [of _ f] exI [of _ e]) auto
  then show ?thesis ..
qed

lemma createDeploymentTx_deployed:
  assumes run: "createDeploymentTx sv oid appID u a0 img w = (Inr (a, x), w1)"
    and app: "(appID, oid) \<in> app_key ` set (applications (w_db w))" and inv: "tenant_inv (w_db w)"
  shows "deployed oid u x (w_db w) (w_db w1)"
proof -
  have uniq: "app_OrgID b = oid" if "b \<in> set (applications (w_db w))" "app_ID b = appID" for b
    using app that tenant_inv_apps [OF inv] by (auto simp: app_key_def distinct_map inj_on_def)
  obtain f w0 where f: "edits oid app_OrgID (\<lambda>a. (app_ID a, app_ProjectID a)) f (applications (w_db w))"
      "w_db w0 = (w_db w)\<lparr>applications := map f (applications (w_db w))\<rparr>"
    and rest: "bindE (mapErr (mapDBError [] ''a deployment for this revision already exists'') (Deployments_Create oid appID (app_Image a) u)) (\<lambda>x.
       bindE (recordAudit oid u ''deployment.create'' ''deployment'' (dep_ID x)
         [(''application_id'', MetaStr (UUID_String (sv_codec sv) appID)), (''image'', MetaStr (dep_Image x)),
          (''revision'', MetaInt (dep_Revision x))]) (\<lambda>_. ret (a, x))) w0 = (Inr (a, x), w1)"
  proof (cases "img \<noteq> [] \<and> img \<noteq> app_Image a0")
    case True
    show ?thesis
      by (rule that [of "\<lambda>b. if visible_app (w_sess w) (w_db w) appID b then b\<lparr>app_Image := img, app_UpdatedAt := w_now w\<rparr> else b"
            "(tick w)\<lparr>w_db := (w_db w)\<lparr>applications := map (\<lambda>b. if visible_app (w_sess w) (w_db w) appID b
               then b\<lparr>app_Image := img, app_UpdatedAt := w_now w\<rparr> else b) (applications (w_db w))\<rparr>\<rparr>"])
        (use run True uniq in \<open>auto simp: createDeploymentTx_def op_simps Applications_UpdateImage_def update_app_def edits_def visible_app_def\<close>)
  next
    case False
    show ?thesis
      by (rule that [of "\<lambda>b. b" w]) (use run False in \<open>auto simp: createDeploymentTx_def op_simps edits_def\<close>)
  qed
  from rest obtain w2 where ins: "Deployments_Create oid appID (app_Image a) u w0 = (Inr x, w2)"
    and aud: "\<exists>e. audited ''deployment.create'' oid u e \<and> w_db w1 = (w_db w2)\<lparr>audit_logs := audit_logs (w_db w2) @ [e]\<rparr>"
    by (auto simp: op_simps dest!: recordAudit_Inr)
  from ins have "w_db w2 = (w_db w0)\<lparr>deployments := deployments (w_db w0) @ [x]\<rparr>" "dep_ID x \<notin> dep_ID ` set (deployments (w_db w0))"
      "dep_OrgID x = oid" "dep_ApplicationID x = appID"
    by (auto simp: op_simps Deployments_Create_def insert_deployment_def Let_def list_all_iff)
  with f aud app show ?thesis unfolding deployed_def by auto
qed

lemma effect_WithTx_then:
  assumes "\<And>w x w1. api_ready w \<Longrightarrow> tx (tx_prologue u og w) = (Inr x, w1) \<Longrightarrow> S x (w_db w) (w_db w1)"
    and "\<And>x d w. S x d (w_db w) \<Longrightarrow> w_sess (snd (k x w)) = w_sess w \<and> R d (w_db (snd (k x w)))"
  shows "effect R (bindE (WithTx u og tx) k)"
  unfolding effect_def
proof (intro allI impI)
  fix w assume w: "api_ready w"
  obtain r w' where run: "WithTx u og tx w = (r, w')" by fastforce
  show "w_sess (snd (bindE (WithTx u og tx) k w)) = w_sess w \<and>
    (w_db (snd (bindE (WithTx u og tx) k w)) = w_db w \<or> R (w_db w) (w_db (snd (bindE (WithTx u og tx) k w))))"
  proof (cases r)
    case (Inl e)
    with run WithTx_Inl [of u og tx w e w'] show ?thesis by (simp add: bindE_def)
  next
    case (Inr x)
    with run WithTx_Inr [of u og tx w x w'] obtain w1 where w1: "tx (tx_prologue u og w) = (Inr x, w1)" "w' = (tick w1)\<lparr>w_sess := w_sess w\<rparr>" by auto
    from assms(2) [of x "w_db w" w'] assms(1) [OF w w1(1)] w1(2) run Inr show ?thesis by (simp add: bindE_def)
  qed
qed

text \<open>A publish whose failure is recorded in a transaction of its own leaves the tables, or what that transaction left.\<close>

lemma recorded_failure:
  assumes "steady m"
    and "Q (w_db w)" "\<And>v w1 e. w_db v = w_db w \<Longrightarrow> upd e (tx_prologue u og v) = (Inr (), w1) \<Longrightarrow> Q (w_db w1)"
  shows "w_sess (snd (catchE m (\<lambda>e. bindE (logged (WithTx u og (upd e))) (\<lambda>_. throw (g e))) w)) = w_sess w \<and>
    Q (w_db (snd (catchE m (\<lambda>e. bindE (logged (WithTx u og (upd e))) (\<lambda>_. throw (g e))) w)))"
proof -
  obtain r v where m: "m w = (r, v)" by fastforce
  note s = steadyD [OF assms(1) m]
  show ?thesis
  proof (cases r)
    case (Inr x)
    with m s assms(2) show ?thesis by (simp add: catchE_def)
  next
    case (Inl e)
    obtain r' v' where tx: "WithTx u og (upd e) v = (r', v')" by fastforce
    have "w_sess v' = w_sess w \<and> Q (w_db v')"
    proof (cases r')
      case (Inl e')
      with WithTx_Inl tx s assms(2) show ?thesis by metis
    next
      case (Inr y)
      with tx WithTx_Inr [of u og "upd e" v y v'] assms(3) [of v e] s show ?thesis by auto
    qed
    with m Inl tx show ?thesis by (auto simp: catchE_def bindE_def logged_def throw_def ret_def split: sum.splits)
  qed
qed

lemma deploy_checks_Inr:
  assumes "deploy_checks ctx u appID w = (Inr (oid, a), w1)"
  shows "permitted ctx (w_db w) u oid PermApplicationDeploy" "w_db w1 = w_db w" "(appID, oid) \<in> app_key ` set (applications (w_db w))"
proof -
  from assms obtain w2 n where perm: "app_permission ctx u appID PermApplicationDeploy w = (Inr oid, w2)" and w1: "w1 = ticks n w2"
    unfolding deploy_checks_def bindE_Inr ret_Inr
    by (auto simp: ticks_ticks dest!: readsD [OF reads_mapErr(1) [OF reads_resolve(5)]] readsD [OF reads_checkProjectQuota(2)] readsD [OF reads_checkResourceQuota])
  from perm obtain b where b: "find (visible_app (w_sess w) (w_db w) appID) (applications (w_db w)) = Some b" "oid = app_OrgID b"
    and p: "requirePermission ctx u oid PermApplicationDeploy ((ticks 2 w)\<lparr>w_sess := (w_sess w)\<lparr>current_org := Some oid\<rparr>\<rparr>) = (Inr (), w2)"
    by (auto simp: app_permission_def op_simps Applications_OrgID_def numeral_2_eq_2 simp del: One_nat_def)
  from requirePermission_Inr [OF p] w1 show "permitted ctx (w_db w) u oid PermApplicationDeploy" "w_db w1 = w_db w" by simp_all
  from b show "(appID, oid) \<in> app_key ` set (applications (w_db w))" by (force simp: visible_app_def app_key_def dest!: find_Some_set)
qed

lemma bindE_ret_snd: "snd (bindE m (\<lambda>_. ret z) w) = snd (m w)" "snd (mapErr g m w) = snd (m w)"
  by (simp_all add: mapErr_def catchE_def bindE_def ret_def throw_def split: sum.splits prod.splits)

lemma deploy_tx_Inr:
  assumes "deploy_tx sv ctx u appID img w = (Inr (oid, a, x), w1)" "tenant_inv (w_db w)"
  shows "permitted ctx (w_db w) u oid PermApplicationDeploy" "deployed oid u x (w_db w) (w_db w1)"
proof -
  from assms(1) obtain a0 w0 where ck: "deploy_checks ctx u appID w = (Inr (oid, a0), w0)"
    and cr: "createDeploymentTx sv oid appID u a0 img w0 = (Inr (a, x), w1)"
    by (auto simp: deploy_tx_def bindE_Inr ret_Inr)
  note c = deploy_checks_Inr [OF ck]
  show "permitted ctx (w_db w) u oid PermApplicationDeploy" by (rule c(1))
  show "deployed oid u x (w_db w) (w_db w1)" using createDeploymentTx_deployed [OF cr] c(2,3) assms(2) by simp
qed

lemma publishPlacement_deployed:
  assumes "deployed oid u x d (w_db w)"
  shows "w_sess (snd (publishPlacement sv oid u a x w)) = w_sess w \<and> (\<exists>x'. deployed oid u x' d (w_db (snd (publishPlacement sv oid u a x w))))"
  unfolding publishPlacement_def
proof (rule recorded_failure [OF steady_publish])
  show "\<exists>x'. deployed oid u x' d (w_db w)" using assms by blast
  fix v w1 assume "w_db v = w_db w" "Deployments_UpdateResult (dep_ID x) DeploymentStatusFailed None (tx_prologue u oid v) = (Inr (), w1)"
  then show "\<exists>x'. deployed oid u x' d (w_db w1)"
    using deployed_failed [OF assms] by (auto simp: Deployments_UpdateResult_def op_simps)
qed

lemma deployed_authorized:
  assumes "permitted ctx d u oid PermApplicationDeploy" "deployed oid u x d (w_db w)"
  shows "w_sess (snd (bindE (mapErr g (publishPlacement sv oid u a x)) (\<lambda>_. ret z) w)) = w_sess w"
    "authorized_step ctx u PermApplicationDeploy ''deployment.create'' d (w_db (snd (bindE (mapErr g (publishPlacement sv oid u a x)) (\<lambda>_. ret z) w)))"
  using publishPlacement_deployed [OF assms(2), of sv a] assms(1) deployed_step unfolding authorized_step_def bindE_ret_snd by blast+

lemma image_deploy_effect:
  "effect (authorized_step (in_ctx r) (caller r) PermApplicationDeploy ''deployment.create'') (image_deploy sv r appID img)"
  unfolding image_deploy_def
proof (rule effect_WithTx_then [where S = "\<lambda>y d d'. permitted (in_ctx r) d (caller r) (fst y) PermApplicationDeploy \<and>
    deployed (fst y) (caller r) (snd (snd y)) d d'"], goal_cases)
  case (1 w y w1)
  then show ?case
    using deploy_tx_Inr [of sv "in_ctx r" "caller r" appID img "tx_prologue (caller r) uuid_Nil w" "fst y" "fst (snd y)" "snd (snd y)" w1]
    by (simp add: api_ready_def)
next
  case (2 y d w)
  then show ?case unfolding split_def by (blast intro: deployed_authorized)
qed

definition built :: "uuid \<Rightarrow> uuid \<Rightarrow> Build \<Rightarrow> db \<Rightarrow> db \<Rightarrow> bool" where
  "built oid u b d d' \<longleftrightarrow> (\<exists>e. bld_OrgID b = oid \<and> bld_ID b \<notin> bld_ID ` set (builds d) \<and>
     (bld_ApplicationID b, oid) \<in> app_key ` set (applications d) \<and> audited ''build.create'' oid u e \<and>
     d' = d\<lparr>builds := builds d @ [b], audit_logs := audit_logs d @ [e]\<rparr>)"

lemma built_step: "built oid u b d d' \<Longrightarrow> tenant_step ''build.create'' oid u d d'"
  unfolding built_def tenant_step_def using build_create by fastforce

lemma built_failed:
  assumes "built oid u b d d'" "\<And>y. bld_ID (g y) = bld_ID y \<and> bld_OrgID (g y) = bld_OrgID y \<and> bld_ApplicationID (g y) = bld_ApplicationID y"
  shows "\<exists>b'. built oid u b' d (d'\<lparr>builds := map (\<lambda>y. if bld_ID y = bld_ID b \<and> P y then g y else y) (builds d')\<rparr>)"
proof -
  let ?h = "\<lambda>y. if bld_ID y = bld_ID b \<and> P y then g y else y"
  have "map ?h (builds d) = builds d" using assms(1) by (intro map_other_id [where k = "bld_ID b" and key = bld_ID]) (auto simp: built_def)
  then have "built oid u (?h b) d (d'\<lparr>builds := map ?h (builds d')\<rparr>)" using assms unfolding built_def by auto
  then show ?thesis ..
qed

lemma git_deploy_tx_Inr:
  assumes "git_deploy_tx sv ctx u appID gitURL gitRef w = (Inr (oid, b), w1)"
  shows "permitted ctx (w_db w) u oid PermApplicationDeploy" "built oid u b (w_db w) (w_db w1)"
proof -
  from assms obtain a w0 w2 where ck: "deploy_checks ctx u appID w = (Inr (oid, a), w0)"
    and ins: "Builds_Create oid appID gitURL gitRef u w0 = (Inr b, w2)"
    and aud: "\<exists>e. audited ''build.create'' oid u e \<and> w_db w1 = (w_db w2)\<lparr>audit_logs := audit_logs (w_db w2) @ [e]\<rparr>"
    unfolding git_deploy_tx_def bindE_Inr by (auto simp: op_simps dest!: recordAudit_Inr)
  note c = deploy_checks_Inr [OF ck]
  show "permitted ctx (w_db w) u oid PermApplicationDeploy" by (rule c(1))
  from ins have "w_db w2 = (w_db w0)\<lparr>builds := builds (w_db w0) @ [b]\<rparr>" "bld_ID b \<notin> bld_ID ` set (builds (w_db w0))"
      "bld_OrgID b = oid" "bld_ApplicationID b = appID"
    by (auto simp: op_simps Builds_Create_def new_build_def Let_def list_all_iff)
  with aud c(2,3) show "built oid u b (w_db w) (w_db w1)" unfolding built_def by auto
qed

lemma handleGitDeploy_effect:
  "effect (authorized_step (in_ctx r) (caller r) PermApplicationDeploy ''build.create'') (handleGitDeploy sv r appID gitURL gitRef)"
  unfolding handleGitDeploy_def
proof (rule effect_WithTx_then [where S = "\<lambda>y d d'. permitted (in_ctx r) d (caller r) (fst y) PermApplicationDeploy \<and>
    built (fst y) (caller r) (snd y) d d'"], goal_cases)
  case (1 w y w1)
  then show ?case
    using git_deploy_tx_Inr [of sv "in_ctx r" "caller r" appID gitURL gitRef "tx_prologue (caller r) uuid_Nil w" "fst y" "snd y" w1]
    by simp
next
  case (2 y d w)
  obtain oid b where y: "y = (oid, b)" by fastforce
  let ?m = "catchE (publishBuildRequested sv b appID oid) (\<lambda>e.
     bindE (logged (WithTx (caller r) oid (Builds_UpdateResult (bld_ID b) BuildStatusFailed None None
         (Some (''failed to queue build: '' @ Error_text (sv_pg_text sv) e))))) (\<lambda>_. throw (deploy_failed sv ''build request'' e)))"
  have "w_sess (snd (?m w)) = w_sess w \<and> (\<exists>b'. built oid (caller r) b' d (w_db (snd (?m w))))"
  proof (rule recorded_failure)
    show "steady (publishBuildRequested sv b appID oid)" by (simp add: publishBuildRequested_def steady_publish)
    show "\<exists>b'. built oid (caller r) b' d (w_db w)" using 2 y by auto
    fix v w1 e assume "w_db v = w_db w" "Builds_UpdateResult (bld_ID b) BuildStatusFailed None None
         (Some (''failed to queue build: '' @ Error_text (sv_pg_text sv) e)) (tx_prologue (caller r) oid v) = (Inr (), w1)"
    then show "\<exists>b'. built oid (caller r) b' d (w_db w1)"
      using built_failed [of oid "caller r" b d "w_db w"] 2 y by (auto simp: Builds_UpdateResult_def visible_build_def op_simps)
  qed
  then show ?case using 2 unfolding y split_conv bindE_ret_snd authorized_step_def by (auto intro: built_step)
qed

subsection \<open>Routes that only read\<close>

lemma readonly_mapE [frame]: "(\<And>x. readonly (f x)) \<Longrightarrow> readonly (mapE f xs)"
  by (induction xs) (auto intro!: readonly_bindE simp: readonly_prim)

lemma readonly_split [frame]: "(\<And>a b. readonly (f a b)) \<Longrightarrow> readonly (case p of (a, b) \<Rightarrow> f a b)"
  by (cases p) simp

lemma reads_split [frame]: "(\<And>a b. reads (f a b)) \<Longrightarrow> reads (case p of (a, b) \<Rightarrow> f a b)"
  by (cases p) simp

lemma reads_require [frame]:
  "reads (requireAPIKeyOrgMatch ctx oid)" "reads (requirePermission ctx u oid perm)" "reads (requireMembership ctx u oid)"
  "reads (requirePlatformAdmin u)"
  unfolding requirePermission_def requireMembership_def requireAPIKeyOrgMatch_def requirePlatformAdmin_def Memberships_ListForUser_def
  by (auto intro!: reads_bindE reads_mapErr reads_if reads_prim reads_members split: prod.splits)

lemma reads_lists [frame]:
  "reads (Organizations_Get i)" "reads (Memberships_ListByOrg i)" "reads (APIKeys_ListByOrg i)" "reads Nodes_List"
  "reads (AuditLogs_ListByOrg cd jt i c l)" "reads (Builds_ListByApplication cd jt i c l)" "reads (Domains_ListByProject i)"
  "reads (Deployments_ListByApplication i l k)" "reads (Services_GetByApplication i)"
  unfolding Organizations_Get_def Memberships_ListByOrg_def APIKeys_ListByOrg_def Nodes_List_def AuditLogs_ListByOrg_def
    Builds_ListByApplication_def Domains_ListByProject_def Deployments_ListByApplication_def Services_GetByApplication_def Let_def
  by (intro frame)+

lemmas read_tx = frame readonly_reads [OF reads_require(2)] readonly_reads [OF reads_require(3)] readonly_reads [OF reads_require(4)]
  readonly_reads [OF reads_quota(1)] readonly_reads [OF reads_quota(2)] readonly_reads [OF reads_resolve(2)] readonly_reads [OF reads_resolve(3)] readonly_reads [OF reads_resolve(5)]
  readonly_reads [OF reads_optional [OF reads_lists(9)]] readonly_reads [OF reads_resolve(8)]
  readonly_reads [OF reads_lists(1)] readonly_reads [OF reads_lists(2)] readonly_reads [OF reads_lists(3)] readonly_reads [OF reads_lists(4)]
  readonly_reads [OF reads_lists(5)] readonly_reads [OF reads_lists(6)] readonly_reads [OF reads_lists(7)] readonly_reads [OF reads_lists(8)]

lemma read_routes_steady:
  "steady (handleGetOrganization sv r)" "steady (handleListMembers sv r)" "steady (handleListAPIKeys sv r)" "steady (handleGetQuota sv r)"
  "steady (handleGetAuditLogs sv r)" "steady (handleGetNodes sv r)" "steady (handleListDomains sv r)" "steady (handleGetBuilds sv r)"
  "steady (handleGetDeployments sv r)"
  unfolding handleGetOrganization_def handleListMembers_def handleListAPIKeys_def handleGetQuota_def handleGetAuditLogs_def handleGetNodes_def
    handleListDomains_def handleGetBuilds_def handleGetDeployments_def app_membership_def deployments_tx_def attachReplicaState_def
  by (intro read_tx)+

subsection \<open>All routes\<close>

lemma effect_mono: "effect R m \<Longrightarrow> (\<And>d d'. R d d' \<Longrightarrow> R' d d') \<Longrightarrow> effect R' m"
  by (auto simp: effect_def)

definition route_step :: "route \<Rightarrow> auth_ctx \<Rightarrow> uuid \<Rightarrow> db \<Rightarrow> db \<Rightarrow> bool" where
  "route_step rt ctx u d d' \<longleftrightarrow> (\<exists>perm action. write_permission rt = Some perm \<and> action \<in> set (write_actions rt) \<and>
     authorized_step ctx u perm action d d')"

lemma Deploy_effect: "effect (route_step Deploy (in_ctx r) (caller r)) (handleDeploy sv r)"
  unfolding handleDeploy_def
  by (intro effect_bindE [OF steady_path_uuid] effect_bindE [OF steady_if] effect_bindE [OF steady_prim(8)] effect_split steady_prim)
    (auto intro!: effect_mono [OF handleGitDeploy_effect] effect_mono [OF image_deploy_effect] simp: route_step_def)

lemma route_stepI:
  "effect (authorized_step ctx u perm action) m \<Longrightarrow> write_permission rt = Some perm \<Longrightarrow> action \<in> set (write_actions rt) \<Longrightarrow>
   effect (route_step rt ctx u) m"
  by (erule effect_mono) (auto simp: route_step_def)

lemmas write_routes = UpdateOrganization_effect DeleteOrganization_effect InviteMember_effect ChangeMemberRole_effect RemoveMember_effect
  CreateAPIKey_effect RevokeAPIKey_effect CreateProject_effect CreateApplication_effect ScaleApplication_effect DeleteApplication_effect
  CreateDomain_effect DeleteDomain_effect

lemma Routes_effect: "effect (route_step rt (in_ctx r) (caller r)) (Routes rt sv r)"
  by (cases rt) (simp_all add: effect_steady read_routes_steady Deploy_effect route_stepI [OF write_routes(1)]
    route_stepI [OF write_routes(2)] route_stepI [OF write_routes(3)] route_stepI [OF write_routes(4)] route_stepI [OF write_routes(5)]
    route_stepI [OF write_routes(6)] route_stepI [OF write_routes(7)] route_stepI [OF write_routes(8)] route_stepI [OF write_routes(9)]
    route_stepI [OF write_routes(10)] route_stepI [OF write_routes(11)] route_stepI [OF write_routes(12)] route_stepI [OF write_routes(13)])

end
