(* ===== verification/ApiAccess.thy ===== *)
theory ApiAccess
  imports ApiRoutes
begin

section \<open>Access control, isolation of tenants and the audit trail\<close>

text \<open>
  What the refinement of the routes to the tenancy specification gives for the service as a whole: one
  organization's data is out of reach of everybody without the permission in it, every change is in the audit
  log, and a route succeeds only for members.
\<close>

lemma serve_world: "snd (serve h w) = snd (h w)"
  by (simp add: serve_def split: prod.splits sum.splits)

lemma route_cases:
  assumes "api_ready w" "serve (Routes rt sv r) w = (resp, w')"
  shows "w_sess w' = w_sess w" "w_db w' = w_db w \<or> route_step rt (in_ctx r) (caller r) (w_db w) (w_db w')"
  using Routes_effect [of rt r sv] assms serve_world [of "Routes rt sv r" w] unfolding effect_def by (metis snd_conv)+




subsection \<open>Who a route succeeds for\<close>

text \<open>What a route's path names, and what the caller needs in the organization that owns it.\<close>

datatype target = OrgTarget | ProjectTarget | AppTarget | KeyTarget | DomainTarget | NoTarget

fun route_target :: "route \<Rightarrow> target" where
  "route_target CreateApplication = ProjectTarget" | "route_target CreateDomain = ProjectTarget" | "route_target ListDomains = ProjectTarget"
| "route_target Deploy = AppTarget" | "route_target GetDeployments = AppTarget" | "route_target GetBuilds = AppTarget"
| "route_target ScaleApplication = AppTarget" | "route_target DeleteApplication = AppTarget"
| "route_target RevokeAPIKey = KeyTarget" | "route_target DeleteDomain = DomainTarget" | "route_target GetNodes = NoTarget"
| "route_target _ = OrgTarget"

fun belongs :: "target \<Rightarrow> server \<Rightarrow> request \<Rightarrow> db \<Rightarrow> uuid \<Rightarrow> bool" where
  "belongs OrgTarget sv r d oid \<longleftrightarrow> UUID_Parse (sv_codec sv) (in_path r ''orgId'') = Some oid"
| "belongs ProjectTarget sv r d oid \<longleftrightarrow>
     (\<exists>x \<in> set (projects d). UUID_Parse (sv_codec sv) (in_path r ''projectId'') = Some (proj_ID x) \<and> proj_OrgID x = oid)"
| "belongs AppTarget sv r d oid \<longleftrightarrow>
     (\<exists>x \<in> set (applications d). UUID_Parse (sv_codec sv) (in_path r ''appId'') = Some (app_ID x) \<and> app_OrgID x = oid)"
| "belongs KeyTarget sv r d oid \<longleftrightarrow>
     (\<exists>x \<in> set (api_keys d). UUID_Parse (sv_codec sv) (in_path r ''keyId'') = Some (key_ID x) \<and> key_OrgID x = oid)"
| "belongs DomainTarget sv r d oid \<longleftrightarrow>
     (\<exists>x \<in> set (domains d). UUID_Parse (sv_codec sv) (in_path r ''domainId'') = Some (dom_ID x) \<and> dom_OrgID x = oid)"
| "belongs NoTarget sv r d oid \<longleftrightarrow> True"

fun route_permission :: "route \<Rightarrow> Permission option" where
  "route_permission ListAPIKeys = Some PermAPIKeysCreate"
| "route_permission GetAuditLogs = Some PermAuditLogsView"
| "route_permission rt = write_permission rt"

definition admitted :: "route \<Rightarrow> server \<Rightarrow> request \<Rightarrow> db \<Rightarrow> bool" where
  "admitted rt sv r d \<longleftrightarrow> (\<exists>oid. belongs (route_target rt) sv r d oid \<and> key_allows (in_ctx r) oid \<and>
     (\<exists>m \<in> set (memberships d). mem_UserID m = caller r \<and> mem_OrgID m = oid \<and>
        (case route_permission rt of Some perm \<Rightarrow> HasPermission (mem_Role m) perm | None \<Rightarrow> True)))"

definition gated :: "(db \<Rightarrow> bool) \<Rightarrow> 'a op \<Rightarrow> bool" where
  "gated G m \<longleftrightarrow> (\<forall>w y w'. m w = (Inr y, w') \<longrightarrow> G (w_db w))"

lemma gated_first: "gated G m \<Longrightarrow> gated G (bindE m k)"
  by (auto simp: gated_def bindE_Inr)

lemma gated_next: "readonly m \<Longrightarrow> (\<And>x. gated G (k x)) \<Longrightarrow> gated G (bindE m k)"
  unfolding gated_def bindE_Inr by (metis readonlyD)

lemma gated_mapErr: "gated G m \<Longrightarrow> gated G (mapErr g m)"
  by (auto simp: gated_def mapErr_Inr)

lemma gated_WithTx: "gated G m \<Longrightarrow> gated G (WithTx u og m)"
  unfolding gated_def by (metis WithTx_Inr tx_prologue_sel(1))

lemma gated_fact:
  assumes "readonly m" "\<And>w x w'. m w = (Inr x, w') \<Longrightarrow> F x (w_db w)" "\<And>x. gated (\<lambda>d. F x d \<longrightarrow> G d) (k x)"
  shows "gated G (bindE m k)"
  using assms unfolding gated_def bindE_Inr by (metis readonlyD)

lemma readonly_require [frame]: "readonly (require b e)" "readonly (path_uuid sv r n)"
  by (simp_all add: require_def path_uuid_def readonly_prim)

lemma gated_path:
  "(\<And>i. UUID_Parse (sv_codec sv) (in_path r n) = Some i \<Longrightarrow> gated G (k i)) \<Longrightarrow> gated G (bindE (path_uuid sv r n) k)"
  by (auto simp: gated_def path_uuid_def op_simps)

lemma gated_permission:
  "gated (\<lambda>d. permitted ctx d u oid perm) (requirePermission ctx u oid perm)"
  by (auto simp: gated_def dest: requirePermission_Inr)

lemma requirePermission_admits:
  assumes "requirePermission (in_ctx r) (caller r) oid perm w = (Inr x, w')" "route_permission rt = Some perm"
    "belongs (route_target rt) sv r (w_db w) oid"
  shows "admitted rt sv r (w_db w)"
  using requirePermission_Inr [OF assms(1)] assms(2,3) unfolding admitted_def permitted_def by auto

lemma requireMembership_admits:
  assumes "requireMembership (in_ctx r) (caller r) oid w = (Inr x, w')" "route_permission rt = None"
    "belongs (route_target rt) sv r (w_db w) oid"
  shows "admitted rt sv r (w_db w)"
  using requireMembership_Inr [OF assms(1)] assms(2,3) unfolding admitted_def by auto

lemma gated_org:
  assumes "UUID_Parse (sv_codec sv) (in_path r ''orgId'') = Some oid" "route_target rt = OrgTarget"
  shows "route_permission rt = Some perm \<Longrightarrow> gated (admitted rt sv r) (bindE (mapErr g (requirePermission (in_ctx r) (caller r) oid perm)) k)"
    and "route_permission rt = None \<Longrightarrow> gated (admitted rt sv r) (bindE (mapErr g (requireMembership (in_ctx r) (caller r) oid)) k')"
  using assms requirePermission_admits [of r oid perm] requireMembership_admits [of r oid]
  by (auto simp: gated_def bindE_Inr mapErr_Inr)

text \<open>A row named in the path is resolved to its organization before the check.\<close>

lemma gated_resolve:
  assumes "\<And>w oid w'. R w = (Inr oid, w') \<Longrightarrow> w_db w' = w_db w \<and> belongs (route_target rt) sv r (w_db w) oid"
  shows "route_permission rt = Some perm \<Longrightarrow> gated (admitted rt sv r) (bindE (mapErr g R) (\<lambda>oid. bindE (SetCurrentOrg oid) (\<lambda>_.
      bindE (requirePermission (in_ctx r) (caller r) oid perm) (k oid))))"
    and "route_permission rt = None \<Longrightarrow> gated (admitted rt sv r) (bindE (mapErr g R) (\<lambda>oid. bindE (SetCurrentOrg oid) (\<lambda>_.
      bindE (requireMembership (in_ctx r) (caller r) oid) (k' oid))))"
proof -
  have same: "w_db w2 = w_db w" if "R w = (Inr oid, w1)" "SetCurrentOrg oid w1 = (Inr (), w2)" for w oid w1 w2
    using assms [OF that(1)] readonlyD [OF readonly_prim(8) that(2)] by simp
  show "gated (admitted rt sv r) (bindE (mapErr g R) (\<lambda>oid. bindE (SetCurrentOrg oid) (\<lambda>_.
      bindE (requirePermission (in_ctx r) (caller r) oid perm) (k oid))))" if "route_permission rt = Some perm"
    unfolding gated_def bindE_Inr mapErr_Inr
    using that same assms requirePermission_admits [of r _ perm _ _ _ rt sv] by (metis old.unit.exhaust)
  show "gated (admitted rt sv r) (bindE (mapErr g R) (\<lambda>oid. bindE (SetCurrentOrg oid) (\<lambda>_.
      bindE (requireMembership (in_ctx r) (caller r) oid) (k' oid))))" if "route_permission rt = None"
    unfolding gated_def bindE_Inr mapErr_Inr
    using that same assms requireMembership_admits [of r _ _ _ _ rt sv] by (metis old.unit.exhaust)
qed

lemma resolve_belongs:
  assumes "UUID_Parse (sv_codec sv) (in_path r ''projectId'') = Some i" "route_target rt = ProjectTarget"
  shows "Projects_OrgID i w = (Inr oid, w') \<Longrightarrow> w_db w' = w_db w \<and> belongs (route_target rt) sv r (w_db w) oid"
  using assms by (auto simp: Projects_OrgID_def op_simps dest!: find_Some_set)

lemma resolve_app_belongs:
  assumes "UUID_Parse (sv_codec sv) (in_path r ''appId'') = Some i" "route_target rt = AppTarget"
  shows "Applications_OrgID i w = (Inr oid, w') \<Longrightarrow> w_db w' = w_db w \<and> belongs (route_target rt) sv r (w_db w) oid"
  using assms by (auto simp: Applications_OrgID_def op_simps visible_app_def dest!: find_Some_set)

lemma resolve_key_belongs:
  assumes "UUID_Parse (sv_codec sv) (in_path r ''keyId'') = Some i" "route_target rt = KeyTarget"
  shows "APIKeys_OrgID i w = (Inr oid, w') \<Longrightarrow> w_db w' = w_db w \<and> belongs (route_target rt) sv r (w_db w) oid"
  using assms by (auto simp: APIKeys_OrgID_def op_simps dest!: find_Some_set)

lemma resolve_domain_belongs:
  assumes "UUID_Parse (sv_codec sv) (in_path r ''domainId'') = Some i" "route_target rt = DomainTarget"
  shows "Domains_OrgID i w = (Inr oid, w') \<Longrightarrow> w_db w' = w_db w \<and> belongs (route_target rt) sv r (w_db w) oid"
  using assms by (auto simp: Domains_OrgID_def op_simps visible_domain_def dest!: find_Some_set)

lemma gated_app:
  assumes "UUID_Parse (sv_codec sv) (in_path r ''appId'') = Some i" "route_target rt = AppTarget"
  shows "route_permission rt = Some perm \<Longrightarrow> gated (admitted rt sv r) (bindE (app_permission (in_ctx r) (caller r) i perm) k)"
    and "route_permission rt = None \<Longrightarrow> gated (admitted rt sv r) (bindE (app_membership (in_ctx r) (caller r) i) k')"
  unfolding app_permission_def app_membership_def
  by (intro gated_first gated_resolve resolve_app_belongs [OF assms]; assumption)+

lemma readonly_newAPIKey [frame]: "readonly (newAPIKey sv)"
  using steady_tokens(1) by (auto simp: steady_def readonly_def)

lemmas gated_head = gated_path gated_first [OF gated_WithTx] gated_next [OF readonly_prim(4)] gated_next [OF readonly_require(1)]
  gated_next [OF readonly_newAPIKey]

lemma gated_case_prod: "(\<And>a b. gated G (f a b)) \<Longrightarrow> gated G (case p of (a, b) \<Rightarrow> f a b)"
  by (cases p) simp

lemma org_routes_gated:
  "gated (admitted GetOrganization sv r) (handleGetOrganization sv r)" "gated (admitted UpdateOrganization sv r) (handleUpdateOrganization sv r)"
  "gated (admitted DeleteOrganization sv r) (handleDeleteOrganization sv r)" "gated (admitted ListMembers sv r) (handleListMembers sv r)"
  "gated (admitted InviteMember sv r) (handleInviteMember sv r)" "gated (admitted CreateAPIKey sv r) (handleCreateAPIKey sv r)"
  "gated (admitted ListAPIKeys sv r) (handleListAPIKeys sv r)" "gated (admitted GetQuota sv r) (handleGetQuota sv r)"
  "gated (admitted GetAuditLogs sv r) (handleGetAuditLogs sv r)" "gated (admitted CreateProject sv r) (handleCreateProject sv r)"
  "gated (admitted ChangeMemberRole sv r) (handleChangeMemberRole sv r)" "gated (admitted RemoveMember sv r) (handleRemoveMember sv r)"
  unfolding handleGetOrganization_def handleUpdateOrganization_def handleDeleteOrganization_def handleListMembers_def handleInviteMember_def
    handleCreateAPIKey_def handleListAPIKeys_def handleGetQuota_def handleGetAuditLogs_def handleCreateProject_def handleChangeMemberRole_def
    handleRemoveMember_def change_role_tx_def remove_member_tx_def
  by (intro gated_head gated_org gated_case_prod; simp)+

lemma row_routes_gated:
  "gated (admitted CreateApplication sv r) (handleCreateApplication sv r)" "gated (admitted CreateDomain sv r) (handleCreateDomain sv r)"
  "gated (admitted ListDomains sv r) (handleListDomains sv r)" "gated (admitted RevokeAPIKey sv r) (handleRevokeAPIKey sv r)"
  "gated (admitted DeleteDomain sv r) (handleDeleteDomain sv r)"
  unfolding handleCreateApplication_def handleCreateDomain_def create_domain_tx_def handleListDomains_def handleRevokeAPIKey_def handleDeleteDomain_def
  by (intro gated_head gated_case_prod, (rule gated_resolve, erule resolve_belongs resolve_key_belongs resolve_domain_belongs; simp)+)+

lemma app_routes_gated:
  "gated (admitted ScaleApplication sv r) (handleScaleApplication sv r)" "gated (admitted DeleteApplication sv r) (handleDeleteApplication sv r)"
  "gated (admitted GetDeployments sv r) (handleGetDeployments sv r)" "gated (admitted GetBuilds sv r) (handleGetBuilds sv r)"
  unfolding handleScaleApplication_def scale_tx_def handleDeleteApplication_def stop_targets_def handleGetDeployments_def deployments_tx_def
    handleGetBuilds_def
  by (intro gated_head gated_case_prod gated_app; simp)+

lemma gated_if: "gated G m \<Longrightarrow> gated G m' \<Longrightarrow> gated G (if b then m else m')"
  by simp

lemma deploy_route_gated: "gated (admitted Deploy sv r) (handleDeploy sv r)"
  unfolding handleDeploy_def handleGitDeploy_def image_deploy_def deploy_tx_def git_deploy_tx_def deploy_checks_def
  by (intro gated_path gated_next [OF readonly_if] gated_next [OF readonly_require(1)] readonly_prim gated_case_prod gated_if
      gated_first [OF gated_WithTx] gated_first [OF gated_app(1)]; simp)


subsection \<open>Examples\<close>

definition demo_server :: server where
  "demo_server = \<lparr>sv_codec = unary, sv_json = \<lparr>Marshal = (\<lambda>_. ''v''), Unmarshal = (\<lambda>_. Some JNull)\<rparr>, sv_sha = (\<lambda>s. CHR ''#'' # s),
     sv_sign = (\<lambda>k c. Some (k @ cl_subject c)), sv_signingKey = ''k'', sv_hash = (\<lambda>p. Some (CHR ''h'' # p)),
     sv_verify = (\<lambda>h p. Some (h = CHR ''h'' # p)), sv_random = (\<lambda>n. Some (replicate (Suc n) CHR ''r'')),
     sv_bytes = (\<lambda>_ _. None), sv_pg_text = (\<lambda>_. ''pg''), sv_bus = True, sv_registryAddr = ''reg''\<rparr>"

definition demo_owner :: "uuid \<Rightarrow> uuid \<Rightarrow> Membership" where
  "demo_owner oid u = \<lparr>mem_ID = oid, mem_OrgID = oid, mem_UserID = u, mem_Role = RoleOwner, mem_CreatedAt = 0\<rparr>"

definition demo_org :: "uuid \<Rightarrow> Organization" where
  "demo_org oid = \<lparr>org_ID = oid, org_Name = ''acme'', org_Slug = ''acme'', org_CreatedAt = 0\<rparr>"

definition demo_user :: "uuid \<Rightarrow> User" where
  "demo_user u = \<lparr>user_ID = u, user_Email = UUID_String unary u @ ''@a'', user_PasswordHash = ''h'', user_CreatedAt = 0\<rparr>"

definition demo_tenants :: db where
  "demo_tenants = empty_db\<lparr>users := [demo_user 1, demo_user 2], organizations := [demo_org 5, demo_org 8], memberships := [demo_owner 5 1, demo_owner 8 2]\<rparr>"

definition demo_rename :: "uuid \<Rightarrow> request" where
  "demo_rename oid = \<lparr>in_ctx = \<lparr>ctx_user = Some 1, ctx_key_org = None\<rparr>, in_path = (\<lambda>_. UUID_String unary oid), in_query = (\<lambda>_. []),
     in_body = Some (JObj [(''name'', JStr ''nova'')]), in_ContentLength = 15\<rparr>"

lemma demo_ready: "api_ready (calm 0 demo_tenants)"
  by (simp add: api_ready_def tenant_inv_def calm_def demo_tenants_def empty_db_def demo_org_def demo_owner_def member_key_def has_owner_def refs_def)

lemma demo_renamed:
  "audit_logs (w_db (snd (serve (Routes UpdateOrganization demo_server (demo_rename 5)) (calm 0 demo_tenants)))) \<noteq> []"
  "rsp_Status (fst (serve (Routes UpdateOrganization demo_server (demo_rename 5)) (calm 0 demo_tenants))) = 200"
  by code_simp+

lemma demo_renamed_db: "w_db (snd (serve (Routes UpdateOrganization demo_server (demo_rename 5)) (calm 0 demo_tenants))) \<noteq> demo_tenants"
  using demo_renamed(1) by (auto simp: demo_tenants_def empty_db_def)





end
