(* ===== verification/Scheduler.thy ===== *)
theory Scheduler
  imports Repos
begin

section \<open>The scheduler: node registry, placement, liveness\<close>

text \<open>
  \<^verbatim>\<open>services/scheduler/internal/scheduler\<close>. The handlers of the four subscriptions and
  the liveness sweep, each run to completion by one consumer; an error is logged and the message
  acknowledged, so every handler answers \<open>()\<close>. The deployment and quota repositories run over
  the admin connection (\<open>as_admin\<close>), which is not subject to row-level security.
\<close>

subsection \<open>Node registry\<close>

definition handleRegister :: "codec \<Rightarrow> json option \<Rightarrow> unit op" where
  "handleRegister cd data =
     (case dec_register data of
        None \<Rightarrow> ret ()
      | Some msg \<Rightarrow>
          (case UUID_Parse cd (rg_NodeID msg) of
             None \<Rightarrow> ret ()
           | Some nid \<Rightarrow>
               logged (bindE (Nodes_Register nid (rg_Hostname msg) (rg_IP msg) (rg_CPUCapacityMillicores msg)
                  (rg_MemoryCapacityMB msg) (rg_Labels msg)) (\<lambda>_. ret ()))))"

definition handleHeartbeat :: "codec \<Rightarrow> json option \<Rightarrow> unit op" where
  "handleHeartbeat cd data =
     (case dec_heartbeat data of
        None \<Rightarrow> ret ()
      | Some msg \<Rightarrow>
          (case UUID_Parse cd (hb_NodeID msg) of
             None \<Rightarrow> ret ()
           | Some nid \<Rightarrow> logged (Nodes_Heartbeat nid (hb_Timestamp msg))))"

definition sweepUnreachable :: "duration \<Rightarrow> unit op" where
  "sweepUnreachable heartbeatTimeout = logged (bindE Nodes_List (\<lambda>ns. bindE now_op (\<lambda>now.
     let cutoff = now - heartbeatTimeout in
     foreach (\<lambda>n. if node_Status n = NodeStatusUnreachable \<or> cutoff < node_LastHeartbeatAt n then ret ()
                  else logged (Nodes_SetStatus (node_ID n) NodeStatusUnreachable)) ns)))"

subsection \<open>Placement\<close>

definition loadOf :: "uuid \<Rightarrow> int op" where
  "loadOf nodeID = bindE (Containers_ListByNode nodeID) (\<lambda>cs.
     ret (int (length (filter (\<lambda>c. con_Status c = ContainerStatusPending \<or> con_Status c = ContainerStatusRunning) cs))))"

definition placeable :: "Node \<Rightarrow> bool" where
  "placeable n \<longleftrightarrow> \<not> (node_Status n \<noteq> NodeStatusHealthy \<or> node_CPUCapacityMillicores n \<le> 0 \<or> node_MemoryCapacityMB n \<le> 0)"

fun selectNode_loop :: "Node list \<Rightarrow> (Node \<times> int) option \<Rightarrow> Node op" where
  "selectNode_loop [] best =
     (case best of None \<Rightarrow> throw (Plain ''no healthy node with capacity available'') | Some (n, _) \<Rightarrow> ret n)"
| "selectNode_loop (n # ns) best =
     (if \<not> placeable n then selectNode_loop ns best
      else bindE (wrapE ''scoring node'' (loadOf (node_ID n))) (\<lambda>load.
        selectNode_loop ns
          (case best of None \<Rightarrow> Some (n, load)
           | Some (_, bestLoad) \<Rightarrow> if load < bestLoad then Some (n, load) else best)))"

definition selectNode :: "Node op" where
  "selectNode = bindE (wrapE ''listing nodes'' Nodes_List) (\<lambda>ns. selectNode_loop ns None)"

definition checkQuota :: "uuid \<Rightarrow> unit op" where
  "checkQuota deploymentID =
     bindE (wrapE ''resolving deployment org for quota check'' (as_admin (Deployments_OrgID deploymentID))) (\<lambda>orgID.
     bindE (wrapE ''fetching quota for org'' (as_admin (Quotas_Get orgID))) (\<lambda>quota.
     bindE (wrapE ''computing usage for org'' (as_admin (Quotas_CurrentUsage orgID))) (\<lambda>usage.
     if ru_Containers usage + 1 > rq_MaxContainers quota then throw (Plain ''would exceed max containers for org'')
     else if ru_CPUMillicores usage > rq_MaxCPUMillicores quota then throw (Plain ''org already exceeds max cpu millicores'')
     else if ru_MemoryMB usage > rq_MaxMemoryMB quota then throw (Plain ''org already exceeds max memory mb'')
     else ret ())))"

definition assignment_for :: "codec \<Rightarrow> placementRequestedMessage \<Rightarrow> Container \<Rightarrow> assignMessage" where
  "assignment_for cd msg c =
     \<lparr>as_AssignmentID = UUID_String cd (con_ID c), as_DeploymentID = pr_DeploymentID msg, as_Image = pr_Image msg,
      as_Env = pr_Env msg, as_Ports = pr_Ports msg, as_Command = pr_Command msg\<rparr>"

definition place :: "codec \<Rightarrow> placementRequestedMessage \<Rightarrow> uuid \<Rightarrow> unit op" where
  "place cd msg deploymentID =
     bindE selectNode (\<lambda>node.
     bindE (checkQuota deploymentID) (\<lambda>_.
     bindE (Containers_Create deploymentID (node_ID node)) (\<lambda>c.
     PublishDurable (NodeAssignSubject (UUID_String cd (node_ID node))) (enc_assign (assignment_for cd msg c)))))"

definition handlePlacement :: "codec \<Rightarrow> json option \<Rightarrow> unit op" where
  "handlePlacement cd data =
     (case dec_placementRequested data of
        None \<Rightarrow> ret ()
      | Some msg \<Rightarrow>
          (case UUID_Parse cd (pr_DeploymentID msg) of
             None \<Rightarrow> ret ()
           | Some deploymentID \<Rightarrow> logged (place cd msg deploymentID)))"

subsection \<open>Status\<close>

fun ContainerStatus_of :: "string \<Rightarrow> ContainerStatus option" where
  "ContainerStatus_of st =
     (if st = ''pending'' then Some ContainerStatusPending
      else if st = ''running'' then Some ContainerStatusRunning
      else if st = ''crashed'' then Some ContainerStatusCrashed
      else if st = ''stopped'' then Some ContainerStatusStopped
      else None)"

definition scheduler_handleStatus :: "codec \<Rightarrow> json option \<Rightarrow> unit op" where
  "scheduler_handleStatus cd data =
     (case dec_schedulerStatus data of
        None \<Rightarrow> ret ()
      | Some msg \<Rightarrow>
          (case UUID_Parse cd (ss_AssignmentID msg) of
             None \<Rightarrow> ret ()
           | Some assignmentID \<Rightarrow>
               (case ContainerStatus_of (ss_Status msg) of
                  None \<Rightarrow> ret ()
                | Some status \<Rightarrow>
                    logged (Containers_UpdateStatus assignmentID status
                      (if ss_ContainerID msg \<noteq> [] then Some (ss_ContainerID msg) else None)))))"

subsection \<open>Choosing a node\<close>

definition node_load :: "db \<Rightarrow> uuid \<Rightarrow> int" where
  "node_load d nid = int (length (filter (\<lambda>c. con_NodeID c = nid \<and> active_status (con_Status c)) (containers d)))"

fun pick :: "(uuid \<Rightarrow> int) \<Rightarrow> Node list \<Rightarrow> (Node \<times> int) option \<Rightarrow> (Node \<times> int) option" where
  "pick load [] best = best"
| "pick load (n # ns) best =
     pick load ns (if \<not> placeable n then best else
       (case best of None \<Rightarrow> Some (n, load (node_ID n))
        | Some (_, l) \<Rightarrow> if load (node_ID n) < l then Some (n, load (node_ID n)) else best))"

lemma loadOf_ok: "no_faults w \<Longrightarrow> loadOf n w = (Inr (node_load (w_db w) n), ticks 1 w)"
  by (simp add: loadOf_def Containers_ListByNode_def op_simps no_faults_def node_load_def active_status_def
      conj_commute)

lemma selectNode_loop_ok:
  "no_faults w \<Longrightarrow> \<exists>k. selectNode_loop ns best w =
     (case pick (node_load (w_db w)) ns best of
        None \<Rightarrow> Inl (Plain ''no healthy node with capacity available'') | Some (n, _) \<Rightarrow> Inr n, ticks k w)"
proof (induction ns arbitrary: best w)
  case Nil
  then show ?case
    by (auto simp: ret_def throw_def ticks_def split: option.splits intro!: exI [of _ 0])
next
  case (Cons n ns)
  show ?case
  proof (cases "placeable n")
    case False
    then show ?thesis using Cons by simp
  next
    case True
    let ?l = "node_load (w_db w) (node_ID n)"
    let ?b = "case best of None \<Rightarrow> Some (n, ?l) | Some (_, bl) \<Rightarrow> if ?l < bl then Some (n, ?l) else best"
    have sc: "wrapE ''scoring node'' (loadOf (node_ID n)) w = (Inr ?l, ticks 1 w)"
      using loadOf_ok [OF Cons.prems] by (simp add: wrapE_Inr)
    from Cons.IH [of "ticks 1 w" ?b] Cons.prems obtain k where
      "selectNode_loop ns ?b (ticks 1 w) = (case pick (node_load (w_db w)) ns ?b of
        None \<Rightarrow> Inl (Plain ''no healthy node with capacity available'') | Some (n, _) \<Rightarrow> Inr n, ticks (1 + k) w)"
      by (auto simp del: One_nat_def)
    with True sc have "selectNode_loop (n # ns) best w = (case pick (node_load (w_db w)) (n # ns) best of
        None \<Rightarrow> Inl (Plain ''no healthy node with capacity available'') | Some (n, _) \<Rightarrow> Inr n, ticks (1 + k) w)"
      by (simp add: bindE_def del: One_nat_def)
    then show ?thesis by blast
  qed
qed

lemma pick_best:
  "pick load ns best = Some (n, l) \<Longrightarrow>
   (best = Some (n, l) \<and> list_all (\<lambda>m. placeable m \<longrightarrow> l \<le> load (node_ID m)) ns) \<or>
   (\<exists>xs ys. ns = xs @ n # ys \<and> placeable n \<and> l = load (node_ID n) \<and>
      list_all (\<lambda>m. placeable m \<longrightarrow> l < load (node_ID m)) xs \<and>
      list_all (\<lambda>m. placeable m \<longrightarrow> l \<le> load (node_ID m)) ys \<and>
      (case best of Some (_, bl) \<Rightarrow> l < bl | None \<Rightarrow> True))"
proof (induction ns arbitrary: best)
  case (Cons m ns)
  let ?b = "if \<not> placeable m then best else (case best of None \<Rightarrow> Some (m, load (node_ID m))
        | Some (_, l) \<Rightarrow> if load (node_ID m) < l then Some (m, load (node_ID m)) else best)"
  from Cons.prems have "pick load ns ?b = Some (n, l)" by simp
  from Cons.IH [OF this] show ?case
  proof (elim disjE exE conjE)
    assume b: "?b = Some (n, l)" and rest: "list_all (\<lambda>m. placeable m \<longrightarrow> l \<le> load (node_ID m)) ns"
    show ?thesis
    proof (cases "placeable m \<and> (case best of None \<Rightarrow> True | Some (_, bl) \<Rightarrow> load (node_ID m) < bl)")
      case True
      with b have "m # ns = [] @ n # ns" "placeable n" "l = load (node_ID n)"
        "case best of Some (_, bl) \<Rightarrow> l < bl | None \<Rightarrow> True"
        by (auto split: option.splits if_splits prod.splits)
      moreover have "list_all (\<lambda>m. placeable m \<longrightarrow> l < load (node_ID m)) []" by simp
      ultimately show ?thesis using rest by blast
    next
      case False
      with b rest show ?thesis by (auto split: option.splits if_splits prod.splits)
    qed
  next
    fix xs ys
    assume *: "ns = xs @ n # ys" "placeable n" "l = load (node_ID n)"
      "list_all (\<lambda>m. placeable m \<longrightarrow> l < load (node_ID m)) xs"
      "list_all (\<lambda>m. placeable m \<longrightarrow> l \<le> load (node_ID m)) ys"
      "case ?b of Some (_, bl) \<Rightarrow> l < bl | None \<Rightarrow> True"
    then have "list_all (\<lambda>m. placeable m \<longrightarrow> l < load (node_ID m)) (m # xs)"
      "case best of Some (_, bl) \<Rightarrow> l < bl | None \<Rightarrow> True"
      by (auto split: option.splits if_splits prod.splits)
    moreover have "m # ns = (m # xs) @ n # ys" using * by simp
    ultimately show ?thesis using * by blast
  qed
qed simp

lemma pick_None: "pick load ns best = None \<longleftrightarrow> best = None \<and> list_all (\<lambda>m. \<not> placeable m) ns"
  by (induction ns arbitrary: best) (auto split: option.splits)

lemma Nodes_List_ok:
  "no_faults w \<Longrightarrow> Nodes_List w = (Inr (sort_key (\<lambda>n. - node_CreatedAt n) (nodes (w_db w))), ticks 1 w)"
  by (simp add: Nodes_List_def op_simps no_faults_def)

lemma selectNode_ok:
  assumes "no_faults w"
  shows "\<exists>k. selectNode w =
    (case pick (node_load (w_db w)) (sort_key (\<lambda>n. - node_CreatedAt n) (nodes (w_db w))) None of
       None \<Rightarrow> Inl (Plain ''no healthy node with capacity available'') | Some (n, _) \<Rightarrow> Inr n, ticks k w)"
proof -
  have "wrapE ''listing nodes'' Nodes_List w =
      (Inr (sort_key (\<lambda>n. - node_CreatedAt n) (nodes (w_db w))), ticks 1 w)"
    using Nodes_List_ok [OF assms] by (simp add: wrapE_Inr)
  with selectNode_loop_ok [of "ticks 1 w" "sort_key (\<lambda>n. - node_CreatedAt n) (nodes (w_db w))" None] assms
  show ?thesis by (auto simp: selectNode_def bindE_def simp del: One_nat_def)
qed

text \<open>
  Filter then score. With the database reachable, \<open>selectNode\<close> answers the first node, newest
  first, among the healthy nodes with positive CPU and memory capacity that run the fewest
  pending or running containers; it fails exactly when no node passes the filter; and it changes
  neither tables nor bus.
\<close>

theorem selectNode_least_loaded:
  assumes "no_faults w" and "ns = sort_key (\<lambda>n. - node_CreatedAt n) (nodes (w_db w))"
  shows "(\<exists>k. snd (selectNode w) = ticks k w) \<and>
    (case fst (selectNode w) of
       Inl _ \<Rightarrow> list_all (\<lambda>m. \<not> placeable m) ns
     | Inr n \<Rightarrow> \<exists>xs ys. ns = xs @ n # ys \<and> placeable n \<and>
         list_all (\<lambda>m. placeable m \<longrightarrow> node_load (w_db w) (node_ID n) < node_load (w_db w) (node_ID m)) xs \<and>
         list_all (\<lambda>m. placeable m \<longrightarrow> node_load (w_db w) (node_ID n) \<le> node_load (w_db w) (node_ID m)) ys)"
proof (cases "pick (node_load (w_db w)) ns None")
  case None
  with selectNode_ok [OF assms(1)] assms(2) obtain k where
    "selectNode w = (Inl (Plain ''no healthy node with capacity available''), ticks k w)" by auto
  with None pick_None [of "node_load (w_db w)" ns None] show ?thesis by auto
next
  case (Some p)
  obtain n l where p: "p = (n, l)" by force
  from selectNode_ok [OF assms(1)] assms(2) Some p obtain k where "selectNode w = (Inr n, ticks k w)"
    by auto
  with pick_best [of "node_load (w_db w)" ns None n l] Some p show ?thesis by auto
qed

subsection \<open>The quota check\<close>

definition org_products :: "(Application \<Rightarrow> int) \<Rightarrow> db \<Rightarrow> uuid \<Rightarrow> int list" where
  "org_products f d orgID = map (\<lambda>a. f a * app_ReplicasDesired a) (filter (\<lambda>a. app_OrgID a = orgID) (applications d))"

text \<open>What Layer 2 admits: one more container, and no CPU or memory overcommitment already.\<close>

definition quota_admits :: "db \<Rightarrow> uuid \<Rightarrow> bool" where
  "quota_admits d did =
     (case org_of_deployment d did of
        None \<Rightarrow> False
      | Some orgID \<Rightarrow>
          (case quota_of d orgID of
             None \<Rightarrow> False
           | Some q \<Rightarrow>
               list_all int4_ok (org_products app_CPUMillicores d orgID) \<and>
               list_all int4_ok (org_products app_MemoryMB d orgID) \<and>
               int (length (active_containers_of_org d orgID)) + 1 \<le> rq_MaxContainers q \<and>
               sum_list (org_products app_CPUMillicores d orgID) \<le> rq_MaxCPUMillicores q \<and>
               sum_list (org_products app_MemoryMB d orgID) \<le> rq_MaxMemoryMB q))"

definition keyed_deployments :: "db \<Rightarrow> bool" where
  "keyed_deployments d \<longleftrightarrow> distinct (map dep_ID (deployments d))"

lemma find_key:
  "distinct (map key xs) \<Longrightarrow> x \<in> set xs \<Longrightarrow> find (\<lambda>y. key y = key x) xs = Some x"
  by (induction xs) force+

lemma org_of_deployment_iff:
  assumes "keyed_deployments d"
  shows "org_of_deployment d did = Some orgID \<longleftrightarrow>
    list_ex (\<lambda>x. dep_ID x = did \<and> dep_OrgID x = orgID) (deployments d)"
proof
  assume "org_of_deployment d did = Some orgID"
  then show "list_ex (\<lambda>x. dep_ID x = did \<and> dep_OrgID x = orgID) (deployments d)"
    unfolding org_of_deployment_def list_ex_iff by (auto dest: find_Some_set)
next
  assume "list_ex (\<lambda>x. dep_ID x = did \<and> dep_OrgID x = orgID) (deployments d)"
  then obtain x where "x \<in> set (deployments d)" "dep_ID x = did" "dep_OrgID x = orgID"
    by (auto simp: list_ex_iff)
  then show "org_of_deployment d did = Some orgID"
    using find_key [of dep_ID "deployments d" x] assms
    by (auto simp: org_of_deployment_def keyed_deployments_def)
qed

lemma Deployments_OrgID_admin:
  "no_faults w \<Longrightarrow> as_admin (Deployments_OrgID did) w =
   (case org_of_deployment (w_db w) did of None \<Rightarrow> Inl ErrNotFound | Some x \<Rightarrow> Inr x, ticks 1 w)"
  by (rule as_admin_run) (simp add: Deployments_OrgID_def queryRow_ok org_of_deployment_def
      deployment_visible_def org_visible_def)

lemma Quotas_Get_admin:
  "no_faults w \<Longrightarrow> as_admin (Quotas_Get orgID) w =
   (case quota_of (w_db w) orgID of None \<Rightarrow> Inl ErrNotFound | Some x \<Rightarrow> Inr x, ticks 1 w)"
  by (rule as_admin_run) (simp add: Quotas_Get_def queryRow_ok org_visible_def)

text \<open>Usage as the admin connection computes it.\<close>

definition org_usage :: "time \<Rightarrow> db \<Rightarrow> uuid \<Rightarrow> ResourceUsage" where
  "org_usage now d orgID =
     \<lparr>ru_Projects = int (length (filter (\<lambda>p. proj_OrgID p = orgID) (projects d))),
      ru_Containers = int (length (active_containers_of_org d orgID)),
      ru_CPUMillicores = sum_list (org_products app_CPUMillicores d orgID),
      ru_MemoryMB = sum_list (org_products app_MemoryMB d orgID),
      ru_DeploymentsToday = int (length (filter (\<lambda>x. dep_OrgID x = orgID \<and> now - 24 * hour \<le> dep_CreatedAt x) (deployments d)))\<rparr>"

lemma usage_products_admin: "bypass_rls s \<Longrightarrow> usage_products f s d orgID = org_products f d orgID"
  by (simp add: usage_products_def org_products_def org_visible_def)

definition products_fit :: "db \<Rightarrow> uuid \<Rightarrow> bool" where
  "products_fit d orgID \<longleftrightarrow> list_all int4_ok (org_products app_CPUMillicores d orgID) \<and>
     list_all int4_ok (org_products app_MemoryMB d orgID)"

lemma CurrentUsage_fits:
  assumes "no_faults w" "keyed_deployments (w_db w)" "bypass_rls (w_sess w)" "products_fit (w_db w) orgID"
  shows "Quotas_CurrentUsage orgID w = (Inr (org_usage (w_now w) (w_db w) orgID), ticks 4 w)"
proof -
  have vis: "org_visible (w_sess w) d x" "deployment_visible (w_sess w) d y" for d x y
    using assms(3) by (simp_all add: org_visible_def deployment_visible_def)
  have count: "filter (\<lambda>c. active_status (con_Status c) \<and>
      list_ex (\<lambda>x. dep_ID x = con_DeploymentID c \<and> dep_OrgID x = orgID) (deployments (w_db w))) (containers (w_db w))
    = active_containers_of_org (w_db w) orgID"
    by (simp add: active_containers_of_org_def org_of_deployment_iff [OF assms(2)])
  show ?thesis
    using assms(1,4) by (simp add: Quotas_CurrentUsage_def op_simps no_faultsD vis count products_fit_def
        usage_products_admin [OF assms(3)] org_usage_def Let_def ticks_def)
qed

lemma CurrentUsage_overflows:
  assumes "no_faults w" "bypass_rls (w_sess w)" "\<not> products_fit (w_db w) orgID"
  shows "Quotas_CurrentUsage orgID w = (Inl (Wrap ''summing desired cpu/memory'' (Pg InvalidValue)), ticks 3 w)"
  using assms(1,3) by (auto simp: Quotas_CurrentUsage_def bindE_def wrapE_def mapErr_def catchE_def
      query_def exec_def throw_def no_faultsD products_fit_def usage_products_admin [OF assms(2)]
      Let_def check_def ticks_def)

lemma CurrentUsage_admin:
  assumes "no_faults w" "keyed_deployments (w_db w)"
  shows "\<exists>k. wrapE msg (as_admin (Quotas_CurrentUsage orgID)) w =
    (if products_fit (w_db w) orgID then Inr (org_usage (w_now w) (w_db w) orgID)
     else Inl (Wrap msg (Wrap ''summing desired cpu/memory'' (Pg InvalidValue))), ticks k w)"
proof -
  let ?b = "w\<lparr>w_sess := (w_sess w)\<lparr>bypass_rls := True\<rparr>\<rparr>"
  show ?thesis
  proof (cases "products_fit (w_db w) orgID")
    case True
    then have "as_admin (Quotas_CurrentUsage orgID) w = (Inr (org_usage (w_now w) (w_db w) orgID), ticks 4 w)"
      using CurrentUsage_fits [of ?b orgID] assms by (intro as_admin_run) simp
    then show ?thesis using True by (auto simp: wrapE_def mapErr_def catchE_def)
  next
    case False
    then have "as_admin (Quotas_CurrentUsage orgID) w =
        (Inl (Wrap ''summing desired cpu/memory'' (Pg InvalidValue)), ticks 3 w)"
      using CurrentUsage_overflows [of ?b orgID] assms by (intro as_admin_run) simp
    then show ?thesis using False by (auto simp: wrapE_def mapErr_def catchE_def throw_def)
  qed
qed

lemma checkQuota_ok:
  assumes "no_faults w" "keyed_deployments (w_db w)"
  shows "\<exists>k e. checkQuota did w = (if quota_admits (w_db w) did then Inr () else Inl e, ticks k w)"
proof (cases "org_of_deployment (w_db w) did")
  case None
  then show ?thesis
    using Deployments_OrgID_admin [OF assms(1), of did]
    by (auto simp: checkQuota_def bindE_def wrapE_def mapErr_def catchE_def throw_def quota_admits_def)
next
  case (Some orgID)
  have org: "wrapE msg (as_admin (Deployments_OrgID did)) w = (Inr orgID, ticks 1 w)" for msg
    using Deployments_OrgID_admin [OF assms(1), of did] Some by (simp add: wrapE_Inr)
  show ?thesis
  proof (cases "quota_of (w_db w) orgID")
    case None
    then show ?thesis
      using Quotas_Get_admin [of "ticks 1 w" orgID] assms(1) org Some
      by (auto simp: checkQuota_def bindE_def wrapE_def mapErr_def catchE_def throw_def quota_admits_def
          simp del: One_nat_def)
  next
    case q: (Some q)
    have quota: "wrapE msg (as_admin (Quotas_Get orgID)) (ticks 1 w) = (Inr q, ticks 2 w)" for msg
      using Quotas_Get_admin [of "ticks 1 w" orgID] assms(1) q by (simp add: wrapE_Inr del: One_nat_def)
    from CurrentUsage_admin [of "ticks 2 w" "''computing usage for org''" orgID] assms obtain k where
      "wrapE ''computing usage for org'' (as_admin (Quotas_CurrentUsage orgID)) (ticks 2 w) =
        (if products_fit (w_db w) orgID then Inr (org_usage (w_now w) (w_db w) orgID)
         else Inl (Wrap ''computing usage for org'' (Wrap ''summing desired cpu/memory'' (Pg InvalidValue))),
         ticks (2 + k) w)" by auto
    then show ?thesis using org quota Some q
      by (cases "products_fit (w_db w) orgID")
        (auto simp: checkQuota_def bindE_def throw_def ret_def quota_admits_def org_usage_def
          products_fit_def simp del: One_nat_def)
  qed
qed

subsection \<open>Placement decisions\<close>

lemma insert_container_Inr:
  "insert_container did nid s now u d = Inr (c, d') \<longleftrightarrow>
   enforce_container_quota d did \<and> list_all (\<lambda>x. con_ID x \<noteq> u) (containers d) \<and>
   list_ex (\<lambda>x. dep_ID x = did) (deployments d) \<and> list_ex (\<lambda>x. node_ID x = nid) (nodes d) \<and>
   c = new_container u did nid \<and> d' = d\<lparr>containers := containers d @ [c]\<rparr>"
  by (auto simp: insert_container_def Let_def)

definition request_of :: "codec \<Rightarrow> json option \<Rightarrow> (placementRequestedMessage \<times> uuid) option" where
  "request_of cd data = Option.bind (dec_placementRequested data)
     (\<lambda>msg. map_option (Pair msg) (UUID_Parse cd (pr_DeploymentID msg)))"

lemma handlePlacement_eq:
  "handlePlacement cd data = (case request_of cd data of None \<Rightarrow> ret () | Some (msg, did) \<Rightarrow> logged (place cd msg did))"
  by (auto simp: handlePlacement_def request_of_def split: option.splits bind_splits)

lemma quota_admits_deployment: "quota_admits d did \<Longrightarrow> list_ex (\<lambda>x. dep_ID x = did) (deployments d)"
  unfolding quota_admits_def org_of_deployment_def list_ex_iff
  by (auto split: option.splits dest: find_Some_set)

lemma quota_admits_trigger: "quota_admits d did \<Longrightarrow> enforce_container_quota d did"
  by (auto simp: quota_admits_def enforce_container_quota_def split: option.splits)

lemma place_ok:
  assumes "no_faults w" "bus_up w" "keyed_deployments (w_db w)"
    and fresh: "\<forall>k. list_all (\<lambda>c. con_ID c \<noteq> w_fresh w k) (containers (w_db w))"
    and "pick (node_load (w_db w)) (sort_key (\<lambda>n. - node_CreatedAt n) (nodes (w_db w))) None = Some (n, l)"
    and "quota_admits (w_db w) did"
  shows "\<exists>u. w_db (snd (place cd msg did w)) =
      (w_db w)\<lparr>containers := containers (w_db w) @ [new_container u did (node_ID n)]\<rparr> \<and>
    w_bus (snd (place cd msg did w)) = w_bus w @ [(NodeAssignSubject (UUID_String cd (node_ID n)),
      enc_assign (assignment_for cd msg (new_container u did (node_ID n))))]"
proof -
  from selectNode_ok [OF assms(1)] assms(5) obtain k where sel: "selectNode w = (Inr n, ticks k w)" by auto
  from checkQuota_ok [of "ticks k w" did] assms(1,3,6) obtain j where
    quota: "checkQuota did (ticks k w) = (Inr (), ticks (k + j) w)" by auto
  let ?u = "w_fresh w (w_stmts w + (k + j))"
  let ?c = "new_container ?u did (node_ID n)"
  let ?w = "(tick (ticks (k + j) w))\<lparr>w_db := (w_db w)\<lparr>containers := containers (w_db w) @ [?c]\<rparr>\<rparr>"
  have "n \<in> set (nodes (w_db w))"
    using pick_best [OF assms(5)] by (auto dest!: arg_cong [where f = set])
  then have "insert_container did (node_ID n) s t ?u (w_db w) =
      Inr (?c, (w_db w)\<lparr>containers := containers (w_db w) @ [?c]\<rparr>)" for s t
    using fresh quota_admits_trigger [OF assms(6)] quota_admits_deployment [OF assms(6)]
    by (auto simp: insert_container_Inr list_ex_iff)
  then have create: "Containers_Create did (node_ID n) (ticks (k + j) w) = (Inr ?c, ?w)"
    using assms(1) by (simp add: Containers_Create_def op_simps no_faultsD)
  have "place cd msg did w = PublishDurable (NodeAssignSubject (UUID_String cd (node_ID n)))
      (enc_assign (assignment_for cd msg ?c)) ?w"
    unfolding place_def using sel quota create by (simp add: bindE_def)
  moreover have "\<not> w_pubfail ?w (w_pubs ?w)" using assms(2) by (simp add: bus_up_def)
  ultimately show ?thesis by (intro exI [of _ ?u]) (simp add: PublishDurable_def)
qed

lemma place_rejected:
  assumes "no_faults w" "keyed_deployments (w_db w)"
    and "pick (node_load (w_db w)) (sort_key (\<lambda>n. - node_CreatedAt n) (nodes (w_db w))) None = None \<or>
      \<not> quota_admits (w_db w) did"
  shows "w_db (snd (place cd msg did w)) = w_db w \<and> w_bus (snd (place cd msg did w)) = w_bus w"
proof (cases "pick (node_load (w_db w)) (sort_key (\<lambda>n. - node_CreatedAt n) (nodes (w_db w))) None")
  case None
  with selectNode_ok [OF assms(1)] obtain k e where "selectNode w = (Inl e, ticks k w)" by auto
  then show ?thesis by (simp add: place_def bindE_def)
next
  case (Some p)
  with selectNode_ok [OF assms(1)] obtain k n where sel: "selectNode w = (Inr n, ticks k w)"
    by (cases p) auto
  from checkQuota_ok [of "ticks k w" did] assms Some obtain j e where
    "checkQuota did (ticks k w) = (Inl e, ticks (k + j) w)" by auto
  with sel show ?thesis by (simp add: place_def bindE_def)
qed

text \<open>
  C31. The effect of a placement request, exactly. With the database and the bus working, a
  decodable request for a deployment is placed precisely when some node passes the filter and
  Layer 2 of the quota scheme admits one more container: then one pending container is recorded
  on the least loaded node and one assignment that names it is published to that node, and
  nothing else changes (the trigger of Layer 3 never fires after Layer 2). In every other case,
  undecodable payloads included, neither tables nor bus change.
\<close>

theorem handlePlacement_exact:
  assumes "no_faults w" "bus_up w" "keyed_deployments (w_db w)"
    and "\<forall>k. list_all (\<lambda>c. con_ID c \<noteq> w_fresh w k) (containers (w_db w))"
    and "d = w_db w" "w' = snd (handlePlacement cd data w)"
  shows "case (request_of cd data, pick (node_load d) (sort_key (\<lambda>n. - node_CreatedAt n) (nodes d)) None) of
      (Some (msg, did), Some (n, _)) \<Rightarrow>
        (if quota_admits d did
         then \<exists>u. w_db w' = d\<lparr>containers := containers d @ [new_container u did (node_ID n)]\<rparr> \<and>
           w_bus w' = w_bus w @ [(NodeAssignSubject (UUID_String cd (node_ID n)),
             enc_assign (assignment_for cd msg (new_container u did (node_ID n))))]
         else w_db w' = d \<and> w_bus w' = w_bus w)
    | _ \<Rightarrow> w_db w' = d \<and> w_bus w' = w_bus w"
proof (cases "request_of cd data")
  case None
  then show ?thesis using assms(5,6) by (simp add: handlePlacement_eq ret_def)
next
  case (Some p)
  obtain msg did where p: "p = (msg, did)" by force
  have w': "w' = snd (place cd msg did w)" using assms(6) Some p by (simp add: handlePlacement_eq logged_snd)
  show ?thesis
  proof (cases "pick (node_load d) (sort_key (\<lambda>n. - node_CreatedAt n) (nodes d)) None")
    case None
    then show ?thesis using place_rejected [OF assms(1,3), of did cd msg] assms(5) w' Some p by simp
  next
    case pk: (Some q)
    obtain n l where q: "q = (n, l)" by force
    show ?thesis
    proof (cases "quota_admits d did")
      case True
      then show ?thesis using place_ok [OF assms(1-4), of n l did cd msg] pk q Some p w' assms(5) by simp
    next
      case False
      then show ?thesis
        using place_rejected [OF assms(1,3), of did cd msg] pk q Some p w' assms(5) by simp
    qed
  qed
qed

text \<open>A small cluster for the witnesses: one organization, one deployment, two nodes.\<close>

definition demo_node :: "uuid \<Rightarrow> NodeStatus \<Rightarrow> Node" where
  "demo_node nid st = \<lparr>node_ID = nid, node_Hostname = ''n'', node_IP = ''10.0.0.1'', node_CPUCapacityMillicores = 1000,
     node_MemoryCapacityMB = 1024, node_Status = st, node_LastHeartbeatAt = 100, node_Labels = [], node_CreatedAt = 0\<rparr>"

definition demo_deployment :: Deployment where
  "demo_deployment = \<lparr>dep_ID = 7, dep_OrgID = 5, dep_ApplicationID = 6, dep_Image = ''nginx'', dep_Revision = 1,
     dep_Status = DeploymentStatusPending, dep_Strategy = ''recreate'', dep_WorkerContainerID = None, dep_CreatedBy = 1,
     dep_CreatedAt = 0, dep_CompletedAt = None\<rparr>"

definition demo_cluster :: db where
  "demo_cluster = empty_db\<lparr>nodes := [demo_node 2 NodeStatusUnreachable, demo_node 3 NodeStatusHealthy],
     deployments := [demo_deployment],
     resource_quotas := [DefaultResourceQuota\<lparr>rq_OrgID := 5\<rparr>]\<rparr>"

definition demo_request :: "json option" where
  "demo_request = Some (enc_placementRequested \<lparr>pr_DeploymentID = replicate 7 CHR ''x'', pr_ApplicationID = [],
     pr_Image = ''nginx'', pr_Env = [], pr_Ports = [], pr_Command = []\<rparr>)"

lemma demo_quota: "quota_admits demo_cluster 7"
  by (simp add: demo_cluster_def quota_admits_def org_of_deployment_def demo_deployment_def quota_of_def
      DefaultResourceQuota_def empty_db_def org_products_def active_containers_of_org_def)

lemma demo_pick:
  "pick (node_load demo_cluster) (sort_key (\<lambda>n. - node_CreatedAt n) (nodes demo_cluster)) None =
     Some (demo_node 3 NodeStatusHealthy, 0)"
  by (simp add: demo_cluster_def empty_db_def demo_node_def placeable_def node_load_def)

lemma demo_request_of: "\<exists>msg. request_of unary demo_request = Some (msg, 7)"
  by (simp add: request_of_def demo_request_def unary_def)

theorem selectNode_least_loaded_witness:
  "fst (selectNode (calm 0 demo_cluster)) = Inr (demo_node 3 NodeStatusHealthy)"
proof -
  let ?ns = "sort_key (\<lambda>n. - node_CreatedAt n) (nodes demo_cluster)"
  have ns: "?ns = [demo_node 2 NodeStatusUnreachable, demo_node 3 NodeStatusHealthy]"
    by (simp add: demo_cluster_def empty_db_def demo_node_def)
  have pl: "placeable (demo_node 3 NodeStatusHealthy)" "\<not> placeable (demo_node 2 NodeStatusUnreachable)"
    by (simp_all add: placeable_def demo_node_def)
  have "case fst (selectNode (calm 0 demo_cluster)) of Inl _ \<Rightarrow> list_all (\<lambda>m. \<not> placeable m) ?ns
     | Inr n \<Rightarrow> \<exists>xs ys. ?ns = xs @ n # ys \<and> placeable n"
    using selectNode_least_loaded [of "calm 0 demo_cluster" ?ns]
    by (auto split: sum.splits)
  then show ?thesis
    unfolding ns using pl by (auto split: sum.splits simp: Cons_eq_append_conv)
qed

theorem handlePlacement_exact_witness:
  "length (containers (w_db (snd (handlePlacement unary demo_request (calm 0 demo_cluster))))) = 1 \<and>
   length (w_bus (snd (handlePlacement unary demo_request (calm 0 demo_cluster)))) = 1"
proof -
  obtain msg where r: "request_of unary demo_request = Some (msg, 7)" using demo_request_of by blast
  have k: "keyed_deployments demo_cluster" and c: "containers demo_cluster = []"
    by (simp_all add: keyed_deployments_def demo_cluster_def empty_db_def)
  show ?thesis
    using handlePlacement_exact [of "calm 0 demo_cluster" demo_cluster
        "snd (handlePlacement unary demo_request (calm 0 demo_cluster))" unary demo_request] demo_quota k c
    unfolding r demo_pick by auto
qed

lemma readonly_CurrentUsage [frame]: "readonly (Quotas_CurrentUsage orgID)"
proof -
  have "readonly (exec (\<lambda>s now u d. let cpus = usage_products app_CPUMillicores s d orgID; mems = usage_products app_MemoryMB s d orgID in
       check (list_all int4_ok cpus \<and> list_all int4_ok mems) InvalidValue (Inr ((sum_list cpus, sum_list mems), d))))"
    by (auto simp: readonly_def exec_def Let_def check_def split: sum.splits)
  then show ?thesis
    unfolding Quotas_CurrentUsage_def
    by (intro readonly_bindE readonly_derived readonly_prim) (auto intro!: readonly_bindE readonly_derived readonly_prim)
qed

lemma readonly_checkQuota [frame]: "readonly (checkQuota did)"
  unfolding checkQuota_def Deployments_OrgID_def Quotas_Get_def
  by (intro readonly_bindE readonly_derived readonly_as_admin readonly_CurrentUsage readonly_if readonly_prim)

lemma readonly_selectNode_loop: "readonly (selectNode_loop ns best)"
proof (induction ns arbitrary: best)
  case Nil
  then show ?case by (auto simp: readonly_prim split: option.splits)
next
  case (Cons n ns)
  have "readonly (loadOf x)" for x
    unfolding loadOf_def Containers_ListByNode_def by (intro readonly_bindE readonly_derived readonly_prim)
  then show ?case by (auto intro!: readonly_bindE readonly_derived Cons)
qed

lemma readonly_selectNode [frame]: "readonly selectNode"
  unfolding selectNode_def Nodes_List_def
  by (intro readonly_bindE readonly_derived readonly_prim readonly_selectNode_loop)

lemma place_cases:
  assumes "place cd msg did w = (r, w')"
  shows "w_db w' = w_db w \<or> (\<exists>u nid. enforce_container_quota (w_db w) did \<and>
    w_db w' = (w_db w)\<lparr>containers := containers (w_db w) @ [new_container u did nid]\<rparr>)"
proof -
  obtain r1 w1 where s: "selectNode w = (r1, w1)" by force
  have d1: "w_db w1 = w_db w" by (rule readonlyD [OF readonly_selectNode s])
  show ?thesis
  proof (cases r1)
    case (Inl e)
    then show ?thesis using assms s d1 by (simp add: place_def bindE_def)
  next
    case (Inr n)
    obtain r2 w2 where q: "checkQuota did w1 = (r2, w2)" by force
    have d2: "w_db w2 = w_db w" using readonlyD [OF readonly_checkQuota q] d1 by simp
    obtain r3 w3 where c: "Containers_Create did (node_ID n) w2 = (r3, w3)" by force
    have d3: "w_db w3 = w_db w \<or> (\<exists>u. enforce_container_quota (w_db w) did \<and>
        w_db w3 = (w_db w)\<lparr>containers := containers (w_db w) @ [new_container u did (node_ID n)]\<rparr>)"
      using c d2 by (auto simp: Containers_Create_def wrapE_def mapErr_def catchE_def throw_def exec_def
          insert_container_Inr split: if_splits sum.splits) (rule exI, rule refl)
    have "w_db w' = w_db w2 \<or> w_db w' = w_db w3"
      using assms s q c Inr
      by (cases r2; cases r3) (auto simp: place_def bindE_def dest: readonlyD [OF readonly_prim(9)])
    with d2 d3 show ?thesis by metis
  qed
qed

lemma active_containers_append:
  "active_containers_of_org (d\<lparr>containers := containers d @ [c]\<rparr>) orgID =
   active_containers_of_org d orgID @
     (if active_status (con_Status c) \<and> org_of_deployment d (con_DeploymentID c) = Some orgID then [c] else [])"
  by (simp add: active_containers_of_org_def org_of_deployment_def)

text \<open>
  C32. Placement never takes an organization over its container ceiling, whatever fails on the
  way: after any placement request an organization with a quota has at most as many pending and
  running containers as the larger of its ceiling and what it had before.
\<close>

theorem placement_respects_quota:
  assumes "quota_of (w_db w) orgID = Some q"
  shows "int (length (active_containers_of_org (w_db (snd (handlePlacement cd data w))) orgID)) \<le>
    max (int (length (active_containers_of_org (w_db w) orgID))) (rq_MaxContainers q)"
proof (cases "request_of cd data")
  case None
  then show ?thesis by (simp add: handlePlacement_eq ret_def)
next
  case (Some p)
  obtain msg did where p: "p = (msg, did)" by force
  obtain r w' where pl: "place cd msg did w = (r, w')" by force
  with Some p have "snd (handlePlacement cd data w) = w'" by (simp add: handlePlacement_eq logged_snd)
  with place_cases [OF pl] assms show ?thesis
    by (auto simp: active_containers_append new_container_def active_status_def enforce_container_quota_def)
qed

theorem placement_respects_quota_witness:
  "int (length (active_containers_of_org
     (w_db (snd (handlePlacement unary demo_request (calm 0 demo_cluster)))) 5)) \<le> 20"
  using placement_respects_quota [of "calm 0 demo_cluster" 5 "DefaultResourceQuota\<lparr>rq_OrgID := 5\<rparr>" unary demo_request]
  by (simp add: demo_cluster_def quota_of_def DefaultResourceQuota_def empty_db_def active_containers_of_org_def)

subsection \<open>Status reports\<close>

lemma UpdateStatus_containers:
  assumes "no_faults w"
  shows "containers (w_db (snd (Containers_UpdateStatus aid st rt w))) =
    map (\<lambda>c. if con_ID c = aid then stamp_status (w_now w) st rt c else c) (containers (w_db w))"
proof (cases "filter (\<lambda>c. con_ID c = aid) (containers (w_db w)) = []")
  case True
  then have "map (\<lambda>c. if con_ID c = aid then stamp_status (w_now w) st rt c else c) (containers (w_db w)) = containers (w_db w)"
    by (intro filter_map_id) (auto simp: filter_empty_conv)
  with True assms show ?thesis
    by (simp add: Containers_UpdateStatus_def execRows_def bindE_def wrapE_def mapErr_def catchE_def exec_def
        no_faultsD throw_def)
next
  case False
  with assms show ?thesis
    by (simp add: Containers_UpdateStatus_def execRows_def bindE_def wrapE_def mapErr_def catchE_def exec_def
        no_faultsD ret_def)
qed

lemma handleStatus_containers:
  assumes "no_faults w"
  shows "containers (w_db (snd (scheduler_handleStatus cd data w))) = (case dec_schedulerStatus data of
      None \<Rightarrow> containers (w_db w) | Some msg \<Rightarrow>
        (case (UUID_Parse cd (ss_AssignmentID msg), ContainerStatus_of (ss_Status msg)) of
           (Some aid, Some st) \<Rightarrow> map (\<lambda>c. if con_ID c = aid then stamp_status (w_now w) st
                (if ss_ContainerID msg = [] then None else Some (ss_ContainerID msg)) c else c) (containers (w_db w))
         | _ \<Rightarrow> containers (w_db w)))"
  by (auto simp: scheduler_handleStatus_def ret_def logged_snd UpdateStatus_containers [OF assms] simp del: ContainerStatus_of.simps
      split: option.splits)

text \<open>
  A status report is recorded on the container it names and nowhere else. The status and,
  once known, the runtime id are updated; the start is stamped at the first report of running and
  the end at the first terminal report, and neither stamp is ever moved by later reports. An
  unknown assignment, a foreign status or an undecodable payload changes nothing.
\<close>

theorem status_recorded:
  assumes "no_faults w" "c \<in> set (containers (w_db w))"
    and "c' = (case dec_schedulerStatus data of None \<Rightarrow> c | Some msg \<Rightarrow>
        (case (UUID_Parse cd (ss_AssignmentID msg), ContainerStatus_of (ss_Status msg)) of
           (Some aid, Some st) \<Rightarrow>
             (if con_ID c = aid then stamp_status (w_now w) st
                (if ss_ContainerID msg = [] then None else Some (ss_ContainerID msg)) c else c)
         | _ \<Rightarrow> c))"
  shows "c' \<in> set (containers (w_db (snd (scheduler_handleStatus cd data w)))) \<and>
    con_ID c' = con_ID c \<and> con_DeploymentID c' = con_DeploymentID c \<and> con_NodeID c' = con_NodeID c \<and>
    (con_StartedAt c = None \<or> con_StartedAt c' = con_StartedAt c) \<and>
    (con_StoppedAt c = None \<or> con_StoppedAt c' = con_StoppedAt c) \<and>
    length (containers (w_db (snd (scheduler_handleStatus cd data w)))) = length (containers (w_db w))"
  using assms(2,3) handleStatus_containers [OF assms(1), of cd data]
  by (auto simp: stamp_status_def simp del: ContainerStatus_of.simps split: option.splits)

theorem status_recorded_witness:
  "let c = new_container 9 7 3;
       d = demo_cluster\<lparr>containers := [c]\<rparr>;
       msg = enc_status \<lparr>st_AssignmentID = replicate 9 CHR ''x'', st_ContainerID = ''abc'', st_Status = ''running'',
                         st_ExitCode = 0, st_Ports = [], st_Timestamp = 0\<rparr>
   in c\<lparr>con_Status := ContainerStatusRunning, con_RuntimeID := Some ''abc'', con_StartedAt := Some 50\<rparr>
        \<in> set (containers (w_db (snd (scheduler_handleStatus unary (Some msg) (calm 50 d)))))"
proof -
  let ?c = "new_container 9 7 3" and ?d = "demo_cluster\<lparr>containers := [new_container 9 7 3]\<rparr>"
  let ?msg = "enc_status \<lparr>st_AssignmentID = replicate 9 CHR ''x'', st_ContainerID = ''abc'', st_Status = ''running'',
                         st_ExitCode = 0, st_Ports = [], st_Timestamp = 0\<rparr>"
  have "?c\<lparr>con_Status := ContainerStatusRunning, con_RuntimeID := Some ''abc'', con_StartedAt := Some 50\<rparr>
      \<in> set (containers (w_db (snd (scheduler_handleStatus unary (Some ?msg) (calm 50 ?d)))))"
    by (rule status_recorded [of "calm 50 ?d" ?c, THEN conjunct1])
      (simp_all add: unary_def stamp_status_def new_container_def int64_ok_def)
  then show ?thesis unfolding Let_def .
qed

subsection \<open>The liveness sweep\<close>

definition overdue :: "time \<Rightarrow> duration \<Rightarrow> Node \<Rightarrow> bool" where
  "overdue now timeout n \<longleftrightarrow> node_Status n \<noteq> NodeStatusUnreachable \<and> node_LastHeartbeatAt n \<le> now - timeout"

definition mark_unreachable :: "(Node \<Rightarrow> bool) \<Rightarrow> Node list \<Rightarrow> Node list" where
  "mark_unreachable P = map (\<lambda>n. if P n then n\<lparr>node_Status := NodeStatusUnreachable\<rparr> else n)"

definition keyed_nodes :: "db \<Rightarrow> bool" where
  "keyed_nodes d \<longleftrightarrow> distinct (map node_ID (nodes d))"

definition sweep_one :: "time \<Rightarrow> Node \<Rightarrow> unit op" where
  "sweep_one cutoff n = (if node_Status n = NodeStatusUnreachable \<or> cutoff < node_LastHeartbeatAt n then ret ()
     else logged (Nodes_SetStatus (node_ID n) NodeStatusUnreachable))"

definition hit :: "time \<Rightarrow> Node list \<Rightarrow> Node \<Rightarrow> bool" where
  "hit cutoff ns x \<longleftrightarrow> list_ex (\<lambda>n. node_ID n = node_ID x \<and> node_Status n \<noteq> NodeStatusUnreachable \<and>
     node_LastHeartbeatAt n \<le> cutoff) ns"

lemma SetStatus_run:
  assumes "no_faults w"
  shows "w_db (snd (Nodes_SetStatus nid st w)) = (w_db w)\<lparr>nodes :=
      map (\<lambda>n. if node_ID n = nid then n\<lparr>node_Status := st\<rparr> else n) (nodes (w_db w))\<rparr> \<and>
    no_faults (snd (Nodes_SetStatus nid st w)) \<and> w_bus (snd (Nodes_SetStatus nid st w)) = w_bus w"
  using assms
  by (auto simp: Nodes_SetStatus_def execRows_def update_nodes_def bindE_def wrapE_def mapErr_def catchE_def exec_def
      no_faults_def throw_def ret_def)

lemma sweep_one_run:
  assumes "no_faults w"
  shows "w_db (snd (sweep_one cutoff n w)) = (w_db w)\<lparr>nodes := mark_unreachable (hit cutoff [n]) (nodes (w_db w))\<rparr> \<and>
    no_faults (snd (sweep_one cutoff n w)) \<and> w_bus (snd (sweep_one cutoff n w)) = w_bus w \<and>
    fst (sweep_one cutoff n w) = Inr ()"
proof (cases "node_Status n = NodeStatusUnreachable \<or> cutoff < node_LastHeartbeatAt n")
  case True
  then have "mark_unreachable (hit cutoff [n]) (nodes (w_db w)) = nodes (w_db w)"
    unfolding mark_unreachable_def by (intro filter_map_id) (auto simp: hit_def)
  with True assms show ?thesis by (simp add: sweep_one_def ret_def)
next
  case False
  then have "mark_unreachable (hit cutoff [n]) (nodes (w_db w)) =
      map (\<lambda>x. if node_ID x = node_ID n then x\<lparr>node_Status := NodeStatusUnreachable\<rparr> else x) (nodes (w_db w))"
    by (auto simp: mark_unreachable_def hit_def)
  with False show ?thesis
    using SetStatus_run [OF assms, of "node_ID n" NodeStatusUnreachable]
    by (simp add: sweep_one_def logged_eq)
qed

lemma mark_mark:
  assumes "\<And>x. P (x\<lparr>node_Status := NodeStatusUnreachable\<rparr>) = P x"
  shows "mark_unreachable P (mark_unreachable Q xs) = mark_unreachable (\<lambda>x. Q x \<or> P x) xs"
  by (auto simp: mark_unreachable_def assms)

lemma sweep_loop:
  assumes "no_faults w"
  shows "w_db (snd (foreach (sweep_one cutoff) ns w)) =
      (w_db w)\<lparr>nodes := mark_unreachable (hit cutoff ns) (nodes (w_db w))\<rparr> \<and>
    w_bus (snd (foreach (sweep_one cutoff) ns w)) = w_bus w"
  using assms
proof (induction ns arbitrary: w)
  case Nil
  have "mark_unreachable (hit cutoff []) (nodes (w_db w)) = nodes (w_db w)"
    unfolding mark_unreachable_def by (intro filter_map_id) (simp add: hit_def)
  then show ?case by (simp add: ret_def)
next
  case (Cons n ns)
  let ?w = "snd (sweep_one cutoff n w)"
  have step: "foreach (sweep_one cutoff) (n # ns) w = foreach (sweep_one cutoff) ns ?w"
    using sweep_one_run [OF Cons.prems, of cutoff n] by (cases "sweep_one cutoff n w") (simp add: bindE_def)
  have "mark_unreachable (hit cutoff ns) (mark_unreachable (hit cutoff [n]) (nodes (w_db w))) =
      mark_unreachable (hit cutoff (n # ns)) (nodes (w_db w))"
    by (subst mark_mark) (simp_all add: hit_def mark_unreachable_def)
  with Cons.IH [of ?w] sweep_one_run [OF Cons.prems, of cutoff n] show ?case
    unfolding step by simp
qed

text \<open>
  One sweep marks unreachable exactly the nodes whose last heartbeat is at least the timeout
  ago and that were not marked before; every other node, every other table and the bus are
  untouched, and an immediate second sweep changes nothing.
\<close>

theorem sweep_marks_exactly_overdue:
  assumes "no_faults w" "keyed_nodes (w_db w)" and "w' = snd (sweepUnreachable timeout w)"
  shows "w_db w' = (w_db w)\<lparr>nodes := mark_unreachable (overdue (w_now w) timeout) (nodes (w_db w))\<rparr> \<and>
    w_bus w' = w_bus w \<and>
    mark_unreachable (overdue (w_now w) timeout) (nodes (w_db w')) = nodes (w_db w')"
proof -
  let ?ns = "sort_key (\<lambda>n. - node_CreatedAt n) (nodes (w_db w))" and ?cut = "w_now w - timeout"
  have body: "(\<lambda>n. if node_Status n = NodeStatusUnreachable \<or> c < node_LastHeartbeatAt n then ret ()
      else logged (Nodes_SetStatus (node_ID n) NodeStatusUnreachable)) = sweep_one c" for c
    by (simp add: sweep_one_def [abs_def])
  have "w' = snd (foreach (sweep_one ?cut) ?ns (ticks 1 w))"
    using assms(3) Nodes_List_ok [OF assms(1)]
    by (simp add: sweepUnreachable_def logged_snd bindE_def now_op_def Let_def body)
  then have run: "w_db w' = (w_db w)\<lparr>nodes := mark_unreachable (hit ?cut ?ns) (nodes (w_db w))\<rparr> \<and> w_bus w' = w_bus w"
    using sweep_loop [of "ticks 1 w" ?cut ?ns] assms(1) by simp
  have "hit ?cut ?ns x = overdue (w_now w) timeout x" if "x \<in> set (nodes (w_db w))" for x
  proof
    assume "hit ?cut ?ns x"
    then obtain n where n: "n \<in> set (nodes (w_db w))" "node_ID n = node_ID x" "overdue (w_now w) timeout n"
      by (auto simp: hit_def list_ex_iff overdue_def)
    with that assms(2) have "n = x" by (auto simp: keyed_nodes_def distinct_map dest: inj_onD)
    with n show "overdue (w_now w) timeout x" by simp
  qed (use that in \<open>auto simp: hit_def list_ex_iff overdue_def\<close>)
  then have "mark_unreachable (hit ?cut ?ns) (nodes (w_db w)) = mark_unreachable (overdue (w_now w) timeout) (nodes (w_db w))"
    by (simp add: mark_unreachable_def)
  with run show ?thesis by (simp add: mark_unreachable_def overdue_def)
qed

theorem sweep_marks_exactly_overdue_witness:
  "nodes (w_db (snd (sweepUnreachable 30 (calm 200 demo_cluster)))) =
     [demo_node 2 NodeStatusUnreachable, demo_node 3 NodeStatusUnreachable]"
proof -
  let ?w = "calm 200 demo_cluster"
  have "w_db (snd (sweepUnreachable 30 ?w)) =
      (w_db ?w)\<lparr>nodes := mark_unreachable (overdue (w_now ?w) 30) (nodes (w_db ?w))\<rparr>"
    by (rule sweep_marks_exactly_overdue [THEN conjunct1])
      (simp_all add: keyed_nodes_def demo_cluster_def demo_node_def)
  then show ?thesis
    by (simp add: mark_unreachable_def overdue_def demo_cluster_def demo_node_def)
qed

end
