(* ===== verification/Platform.thy ===== *)
theory Platform
  imports ApiAccess Scheduler
begin

section \<open>Invariants of the whole platform\<close>

text \<open>
  The writers of the database, taken together: the authenticated routes, signup, login and refresh, the
  consumer of build results, and the scheduler. The locale \<open>lasting\<close> states what a property of the tables has to withstand to
  survive any interleaving of them, and \<open>platform_invariant\<close> that it also holds at the start. Its instances are the tenancy
  invariant, the uniqueness of refresh tokens, and that a token once revoked stays so.
\<close>

subsection \<open>Operations that keep a property\<close>

definition keeps :: "(db \<Rightarrow> bool) \<Rightarrow> 'a op \<Rightarrow> bool" where
  "keeps I m \<longleftrightarrow> (\<forall>w. api_ready w \<and> I (w_db w) \<longrightarrow> api_ready (snd (m w)) \<and> I (w_db (snd (m w))))"

lemma keeps_steady: "steady m \<Longrightarrow> keeps I m"
  by (auto simp: steady_def keeps_def api_ready_def)

lemma steady_reads: "reads m \<Longrightarrow> steady m"
  unfolding reads_def steady_def by (metis ticks_sel)

lemmas keeps_prim = steady_prim [THEN keeps_steady]

lemma keeps_bindE: "keeps I m \<Longrightarrow> (\<And>x. keeps I (f x)) \<Longrightarrow> keeps I (bindE m f)"
  unfolding keeps_def bindE_def by (auto split: prod.splits sum.splits)

lemma keeps_catchE: "keeps I m \<Longrightarrow> (\<And>e. keeps I (h e)) \<Longrightarrow> keeps I (catchE m h)"
  unfolding keeps_def catchE_def by (auto split: prod.splits sum.splits)

lemma keeps_exec:
  assumes "\<And>s now u d x d'. f s now u d = Inr (x, d') \<Longrightarrow> tenant_inv d \<Longrightarrow> I d \<Longrightarrow> tenant_inv d' \<and> I d'"
  shows "keeps I (exec f)"
  unfolding keeps_def exec_def using assms by (auto simp: api_ready_def split: sum.splits)

lemma keeps_derived: "keeps I m \<Longrightarrow> keeps I (mapErr g m)" "keeps I m \<Longrightarrow> keeps I (wrapE msg m)"
    "keeps I m \<Longrightarrow> keeps I (orConflict msg m)" "keeps I m' \<Longrightarrow> keeps I (logged m')"
  by (simp_all add: mapErr_def wrapE_def orConflict_def logged_def keeps_catchE keeps_steady steady_prim)

lemma keeps_effect: "effect R m \<Longrightarrow> (\<And>d d'. R d d' \<Longrightarrow> tenant_inv d \<Longrightarrow> I d \<Longrightarrow> tenant_inv d' \<and> I d') \<Longrightarrow> keeps I m"
  unfolding keeps_def effect_def api_ready_def by metis

lemma keeps_serve: "keeps I m \<Longrightarrow> api_ready w \<Longrightarrow> I (w_db w) \<Longrightarrow> api_ready (snd (serve m w)) \<and> I (w_db (snd (serve m w)))"
  by (simp add: serve_world keeps_def)

lemma keeps_split: "(\<And>a b. keeps I (f a b)) \<Longrightarrow> keeps I (case p of (a, b) \<Rightarrow> f a b)"
  by (cases p) simp

lemma keeps_case_list: "keeps I m \<Longrightarrow> (\<And>x ys. keeps I (f x ys)) \<Longrightarrow> keeps I (case xs of [] \<Rightarrow> m | x # ys \<Rightarrow> f x ys)"
  by (cases xs) simp_all

lemma steady_session [frame]: "steady (accessToken sv u)" "steady (defaultOrgFor sv a)"
  unfolding accessToken_def defaultOrgFor_def Let_def by (auto intro!: frame split: prod.splits)

subsection \<open>Signing up\<close>

text \<open>Signing up adds a user and an organization together with its quota, its owner and an audit entry.\<close>

definition signed_up :: "string \<Rightarrow> string \<Rightarrow> string \<Rightarrow> User \<Rightarrow> Organization \<Rightarrow> db \<Rightarrow> db \<Rightarrow> bool" where
  "signed_up email h slug x org d d' \<longleftrightarrow> user_Email x = email \<and> user_PasswordHash x = h \<and> org_Slug org = slug \<and>
     user_ID x \<notin> user_ID ` set (users d) \<and> email \<notin> user_Email ` set (users d) \<and> org_ID org \<notin> org_ID ` set (organizations d) \<and>
     (\<exists>m q e. mem_OrgID m = org_ID org \<and> mem_UserID m = user_ID x \<and> mem_Role m = RoleOwner \<and> rq_OrgID q = org_ID org \<and>
        audited ''organization.create'' (org_ID org) (user_ID x) e \<and>
        d' = d\<lparr>users := users d @ [x], organizations := organizations d @ [org], resource_quotas := resource_quotas d @ [q],
          memberships := memberships d @ [m], audit_logs := audit_logs d @ [e]\<rparr>)"

lemma signup_tx_Inr:
  assumes run: "signup_tx email h name slug w = (Inr (x, org), w1)"
  shows "signed_up email h slug x org (w_db w) (w_db w1)"
proof -
  let ?m = "\<lparr>mem_ID = w_fresh w (Suc (Suc (Suc (Suc (Suc (w_stmts w)))))), mem_OrgID = org_ID org, mem_UserID = user_ID x,
    mem_Role = RoleOwner, mem_CreatedAt = w_now w\<rparr>"
  let ?q = "DefaultResourceQuota\<lparr>rq_OrgID := org_ID org, rq_CreatedAt := w_now w\<rparr>"
  show ?thesis
    unfolding signed_up_def using run
    by (auto intro!: exI [of _ ?m] exI [of _ ?q] simp: signup_tx_def op_simps Users_Create_def Organizations_Create_def Quotas_Create_def
        Memberships_Create_def Let_def list_all_iff image_iff dest!: recordAudit_Inr)
qed

lemma signed_up_inv:
  assumes "signed_up email h slug x org d d'" "tenant_inv d"
  shows "tenant_inv d'"
proof -
  from assms(1) obtain m q e where m: "org_ID org \<notin> org_ID ` set (organizations d)" "mem_OrgID m = org_ID org" "mem_Role m = RoleOwner"
    and d': "d' = d\<lparr>users := users d @ [x], organizations := organizations d @ [org], resource_quotas := resource_quotas d @ [q],
          memberships := memberships d @ [m], audit_logs := audit_logs d @ [e]\<rparr>"
    unfolding signed_up_def by blast
  have "org_ID org \<notin> mem_OrgID ` set (memberships d)" using assms(2) m(1) unfolding tenant_inv_def by blast
  then have "member_key m \<notin> member_key ` set (memberships d)" using m(2) by (auto simp: member_key_def)
  moreover have "has_owner (memberships d @ [m]) (org_ID org)" using m(2,3) by (simp add: has_owner_def)
  ultimately show ?thesis using assms(2) m(2) unfolding d' tenant_inv_def by (auto simp: has_owner_append)
qed

lemma reads_sessions [frame]: "reads (Users_GetByID i)" "reads (RefreshTokens_GetByHash h)" "reads (Memberships_ListForUser u)" "reads (orgSlug oid)"
  unfolding Users_GetByID_def RefreshTokens_GetByHash_def Memberships_ListForUser_def orgSlug_def by (intro frame)+

lemma signup_effect: "effect (\<lambda>d d'. \<exists>x org. signed_up a h s x org d d') (WithTx u og (signup_tx a h n s))"
proof (rule effect_WithTx)
  fix w y w1 assume "signup_tx a h n s (tx_prologue u og w) = (Inr y, w1)"
  then show "\<exists>x org. signed_up a h s x org (w_db w) (w_db w1)"
    using signup_tx_Inr [of a h n s "tx_prologue u og w" "fst y" "snd y" w1] by auto
qed

subsection \<open>Build results\<close>

lemma build_edits:
  assumes "edits oid bld_OrgID (\<lambda>b. (bld_ID b, bld_ApplicationID b)) f (builds d)" "tenant_inv d"
  shows "tenant_inv (d\<lparr>builds := map f (builds d)\<rparr>)" "confined oid d (d\<lparr>builds := map f (builds d)\<rparr>)"
proof -
  have f: "bld_ID (f b) = bld_ID b" "(bld_ApplicationID (f b), bld_OrgID (f b)) = (bld_ApplicationID b, bld_OrgID b)" if "b \<in> set (builds d)" for b
    using assms(1) that by (auto simp: edits_def)
  then have "distinct (map (bld_ID \<circ> f) (builds d))" using assms(2) by (simp add: tenant_inv_def comp_def cong: map_cong)
  with f(2) assms(2) show "tenant_inv (d\<lparr>builds := map f (builds d)\<rparr>)"
    unfolding tenant_inv_def by (simp add: refs_map_child [where child = "\<lambda>x. (bld_ApplicationID x, bld_OrgID x)"])
  show "confined oid d (d\<lparr>builds := map f (builds d)\<rparr>)"
    using filter_edits [OF assms(1)] by (simp add: confined_def tenant_slice_def container_in_def)
qed

text \<open>With the identifier of a build goes its organization.\<close>

lemma UpdateResult_Inr:
  assumes "Builds_UpdateResult i st c im em w = (Inr (), w1)" "tenant_inv (w_db w)" "b \<in> set (builds (w_db w))" "bld_ID b = i"
  shows "tenant_inv (w_db w1)" "confined (bld_OrgID b) (w_db w) (w_db w1)" "applications (w_db w1) = applications (w_db w)"
    "deployments (w_db w1) = deployments (w_db w)" "audit_logs (w_db w1) = audit_logs (w_db w)"
proof -
  let ?f = "\<lambda>b. if visible_build (w_sess w) (w_db w) i b then b\<lparr>bld_Status := st, bld_CommitSHA := c, bld_Image := im, bld_ErrorMessage := em,
      bld_CompletedAt := Some (w_now w)\<rparr> else b"
  have "distinct (map bld_ID (builds (w_db w)))" using assms(2) by (simp add: tenant_inv_def)
  then have ed: "edits (bld_OrgID b) bld_OrgID (\<lambda>b. (bld_ID b, bld_ApplicationID b)) ?f (builds (w_db w))"
    using assms(3,4) by (auto simp: edits_def visible_build_def distinct_map inj_on_def)
  have w1: "w_db w1 = (w_db w)\<lparr>builds := map ?f (builds (w_db w))\<rparr>"
    using assms(1) by (auto simp: Builds_UpdateResult_def op_simps)
  show "tenant_inv (w_db w1)" "confined (bld_OrgID b) (w_db w) (w_db w1)" "applications (w_db w1) = applications (w_db w)"
      "deployments (w_db w1) = deployments (w_db w)" "audit_logs (w_db w1) = audit_logs (w_db w)"
    unfolding w1 using build_edits [OF ed assms(2)] by simp_all
qed

lemma build_completed_Inr:
  assumes run: "build_completed_tx sv i msg w = (Inr (b, ax), w1)"
  shows "b \<in> set (builds (w_db w)) \<and> visible_build (w_sess w) (w_db w) i b \<and> (\<exists>w2 w3 st cs im em. w_db w2 = w_db w \<and>
    Builds_UpdateResult i st cs im em w2 = (Inr (), w3) \<and> (ax = None \<and> w1 = w3 \<or>
      (\<exists>w4 a0 a x. w_db w4 = w_db w3 \<and> ax = Some (a, x) \<and>
        createDeploymentTx sv (bld_OrgID b) (bld_ApplicationID b) (bld_CreatedBy b) a0 (bc_Image msg) w4 = (Inr (a, x), w1))))"
proof -
  from run obtain c where c: "find (visible_build (w_sess w) (w_db w) i) (builds (w_db w)) = Some c" by (auto simp: build_completed_tx_def Builds_Get_def op_simps)
  let ?w2 = "(ticks 2 w)\<lparr>w_sess := (w_sess w)\<lparr>current_user := Some (bld_CreatedBy c)\<rparr>\<rparr>"
  from run c obtain st cs im em w3 where u: "Builds_UpdateResult i st cs im em ?w2 = (Inr (), w3)" and rest: "ax = None \<and> b = c \<and> w1 = w3 \<or>
      (\<exists>w4 a0 a x. Applications_Get (bld_ApplicationID c) w3 = (Inr a0, w4) \<and> b = c \<and> ax = Some (a, x) \<and>
        createDeploymentTx sv (bld_OrgID c) (bld_ApplicationID c) (bld_CreatedBy c) a0 (bc_Image msg) w4 = (Inr (a, x), w1))"
    unfolding build_completed_tx_def bindE_Inr
    by (auto simp: Builds_Get_def queryRow_Inr SetCurrentUser_Inr bindE_Inr ret_Inr numeral_2_eq_2 simp del: One_nat_def split: if_splits)
  from rest have b: "b = c" by blast
  have "w_db w4 = w_db w3" if "Applications_Get (bld_ApplicationID c) w3 = (Inr a0, w4)" for a0 w4
    using readsD [OF reads_resolve(5) that] by auto
  with c u rest show ?thesis unfolding b by (intro conjI exI [of _ ?w2] exI [of _ w3]) (auto dest!: find_Some_set)
qed

lemma confined_trans: "confined oid d d1 \<Longrightarrow> confined oid d1 d2 \<Longrightarrow> confined oid d d2"
  by (simp add: confined_def)

definition build_outcome :: "uuid \<Rightarrow> uuid \<Rightarrow> Deployment option \<Rightarrow> db \<Rightarrow> db \<Rightarrow> bool" where
  "build_outcome oid u ox d d' \<longleftrightarrow> (\<exists>d1. tenant_inv d1 \<and> confined oid d d1 \<and> applications d1 = applications d \<and> deployments d1 = deployments d \<and>
     audit_logs d1 = audit_logs d \<and> (case ox of None \<Rightarrow> d' = d1 | Some x \<Rightarrow> deployed oid u x d1 d'))"

lemma build_completed_outcome:
  assumes run: "build_completed_tx sv i msg w = (Inr (b, ax), w1)" and inv: "tenant_inv (w_db w)"
  shows "b \<in> set (builds (w_db w)) \<and> bld_ID b = i \<and> org_visible (w_sess w) (w_db w) (bld_OrgID b) \<and>
    build_outcome (bld_OrgID b) (bld_CreatedBy b) (map_option snd ax) (w_db w) (w_db w1)"
proof -
  from build_completed_Inr [OF run] obtain w2 w3 st cs im em where b: "b \<in> set (builds (w_db w))" "visible_build (w_sess w) (w_db w) i b"
    and u: "w_db w2 = w_db w" "Builds_UpdateResult i st cs im em w2 = (Inr (), w3)"
    and rest: "ax = None \<and> w1 = w3 \<or> (\<exists>w4 a0 a x. w_db w4 = w_db w3 \<and> ax = Some (a, x) \<and>
        createDeploymentTx sv (bld_OrgID b) (bld_ApplicationID b) (bld_CreatedBy b) a0 (bc_Image msg) w4 = (Inr (a, x), w1))" by blast
  have bi: "bld_ID b = i" "org_visible (w_sess w) (w_db w) (bld_OrgID b)" using b(2) by (simp_all add: visible_build_def)
  from UpdateResult_Inr [OF u(2)] inv b bi u(1)
  have d3: "tenant_inv (w_db w3)" "confined (bld_OrgID b) (w_db w) (w_db w3)" "applications (w_db w3) = applications (w_db w)"
      "deployments (w_db w3) = deployments (w_db w)" "audit_logs (w_db w3) = audit_logs (w_db w)" by simp_all
  have "(bld_ApplicationID b, bld_OrgID b) \<in> app_key ` set (applications (w_db w3))"
    using inv b(1) d3(3) by (auto simp: tenant_inv_def refs_def)
  then have "deployed (bld_OrgID b) (bld_CreatedBy b) x (w_db w3) (w_db w1)"
    if "w_db w4 = w_db w3" "createDeploymentTx sv (bld_OrgID b) (bld_ApplicationID b) (bld_CreatedBy b) a0 (bc_Image msg) w4 = (Inr (a, x), w1)" for w4 a0 a x
    using createDeploymentTx_deployed [OF that(2)] that(1) d3(1) by simp
  with rest have "case map_option snd ax of None \<Rightarrow> w_db w1 = w_db w3 | Some x \<Rightarrow> deployed (bld_OrgID b) (bld_CreatedBy b) x (w_db w3) (w_db w1)" by auto
  with b(1) bi d3 show ?thesis unfolding build_outcome_def by blast
qed

subsection \<open>Build results\<close>

lemma build_deploys_only_success:
  "build_completed_tx sv i msg w = (Inr (b, Some ax), w1) \<Longrightarrow> bc_Status msg = ''succeeded'' \<and> bc_Image msg \<noteq> []"
  unfolding build_completed_tx_def bindE_Inr by (auto simp: bindE_Inr ret_Inr split: if_splits)

lemma org_visible_hint: "org_visible (tx_session uuid_Nil og s) d oid \<Longrightarrow> \<not> bypass_rls s \<Longrightarrow> oid = og"
  by (auto simp: org_visible_def tx_session_def split: if_splits)

definition build_handled :: "server \<Rightarrow> buildCompletedMessage \<Rightarrow> uuid \<Rightarrow> db \<Rightarrow> db \<Rightarrow> bool" where
  "build_handled sv msg oid d d' \<longleftrightarrow>
     (\<exists>b \<in> set (builds d). UUID_Parse (sv_codec sv) (bc_BuildID msg) = Some (bld_ID b) \<and> bld_OrgID b = oid \<and>
       (\<exists>ox. build_outcome oid (bld_CreatedBy b) ox d d' \<and> (ox \<noteq> None \<longrightarrow> bc_Status msg = ''succeeded'' \<and> bc_Image msg \<noteq> [])))"

lemma build_completed_effect:
  assumes "UUID_Parse (sv_codec sv) (bc_BuildID msg) = Some i"
  shows "effect (build_handled sv msg oid) (bindE (WithTx uuid_Nil oid (build_completed_tx sv i msg)) (\<lambda>(b, deployed).
     case deployed of None \<Rightarrow> ret () | Some (a, x) \<Rightarrow> publishPlacement sv (bld_OrgID b) (bld_CreatedBy b) a x))"
proof (rule effect_WithTx_then [where S = "\<lambda>y d d'. fst y \<in> set (builds d) \<and> bld_ID (fst y) = i \<and> bld_OrgID (fst y) = oid \<and>
    build_outcome oid (bld_CreatedBy (fst y)) (map_option snd (snd y)) d d' \<and> (snd y \<noteq> None \<longrightarrow> bc_Status msg = ''succeeded'' \<and> bc_Image msg \<noteq> [])"],
    goal_cases)
  case (1 w y w1)
  obtain b ax where y: "y = (b, ax)" by fastforce
  from 1 have inv: "tenant_inv (w_db (tx_prologue uuid_Nil oid w))" by (simp add: api_ready_def)
  note out = build_completed_outcome [OF 1(2) [unfolded y] inv]
  then have "bld_OrgID b = oid" using 1(1) org_visible_hint by (auto simp: api_ready_def)
  with out 1(2) y show ?case by (cases ax) (auto dest: build_deploys_only_success)
next
  case (2 y d w)
  obtain b ax where y: "y = (b, ax)" by fastforce
  show ?case
  proof (cases ax)
    case None
    with 2 y assms show ?thesis by (auto simp: build_handled_def ret_def)
  next
    case (Some p)
    obtain a x where p: "p = (a, x)" by fastforce
    from 2 y Some p obtain d1 where d1: "tenant_inv d1" "confined oid d d1" "applications d1 = applications d" "deployments d1 = deployments d"
        "audit_logs d1 = audit_logs d" "deployed oid (bld_CreatedBy b) x d1 (w_db w)" by (auto simp: build_outcome_def)
    from publishPlacement_deployed [OF d1(6), of sv a] obtain x' where
      x': "deployed oid (bld_CreatedBy b) x' d1 (w_db (snd (publishPlacement sv oid (bld_CreatedBy b) a x w)))"
      "w_sess (snd (publishPlacement sv oid (bld_CreatedBy b) a x w)) = w_sess w" by blast
    with d1 have "build_outcome oid (bld_CreatedBy b) (Some x') d (w_db (snd (publishPlacement sv oid (bld_CreatedBy b) a x w)))"
      unfolding build_outcome_def by auto
    with 2 y Some p x'(2) assms show ?thesis unfolding build_handled_def by fastforce
  qed
qed

lemma handleBuildCompleted_effect:
  assumes "dec_buildCompleted data = Some msg" "UUID_Parse (sv_codec sv) (bc_OrgID msg) = Some oid"
  shows "effect (build_handled sv msg oid) (handleBuildCompleted sv data)"
proof (cases "UUID_Parse (sv_codec sv) (bc_BuildID msg)")
  case None
  then show ?thesis using assms by (simp add: handleBuildCompleted_def effect_steady steady_prim)
next
  case (Some i)
  from build_completed_effect [OF this] Some assms show ?thesis by (simp add: handleBuildCompleted_def effect_def logged_snd)
qed

lemma build_handled_outcome:
  assumes "build_handled sv msg oid d d'" "tenant_inv d"
  shows "tenant_inv d'" "confined oid d d'"
proof -
  from assms(1) obtain u ox d1 where d1: "tenant_inv d1" "confined oid d d1" "case ox of None \<Rightarrow> d' = d1 | Some x \<Rightarrow> deployed oid u x d1 d'"
    unfolding build_handled_def build_outcome_def by blast
  then have st: "d' = d1 \<or> tenant_step ''deployment.create'' oid u d1 d'" by (auto split: option.splits dest: deployed_step)
  then show "tenant_inv d'" using d1(1) tenant_step_inv by blast
  show "confined oid d d'" using st d1(2) tenant_step_confined [OF _ d1(1)] confined_trans [OF d1(2)] by blast
qed

text \<open>
  C8. A \<open>build.completed\<close> message changes nothing outside the organization it names, and anything at
  all only when the build it names exists in that organization: a wrong or forged organization is without effect. A
  message that does not report success with an image creates no deployment, changes no application and writes no audit entry.
\<close>

theorem build_result_confined:
  assumes "api_ready w" "dec_buildCompleted data = Some msg" "UUID_Parse (sv_codec sv) (bc_OrgID msg) = Some oid"
    and "d = w_db w" "d' = w_db (snd (handleBuildCompleted sv data w))"
  shows "confined oid d d' \<and>
    (d' = d \<or> (\<exists>b \<in> set (builds d). UUID_Parse (sv_codec sv) (bc_BuildID msg) = Some (bld_ID b) \<and> bld_OrgID b = oid)) \<and>
    (bc_Status msg \<noteq> ''succeeded'' \<or> bc_Image msg = [] \<longrightarrow>
       deployments d' = deployments d \<and> applications d' = applications d \<and> audit_logs d' = audit_logs d)"
proof -
  have "d' = d \<or> build_handled sv msg oid d d'"
    using handleBuildCompleted_effect [OF assms(2,3)] assms(1,4,5) unfolding effect_def by metis
  then show ?thesis
  proof
    assume h: "build_handled sv msg oid d d'"
    have "tenant_inv d" using assms(1,4) by (simp add: api_ready_def)
    from build_handled_outcome(2) [OF h this] h show ?thesis unfolding build_handled_def build_outcome_def by fastforce
  qed (simp add: confined_def)
qed

subsection \<open>The scheduler\<close>

lemma containers_inv:
  "tenant_inv d \<Longrightarrow> con_DeploymentID ` set cs \<subseteq> dep_ID ` set (deployments d) \<Longrightarrow> tenant_inv (d\<lparr>containers := cs\<rparr>)"
  by (simp add: tenant_inv_def)

lemma tenant_inv_con: "tenant_inv d \<Longrightarrow> c \<in> set (containers d) \<Longrightarrow> con_DeploymentID c \<in> dep_ID ` set (deployments d)"
  unfolding tenant_inv_def by blast

lemma reads_selectNode [frame]: "reads selectNode"
proof -
  have "reads (selectNode_loop ns best)" for ns best
    by (induction ns best rule: selectNode_loop.induct)
      (auto intro!: reads_bindE reads_mapErr reads_prim simp: loadOf_def Containers_ListByNode_def split: option.splits)
  then show ?thesis unfolding selectNode_def by (auto intro!: reads_bindE reads_mapErr reads_prim reads_lists)
qed

lemma steady_as_admin [frame]: "readonly m \<Longrightarrow> steady (as_admin m)"
  by (simp add: steady_def as_admin_def readonly_def split_def)

lemma steady_wrapE [frame]: "steady m \<Longrightarrow> steady (wrapE msg m)"
  by (simp add: wrapE_def steady_mapErr)

lemma steady_checkQuota [frame]: "steady (checkQuota did)"
  unfolding checkQuota_def Deployments_OrgID_def
  by (intro frame readonly_reads [OF reads_quota(1)] readonly_reads [OF reads_quota(2)])

subsection \<open>What every writer keeps\<close>

definition revoke_token :: "uuid \<Rightarrow> time \<Rightarrow> uuid \<Rightarrow> RefreshToken list \<Rightarrow> RefreshToken list" where
  "revoke_token i t j = map (\<lambda>x. if rt_ID x = i then x\<lparr>rt_RevokedAt := Some t, rt_ReplacedByID := Some j\<rparr> else x)"

locale lasting =
  fixes I :: "db \<Rightarrow> bool"
  assumes in_tenant: "tenant_inv d \<Longrightarrow> I d \<Longrightarrow> confined oid d d' \<Longrightarrow> I d'"
    and on_signup: "I d \<Longrightarrow> signed_up email h slug x org d d' \<Longrightarrow> I d'"
    and on_containers: "I d \<Longrightarrow> I (d\<lparr>containers := cs\<rparr>)"
    and on_token: "I d \<Longrightarrow> rt_TokenHash tok \<notin> rt_TokenHash ` set (refresh_tokens d) \<Longrightarrow>
      I (d\<lparr>refresh_tokens := refresh_tokens d @ [tok]\<rparr>)"
    and on_rotation: "I d \<Longrightarrow> I (d\<lparr>refresh_tokens := revoke_token i t j (refresh_tokens d)\<rparr>)"
begin

lemma Routes_keeps: "keeps I (Routes rt sv r)"
  by (rule keeps_effect [OF Routes_effect])
    (auto simp: route_step_def authorized_step_def dest: tenant_step_inv intro: in_tenant tenant_step_confined)

lemma tokens_keep: "keeps I (RefreshTokens_Create u h t)" "keeps I (RefreshTokens_Rotate i j)"
proof -
  have ts: "tenant_inv (d\<lparr>refresh_tokens := ts\<rparr>) = tenant_inv d" for d ts by (simp add: tenant_inv_def)
  show "keeps I (RefreshTokens_Create u h t)"
    unfolding RefreshTokens_Create_def
    by (intro keeps_derived keeps_exec) (auto simp: Let_def ts list_all_iff image_iff intro!: on_token)
  show "keeps I (RefreshTokens_Rotate i j)"
    unfolding RefreshTokens_Rotate_def execRows_def
    by (intro keeps_bindE keeps_derived keeps_exec keeps_steady [OF steady_if] steady_prim)
      (auto simp: ts update_token_def intro!: on_rotation [unfolded revoke_token_def])
qed

lemma sessions_keep: "keeps I (handleSignup sv r)" "keeps I (handleLogin sv r)" "keeps I (handleRefresh sv r)"
proof -
  have su: "keeps I (WithTx u og (signup_tx a h n s))" for u og a h n s
    by (rule keeps_effect [OF signup_effect]) (auto dest: signed_up_inv intro: on_signup)
  show "keeps I (handleSignup sv r)" "keeps I (handleLogin sv r)" "keeps I (handleRefresh sv r)"
    unfolding handleSignup_def handleLogin_def handleRefresh_def issueAuthResponse_def
    by (intro keeps_bindE tokens_keep keeps_split keeps_derived keeps_prim keeps_case_list su
      keeps_steady [OF steady_WithTx [OF readonly_reads]] keeps_steady [OF steady_reads] keeps_steady [OF steady_tokens(2)]
      keeps_steady [OF steady_session(1)] keeps_steady [OF steady_session(2)] frame)+
qed

lemma builds_keep: "keeps I (handleBuildCompleted sv data)"
proof (cases "\<exists>msg oid. dec_buildCompleted data = Some msg \<and> UUID_Parse (sv_codec sv) (bc_OrgID msg) = Some oid")
  case True
  then obtain msg oid where "effect (build_handled sv msg oid) (handleBuildCompleted sv data)" using handleBuildCompleted_effect by blast
  then show ?thesis by (rule keeps_effect) (auto dest: build_handled_outcome in_tenant)
next
  case False
  then have "handleBuildCompleted sv data = ret ()" by (auto simp: handleBuildCompleted_def split: option.splits)
  then show ?thesis by (simp add: keeps_prim)
qed

lemma containers_keep: "keeps I (Containers_Create did nid)" "keeps I (Containers_UpdateStatus cid st rt)"
  unfolding Containers_Create_def Containers_UpdateStatus_def execRows_def
  by (auto intro!: keeps_bindE keeps_derived keeps_exec keeps_prim containers_inv on_containers
      simp: insert_container_Inr new_container_def stamp_status_def list_ex_iff) (simp_all add: tenant_inv_con)

lemma scheduler_keeps: "keeps I (handlePlacement cd data)" "keeps I (scheduler_handleStatus cd data)"
  unfolding handlePlacement_def scheduler_handleStatus_def place_def
  by (auto intro!: keeps_bindE keeps_derived keeps_prim containers_keep keeps_steady [OF steady_checkQuota]
      keeps_steady [OF steady_reads [OF reads_selectNode]] simp del: ContainerStatus_of.simps split: option.splits)

end

subsection \<open>Reachable states\<close>

text \<open>
  Every interleaving of authenticated requests, signups, logins, refreshes, build results, placement requests and
  status reports. Between two of them the clock, the failures of statements and publishes to
  come, the fresh identifiers and the bus may change arbitrarily.
\<close>

inductive runs :: "server \<Rightarrow> world \<Rightarrow> world \<Rightarrow> bool" for sv w0 where
  begins: "runs sv w0 w0"
| elsewhere: "runs sv w0 w \<Longrightarrow> w_db w' = w_db w \<Longrightarrow> w_sess w' = w_sess w \<Longrightarrow> runs sv w0 w'"
| request: "runs sv w0 w \<Longrightarrow> runs sv w0 (snd (serve (Routes rt sv r) w))"
| signup: "runs sv w0 w \<Longrightarrow> runs sv w0 (snd (serve (handleSignup sv r) w))"
| login: "runs sv w0 w \<Longrightarrow> runs sv w0 (snd (serve (handleLogin sv r) w))"
| refresh: "runs sv w0 w \<Longrightarrow> runs sv w0 (snd (serve (handleRefresh sv r) w))"
| built: "runs sv w0 w \<Longrightarrow> runs sv w0 (snd (handleBuildCompleted sv data w))"
| placement: "runs sv w0 w \<Longrightarrow> runs sv w0 (snd (handlePlacement (sv_codec sv) data w))"
| status: "runs sv w0 w \<Longrightarrow> runs sv w0 (snd (scheduler_handleStatus (sv_codec sv) data w))"

definition initial :: "world \<Rightarrow> bool" where
  "initial w \<longleftrightarrow> w_db w = empty_db \<and> \<not> bypass_rls (w_sess w)"

definition platform :: "server \<Rightarrow> world \<Rightarrow> bool" where
  "platform sv w \<longleftrightarrow> (\<exists>w0. initial w0 \<and> runs sv w0 w)"

context lasting
begin

lemma runs_keep: "runs sv w0 w \<Longrightarrow> api_ready w0 \<Longrightarrow> I (w_db w0) \<Longrightarrow> api_ready w \<and> I (w_db w)"
proof (induction rule: runs.induct)
  case (elsewhere w w')
  then show ?case by (simp add: api_ready_def)
next
  case (built w data)
  with builds_keep [of sv data] show ?case by (simp add: keeps_def)
next
  case (placement w data)
  with scheduler_keeps(1) [of "sv_codec sv" data] show ?case by (simp add: keeps_def)
next
  case (status w data)
  with scheduler_keeps(2) [of "sv_codec sv" data] show ?case by (simp add: keeps_def)
qed (simp_all add: keeps_serve [OF Routes_keeps] keeps_serve [OF sessions_keep(1)] keeps_serve [OF sessions_keep(2)]
    keeps_serve [OF sessions_keep(3)])

end

locale platform_invariant = lasting +
  assumes at_start: "I empty_db"
begin

lemma platform_keeps: "platform sv w \<Longrightarrow> api_ready w \<and> I (w_db w)"
proof -
  assume "platform sv w"
  then obtain w0 where w0: "initial w0" "runs sv w0 w" unfolding platform_def by blast
  then have "api_ready w0" by (simp add: initial_def api_ready_def tenant_inv_def empty_db_def refs_def)
  with runs_keep [OF w0(2)] w0(1) at_start show ?thesis by (simp add: initial_def)
qed

end

interpretation tenants: platform_invariant "\<lambda>_. True"
  by unfold_locales simp_all

interpretation tokens: platform_invariant "\<lambda>d. distinct (map rt_TokenHash (refresh_tokens d))"
  by unfold_locales (auto simp: confined_def signed_up_def empty_db_def revoke_token_def comp_def if_distrib cong: if_cong)

text \<open>A token whose rows are all revoked.\<close>

definition token_dead :: "string \<Rightarrow> db \<Rightarrow> bool" where
  "token_dead h d \<longleftrightarrow> h \<in> rt_TokenHash ` set (refresh_tokens d) \<and> (\<forall>x \<in> set (refresh_tokens d). rt_TokenHash x = h \<longrightarrow> rt_RevokedAt x \<noteq> None)"

interpretation dead: lasting "token_dead h" for h
proof
  fix d i t j assume "token_dead h d"
  moreover have "rt_TokenHash ` set (revoke_token i t j ts) = rt_TokenHash ` set ts" for ts
    by (auto simp: revoke_token_def image_image image_Un cong: if_cong)
  ultimately show "token_dead h (d\<lparr>refresh_tokens := revoke_token i t j (refresh_tokens d)\<rparr>)"
    by (auto simp: token_dead_def) (auto simp: revoke_token_def split: if_splits)
qed (auto simp: confined_def signed_up_def token_dead_def image_iff)

lemma refs_key:
  "refs (\<lambda>x. (f x, g x)) app_key xs as \<Longrightarrow> \<forall>x \<in> set xs. \<exists>a \<in> set as. app_ID a = f x \<and> app_OrgID a = g x"
  "refs (\<lambda>x. (f x, g x)) proj_key xs ps \<Longrightarrow> \<forall>x \<in> set xs. \<exists>p \<in> set ps. proj_ID p = f x \<and> proj_OrgID p = g x"
  by (simp_all add: refs_def app_key_def proj_key_def image_iff subset_iff) metis+


definition demo_signup :: request where
  "demo_signup = \<lparr>in_ctx = empty_ctx, in_path = (\<lambda>_. []), in_query = (\<lambda>_. []),
     in_body = Some (JObj [(''email'', JStr ''ada@a''), (''password'', JStr ''pw'')]), in_ContentLength = 40\<rparr>"


definition demo_built :: buildCompletedMessage where
  "demo_built = \<lparr>bc_BuildID = ''xx'', bc_OrgID = ''xxxxx'', bc_Status = ''failed'', bc_CommitSHA = [], bc_Image = [], bc_Error = ''no Dockerfile''\<rparr>"

theorem build_result_confined_witness:
  "confined 5 demo_tenants (w_db (snd (handleBuildCompleted demo_server (Some (enc_buildCompleted demo_built)) (calm 0 demo_tenants))))"
proof -
  have "dec_buildCompleted (Some (enc_buildCompleted demo_built)) = Some demo_built" by code_simp
  moreover have "UUID_Parse (sv_codec demo_server) (bc_OrgID demo_built) = Some 5" by (simp add: demo_server_def demo_built_def unary_def)
  ultimately show ?thesis using build_result_confined [OF demo_ready _ _ refl refl] by (simp add: calm_def)
qed

end
