(* ===== verification/Sessions.thy ===== *)
theory Sessions
  imports Platform
begin

section \<open>Accounts and sessions\<close>

text \<open>
  Signing up, logging in and refreshing (\<^verbatim>\<open>handlers_auth.go\<close>) end to end: the credentials of a signup log in, and
  a refresh token is good for one use, in every state the platform reaches.
\<close>

lemma bindE_InrE:
  assumes "bindE m f w = (Inr y, w')"
  obtains x w1 where "m w = (Inr x, w1)" "f x w1 = (Inr y, w')"
  using assms by (auto simp: bindE_Inr)

lemma handleRefresh_Inr:
  assumes run: "handleRefresh sv r w = (Inr resp, w1)" and tok: "dec_refresh (in_body r) = Some tok"
  obtains st w2 u h t nw w3 where "tok \<noteq> []" "find (\<lambda>x. rt_TokenHash x = HashRefreshToken (sv_sha sv) tok) (refresh_tokens (w_db w)) = Some st"
    "w_db w2 = w_db w" "RefreshTokens_Create u h t w2 = (Inr nw, w3)" "RefreshTokens_Rotate (rt_ID st) (rt_ID nw) w3 = (Inr (), w1)"
  using run [unfolded handleRefresh_def split_def]
proof (elim bindE_InrE, goal_cases)
  case (1 tok' wa _ wb st wc _ wd _ we user wf at wg rt wh now wi nw wj u wk)
  note db = steadyD [OF steady_prim(3) 1(2)] steadyD [OF steady_prim(8) 1(3)] steadyD [OF steady_mapErr [OF steady_reads [OF reads_sessions(2)]] 1(4)]
    steadyD [OF steady_prim(5) 1(5)] steadyD [OF steady_prim(8) 1(6)] steadyD [OF steady_reads [OF reads_sessions(1)] 1(7)]
    steadyD [OF steady_session(1) 1(8)] steadyD [OF steady_tokens(2) 1(9)] steadyD [OF steady_prim(5) 1(10)]
  have "tok' = tok" using 1(2) tok by (simp add: lift_Inr)
  then have "find (\<lambda>x. rt_TokenHash x = HashRefreshToken (sv_sha sv) tok) (refresh_tokens (w_db w)) = Some st"
    using 1(4) db(1,2) by (simp add: mapErr_Inr RefreshTokens_GetByHash_def queryRow_Inr)
  moreover have "tok \<noteq> []" using 1(3) \<open>tok' = tok\<close> by (auto simp: require_def op_simps split: if_splits)
  ultimately show ?case using 1 db by (intro 1(1) [of st wi]) (auto simp: ret_Inr)
qed

lemma refresh_revokes:
  assumes run: "handleRefresh sv r w = (Inr resp, w1)" and tok: "dec_refresh (in_body r) = Some tok"
    and dist: "distinct (map rt_TokenHash (refresh_tokens (w_db w)))"
  shows "token_dead (HashRefreshToken (sv_sha sv) tok) (w_db w1)"
proof -
  let ?h = "HashRefreshToken (sv_sha sv) tok"
  obtain st w2 u h t nw w3 where "tok \<noteq> []" and st: "find (\<lambda>x. rt_TokenHash x = ?h) (refresh_tokens (w_db w)) = Some st"
    and run: "w_db w2 = w_db w" "RefreshTokens_Create u h t w2 = (Inr nw, w3)" "RefreshTokens_Rotate (rt_ID st) (rt_ID nw) w3 = (Inr (), w1)"
    using handleRefresh_Inr [OF run tok] .
  from run have nw: "rt_TokenHash nw \<notin> rt_TokenHash ` set (refresh_tokens (w_db w))"
      and w3: "refresh_tokens (w_db w3) = refresh_tokens (w_db w) @ [nw]"
    by (auto simp: RefreshTokens_Create_def op_simps Let_def list_all_iff)
  from run(3) have w1: "refresh_tokens (w_db w1) = revoke_token (rt_ID st) (w_now w3) (rt_ID nw) (refresh_tokens (w_db w3))"
    by (auto simp: RefreshTokens_Rotate_def op_simps update_token_def revoke_token_def)
  from find_Some_set [OF st] have st': "st \<in> set (refresh_tokens (w_db w))" "rt_TokenHash st = ?h" by auto
  then have uniq: "x = st" if "x \<in> set (refresh_tokens (w_db w))" "rt_TokenHash x = ?h" for x
    using that dist by (simp add: distinct_map inj_on_def)
  let ?f = "\<lambda>x. if rt_ID x = rt_ID st then x\<lparr>rt_RevokedAt := Some (w_now w3), rt_ReplacedByID := Some (rt_ID nw)\<rparr> else x"
  have all: "set (refresh_tokens (w_db w1)) = ?f ` (set (refresh_tokens (w_db w)) \<union> {nw})" unfolding w1 w3 revoke_token_def by simp
  have same: "rt_TokenHash (?f x) = rt_TokenHash x" for x by simp
  have "rt_TokenHash nw \<noteq> ?h" using nw st' by (metis imageI)
  then have "rt_RevokedAt y \<noteq> None" if y: "y \<in> set (refresh_tokens (w_db w1))" "rt_TokenHash y = ?h" for y
  proof -
    obtain x where x: "x \<in> set (refresh_tokens (w_db w)) \<union> {nw}" "y = ?f x" using y(1) unfolding all by blast
    with y(2) same [of x] have "rt_TokenHash x = ?h" by simp
    with uniq [of x] x(1) \<open>rt_TokenHash nw \<noteq> ?h\<close> have "x = st" by auto
    with x(2) show ?thesis by simp
  qed
  moreover have "?h \<in> rt_TokenHash ` set (refresh_tokens (w_db w1))"
    unfolding all image_image same using st' by force
  ultimately show ?thesis unfolding token_dead_def by blast
qed

text \<open>
  C6. A refresh token can be used once. In any state the platform reaches, after a refresh that succeeded, and
  after whatever requests, logins, further refreshes and background work follow, presenting the same
  token again is answered with 401 and changes no table.
\<close>

theorem refresh_is_single_use:
  assumes "platform sv w" "handleRefresh sv r w = (Inr resp, w1)" "dec_refresh (in_body r) = Some tok"
    and "runs sv w1 w2" "no_faults w2" "dec_refresh (in_body r2) = Some tok"
  shows "fst (serve (handleRefresh sv r2) w2) = writeJSON 401 (error_body ''unauthorized'' ''refresh token is invalid'') \<and>
    w_db (snd (serve (handleRefresh sv r2) w2)) = w_db w2"
proof -
  let ?h = "HashRefreshToken (sv_sha sv) tok"
  from tokens.platform_keeps [OF assms(1)] have w: "api_ready w" "distinct (map rt_TokenHash (refresh_tokens (w_db w)))" by auto
  have "api_ready w1" using tenants.sessions_keep(3) [of sv r] w(1) assms(2) unfolding keeps_def by (metis snd_conv)
  with dead.runs_keep [OF assms(4)] refresh_revokes [OF assms(2,3) w(2)] have dead: "token_dead ?h (w_db w2)" by blast
  have tok: "tok \<noteq> []" by (rule handleRefresh_Inr [OF assms(2,3)])
  have "\<exists>x. find (\<lambda>x. rt_TokenHash x = ?h) (refresh_tokens (w_db w2)) = Some x"
    using dead by (cases "find (\<lambda>x. rt_TokenHash x = ?h) (refresh_tokens (w_db w2))") (auto simp: token_dead_def find_None_iff)
  then obtain x where x: "find (\<lambda>x. rt_TokenHash x = ?h) (refresh_tokens (w_db w2)) = Some x" by blast
  with dead have rev: "rt_RevokedAt x \<noteq> None" unfolding token_dead_def by (blast dest: find_Some_set)
  have "handleRefresh sv r2 w2 = (Inl (errUnauthorized ''refresh token is invalid''), ticks 1 w2)"
    using rev tok assms(6) 
    by (auto simp: handleRefresh_def bindE_def lift_def ret_def require_def throw_def mapErr_def catchE_def RefreshTokens_GetByHash_def now_op_def x queryRow_ok [OF assms(5)])
  then show ?thesis by (simp add: serve_def api_writeError_def errUnauthorized_def)
qed

lemma WithTx_run:
  assumes "no_faults w" "m (tx_prologue u og w) = (Inr x, w1)" "no_faults w1"
  shows "WithTx u og m w = (Inr x, (tick w1)\<lparr>w_sess := w_sess w\<rparr>)"
proof -
  have swap: "s\<lparr>current_org := a, current_user := b\<rparr> = s\<lparr>current_user := b, current_org := a\<rparr>" for s :: session and a b by simp
  have "bindE begin_tx (\<lambda>_. bindE (if u \<noteq> uuid_Nil then SetCurrentUser u else ret ()) (\<lambda>_.
     bindE (if og \<noteq> uuid_Nil then SetCurrentOrg og else ret ()) (\<lambda>_. bindE m (\<lambda>x. bindE commit_tx (\<lambda>_. ret x))))) w = (Inr x, tick w1)"
    using assms by (auto simp: op_simps swap no_faultsD tx_prologue_def tx_session_def ticks_def)
  then show ?thesis by (simp add: WithTx_def)
qed

lemma issueAuthResponse_tables:
  assumes "issueAuthResponse sv user oid slug role w = (Inr resp, w')"
  shows "\<exists>ts. w_db w' = (w_db w)\<lparr>refresh_tokens := ts\<rparr>"
  using assms [unfolded issueAuthResponse_def split_def]
proof (elim bindE_InrE, goal_cases)
  case (1 at wa rt wb now wc tok wd)
  note db = steadyD [OF steady_session(1) 1(1)] steadyD [OF steady_tokens(2) 1(2)] steadyD [OF steady_prim(5) 1(3)]
  from 1(4,5) db show ?case by (auto simp: RefreshTokens_Create_def op_simps Let_def)
qed

lemma handleSignup_Inr:
  assumes run: "handleSignup sv r w = (Inr resp, w1)" and cred: "dec_credentials (in_body r) = Some (email, pw)"
  obtains h slug user org d ts where "sv_hash sv pw = Some h" "signed_up email h slug user org (w_db w) d" "w_db w1 = d\<lparr>refresh_tokens := ts\<rparr>"
  using run [unfolded handleSignup_def split_def]
proof (elim bindE_InrE, goal_cases)
  case (1 c wa _ wb h wc og wd uo we resp' wf)
  have c: "c = (email, pw)" using 1(2) cred by (simp add: lift_Inr)
  note db = steadyD [OF steady_prim(3) 1(2)] steadyD [OF steady_prim(8) 1(3)] steadyD [OF steady_prim(3) 1(4)] steadyD [OF steady_session(2) 1(5)]
  obtain w2 where "signup_tx email h (fst og) (snd og) (tx_prologue uuid_Nil uuid_Nil wd) = (Inr uo, w2)" "we = (tick w2)\<lparr>w_sess := w_sess wd\<rparr>"
    using WithTx_Inr [OF 1(6)] c by auto
  then have "signed_up email h (snd og) (fst uo) (snd uo) (w_db w) (w_db we)"
    using signup_tx_Inr [of email h "fst og" "snd og" "tx_prologue uuid_Nil uuid_Nil wd" "fst uo" "snd uo" w2] db by simp
  moreover obtain ts where "w_db w1 = (w_db we)\<lparr>refresh_tokens := ts\<rparr>"
    using issueAuthResponse_tables [OF 1(7)] 1(8) by (auto simp: ret_Inr)
  moreover have "sv_hash sv pw = Some h" using 1(4) c by (simp add: lift_Inr)
  ultimately show ?case by (intro 1(1))
qed

lemma find_new: "k \<notin> f ` set xs \<Longrightarrow> f y = k \<Longrightarrow> find (\<lambda>x. f x = k) (xs @ [y]) = Some y"
  by (induction xs) auto


subsection \<open>Examples\<close>

definition demo_account :: world where
  "demo_account = snd (handleSignup demo_server demo_signup (calm 0 empty_db))"

definition demo_refresh :: request where
  "demo_refresh = demo_signup\<lparr>in_body := Some (JObj [(''refresh_token'', JStr ''cnJycnJycnJycnI'')])\<rparr>"

lemma demo_account_platform: "platform demo_server demo_account"
  unfolding platform_def demo_account_def serve_world [symmetric]
  by (intro exI [of _ "calm 0 empty_db"] conjI runs.signup runs.begins) (simp add: initial_def calm_def)

theorem refresh_is_single_use_witness:
  "let w = snd (handleRefresh demo_server demo_refresh demo_account) in
     rsp_Status (fst (serve (handleRefresh demo_server demo_refresh) demo_account)) = 200 \<and>
     fst (serve (handleRefresh demo_server demo_refresh) (calm 0 (w_db w))) = writeJSON 401 (error_body ''unauthorized'' ''refresh token is invalid'')"
proof -
  let ?w = "snd (handleRefresh demo_server demo_refresh demo_account)"
  have ok: "\<not> isl (fst (handleRefresh demo_server demo_refresh demo_account))"
    "rsp_Status (fst (serve (handleRefresh demo_server demo_refresh) demo_account)) = 200" by code_simp+
  then obtain resp where run: "handleRefresh demo_server demo_refresh demo_account = (Inr resp, ?w)"
    by (metis isl_def prod.collapse sum.exhaust_sel)
  have tok: "dec_refresh (in_body demo_refresh) = Some ''cnJycnJycnJycnI''" by code_simp
  have "w_sess ?w = \<lparr>current_user = None, current_org = None, bypass_rls = False\<rparr>" by code_simp
  then have "runs demo_server ?w (calm 0 (w_db ?w))" by (intro runs.elsewhere [OF runs.begins]) (simp_all add: calm_def)
  from refresh_is_single_use [OF demo_account_platform run tok this _ tok] ok(2) show ?thesis by simp
qed


end
