(* ===== verification/CliClient.thy ===== *)
theory CliClient
  imports Sessions
begin

section \<open>The command line client\<close>

text \<open>
  \<^verbatim>\<open>apps/cli/internal/apiclient/client.go\<close> and \<^verbatim>\<open>apps/cli/internal/config/config.go\<close>: the session a user keeps on
  disk, the requests the client sends, the one transparent refresh of an expired access token, and how it reads answers. The
  network is a parameter: \<open>Do\<close> answers a response or the text of an error and \<open>URL_ok\<close> says whether
  \<open>http.NewRequest\<close> accepts an address, over a network state \<open>'n\<close>. The call
  that streams logs is in \<open>LogRoute\<close>, the route table of the server and its agreement with these calls in \<open>CliContract\<close>.
\<close>

subsection \<open>The session\<close>

record Config =
  cc_APIURL :: string
  cc_AccessToken :: string
  cc_RefreshToken :: string
  cc_OrgID :: string
  cc_OrgSlug :: string
  cc_ProjectID :: string
  cc_ProjectName :: string
  cc_Applications :: "(string \<times> string) list"

definition empty_config :: Config where
  "empty_config = \<lparr>cc_APIURL = [], cc_AccessToken = [], cc_RefreshToken = [], cc_OrgID = [], cc_OrgSlug = [], cc_ProjectID = [],
     cc_ProjectName = [], cc_Applications = []\<rparr>"

definition SetSession :: "string \<Rightarrow> string \<Rightarrow> string \<Rightarrow> string \<Rightarrow> Config \<Rightarrow> Config" where
  "SetSession orgID slug access refresh c =
     c\<lparr>cc_OrgID := orgID, cc_OrgSlug := slug, cc_AccessToken := access, cc_RefreshToken := refresh,
       cc_ProjectID := [], cc_ProjectName := [], cc_Applications := []\<rparr>"

definition SetTokens :: "string \<Rightarrow> string \<Rightarrow> Config \<Rightarrow> Config" where
  "SetTokens access refresh c = c\<lparr>cc_AccessToken := access, cc_RefreshToken := refresh\<rparr>"

definition SetProject :: "string \<Rightarrow> string \<Rightarrow> Config \<Rightarrow> Config" where
  "SetProject pid name c = c\<lparr>cc_ProjectID := pid, cc_ProjectName := name, cc_Applications := []\<rparr>"

definition config_json :: "Config \<Rightarrow> json" where
  "config_json c = JObj (enc_opt ''api_url'' (cc_APIURL c) @ enc_opt ''access_token'' (cc_AccessToken c) @
     enc_opt ''refresh_token'' (cc_RefreshToken c) @ enc_opt ''org_id'' (cc_OrgID c) @ enc_opt ''org_slug'' (cc_OrgSlug c) @
     enc_opt ''project_id'' (cc_ProjectID c) @ enc_opt ''project_name'' (cc_ProjectName c) @
     (if cc_Applications c = [] then [] else [(''applications'', JObj (map (\<lambda>(k, v). (k, JStr v)) (cc_Applications c)))]))"

text \<open>The session file: missing, unreadable, or its content as the JSON decoder sees it.\<close>

datatype session_file = NoFile | BadFile | FileHolds "json option"

definition loadFrom :: "session_file \<Rightarrow> Config option" where
  "loadFrom f =
     (case f of
        NoFile \<Rightarrow> Some empty_config
      | BadFile \<Rightarrow> None
      | FileHolds data \<Rightarrow> dec_struct (\<lambda>kvs.
          Option.bind (dec_str [] (field ''api_url'' kvs)) (\<lambda>u.
          Option.bind (dec_str [] (field ''access_token'' kvs)) (\<lambda>a.
          Option.bind (dec_str [] (field ''refresh_token'' kvs)) (\<lambda>r.
          Option.bind (dec_str [] (field ''org_id'' kvs)) (\<lambda>oid.
          Option.bind (dec_str [] (field ''org_slug'' kvs)) (\<lambda>os.
          Option.bind (dec_str [] (field ''project_id'' kvs)) (\<lambda>p.
          Option.bind (dec_str [] (field ''project_name'' kvs)) (\<lambda>n.
          Option.bind (dec_map [] (field ''applications'' kvs)) (\<lambda>apps.
          Some \<lparr>cc_APIURL = u, cc_AccessToken = a, cc_RefreshToken = r, cc_OrgID = oid, cc_OrgSlug = os, cc_ProjectID = p,
            cc_ProjectName = n, cc_Applications = apps\<rparr>))))))))) data)"

subsection \<open>Requests\<close>

record http_call =
  hc_Method :: string
  hc_URL :: string
  hc_Body :: "json option"
  hc_Bearer :: "string option"

record 'n transport =
  URL_ok :: "string \<Rightarrow> bool"
  Do :: "http_call \<Rightarrow> 'n \<Rightarrow> (string + http_response) \<times> 'n"

record APIError =
  ae_Status :: nat
  ae_Code :: string
  ae_Message :: string

text \<open>\<open>NotAuthenticated\<close> is the join of \<open>ErrUnauthorized\<close> with the server's error.\<close>

datatype cli_err = NotAuthenticated APIError | ServerError APIError | CallFailed string string string | BadResponse string string | BadURL

text \<open>The client in use: the session, the file it is saved to, whether saving works, the network, and the requests sent so far.\<close>

record 'n client =
  ses_cfg :: Config
  ses_file :: session_file
  ses_writable :: bool
  ses_net :: 'n
  ses_sent :: "http_call list"

type_synonym ('n, 'a) cli = "'n client \<Rightarrow> (cli_err + 'a) \<times> 'n client"

definition Config_Save :: "'n client \<Rightarrow> 'n client" where
  "Config_Save s = (if ses_writable s then s\<lparr>ses_file := FileHolds (Some (config_json (ses_cfg s)))\<rparr> else s)"

text \<open>A field of the wrong type is skipped and the error of the decoder ignored.\<close>

fun soft_str :: "string \<Rightarrow> json list \<Rightarrow> string" where
  "soft_str acc [] = acc"
| "soft_str acc (JStr s # vs) = soft_str s vs"
| "soft_str acc (_ # vs) = soft_str acc vs"

fun soft_error :: "string \<times> string \<Rightarrow> json list \<Rightarrow> string \<times> string" where
  "soft_error acc [] = acc"
| "soft_error acc (JObj kvs # vs) = soft_error (soft_str (fst acc) (field ''code'' kvs), soft_str (snd acc) (field ''message'' kvs)) vs"
| "soft_error acc (_ # vs) = soft_error acc vs"

definition decodeAPIError :: "http_response \<Rightarrow> APIError" where
  "decodeAPIError resp =
     (let (code, message) = (case rsp_Body resp of Some (JObj kvs) \<Rightarrow> soft_error ([], []) (field ''error'' kvs) | _ \<Rightarrow> ([], []))
      in if message = [] then \<lparr>ae_Status = rsp_Status resp, ae_Code = ''unexpected_status'',
             ae_Message = ''unexpected status '' @ Itoa (int (rsp_Status resp))\<rparr>
         else \<lparr>ae_Status = rsp_Status resp, ae_Code = code, ae_Message = message\<rparr>)"

definition raw ::
  "'n transport \<Rightarrow> string \<Rightarrow> string \<Rightarrow> json option \<Rightarrow> bool \<Rightarrow> (json option \<Rightarrow> 'a option) \<Rightarrow> 'a \<Rightarrow> ('n, 'a) cli"
where
  "raw tr meth path body authenticate out zero s =
     (let url = cc_APIURL (ses_cfg s) @ path;
          call = \<lparr>hc_Method = meth, hc_URL = url, hc_Body = body,
                  hc_Bearer = if authenticate then Some (cc_AccessToken (ses_cfg s)) else None\<rparr>
      in if \<not> URL_ok tr url then (Inl BadURL, s)
         else case Do tr call (ses_net s) of
           (Inl e, net) \<Rightarrow> (Inl (CallFailed meth path e), s\<lparr>ses_net := net, ses_sent := ses_sent s @ [call]\<rparr>)
         | (Inr resp, net) \<Rightarrow>
             (if rsp_Status resp \<ge> 300
              then Inl (if rsp_Status resp = 401 then NotAuthenticated (decodeAPIError resp) else ServerError (decodeAPIError resp))
              else if rsp_Status resp = 204 then Inr zero
              else case out (rsp_Body resp) of None \<Rightarrow> Inl (BadResponse meth path) | Some x \<Rightarrow> Inr x,
              s\<lparr>ses_net := net, ses_sent := ses_sent s @ [call]\<rparr>))"

definition dec_refreshed :: "json option \<Rightarrow> (string \<times> string) option" where
  "dec_refreshed = dec_struct (\<lambda>kvs.
     Option.bind (dec_str [] (field ''access_token'' kvs)) (\<lambda>a.
     Option.bind (dec_str [] (field ''refresh_token'' kvs)) (\<lambda>r. Some (a, r))))"

definition do_call ::
  "'n transport \<Rightarrow> string \<Rightarrow> string \<Rightarrow> json option \<Rightarrow> (json option \<Rightarrow> 'a option) \<Rightarrow> 'a \<Rightarrow> ('n, 'a) cli"
where
  "do_call tr meth path body out zero s =
     (case raw tr meth path body True out zero s of
        (Inl (NotAuthenticated ae), s1) \<Rightarrow>
          (if cc_RefreshToken (ses_cfg s1) = [] then (Inl (NotAuthenticated ae), s1)
           else case raw tr ''POST'' ''/v1/auth/refresh'' (Some (JObj [(''refresh_token'', JStr (cc_RefreshToken (ses_cfg s1)))]))
                  False dec_refreshed ([], []) s1 of
             (Inl _, s2) \<Rightarrow> (Inl (NotAuthenticated ae), s2)
           | (Inr (access, refresh), s2) \<Rightarrow>
               raw tr meth path body True out zero (Config_Save (s2\<lparr>ses_cfg := SetTokens access refresh (ses_cfg s2)\<rparr>)))
      | other \<Rightarrow> other)"

subsection \<open>Answers\<close>

text \<open>Decoding into a pointer: \<open>null\<close> resets it, a value replaces it. A raw message keeps the value as it is.\<close>

fun dec_ptr :: "(json \<Rightarrow> 'a option) \<Rightarrow> 'a option \<Rightarrow> json list \<Rightarrow> 'a option option" where
  "dec_ptr f acc [] = Some acc"
| "dec_ptr f acc (JNull # vs) = dec_ptr f None vs"
| "dec_ptr f acc (v # vs) = Option.bind (f v) (\<lambda>x. dec_ptr f (Some x) vs)"

fun dec_raw :: "json \<Rightarrow> json list \<Rightarrow> json option" where
  "dec_raw acc [] = Some acc"
| "dec_raw acc (v # vs) = dec_raw v vs"

definition dec_jstr :: "json \<Rightarrow> string option" where
  "dec_jstr v = (case v of JStr s \<Rightarrow> Some s | _ \<Rightarrow> None)"

definition dec_jtime :: "json \<Rightarrow> time option" where
  "dec_jtime v = (case v of JTime t \<Rightarrow> Some t | _ \<Rightarrow> None)"

record cli_Organization =
  co_ID :: string
  co_Name :: string
  co_Slug :: string
  co_CreatedAt :: time

definition dec_Organization :: "json option \<Rightarrow> cli_Organization option" where
  "dec_Organization = dec_struct (\<lambda>kvs.
     Option.bind (dec_str [] (field ''id'' kvs)) (\<lambda>f1.
     Option.bind (dec_str [] (field ''name'' kvs)) (\<lambda>f2.
     Option.bind (dec_str [] (field ''slug'' kvs)) (\<lambda>f3.
     Option.bind (dec_time 0 (field ''created_at'' kvs)) (\<lambda>f4.
     Some \<lparr>co_ID = f1, co_Name = f2, co_Slug = f3, co_CreatedAt = f4\<rparr>)))))"

definition zero_Organization :: cli_Organization where
  "zero_Organization = \<lparr>co_ID = [], co_Name = [], co_Slug = [], co_CreatedAt = 0\<rparr>"

record cli_Membership =
  cm_ID :: string
  cm_OrgID :: string
  cm_UserID :: string
  cm_Email :: string
  cm_Role :: string
  cm_CreatedAt :: time

definition dec_Membership :: "json option \<Rightarrow> cli_Membership option" where
  "dec_Membership = dec_struct (\<lambda>kvs.
     Option.bind (dec_str [] (field ''id'' kvs)) (\<lambda>f1.
     Option.bind (dec_str [] (field ''org_id'' kvs)) (\<lambda>f2.
     Option.bind (dec_str [] (field ''user_id'' kvs)) (\<lambda>f3.
     Option.bind (dec_str [] (field ''email'' kvs)) (\<lambda>f4.
     Option.bind (dec_str [] (field ''role'' kvs)) (\<lambda>f5.
     Option.bind (dec_time 0 (field ''created_at'' kvs)) (\<lambda>f6.
     Some \<lparr>cm_ID = f1, cm_OrgID = f2, cm_UserID = f3, cm_Email = f4, cm_Role = f5, cm_CreatedAt = f6\<rparr>)))))))"

definition zero_Membership :: cli_Membership where
  "zero_Membership = \<lparr>cm_ID = [], cm_OrgID = [], cm_UserID = [], cm_Email = [], cm_Role = [], cm_CreatedAt = 0\<rparr>"

record cli_Project =
  cp_ID :: string
  cp_OrgID :: string
  cp_Name :: string
  cp_Slug :: string
  cp_CreatedAt :: time

definition dec_Project :: "json option \<Rightarrow> cli_Project option" where
  "dec_Project = dec_struct (\<lambda>kvs.
     Option.bind (dec_str [] (field ''id'' kvs)) (\<lambda>f1.
     Option.bind (dec_str [] (field ''org_id'' kvs)) (\<lambda>f2.
     Option.bind (dec_str [] (field ''name'' kvs)) (\<lambda>f3.
     Option.bind (dec_str [] (field ''slug'' kvs)) (\<lambda>f4.
     Option.bind (dec_time 0 (field ''created_at'' kvs)) (\<lambda>f5.
     Some \<lparr>cp_ID = f1, cp_OrgID = f2, cp_Name = f3, cp_Slug = f4, cp_CreatedAt = f5\<rparr>))))))"

definition zero_Project :: cli_Project where
  "zero_Project = \<lparr>cp_ID = [], cp_OrgID = [], cp_Name = [], cp_Slug = [], cp_CreatedAt = 0\<rparr>"

record cli_Application =
  ca_ID :: string
  ca_OrgID :: string
  ca_ProjectID :: string
  ca_Name :: string
  ca_Image :: string
  ca_ReplicasDesired :: int
  ca_CreatedAt :: time

definition dec_Application :: "json option \<Rightarrow> cli_Application option" where
  "dec_Application = dec_struct (\<lambda>kvs.
     Option.bind (dec_str [] (field ''id'' kvs)) (\<lambda>f1.
     Option.bind (dec_str [] (field ''org_id'' kvs)) (\<lambda>f2.
     Option.bind (dec_str [] (field ''project_id'' kvs)) (\<lambda>f3.
     Option.bind (dec_str [] (field ''name'' kvs)) (\<lambda>f4.
     Option.bind (dec_str [] (field ''image'' kvs)) (\<lambda>f5.
     Option.bind (dec_int 0 (field ''replicas_desired'' kvs)) (\<lambda>f6.
     Option.bind (dec_time 0 (field ''created_at'' kvs)) (\<lambda>f7.
     Some \<lparr>ca_ID = f1, ca_OrgID = f2, ca_ProjectID = f3, ca_Name = f4, ca_Image = f5, ca_ReplicasDesired = f6, ca_CreatedAt = f7\<rparr>))))))))"

definition zero_Application :: cli_Application where
  "zero_Application = \<lparr>ca_ID = [], ca_OrgID = [], ca_ProjectID = [], ca_Name = [], ca_Image = [], ca_ReplicasDesired = 0, ca_CreatedAt = 0\<rparr>"

record cli_Container =
  ct_NodeID :: string
  ct_Status :: string

definition dec_Container :: "json option \<Rightarrow> cli_Container option" where
  "dec_Container = dec_struct (\<lambda>kvs.
     Option.bind (dec_str [] (field ''node_id'' kvs)) (\<lambda>f1.
     Option.bind (dec_str [] (field ''status'' kvs)) (\<lambda>f2.
     Some \<lparr>ct_NodeID = f1, ct_Status = f2\<rparr>)))"

definition zero_Container :: cli_Container where
  "zero_Container = \<lparr>ct_NodeID = [], ct_Status = []\<rparr>"

definition dec_Service :: "json \<Rightarrow> string option" where
  "dec_Service v = dec_struct (\<lambda>kvs. dec_str [] (field ''dns_name'' kvs)) (Some v)"

record cli_Deployment =
  cd_ID :: string
  cd_ApplicationID :: string
  cd_Image :: string
  cd_Revision :: int
  cd_Status :: string
  cd_Strategy :: string
  cd_WorkerContainerID :: "string option"
  cd_ReplicasDesired :: int
  cd_ReplicasRunning :: int
  cd_Containers :: "cli_Container list"
  cd_Service :: "string option"
  cd_CreatedAt :: time
  cd_CompletedAt :: "time option"

definition dec_Deployment :: "json option \<Rightarrow> cli_Deployment option" where
  "dec_Deployment = dec_struct (\<lambda>kvs.
     Option.bind (dec_str [] (field ''id'' kvs)) (\<lambda>f1.
     Option.bind (dec_str [] (field ''application_id'' kvs)) (\<lambda>f2.
     Option.bind (dec_str [] (field ''image'' kvs)) (\<lambda>f3.
     Option.bind (dec_int 0 (field ''revision'' kvs)) (\<lambda>f4.
     Option.bind (dec_str [] (field ''status'' kvs)) (\<lambda>f5.
     Option.bind (dec_str [] (field ''strategy'' kvs)) (\<lambda>f6.
     Option.bind (dec_ptr dec_jstr None (field ''worker_container_id'' kvs)) (\<lambda>f7.
     Option.bind (dec_int 0 (field ''replicas_desired'' kvs)) (\<lambda>f8.
     Option.bind (dec_int 0 (field ''replicas_running'' kvs)) (\<lambda>f9.
     Option.bind (dec_list (\<lambda>v. dec_Container (Some v)) [] (field ''containers'' kvs)) (\<lambda>f10.
     Option.bind (dec_ptr dec_Service None (field ''service'' kvs)) (\<lambda>f11.
     Option.bind (dec_time 0 (field ''created_at'' kvs)) (\<lambda>f12.
     Option.bind (dec_ptr dec_jtime None (field ''completed_at'' kvs)) (\<lambda>f13.
     Some \<lparr>cd_ID = f1, cd_ApplicationID = f2, cd_Image = f3, cd_Revision = f4, cd_Status = f5, cd_Strategy = f6, cd_WorkerContainerID = f7, cd_ReplicasDesired = f8, cd_ReplicasRunning = f9, cd_Containers = f10, cd_Service = f11, cd_CreatedAt = f12, cd_CompletedAt = f13\<rparr>))))))))))))))"

definition zero_Deployment :: cli_Deployment where
  "zero_Deployment = \<lparr>cd_ID = [], cd_ApplicationID = [], cd_Image = [], cd_Revision = 0, cd_Status = [], cd_Strategy = [], cd_WorkerContainerID = None, cd_ReplicasDesired = 0, cd_ReplicasRunning = 0, cd_Containers = [], cd_Service = None, cd_CreatedAt = 0, cd_CompletedAt = None\<rparr>"

record cli_Node =
  cn_ID :: string
  cn_Hostname :: string
  cn_Status :: string
  cn_LastHeartbeatAt :: time

definition dec_Node :: "json option \<Rightarrow> cli_Node option" where
  "dec_Node = dec_struct (\<lambda>kvs.
     Option.bind (dec_str [] (field ''id'' kvs)) (\<lambda>f1.
     Option.bind (dec_str [] (field ''hostname'' kvs)) (\<lambda>f2.
     Option.bind (dec_str [] (field ''status'' kvs)) (\<lambda>f3.
     Option.bind (dec_time 0 (field ''last_heartbeat_at'' kvs)) (\<lambda>f4.
     Some \<lparr>cn_ID = f1, cn_Hostname = f2, cn_Status = f3, cn_LastHeartbeatAt = f4\<rparr>)))))"

definition zero_Node :: cli_Node where
  "zero_Node = \<lparr>cn_ID = [], cn_Hostname = [], cn_Status = [], cn_LastHeartbeatAt = 0\<rparr>"

record cli_Domain =
  cdm_ID :: string
  cdm_OrgID :: string
  cdm_ProjectID :: string
  cdm_ApplicationID :: string
  cdm_Hostname :: string
  cdm_TLSStatus :: string
  cdm_CreatedAt :: time

definition dec_Domain :: "json option \<Rightarrow> cli_Domain option" where
  "dec_Domain = dec_struct (\<lambda>kvs.
     Option.bind (dec_str [] (field ''id'' kvs)) (\<lambda>f1.
     Option.bind (dec_str [] (field ''org_id'' kvs)) (\<lambda>f2.
     Option.bind (dec_str [] (field ''project_id'' kvs)) (\<lambda>f3.
     Option.bind (dec_str [] (field ''application_id'' kvs)) (\<lambda>f4.
     Option.bind (dec_str [] (field ''hostname'' kvs)) (\<lambda>f5.
     Option.bind (dec_str [] (field ''tls_status'' kvs)) (\<lambda>f6.
     Option.bind (dec_time 0 (field ''created_at'' kvs)) (\<lambda>f7.
     Some \<lparr>cdm_ID = f1, cdm_OrgID = f2, cdm_ProjectID = f3, cdm_ApplicationID = f4, cdm_Hostname = f5, cdm_TLSStatus = f6, cdm_CreatedAt = f7\<rparr>))))))))"

definition zero_Domain :: cli_Domain where
  "zero_Domain = \<lparr>cdm_ID = [], cdm_OrgID = [], cdm_ProjectID = [], cdm_ApplicationID = [], cdm_Hostname = [], cdm_TLSStatus = [], cdm_CreatedAt = 0\<rparr>"

record cli_APIKey =
  ck_ID :: string
  ck_OrgID :: string
  ck_Name :: string
  ck_Scopes :: "string list"
  ck_CreatedBy :: string
  ck_CreatedAt :: time
  ck_RevokedAt :: "time option"
  ck_Key :: string

definition dec_APIKey :: "json option \<Rightarrow> cli_APIKey option" where
  "dec_APIKey = dec_struct (\<lambda>kvs.
     Option.bind (dec_str [] (field ''id'' kvs)) (\<lambda>f1.
     Option.bind (dec_str [] (field ''org_id'' kvs)) (\<lambda>f2.
     Option.bind (dec_str [] (field ''name'' kvs)) (\<lambda>f3.
     Option.bind (dec_list (\<lambda>v. dec_str [] [v]) [] (field ''scopes'' kvs)) (\<lambda>f4.
     Option.bind (dec_str [] (field ''created_by'' kvs)) (\<lambda>f5.
     Option.bind (dec_time 0 (field ''created_at'' kvs)) (\<lambda>f6.
     Option.bind (dec_ptr dec_jtime None (field ''revoked_at'' kvs)) (\<lambda>f7.
     Option.bind (dec_str [] (field ''key'' kvs)) (\<lambda>f8.
     Some \<lparr>ck_ID = f1, ck_OrgID = f2, ck_Name = f3, ck_Scopes = f4, ck_CreatedBy = f5, ck_CreatedAt = f6, ck_RevokedAt = f7, ck_Key = f8\<rparr>)))))))))"

definition zero_APIKey :: cli_APIKey where
  "zero_APIKey = \<lparr>ck_ID = [], ck_OrgID = [], ck_Name = [], ck_Scopes = [], ck_CreatedBy = [], ck_CreatedAt = 0, ck_RevokedAt = None, ck_Key = []\<rparr>"

record cli_Quota =
  cq_OrgID :: string
  cq_MaxCPUMillicores :: int
  cq_MaxMemoryMB :: int
  cq_MaxContainers :: int
  cq_MaxProjects :: int
  cq_MaxDeploymentsPerDay :: int
  cq_UsedCPUMillicores :: int
  cq_UsedMemoryMB :: int
  cq_UsedContainers :: int
  cq_UsedProjects :: int
  cq_UsedDeploymentsToday :: int

definition dec_Quota :: "json option \<Rightarrow> cli_Quota option" where
  "dec_Quota = dec_struct (\<lambda>kvs.
     Option.bind (dec_str [] (field ''org_id'' kvs)) (\<lambda>f1.
     Option.bind (dec_int 0 (field ''max_cpu_millicores'' kvs)) (\<lambda>f2.
     Option.bind (dec_int 0 (field ''max_memory_mb'' kvs)) (\<lambda>f3.
     Option.bind (dec_int 0 (field ''max_containers'' kvs)) (\<lambda>f4.
     Option.bind (dec_int 0 (field ''max_projects'' kvs)) (\<lambda>f5.
     Option.bind (dec_int 0 (field ''max_deployments_per_day'' kvs)) (\<lambda>f6.
     Option.bind (dec_int 0 (field ''used_cpu_millicores'' kvs)) (\<lambda>f7.
     Option.bind (dec_int 0 (field ''used_memory_mb'' kvs)) (\<lambda>f8.
     Option.bind (dec_int 0 (field ''used_containers'' kvs)) (\<lambda>f9.
     Option.bind (dec_int 0 (field ''used_projects'' kvs)) (\<lambda>f10.
     Option.bind (dec_int 0 (field ''used_deployments_today'' kvs)) (\<lambda>f11.
     Some \<lparr>cq_OrgID = f1, cq_MaxCPUMillicores = f2, cq_MaxMemoryMB = f3, cq_MaxContainers = f4, cq_MaxProjects = f5, cq_MaxDeploymentsPerDay = f6, cq_UsedCPUMillicores = f7, cq_UsedMemoryMB = f8, cq_UsedContainers = f9, cq_UsedProjects = f10, cq_UsedDeploymentsToday = f11\<rparr>))))))))))))"

definition zero_Quota :: cli_Quota where
  "zero_Quota = \<lparr>cq_OrgID = [], cq_MaxCPUMillicores = 0, cq_MaxMemoryMB = 0, cq_MaxContainers = 0, cq_MaxProjects = 0, cq_MaxDeploymentsPerDay = 0, cq_UsedCPUMillicores = 0, cq_UsedMemoryMB = 0, cq_UsedContainers = 0, cq_UsedProjects = 0, cq_UsedDeploymentsToday = 0\<rparr>"

record cli_AuditLogEntry =
  cal_ID :: string
  cal_OrgID :: string
  cal_ActorUserID :: "string option"
  cal_Action :: string
  cal_TargetType :: string
  cal_TargetID :: string
  cal_Metadata :: json
  cal_CreatedAt :: time

definition dec_AuditLogEntry :: "json option \<Rightarrow> cli_AuditLogEntry option" where
  "dec_AuditLogEntry = dec_struct (\<lambda>kvs.
     Option.bind (dec_str [] (field ''id'' kvs)) (\<lambda>f1.
     Option.bind (dec_str [] (field ''org_id'' kvs)) (\<lambda>f2.
     Option.bind (dec_ptr dec_jstr None (field ''actor_user_id'' kvs)) (\<lambda>f3.
     Option.bind (dec_str [] (field ''action'' kvs)) (\<lambda>f4.
     Option.bind (dec_str [] (field ''target_type'' kvs)) (\<lambda>f5.
     Option.bind (dec_str [] (field ''target_id'' kvs)) (\<lambda>f6.
     Option.bind (dec_raw JNull (field ''metadata'' kvs)) (\<lambda>f7.
     Option.bind (dec_time 0 (field ''created_at'' kvs)) (\<lambda>f8.
     Some \<lparr>cal_ID = f1, cal_OrgID = f2, cal_ActorUserID = f3, cal_Action = f4, cal_TargetType = f5, cal_TargetID = f6, cal_Metadata = f7, cal_CreatedAt = f8\<rparr>)))))))))"

definition zero_AuditLogEntry :: cli_AuditLogEntry where
  "zero_AuditLogEntry = \<lparr>cal_ID = [], cal_OrgID = [], cal_ActorUserID = None, cal_Action = [], cal_TargetType = [], cal_TargetID = [], cal_Metadata = JNull, cal_CreatedAt = 0\<rparr>"

definition dec_data :: "(json option \<Rightarrow> 'a option) \<Rightarrow> json option \<Rightarrow> 'a list option" where
  "dec_data f = dec_struct (\<lambda>kvs. dec_list (\<lambda>v. f (Some v)) [] (field ''data'' kvs))"

definition dec_page :: "(json option \<Rightarrow> 'a option) \<Rightarrow> json option \<Rightarrow> ('a list \<times> string option) option" where
  "dec_page f = dec_struct (\<lambda>kvs.
     Option.bind (dec_list (\<lambda>v. f (Some v)) [] (field ''data'' kvs)) (\<lambda>xs.
     Option.bind (dec_ptr dec_jstr None (field ''next_cursor'' kvs)) (\<lambda>c. Some (xs, c))))"

record AuthResponse =
  ar_UserID :: string
  ar_Email :: string
  ar_OrgID :: string
  ar_OrgSlug :: string
  ar_Role :: string
  ar_AccessToken :: string
  ar_AccessTokenExpiresAt :: time
  ar_RefreshToken :: string

fun dec_user :: "string \<times> string \<Rightarrow> json list \<Rightarrow> (string \<times> string) option" where
  "dec_user acc [] = Some acc"
| "dec_user acc (JNull # vs) = dec_user acc vs"
| "dec_user acc (JObj kvs # vs) =
     Option.bind (dec_str (fst acc) (field ''id'' kvs)) (\<lambda>i. Option.bind (dec_str (snd acc) (field ''email'' kvs)) (\<lambda>e. dec_user (i, e) vs))"
| "dec_user acc (_ # vs) = None"

fun dec_org :: "string \<times> string \<times> string \<Rightarrow> json list \<Rightarrow> (string \<times> string \<times> string) option" where
  "dec_org acc [] = Some acc"
| "dec_org acc (JNull # vs) = dec_org acc vs"
| "dec_org acc (JObj kvs # vs) =
     Option.bind (dec_str (fst acc) (field ''id'' kvs)) (\<lambda>i. Option.bind (dec_str (fst (snd acc)) (field ''slug'' kvs)) (\<lambda>s.
     Option.bind (dec_str (snd (snd acc)) (field ''role'' kvs)) (\<lambda>r. dec_org (i, s, r) vs)))"
| "dec_org acc (_ # vs) = None"

definition dec_AuthResponse :: "json option \<Rightarrow> AuthResponse option" where
  "dec_AuthResponse = dec_struct (\<lambda>kvs.
     Option.bind (dec_user ([], []) (field ''user'' kvs)) (\<lambda>(i, e).
     Option.bind (dec_org ([], [], []) (field ''org'' kvs)) (\<lambda>(oid, slug, role).
     Option.bind (dec_str [] (field ''access_token'' kvs)) (\<lambda>a.
     Option.bind (dec_time 0 (field ''access_token_expires_at'' kvs)) (\<lambda>t.
     Option.bind (dec_str [] (field ''refresh_token'' kvs)) (\<lambda>r.
     Some \<lparr>ar_UserID = i, ar_Email = e, ar_OrgID = oid, ar_OrgSlug = slug, ar_Role = role, ar_AccessToken = a,
       ar_AccessTokenExpiresAt = t, ar_RefreshToken = r\<rparr>))))))"

definition zero_AuthResponse :: AuthResponse where
  "zero_AuthResponse = \<lparr>ar_UserID = [], ar_Email = [], ar_OrgID = [], ar_OrgSlug = [], ar_Role = [], ar_AccessToken = [],
     ar_AccessTokenExpiresAt = 0, ar_RefreshToken = []\<rparr>"

subsection \<open>The calls\<close>

definition client_auth :: "'n transport \<Rightarrow> string \<Rightarrow> string \<Rightarrow> string \<Rightarrow> ('n, AuthResponse) cli" where
  "client_auth tr path email password =
     raw tr ''POST'' path (Some (JObj [(''email'', JStr email), (''password'', JStr password)])) False dec_AuthResponse zero_AuthResponse"

definition Client_Signup :: "'n transport \<Rightarrow> string \<Rightarrow> string \<Rightarrow> ('n, AuthResponse) cli" where
  "Client_Signup tr email password = client_auth tr ''/v1/auth/signup'' email password"

definition Client_Login :: "'n transport \<Rightarrow> string \<Rightarrow> string \<Rightarrow> ('n, AuthResponse) cli" where
  "Client_Login tr email password = client_auth tr ''/v1/auth/login'' email password"

definition Client_GetOrganization :: "'n transport \<Rightarrow> string \<Rightarrow> ('n, cli_Organization) cli" where
  "Client_GetOrganization tr orgID = do_call tr ''GET'' (''/v1/orgs/'' @ orgID)
     None dec_Organization zero_Organization"

definition Client_UpdateOrganization :: "'n transport \<Rightarrow> string \<Rightarrow> string \<Rightarrow> ('n, cli_Organization) cli" where
  "Client_UpdateOrganization tr orgID name = do_call tr ''PATCH'' (''/v1/orgs/'' @ orgID)
     (Some (JObj [(''name'', JStr name)])) dec_Organization zero_Organization"

definition Client_ListMembers :: "'n transport \<Rightarrow> string \<Rightarrow> ('n, cli_Membership list) cli" where
  "Client_ListMembers tr orgID = do_call tr ''GET'' (''/v1/orgs/'' @ orgID @ ''/members'')
     None (dec_data dec_Membership) []"

definition Client_InviteMember :: "'n transport \<Rightarrow> string \<Rightarrow> string \<Rightarrow> string \<Rightarrow> ('n, cli_Membership) cli" where
  "Client_InviteMember tr orgID email role = do_call tr ''POST'' (''/v1/orgs/'' @ orgID @ ''/members'')
     (Some (JObj [(''email'', JStr email), (''role'', JStr role)])) dec_Membership zero_Membership"

definition Client_ChangeMemberRole :: "'n transport \<Rightarrow> string \<Rightarrow> string \<Rightarrow> string \<Rightarrow> ('n, cli_Membership) cli" where
  "Client_ChangeMemberRole tr orgID userID role = do_call tr ''PATCH'' (''/v1/orgs/'' @ orgID @ ''/members/'' @ userID)
     (Some (JObj [(''role'', JStr role)])) dec_Membership zero_Membership"

definition Client_RemoveMember :: "'n transport \<Rightarrow> string \<Rightarrow> string \<Rightarrow> ('n, unit) cli" where
  "Client_RemoveMember tr orgID userID = do_call tr ''DELETE'' (''/v1/orgs/'' @ orgID @ ''/members/'' @ userID)
     None (\<lambda>_. Some ()) ()"

definition Client_CreateProject :: "'n transport \<Rightarrow> string \<Rightarrow> string \<Rightarrow> ('n, cli_Project) cli" where
  "Client_CreateProject tr orgID name = do_call tr ''POST'' (''/v1/orgs/'' @ orgID @ ''/projects'')
     (Some (JObj [(''name'', JStr name)])) dec_Project zero_Project"

definition Client_CreateApplication :: "'n transport \<Rightarrow> string \<Rightarrow> string \<Rightarrow> string \<Rightarrow> PortSpec list \<Rightarrow> ('n, cli_Application) cli" where
  "Client_CreateApplication tr projectID name img ports = do_call tr ''POST'' (''/v1/projects/'' @ projectID @ ''/applications'')
     (Some (JObj ([(''name'', JStr name), (''image'', JStr img)] @ enc_ports ports))) dec_Application zero_Application"

definition Client_Deploy :: "'n transport \<Rightarrow> string \<Rightarrow> string \<Rightarrow> ('n, cli_Deployment) cli" where
  "Client_Deploy tr appID img = do_call tr ''POST'' (''/v1/applications/'' @ appID @ ''/deployments'')
     (if img \<noteq> [] then Some (JObj [(''image'', JStr img)]) else None) dec_Deployment zero_Deployment"

definition Client_ListDeployments :: "'n transport \<Rightarrow> string \<Rightarrow> ('n, cli_Deployment list \<times> string option) cli" where
  "Client_ListDeployments tr appID = do_call tr ''GET'' (''/v1/applications/'' @ appID @ ''/deployments'')
     None (dec_page dec_Deployment) ([], None)"

definition Client_DeleteApplication :: "'n transport \<Rightarrow> string \<Rightarrow> ('n, unit) cli" where
  "Client_DeleteApplication tr appID = do_call tr ''DELETE'' (''/v1/applications/'' @ appID)
     None (\<lambda>_. Some ()) ()"

definition Client_ScaleApplication :: "'n transport \<Rightarrow> string \<Rightarrow> int \<Rightarrow> ('n, cli_Application) cli" where
  "Client_ScaleApplication tr appID replicas = do_call tr ''PATCH'' (''/v1/applications/'' @ appID)
     (Some (JObj [(''replicas_desired'', JNum replicas)])) dec_Application zero_Application"

definition Client_ListNodes :: "'n transport \<Rightarrow> ('n, cli_Node list) cli" where
  "Client_ListNodes tr = do_call tr ''GET'' (''/v1/nodes'')
     None (dec_data dec_Node) []"

definition Client_CreateDomain :: "'n transport \<Rightarrow> string \<Rightarrow> string \<Rightarrow> string \<Rightarrow> ('n, cli_Domain) cli" where
  "Client_CreateDomain tr projectID hostname applicationID = do_call tr ''POST'' (''/v1/projects/'' @ projectID @ ''/domains'')
     (Some (JObj [(''hostname'', JStr hostname), (''application_id'', JStr applicationID)])) dec_Domain zero_Domain"

definition Client_ListDomains :: "'n transport \<Rightarrow> string \<Rightarrow> ('n, cli_Domain list) cli" where
  "Client_ListDomains tr projectID = do_call tr ''GET'' (''/v1/projects/'' @ projectID @ ''/domains'')
     None (dec_data dec_Domain) []"

definition Client_DeleteDomain :: "'n transport \<Rightarrow> string \<Rightarrow> ('n, unit) cli" where
  "Client_DeleteDomain tr domainID = do_call tr ''DELETE'' (''/v1/domains/'' @ domainID)
     None (\<lambda>_. Some ()) ()"

definition Client_CreateAPIKey :: "'n transport \<Rightarrow> string \<Rightarrow> string \<Rightarrow> string list \<Rightarrow> ('n, cli_APIKey) cli" where
  "Client_CreateAPIKey tr orgID name scopes = do_call tr ''POST'' (''/v1/orgs/'' @ orgID @ ''/api-keys'')
     (Some (JObj ([(''name'', JStr name)] @ (if scopes = [] then [] else [(''scopes'', JArr (map JStr scopes))])))) dec_APIKey zero_APIKey"

definition Client_ListAPIKeys :: "'n transport \<Rightarrow> string \<Rightarrow> ('n, cli_APIKey list) cli" where
  "Client_ListAPIKeys tr orgID = do_call tr ''GET'' (''/v1/orgs/'' @ orgID @ ''/api-keys'')
     None (dec_data dec_APIKey) []"

definition Client_DeleteAPIKey :: "'n transport \<Rightarrow> string \<Rightarrow> ('n, unit) cli" where
  "Client_DeleteAPIKey tr keyID = do_call tr ''DELETE'' (''/v1/api-keys/'' @ keyID)
     None (\<lambda>_. Some ()) ()"

definition Client_GetQuota :: "'n transport \<Rightarrow> string \<Rightarrow> ('n, cli_Quota) cli" where
  "Client_GetQuota tr orgID = do_call tr ''GET'' (''/v1/orgs/'' @ orgID @ ''/quota'')
     None dec_Quota zero_Quota"

text \<open>\<open>url.QueryEscape\<close> leaves the alphabet of cursors (letters, digits, dash, underscore) as it is and writes every other byte as
  a plus sign or in hexadecimal.\<close>

definition hex_digit :: "nat \<Rightarrow> char" where
  "hex_digit n = (if n < 10 then char_of (48 + n) else char_of (55 + n))"

definition escape_char :: "char \<Rightarrow> string" where
  "escape_char c = (if is_digit c \<or> is_lower c \<or> is_upper c \<or> c \<in> {CHR ''-'', CHR ''_'', CHR ''.'', CHR ''~''} then [c]
     else if c = CHR '' '' then ''+'' else [CHR ''%'', hex_digit (byte c div 16), hex_digit (byte c mod 16)])"

definition QueryEscape :: "string \<Rightarrow> string" where
  "QueryEscape s = concat (map escape_char s)"

definition Client_ListAuditLogs :: "'n transport \<Rightarrow> string \<Rightarrow> string \<Rightarrow> ('n, cli_AuditLogEntry list \<times> string option) cli" where
  "Client_ListAuditLogs tr orgID cursor = do_call tr ''GET'' (''/v1/orgs/'' @ orgID @ ''/audit-logs'' @ (if cursor \<noteq> [] then ''?cursor='' @ QueryEscape cursor else []))
     None (dec_page dec_AuditLogEntry) ([], None)"

end
