(* ===== verification/WorkerClient.thy ===== *)
theory WorkerClient
  imports DockerRuntime HttpMux CliClient
begin

section \<open>The worker's API and its client\<close>

text \<open>
  The routes of \<^verbatim>\<open>services/worker/internal/server/server.go\<close> and the client of
  \<^verbatim>\<open>services/apiserver/internal/workerclient/client.go\<close>. The network between them is a parameter, the record
  \<open>stream_net\<close>; \<open>connected\<close> is the network that carries every call to a worker. The main result is that a call
  through the client has the effect and the result of the operation of the runtime interface it stands for.
\<close>

subsection \<open>The routes of the worker\<close>

datatype worker_endpoint = WCreate | WStatus | WStop | WRemove | WLogs

definition worker_table :: "(string \<times> worker_endpoint) list" where
  "worker_table =
     [(''POST /v1/containers'', WCreate), (''GET /v1/containers/{id}'', WStatus), (''POST /v1/containers/{id}/stop'', WStop),
      (''DELETE /v1/containers/{id}'', WRemove), (''GET /v1/containers/{id}/logs'', WLogs)]"

text \<open>
  A request as the mux and the handlers see it. Of the content length only whether it is zero is read. A path that
  no pattern takes is answered 404, or 405 when another method would be taken, without JSON. \<open>wr\<close> is how many
  writes of a log the connection takes.
\<close>

definition worker_Routes ::
  "'e ContainerRuntime \<Rightarrow> nat option \<Rightarrow> string \<Rightarrow> string \<Rightarrow> json option \<Rightarrow> 'e \<Rightarrow> log_answer \<times> 'e"
where
  "worker_Routes rt wr meth url body e =
     (case table_matches worker_table meth url of
        [] \<Rightarrow> (Answered \<lparr>rsp_Status = if list_all (\<lambda>m. table_matches worker_table m url = []) [''GET'', ''POST'', ''DELETE''] then 404 else 405,
                rsp_Body = None\<rparr>, e)
      | (ep, vals) # _ \<Rightarrow>
          (let cid = (case map_of vals ''id'' of Some c \<Rightarrow> c | None \<Rightarrow> []) in
           case ep of
             WCreate \<Rightarrow> map_prod Answered id (worker_handleCreate rt body e)
           | WStatus \<Rightarrow> map_prod Answered id (worker_handleStatus rt cid e)
           | WStop \<Rightarrow> map_prod Answered id (worker_handleStop rt cid (if body = None then 0 else 1) body e)
           | WRemove \<Rightarrow> map_prod Answered id (worker_handleRemove rt cid e)
           | WLogs \<Rightarrow> (worker_handleLogs rt wr cid (Query_Get url ''follow'') e, e)))"

subsection \<open>The client\<close>

text \<open>
  What the network does with a request: \<open>net_BadURL\<close> is the error of \<open>http.NewRequest\<close> for an address, if any, and
  \<open>net_Do\<close> answers or fails with a text. \<open>net_JSON\<close> is what the JSON decoder makes of a text and \<open>net_Text\<close> the bytes of an answer in
  JSON, for answers of the other kind than the caller expects.
\<close>

record 'n stream_net =
  net_BadURL :: "string \<Rightarrow> string option"
  net_Do :: "http_call \<Rightarrow> 'n \<Rightarrow> (string + log_answer) \<times> 'n"
  net_JSON :: "log_stream \<Rightarrow> json option"
  net_Text :: "http_response \<Rightarrow> log_stream"

definition answer_status :: "log_answer \<Rightarrow> nat" where
  "answer_status a = (case a of Answered r \<Rightarrow> rsp_Status r | Streaming _ \<Rightarrow> 200)"

definition answer_json :: "'n stream_net \<Rightarrow> log_answer \<Rightarrow> json option" where
  "answer_json net a = (case a of Answered r \<Rightarrow> rsp_Body r | Streaming st \<Rightarrow> net_JSON net st)"

definition answer_text :: "'n stream_net \<Rightarrow> log_answer \<Rightarrow> log_stream" where
  "answer_text net a = (case a of Answered r \<Rightarrow> net_Text net r | Streaming st \<Rightarrow> st)"

text \<open>\<open>ErrNotFound\<close> of the package, or another error by its text; of a failed decoding without the decoder's own words.\<close>

datatype wc_error = ErrContainerNotFound | WorkerError string

definition worker_envelope :: "json option \<Rightarrow> string \<times> string" where
  "worker_envelope b = (case b of Some (JObj kvs) \<Rightarrow> soft_error ([], []) (field ''error'' kvs) | _ \<Rightarrow> ([], []))"

definition worker_refusal :: "'n stream_net \<Rightarrow> string \<Rightarrow> string \<Rightarrow> log_answer \<Rightarrow> wc_error" where
  "worker_refusal net meth path a =
     (let (code, message) = worker_envelope (answer_json net a) in
      if answer_status a = 404 then ErrContainerNotFound
      else if message \<noteq> [] then WorkerError (''worker '' @ meth @ '' '' @ path @ '': '' @ message @ '' ('' @ code @ '')'')
      else WorkerError (''worker '' @ meth @ '' '' @ path @ '': unexpected status '' @ Itoa (int (answer_status a))))"

definition worker_call :: "string \<Rightarrow> string \<Rightarrow> string \<Rightarrow> json option \<Rightarrow> http_call" where
  "worker_call baseURL meth path body = \<lparr>hc_Method = meth, hc_URL = baseURL @ path, hc_Body = body, hc_Bearer = None\<rparr>"

definition wc_do ::
  "'n stream_net \<Rightarrow> string \<Rightarrow> string \<Rightarrow> string \<Rightarrow> json option \<Rightarrow> nat \<Rightarrow> (json option \<Rightarrow> 'a option) \<Rightarrow> 'n \<Rightarrow> (wc_error + 'a) \<times> 'n"
where
  "wc_do net baseURL meth path body wantStatus out n =
     (case net_BadURL net (baseURL @ path) of
        Some er \<Rightarrow> (Inl (WorkerError (''building worker request: '' @ er)), n)
      | None \<Rightarrow>
          (case net_Do net (worker_call baseURL meth path body) n of
             (Inl er, n1) \<Rightarrow> (Inl (WorkerError (''calling worker '' @ meth @ '' '' @ path @ '': '' @ er)), n1)
           | (Inr a, n1) \<Rightarrow>
               (if answer_status a \<noteq> wantStatus then Inl (worker_refusal net meth path a)
                else case out (answer_json net a) of
                  None \<Rightarrow> Inl (WorkerError (''decoding worker response for '' @ meth @ '' '' @ path))
                | Some x \<Rightarrow> Inr x, n1)))"

record CreateContainerRequest =
  ccr_Image :: string
  ccr_Name :: string
  ccr_Env :: "(string \<times> string) list"
  ccr_Ports :: "portBinding list"

definition enc_createContainer :: "CreateContainerRequest \<Rightarrow> json" where
  "enc_createContainer req = JObj ([(''image'', JStr (ccr_Image req)), (''name'', JStr (ccr_Name req))] @
     enc_env (ccr_Env req) @ enc_ports (ccr_Ports req))"

record wc_ContainerStatus =
  wcs_ID :: string
  wcs_Status :: string
  wcs_ExitCode :: int
  wcs_StartedAt :: time

definition dec_ContainerStatus :: "json option \<Rightarrow> wc_ContainerStatus option" where
  "dec_ContainerStatus = dec_struct (\<lambda>kvs.
     Option.bind (dec_str [] (field ''id'' kvs)) (\<lambda>i.
     Option.bind (dec_str [] (field ''status'' kvs)) (\<lambda>s.
     Option.bind (dec_int 0 (field ''exit_code'' kvs)) (\<lambda>x.
     Option.bind (dec_time 0 (field ''started_at'' kvs)) (\<lambda>t.
     Some \<lparr>wcs_ID = i, wcs_Status = s, wcs_ExitCode = x, wcs_StartedAt = t\<rparr>)))))"

definition wc_CreateContainer ::
  "'n stream_net \<Rightarrow> string \<Rightarrow> CreateContainerRequest \<Rightarrow> 'n \<Rightarrow> (wc_error + wc_ContainerStatus) \<times> 'n"
where
  "wc_CreateContainer net baseURL req = wc_do net baseURL ''POST'' ''/v1/containers'' (Some (enc_createContainer req)) 201 dec_ContainerStatus"

definition wc_Status :: "'n stream_net \<Rightarrow> string \<Rightarrow> string \<Rightarrow> 'n \<Rightarrow> (wc_error + wc_ContainerStatus) \<times> 'n" where
  "wc_Status net baseURL cid = wc_do net baseURL ''GET'' (''/v1/containers/'' @ cid) None 200 dec_ContainerStatus"

definition wc_StopContainer :: "'n stream_net \<Rightarrow> string \<Rightarrow> string \<Rightarrow> int \<Rightarrow> 'n \<Rightarrow> (wc_error + wc_ContainerStatus) \<times> 'n" where
  "wc_StopContainer net baseURL cid timeoutSeconds = wc_do net baseURL ''POST'' (''/v1/containers/'' @ cid @ ''/stop'')
     (Some (JObj [(''timeout_seconds'', JNum timeoutSeconds)])) 200 dec_ContainerStatus"

definition wc_RemoveContainer :: "'n stream_net \<Rightarrow> string \<Rightarrow> string \<Rightarrow> 'n \<Rightarrow> (wc_error + unit) \<times> 'n" where
  "wc_RemoveContainer net baseURL cid = wc_do net baseURL ''DELETE'' (''/v1/containers/'' @ cid) None 204 (\<lambda>_. Some ())"

definition logs_path :: "string \<Rightarrow> bool \<Rightarrow> string" where
  "logs_path cid follow = ''/v1/containers/'' @ cid @ ''/logs'' @ (if follow then ''?follow=true'' else [])"

definition wc_StreamLogs :: "'n stream_net \<Rightarrow> string \<Rightarrow> string \<Rightarrow> bool \<Rightarrow> 'n \<Rightarrow> (wc_error + log_stream) \<times> 'n" where
  "wc_StreamLogs net baseURL cid follow n =
     (case net_BadURL net (baseURL @ logs_path cid follow) of
        Some er \<Rightarrow> (Inl (WorkerError (''building worker request: '' @ er)), n)
      | None \<Rightarrow>
          (case net_Do net (worker_call baseURL ''GET'' (logs_path cid follow) None) n of
             (Inl er, n1) \<Rightarrow> (Inl (WorkerError (''calling worker GET '' @ logs_path cid follow @ '': '' @ er)), n1)
           | (Inr a, n1) \<Rightarrow>
               (if answer_status a \<noteq> 200 then Inl (worker_refusal net ''GET'' (logs_path cid follow) a)
                else Inr (answer_text net a), n1)))"

subsection \<open>The client over a worker\<close>

definition connected ::
  "'e ContainerRuntime \<Rightarrow> nat option \<Rightarrow> string \<Rightarrow> (log_stream \<Rightarrow> json option) \<Rightarrow> (http_response \<Rightarrow> log_stream) \<Rightarrow> 'e stream_net"
where
  "connected rt wr baseURL j t = \<lparr>net_BadURL = (\<lambda>_. None),
     net_Do = (\<lambda>c e. map_prod Inr id (worker_Routes rt wr (hc_Method c) (TrimPrefix (hc_URL c) baseURL) (hc_Body c) e)),
     net_JSON = j, net_Text = t\<rparr>"

lemma parsed_worker_table:
  "parse_table worker_table =
     [((''POST'', [Lit '''', Lit ''v1'', Lit ''containers'']), WCreate),
      ((''GET'', [Lit '''', Lit ''v1'', Lit ''containers'', Wild ''id'']), WStatus),
      ((''POST'', [Lit '''', Lit ''v1'', Lit ''containers'', Wild ''id'', Lit ''stop'']), WStop),
      ((''DELETE'', [Lit '''', Lit ''v1'', Lit ''containers'', Wild ''id'']), WRemove),
      ((''GET'', [Lit '''', Lit ''v1'', Lit ''containers'', Wild ''id'', Lit ''logs'']), WLogs)]"
  by code_simp

lemmas worker_segments = plain_def path_of_simps parsed_worker_table List.map_filter_simps

lemma worker_paths:
  "table_matches worker_table ''POST'' ''/v1/containers'' = [(WCreate, [])]"
  "plain c \<Longrightarrow> table_matches worker_table ''GET'' (''/v1/containers/'' @ c) = [(WStatus, [(''id'', c)])]"
  "plain c \<Longrightarrow> table_matches worker_table ''POST'' (''/v1/containers/'' @ c @ ''/stop'') = [(WStop, [(''id'', c)])]"
  "plain c \<Longrightarrow> table_matches worker_table ''DELETE'' (''/v1/containers/'' @ c) = [(WRemove, [(''id'', c)])]"
  "plain c \<Longrightarrow> table_matches worker_table ''GET'' (logs_path c follow) = [(WLogs, [(''id'', c)])]"
      apply (subst table_matches_path [of "[''v1'', ''containers'']"]; simp add: worker_segments)
     apply (subst table_matches_path [of "[''v1'', ''containers'', c]"]; simp add: worker_segments)
    apply (subst table_matches_path [of "[''v1'', ''containers'', c, ''stop'']"]; simp add: worker_segments)
   apply (subst table_matches_path [of "[''v1'', ''containers'', c]"]; simp add: worker_segments)
  apply (subst table_matches_path [of "[''v1'', ''containers'', c, ''logs'']" _ "''follow=true''"]; simp add: worker_segments logs_path_def)
  done

lemma follow_parameter:
  assumes "CHR ''?'' \<notin> set s"
  shows "(Query_Get (s @ (if follow then ''?follow=true'' else [])) ''follow'' = ''true'') = follow"
proof -
  have "Cut (s @ (if follow then ''?follow=true'' else [])) CHR ''?'' = (s, if follow then ''follow=true'' else [], follow)"
    using Cut_query(1) [OF assms, of "''follow=true''"] Cut_query(2) [OF assms] by (simp del: Cut.simps)
  moreover have "query_pair ''follow=true'' = Some (''follow'', ''true'')" "query_pair [] = None" by (code_simp, code_simp)
  ultimately show ?thesis by (simp add: Query_Get_def List.map_filter_simps)
qed

lemma follow_query: "plain c \<Longrightarrow> (Query_Get (logs_path c follow) ''follow'' = ''true'') = follow"
  using follow_parameter [of "''/v1/containers/'' @ c @ ''/logs''" follow] by (simp add: logs_path_def plain_def)

lemma connected_simps [simp]:
  "net_BadURL (connected rt wr url j t) u = None"
  "net_Do (connected rt wr url j t) (worker_call url meth path body) e = map_prod Inr id (worker_Routes rt wr meth path body e)"
  by (simp_all add: connected_def worker_call_def)

text \<open>What the caller is told of an engine error, and the status it reads back.\<close>

definition refused :: "string \<Rightarrow> string \<Rightarrow> string \<Rightarrow> string \<Rightarrow> rt_error \<Rightarrow> wc_error" where
  "refused meth path action cid er =
     (if IsNotFound er then ErrContainerNotFound
      else WorkerError (''worker '' @ meth @ '' '' @ path @ '': '' @ action @ '' container '' @ cid @ '': '' @ rt_text er @ '' (runtime_error)''))"

definition status_of :: "ContainerStatusInfo \<Rightarrow> wc_ContainerStatus" where
  "status_of info = \<lparr>wcs_ID = info_ID info, wcs_Status = Status_String (info_Status info), wcs_ExitCode = info_ExitCode info,
     wcs_StartedAt = info_StartedAt info\<rparr>"

lemma dec_status_enc: "int64_ok (info_ExitCode info) \<Longrightarrow> dec_ContainerStatus (Some (toContainerResponse info)) = Some (status_of info)"
  by (simp add: dec_ContainerStatus_def toContainerResponse_def dec_struct_def field_append field_simps status_of_def)

lemma envelope_error_body: "worker_envelope (Some (error_body code message)) = (code, message)"
  by (simp add: worker_envelope_def error_body_def field_simps)

lemma refusal_runtime: "action \<noteq> [] \<Longrightarrow>
  worker_refusal net meth path (Answered (writeRuntimeError action cid er)) = refused meth path action cid er"
  by (simp add: worker_refusal_def refused_def writeRuntimeError_def worker_writeError_def writeJSON_def answer_json_def
      answer_status_def envelope_error_body)

lemma runtime_status: "rsp_Status (writeRuntimeError action cid er) \<in> {404, 502}"
  by (simp add: writeRuntimeError_def worker_writeError_def writeJSON_def)

lemma runtime_not_ok: "rsp_Status (writeRuntimeError action cid er) \<noteq> 200"
  using runtime_status [of action cid er] by auto

text \<open>A JSON route: the client's result is that of the handler's answer.\<close>

definition understood :: "string \<Rightarrow> string \<Rightarrow> nat \<Rightarrow> (json option \<Rightarrow> 'a option) \<Rightarrow> 'n stream_net \<Rightarrow> http_response \<Rightarrow> wc_error + 'a" where
  "understood meth path want out net r =
     (if rsp_Status r \<noteq> want then Inl (worker_refusal net meth path (Answered r))
      else case out (rsp_Body r) of None \<Rightarrow> Inl (WorkerError (''decoding worker response for '' @ meth @ '' '' @ path)) | Some x \<Rightarrow> Inr x)"

lemma understood_refused: "action \<noteq> [] \<Longrightarrow> want < 300 \<Longrightarrow>
  understood meth path want out net (writeRuntimeError action cid er) = Inl (refused meth path action cid er)"
  using runtime_status [of action cid er] by (auto simp: understood_def refusal_runtime)

lemma understood_answer: "out b = Some x \<Longrightarrow> understood meth path want out net \<lparr>rsp_Status = want, rsp_Body = b\<rparr> = Inr x"
  "out (Some v) = Some x \<Longrightarrow> understood meth path want out net (writeJSON want v) = Inr x"
  by (simp_all add: understood_def writeJSON_def)

lemma wc_do_connected:
  "worker_Routes rt wr meth path body e = map_prod Answered id h \<Longrightarrow>
   wc_do (connected rt wr url j t) url meth path body want out e = map_prod (understood meth path want out (connected rt wr url j t)) id h"
  by (cases h) (simp add: wc_do_def understood_def answer_status_def answer_json_def)

lemma understood_status:
  assumes "\<And>info. ContainerStatus rt cid e = Inr info \<Longrightarrow> int64_ok (info_ExitCode info)"
  shows "map_prod (understood meth path 200 dec_ContainerStatus net) id (worker_handleStatus rt cid e) =
    (map_sum (refused meth path ''inspecting'' cid) status_of (ContainerStatus rt cid e), e)"
  using assms by (auto simp: worker_handleStatus_def understood_refused understood_answer dec_status_enc split: sum.splits)

lemma worker_Routes_json:
  "worker_Routes rt wr ''POST'' ''/v1/containers'' body e = map_prod Answered id (worker_handleCreate rt body e)"
  "plain c \<Longrightarrow> worker_Routes rt wr ''GET'' (''/v1/containers/'' @ c) body e = map_prod Answered id (worker_handleStatus rt c e)"
  "plain c \<Longrightarrow> worker_Routes rt wr ''POST'' (''/v1/containers/'' @ c @ ''/stop'') body e =
     map_prod Answered id (worker_handleStop rt c (if body = None then 0 else 1) body e)"
  "plain c \<Longrightarrow> worker_Routes rt wr ''DELETE'' (''/v1/containers/'' @ c) body e = map_prod Answered id (worker_handleRemove rt c e)"
  by (simp_all only: worker_Routes_def worker_paths list.case prod.case worker_endpoint.case Let_def map_of.simps fun_upd_same fst_conv snd_conv option.case)

lemma worker_Routes_logs:
  "plain c \<Longrightarrow> worker_Routes rt wr ''GET'' (logs_path c follow) body e =
     (case StreamLogs rt c follow e of Inl er \<Rightarrow> Answered (writeRuntimeError ''streaming logs for'' c er) | Inr st \<Rightarrow> Streaming (streamed wr st), e)"
  by (simp add: worker_Routes_def worker_paths worker_handleLogs_def follow_query)

lemma wc_StreamLogs_connected:
  "plain cid \<Longrightarrow> wc_StreamLogs (connected rt wr url j t) url cid follow e =
     (map_sum (refused ''GET'' (logs_path cid follow) ''streaming logs for'' cid) (streamed wr) (StreamLogs rt cid follow e), e)"
  by (simp add: wc_StreamLogs_def worker_Routes_logs answer_status_def answer_text_def refusal_runtime runtime_not_ok split: sum.splits)

text \<open>Pull, create, start, inspect as one operation of the runtime.\<close>

definition create_and_start :: "'e ContainerRuntime \<Rightarrow> ContainerSpec \<Rightarrow> 'e \<Rightarrow> (rt_error + ContainerStatusInfo) \<times> 'e" where
  "create_and_start rt spec e =
     (case PullImage rt (spec_Image spec) e of
        (Inl er, e1) \<Rightarrow> (Inl er, e1)
      | (Inr _, e1) \<Rightarrow>
          (case CreateContainer rt spec e1 of
             (Inl er, e2) \<Rightarrow> (Inl er, e2)
           | (Inr cid, e2) \<Rightarrow>
               (case StartContainer rt cid e2 of
                  (Inl er, e3) \<Rightarrow> (Inl er, e3)
                | (Inr _, e3) \<Rightarrow> (ContainerStatus rt cid e3, e3))))"

definition spec_of :: "CreateContainerRequest \<Rightarrow> ContainerSpec" where
  "spec_of req = \<lparr>spec_Image = ccr_Image req, spec_Name = ccr_Name req, spec_Env = ccr_Env req, spec_Ports = ccr_Ports req, spec_Command = []\<rparr>"

lemma dec_createContainer_enc:
  "distinct (map fst (ccr_Env req)) \<Longrightarrow> list_all port_ok (ccr_Ports req) \<Longrightarrow>
   dec_createContainer (Some (enc_createContainer req)) =
     Some \<lparr>cr_Image = ccr_Image req, cr_Name = ccr_Name req, cr_Env = ccr_Env req, cr_Ports = ccr_Ports req, cr_Command = []\<rparr>"
  by (simp add: dec_createContainer_def enc_createContainer_def wire)

lemma handleCreate_spec:
  assumes "distinct (map fst (ccr_Env req))" "list_all port_ok (ccr_Ports req)" "ccr_Image req \<noteq> []"
  shows "snd (worker_handleCreate rt (Some (enc_createContainer req)) e) = snd (create_and_start rt (spec_of req) e)"
    "fst (create_and_start rt (spec_of req) e) = Inr info \<Longrightarrow>
      fst (worker_handleCreate rt (Some (enc_createContainer req)) e) = writeJSON 201 (toContainerResponse info)"
    "fst (create_and_start rt (spec_of req) e) = Inl er \<Longrightarrow>
      rsp_Status (fst (worker_handleCreate rt (Some (enc_createContainer req)) e)) = 502"
  unfolding worker_handleCreate_def dec_createContainer_enc [OF assms(1,2)] create_and_start_def spec_of_def
  using assms(3) by (auto simp: worker_writeError_def writeJSON_def split: prod.splits sum.splits)

text \<open>
  C16. The worker at the end of a wire is the runtime interface. Over a network that carries its calls, with an
  identifier that is not empty and has neither a slash nor a question mark, every call of the API server's worker client has exactly the effect on the
  engine of the operation of the interface it stands for, and reads back its result: the status with every
  field, the demultiplexed log as far as the connection takes it, \<open>ErrNotFound\<close> exactly for the
  engine's not-found errors, and any other engine error with its text. A container is created, pulled and started as
  the interface does it, and a failure on the way is an error of the call.
\<close>

theorem worker_client_refines_runtime:
  assumes cid: "plain cid" and codes: "\<forall>c e info. ContainerStatus rt c e = Inr info \<longrightarrow> int64_ok (info_ExitCode info)"
    and req: "distinct (map fst (ccr_Env req))" "list_all port_ok (ccr_Ports req)" "ccr_Image req \<noteq> []" and n: "int64_ok n"
    and net: "net = connected rt wr url j t"
  shows "wc_Status net url cid e =
      (map_sum (refused ''GET'' (''/v1/containers/'' @ cid) ''inspecting'' cid) status_of (ContainerStatus rt cid e), e) \<and>
    wc_StopContainer net url cid n e =
      (case StopContainer rt cid (stop_timeout n) e of
         (Inl er, e1) \<Rightarrow> (Inl (refused ''POST'' (''/v1/containers/'' @ cid @ ''/stop'') ''stopping'' cid er), e1)
       | (Inr _, e1) \<Rightarrow> (map_sum (refused ''POST'' (''/v1/containers/'' @ cid @ ''/stop'') ''inspecting'' cid) status_of (ContainerStatus rt cid e1), e1)) \<and>
    wc_RemoveContainer net url cid e =
      map_prod (map_sum (refused ''DELETE'' (''/v1/containers/'' @ cid) ''removing'' cid) id) id (RemoveContainer rt cid e) \<and>
    wc_StreamLogs net url cid follow e =
      (map_sum (refused ''GET'' (logs_path cid follow) ''streaming logs for'' cid) (streamed wr) (StreamLogs rt cid follow e), e) \<and>
    snd (wc_CreateContainer net url req e) = snd (create_and_start rt (spec_of req) e) \<and>
    (case fst (create_and_start rt (spec_of req) e) of
       Inr info \<Rightarrow> fst (wc_CreateContainer net url req e) = Inr (status_of info)
     | Inl _ \<Rightarrow> \<exists>er. fst (wc_CreateContainer net url req e) = Inl er)"
proof (intro conjI)
  note routes = worker_Routes_json [where rt = rt and wr = wr]
  have status: "map_prod (understood meth path 200 dec_ContainerStatus net) id (worker_handleStatus rt cid e') =
      (map_sum (refused meth path ''inspecting'' cid) status_of (ContainerStatus rt cid e'), e')" for meth path e'
    by (rule understood_status) (use codes in blast)
  show "wc_Status net url cid e =
      (map_sum (refused ''GET'' (''/v1/containers/'' @ cid) ''inspecting'' cid) status_of (ContainerStatus rt cid e), e)"
    unfolding wc_Status_def net wc_do_connected [OF routes(2) [OF cid]] by (rule status [unfolded net])
  have dec: "dec_stop (Some (JObj [(''timeout_seconds'', JNum n)])) = Some n" using n by (simp add: dec_stop_def dec_struct_def field_simps)
  show "wc_StopContainer net url cid n e =
      (case StopContainer rt cid (stop_timeout n) e of
         (Inl er, e1) \<Rightarrow> (Inl (refused ''POST'' (''/v1/containers/'' @ cid @ ''/stop'') ''stopping'' cid er), e1)
       | (Inr _, e1) \<Rightarrow> (map_sum (refused ''POST'' (''/v1/containers/'' @ cid @ ''/stop'') ''inspecting'' cid) status_of (ContainerStatus rt cid e1), e1))"
    unfolding wc_StopContainer_def net wc_do_connected [OF routes(3) [OF cid]]
    using status [unfolded net] by (simp add: worker_handleStop_def dec understood_refused split: prod.splits sum.splits)
  show "wc_RemoveContainer net url cid e =
      map_prod (map_sum (refused ''DELETE'' (''/v1/containers/'' @ cid) ''removing'' cid) id) id (RemoveContainer rt cid e)"
    unfolding wc_RemoveContainer_def net wc_do_connected [OF routes(4) [OF cid]]
    by (auto simp: worker_handleRemove_def understood_refused understood_answer split: prod.splits sum.splits)
  show "wc_StreamLogs net url cid follow e =
      (map_sum (refused ''GET'' (logs_path cid follow) ''streaming logs for'' cid) (streamed wr) (StreamLogs rt cid follow e), e)"
    unfolding net by (rule wc_StreamLogs_connected [OF cid])
  have create: "wc_CreateContainer net url req e = map_prod (understood ''POST'' ''/v1/containers'' 201 dec_ContainerStatus net) id
      (worker_handleCreate rt (Some (enc_createContainer req)) e)"
    unfolding wc_CreateContainer_def net by (rule wc_do_connected [OF routes(1)])
  show "snd (wc_CreateContainer net url req e) = snd (create_and_start rt (spec_of req) e)"
    unfolding create by (simp add: handleCreate_spec(1) [OF req])
  have "int64_ok (info_ExitCode info)" if "fst (create_and_start rt (spec_of req) e) = Inr info" for info
    using that codes by (auto simp: create_and_start_def split: prod.splits sum.splits)
  then show "case fst (create_and_start rt (spec_of req) e) of
       Inr info \<Rightarrow> fst (wc_CreateContainer net url req e) = Inr (status_of info)
     | Inl _ \<Rightarrow> \<exists>er. fst (wc_CreateContainer net url req e) = Inl er"
    unfolding create using handleCreate_spec(2,3) [OF req, of rt e]
    by (auto simp: dec_status_enc understood_def writeJSON_def split: sum.splits)
qed

theorem worker_client_refines_runtime_witness:
  "wc_Status (connected demo_engine None ''http://w'' (\<lambda>_. None) (\<lambda>_. \<lparr>segments = [], ended = EOF\<rparr>)) ''http://w'' ''c1'' [''c1''] =
     (Inr \<lparr>wcs_ID = ''c1'', wcs_Status = ''running'', wcs_ExitCode = 137, wcs_StartedAt = 0\<rparr>, [''c1''])"
proof -
  have "plain ''c1''" "\<forall>c e info. ContainerStatus demo_engine c e = Inr info \<longrightarrow> int64_ok (info_ExitCode info)"
    by (simp_all add: plain_def demo_engine_def int64_ok_def)
  from worker_client_refines_runtime [OF this, of "\<lparr>ccr_Image = ''nginx'', ccr_Name = [], ccr_Env = [], ccr_Ports = []\<rparr>" 0
      "connected demo_engine None ''http://w'' (\<lambda>_. None) (\<lambda>_. \<lparr>segments = [], ended = EOF\<rparr>)" None "''http://w''" "\<lambda>_. None"
      "\<lambda>_. \<lparr>segments = [], ended = EOF\<rparr>" "[''c1'']" False]
  have "wc_Status (connected demo_engine None ''http://w'' (\<lambda>_. None) (\<lambda>_. \<lparr>segments = [], ended = EOF\<rparr>)) ''http://w'' ''c1'' [''c1''] =
      (map_sum (refused ''GET'' (''/v1/containers/'' @ ''c1'') ''inspecting'' ''c1'') status_of (ContainerStatus demo_engine ''c1'' [''c1'']), [''c1''])"
    by (simp add: int64_ok_def)
  then show ?thesis by (simp add: demo_engine_def status_of_def)
qed

end
