(* ===== verification/Releases.thy ===== *)
theory Releases
  imports Sessions Worker
begin

section \<open>Releases: what a deploy and a deletion do\<close>

text \<open>
  The outcome of \<open>handleDeploy\<close> and \<open>handleDeleteApplication\<close> on every branch (\<^verbatim>\<open>handlers_deployments.go\<close>,
  \<^verbatim>\<open>handlers_applications.go\<close>), failures of the bus included, and the way of a release through the platform: from the API
  through the scheduler and the agent of the chosen node back to the status the scheduler records.

  \<open>quiet m\<close>: \<open>m\<close> works on the database alone; nothing is published and the environment stays as it is.
\<close>

definition env_of :: "world \<Rightarrow> time \<times> (nat \<Rightarrow> uuid) \<times> (nat \<Rightarrow> bool) \<times> (nat \<Rightarrow> bool) \<times> nat \<times> (string \<times> json) list" where
  "env_of w = (w_now w, w_fresh w, w_fault w, w_pubfail w, w_pubs w, w_bus w)"

definition quiet :: "'a op \<Rightarrow> bool" where
  "quiet m \<longleftrightarrow> (\<forall>w. env_of (snd (m w)) = env_of w)"

lemma quietD: "quiet m \<Longrightarrow> m w = (r, w') \<Longrightarrow> env_of w' = env_of w"
  by (metis quiet_def snd_conv)

lemma env_of_upd [simp]:
  "env_of (w\<lparr>w_db := d\<rparr>) = env_of w" "env_of (w\<lparr>w_sess := s\<rparr>) = env_of w" "env_of (ticks n w) = env_of w"
  "env_of (tx_prologue u og w) = env_of w"
  by (simp_all add: env_of_def)

lemma quiet_prim [frame]:
  "quiet (ret x)" "quiet (throw e)" "quiet (exec f)" "quiet (query g)" "quiet (lift e y)" "quiet newUUID" "quiet now_op"
  "quiet (SetCurrentUser u)" "quiet (SetCurrentOrg u)" "quiet begin_tx" "quiet commit_tx" "quiet (require b e)"
  by (auto simp: quiet_def ret_def throw_def exec_def query_def lift_def newUUID_def now_op_def require_def
      SetCurrentUser_def SetCurrentOrg_def begin_tx_def commit_tx_def wrapE_def mapErr_def catchE_def
      split: sum.splits option.splits)

lemma quiet_bindE [frame]: "quiet m \<Longrightarrow> (\<And>x. quiet (f x)) \<Longrightarrow> quiet (bindE m f)"
  unfolding quiet_def bindE_def by (auto split: prod.splits sum.splits) (metis snd_conv)+

lemma quiet_catchE [frame]: "quiet m \<Longrightarrow> (\<And>e. quiet (h e)) \<Longrightarrow> quiet (catchE m h)"
  unfolding quiet_def catchE_def by (auto split: prod.splits sum.splits) (metis snd_conv)+

lemma quiet_derived [frame]:
  "quiet m \<Longrightarrow> quiet (mapErr g m)" "quiet m \<Longrightarrow> quiet (wrapE msg m)" "quiet m \<Longrightarrow> quiet (orConflict msg m)"
  by (simp_all add: mapErr_def wrapE_def orConflict_def quiet_catchE quiet_prim)

lemma quiet_rows [frame]: "quiet (execRows msg g)"
  by (auto simp: execRows_def quiet_prim intro!: quiet_bindE quiet_derived)

lemma quiet_if [frame]: "quiet m \<Longrightarrow> quiet n \<Longrightarrow> quiet (if b then m else n)"
  by simp

lemma quiet_split [frame]: "(\<And>a b. quiet (f a b)) \<Longrightarrow> quiet (case p of (a, b) \<Rightarrow> f a b)"
  by (cases p) simp

lemma quiet_option [frame]: "quiet m \<Longrightarrow> (\<And>x. quiet (f x)) \<Longrightarrow> quiet (case y of None \<Rightarrow> m | Some x \<Rightarrow> f x)"
  by (cases y) simp_all

lemma quiet_reads: "reads m \<Longrightarrow> quiet m"
  unfolding reads_def quiet_def by (metis env_of_upd(3))

lemma quiet_WithTx [frame]:
  assumes "quiet m"
  shows "quiet (WithTx u og m)"
proof -
  have "quiet (bindE begin_tx (\<lambda>_. bindE (if u \<noteq> uuid_Nil then SetCurrentUser u else ret ()) (\<lambda>_.
     bindE (if og \<noteq> uuid_Nil then SetCurrentOrg og else ret ()) (\<lambda>_.
     bindE m (\<lambda>x. bindE commit_tx (\<lambda>_. ret x))))))"
    by (intro quiet_bindE quiet_if quiet_prim assms)
  then show ?thesis unfolding quiet_def WithTx_def
    by (auto split: prod.splits sum.splits) (metis snd_conv)+
qed

lemma quiet_permission [frame]: "quiet (requirePermission ctx u oid perm)" "quiet (app_permission ctx u appID perm)"
proof -
  show perm: "quiet (requirePermission ctx u oid perm)" for oid
    unfolding requirePermission_def requireAPIKeyOrgMatch_def
    by (intro quiet_bindE quiet_split quiet_if quiet_prim quiet_reads [OF reads_members(1)])
  show "quiet (app_permission ctx u appID perm)"
    unfolding app_permission_def by (intro quiet_bindE quiet_derived quiet_prim perm quiet_reads [OF reads_resolve(3)])
qed

lemma quiet_recordAudit [frame]: "quiet (recordAudit oid u action tt tid md)"
  unfolding recordAudit_def AuditLogs_Record_def by (intro quiet_bindE quiet_derived quiet_rows quiet_prim)

lemma quiet_deploy_tx [frame]: "quiet (deploy_tx sv ctx u appID img)"
  unfolding deploy_tx_def deploy_checks_def createDeploymentTx_def Deployments_Create_def Applications_UpdateImage_def
  by (intro quiet_bindE quiet_split quiet_derived quiet_if quiet_prim quiet_rows quiet_recordAudit quiet_permission(2)
      quiet_reads [OF reads_resolve(5)] quiet_reads [OF reads_checkProjectQuota(2)] quiet_reads [OF reads_checkResourceQuota])

subsection \<open>Deploying an image\<close>

text \<open>A release: the new deployment is pending, has the image asked for (or the application's own) and the highest revision.\<close>

definition released :: "uuid \<Rightarrow> uuid \<Rightarrow> string \<Rightarrow> Application \<Rightarrow> Deployment \<Rightarrow> db \<Rightarrow> db \<Rightarrow> bool" where
  "released appID u img a x d d' \<longleftrightarrow>
     (\<exists>a0 \<in> set (applications d). app_ID a0 = appID \<and> a = a0\<lparr>app_Image := if img = [] then app_Image a0 else img\<rparr> \<and>
        dep_OrgID x = app_OrgID a0) \<and>
     dep_ApplicationID x = appID \<and> dep_Image x = app_Image a \<and> dep_CreatedBy x = u \<and> dep_Status x = DeploymentStatusPending \<and>
     dep_WorkerContainerID x = None \<and> dep_ID x \<notin> dep_ID ` set (deployments d) \<and>
     (\<forall>y \<in> set (deployments d). dep_ApplicationID y = appID \<longrightarrow> dep_Revision y < dep_Revision x) \<and>
     deployments d' = deployments d @ [x] \<and> memberships d' = memberships d \<and> nodes d' = nodes d \<and> containers d' = containers d"

lemma next_revision_greater:
  assumes "y \<in> set (visible_deployments s d appID)"
  shows "dep_Revision y < next_revision s d appID"
proof -
  have "dep_Revision y \<le> Max (dep_Revision ` set (visible_deployments s d appID))" using assms by (intro Max_ge) auto
  then show ?thesis using assms by (auto simp: next_revision_def Let_def)
qed

lemma app_deployment_org:
  assumes "tenant_inv d" "a0 \<in> set (applications d)" "y \<in> set (deployments d)" "dep_ApplicationID y = app_ID a0"
  shows "dep_OrgID y = app_OrgID a0"
proof -
  obtain b where "b \<in> set (applications d)" "(dep_ApplicationID y, dep_OrgID y) = app_key b"
    using assms(1,3) by (auto simp: tenant_inv_def refs_def)
  with tenant_inv_apps [OF assms(1)] assms(2,4) show ?thesis by (auto simp: app_key_def distinct_map dest: inj_onD)
qed

lemma createDeploymentTx_released:
  assumes run: "createDeploymentTx sv oid appID u a0 img w = (Inr (a, x), w1)"
    and a0: "a0 \<in> set (applications (w_db w))" "app_ID a0 = appID" "app_OrgID a0 = oid"
    and inv: "tenant_inv (w_db w)" and vis: "current_org (w_sess w) = Some oid"
  shows "released appID u img a x (w_db w) (w_db w1)"
proof -
  obtain w0 w2 where a: "a = a0\<lparr>app_Image := if img = [] then app_Image a0 else img\<rparr>"
    and w0: "deployments (w_db w0) = deployments (w_db w)" "memberships (w_db w0) = memberships (w_db w)" "w_sess w0 = w_sess w"
      "nodes (w_db w0) = nodes (w_db w)" "containers (w_db w0) = containers (w_db w)"
    and ins: "Deployments_Create oid appID (app_Image a) u w0 = (Inr x, w2)"
    and aud: "\<exists>e. w_db w1 = (w_db w2)\<lparr>audit_logs := audit_logs (w_db w2) @ [e]\<rparr>"
  proof (cases "img \<noteq> [] \<and> img \<noteq> app_Image a0")
    case True
    with run obtain wa wb where "a = a0\<lparr>app_Image := img\<rparr>" "Applications_UpdateImage appID img w = (Inr (), wa)"
      "Deployments_Create oid appID img u wa = (Inr x, wb)" "\<exists>e. w_db w1 = (w_db wb)\<lparr>audit_logs := audit_logs (w_db wb) @ [e]\<rparr>"
      by (auto simp: createDeploymentTx_def op_simps dest!: recordAudit_Inr)
    with True show ?thesis by (intro that [of wa wb]) (auto simp: Applications_UpdateImage_def update_app_def op_simps)
  next
    case False
    with run obtain wb where "a = a0" "Deployments_Create oid appID (app_Image a0) u w = (Inr x, wb)"
      "\<exists>e. w_db w1 = (w_db wb)\<lparr>audit_logs := audit_logs (w_db wb) @ [e]\<rparr>"
      by (auto simp: createDeploymentTx_def op_simps dest!: recordAudit_Inr)
    with False show ?thesis by (intro that [of w wb]) auto
  qed
  from ins have x: "dep_OrgID x = oid" "dep_ApplicationID x = appID" "dep_Image x = app_Image a" "dep_CreatedBy x = u"
      "dep_Status x = DeploymentStatusPending" "dep_WorkerContainerID x = None" "dep_ID x \<notin> dep_ID ` set (deployments (w_db w0))"
      "dep_Revision x = next_revision (w_sess w0) (w_db w0) appID"
    and w2: "w_db w2 = (w_db w0)\<lparr>deployments := deployments (w_db w0) @ [x]\<rparr>"
    by (auto simp: op_simps Deployments_Create_def insert_deployment_def Let_def list_all_iff)
  have rev: "dep_Revision y < dep_Revision x" if y: "y \<in> set (deployments (w_db w))" "dep_ApplicationID y = appID" for y
  proof -
    have "dep_OrgID y = oid" using app_deployment_org [OF inv a0(1) y(1)] a0 y(2) by simp
    then have "y \<in> set (visible_deployments (w_sess w0) (w_db w0) appID)"
      using y w0 vis by (simp add: visible_deployments_def deployment_visible_def org_visible_def)
    from next_revision_greater [OF this] x(8) show ?thesis by simp
  qed
  show ?thesis unfolding released_def using a a0 x w0 aud w2 rev by auto
qed

lemma app_permission_Inr:
  assumes "app_permission ctx u appID perm w = (Inr oid, w')"
  shows "\<exists>a. find (visible_app (w_sess w) (w_db w) appID) (applications (w_db w)) = Some a \<and> oid = app_OrgID a"
    "w_db w' = w_db w" "current_org (w_sess w') = Some oid" "permitted ctx (w_db w) u oid perm"
  using assms by (auto simp: app_permission_def op_simps Applications_OrgID_def dest!: requirePermission_Inr)

lemma deploy_checks_app:
  assumes "deploy_checks ctx u appID w = (Inr (oid, a), w1)" "tenant_inv (w_db w)"
  shows "current_org (w_sess w1) = Some oid" "a \<in> set (applications (w_db w))" "app_ID a = appID" "app_OrgID a = oid"
proof -
  from assms(1) obtain w2 w3 where perm: "app_permission ctx u appID PermApplicationDeploy w = (Inr oid, w2)"
    and get: "Applications_Get appID w2 = (Inr a, w3)" and rest: "\<exists>n. w1 = ticks n w3"
    unfolding deploy_checks_def bindE_Inr ret_Inr mapErr_Inr
    by (fastforce simp: ticks_ticks dest!: readsD [OF reads_checkProjectQuota(2)] readsD [OF reads_checkResourceQuota])
  note w2 = app_permission_Inr(2,3) [OF perm]
  have w3: "w3 = ticks 1 w2" "find (visible_app (w_sess w2) (w_db w2) appID) (applications (w_db w2)) = Some a"
    using get by (auto simp: Applications_Get_def op_simps)
  from find_Some_set [OF w3(2)] w2(1) show a: "a \<in> set (applications (w_db w))" "app_ID a = appID" by (auto simp: visible_app_def)
  show "current_org (w_sess w1) = Some oid" using rest w3(1) w2(2) by auto
  from deploy_checks_Inr(3) [OF assms(1)] a tenant_inv_apps [OF assms(2)] show "app_OrgID a = oid"
    by (auto simp: app_key_def distinct_map dest: inj_onD)
qed

lemma deploy_tx_released:
  assumes "deploy_tx sv ctx u appID img w = (Inr (oid, a, x), w1)" "tenant_inv (w_db w)"
  shows "released appID u img a x (w_db w) (w_db w1)" "permitted ctx (w_db w) u oid PermApplicationDeploy" "dep_OrgID x = oid"
proof -
  from assms(1) obtain a0 w0 where ck: "deploy_checks ctx u appID w = (Inr (oid, a0), w0)"
    and cr: "createDeploymentTx sv oid appID u a0 img w0 = (Inr (a, x), w1)"
    by (auto simp: deploy_tx_def bindE_Inr ret_Inr)
  note c = deploy_checks_Inr [OF ck] deploy_checks_app [OF ck assms(2)]
  show "permitted ctx (w_db w) u oid PermApplicationDeploy" by (rule c(1))
  show rel: "released appID u img a x (w_db w) (w_db w1)"
    using createDeploymentTx_released [OF cr] c assms(2) by simp
  show "dep_OrgID x = oid" using deploy_tx_Inr(2) [OF assms] by (auto simp: deployed_def)
qed

text \<open>Marking the release failed, when it could not be published.\<close>

lemma mark_failed:
  assumes "no_faults w" "deployments (w_db w) = ds @ [x]" "dep_ID x \<notin> dep_ID ` set ds" "u \<noteq> uuid_Nil" "is_member (w_db w) u (dep_OrgID x)"
  shows "deployments (w_db (snd (WithTx u og (Deployments_UpdateResult (dep_ID x) DeploymentStatusFailed None) w))) =
    ds @ [x\<lparr>dep_Status := DeploymentStatusFailed, dep_WorkerContainerID := None, dep_CompletedAt := Some (w_now w)\<rparr>]"
proof -
  let ?v = "tx_prologue u og w" and ?P = "\<lambda>y. dep_ID y = dep_ID x \<and> deployment_visible (w_sess (tx_prologue u og w)) (w_db w) y"
  let ?fail = "\<lambda>y. if ?P y then y\<lparr>dep_Status := DeploymentStatusFailed, dep_WorkerContainerID := None, dep_CompletedAt := Some (w_now w)\<rparr> else y"
  have vis: "?P x" using assms(4,5) by (simp add: deployment_visible_def org_visible_def)
  have keep: "map ?fail ds = ds" by (rule map_other_id [OF assms(3)]) simp
  have nf: "no_faults ?v" using assms(1) by (simp add: no_faults_def)
  have "Deployments_UpdateResult (dep_ID x) DeploymentStatusFailed None ?v =
      (Inr (), (tick ?v)\<lparr>w_db := (w_db w)\<lparr>deployments := map ?fail (deployments (w_db w))\<rparr>\<rparr>)"
    using vis assms(2) no_faultsD [OF assms(1)] by (simp add: Deployments_UpdateResult_def execRows_Inr)
  from WithTx_run [OF assms(1), where m = "Deployments_UpdateResult (dep_ID x) DeploymentStatusFailed None", OF this] nf show ?thesis using vis keep assms(2) by (simp add: no_faults_def)
qed

lemma publishIfConnected_cases:
  obtains (sent) w1 where "publishIfConnected sv s m w = (Inr (), w1)" "w_db w1 = w_db w" "w_sess w1 = w_sess w" "w_bus w1 = w_bus w @ [(s, m)]"
    "w_fault w1 = w_fault w" "w_now w1 = w_now w"
  | (failed) e w1 where "publishIfConnected sv s m w = (Inl e, w1)" "w_db w1 = w_db w" "w_sess w1 = w_sess w" "w_bus w1 = w_bus w"
    "w_fault w1 = w_fault w" "w_now w1 = w_now w"
proof -
  consider "\<not> sv_bus sv" | "sv_bus sv" "w_pubfail w (w_pubs w)" | "sv_bus sv" "\<not> w_pubfail w (w_pubs w)" by blast
  then show ?thesis
  proof cases
    case 1
    then show ?thesis by (intro failed [OF _ refl refl refl refl refl]) (simp add: publishIfConnected_def throw_def)
  next
    case 2
    then show ?thesis by (intro failed [of _ "w\<lparr>w_pubs := Suc (w_pubs w)\<rparr>"]) (simp_all add: publishIfConnected_def PublishDurable_def)
  next
    case 3
    then show ?thesis by (intro sent [of "w\<lparr>w_pubs := Suc (w_pubs w), w_bus := w_bus w @ [(s, m)]\<rparr>"])
        (simp_all add: publishIfConnected_def PublishDurable_def)
  qed
qed

lemma publishPlacement_outcome:
  assumes w: "no_faults w" and ds: "deployments (w_db w) = ds @ [x]" "dep_ID x \<notin> dep_ID ` set ds"
    and u: "u \<noteq> uuid_Nil" "is_member (w_db w) u (dep_OrgID x)"
    and run: "publishPlacement sv og u a x w = (res, w')"
  shows "case res of
      Inr _ \<Rightarrow> w_db w' = w_db w \<and>
        w_bus w' = w_bus w @ [(PlacementRequestedSubject, enc_placementRequested (api_placement_message sv a x))]
    | Inl _ \<Rightarrow> w_bus w' = w_bus w \<and> deployments (w_db w') =
        ds @ [x\<lparr>dep_Status := DeploymentStatusFailed, dep_WorkerContainerID := None, dep_CompletedAt := Some (w_now w)\<rparr>]"
proof (cases rule: publishIfConnected_cases [of sv PlacementRequestedSubject "enc_placementRequested (api_placement_message sv a x)" w])
  case (sent w1)
  with run show ?thesis by (auto simp: publishPlacement_def catchE_def)
next
  case (failed e w1)
  let ?tx = "WithTx u og (Deployments_UpdateResult (dep_ID x) DeploymentStatusFailed None)"
  have "quiet ?tx" unfolding Deployments_UpdateResult_def by (intro frame)
  then have "w_bus (snd (?tx w1)) = w_bus w1" by (auto simp: quiet_def env_of_def)
  moreover have "no_faults w1" using w failed by (simp add: no_faults_def)
  ultimately show ?thesis
    using mark_failed [of w1 ds x u og] failed ds u run by (auto simp: publishPlacement_def catchE_def bindE_def logged_eq throw_def)
qed

lemma handleDeploy_image:
  assumes "UUID_Parse (sv_codec sv) (in_path r ''appId'') = Some appID"
    and "(if in_ContentLength r \<noteq> 0 then dec_deploy (in_body r) else Some ([], [], [])) = Some (img, [], gitRef)"
  shows "handleDeploy sv r = image_deploy sv r appID img"
  using assms by (auto simp: fun_eq_iff handleDeploy_def path_uuid_def bindE_def lift_def ret_def require_def split: if_splits)

lemma deploy_committed:
  assumes "WithTx u uuid_Nil (deploy_tx sv ctx u appID img) w = (Inr (oid, a, x), w1)" "api_ready w"
  shows "released appID u img a x (w_db w) (w_db w1)" "is_member (w_db w1) u (dep_OrgID x)"
proof -
  from WithTx_Inr [OF assms(1)] obtain w0 where
    run: "deploy_tx sv ctx u appID img (tx_prologue u uuid_Nil w) = (Inr (oid, a, x), w0)" "w_db w1 = w_db w0" by auto
  from deploy_tx_released [OF run(1)] run(2) assms(2) show rel: "released appID u img a x (w_db w) (w_db w1)"
    and "is_member (w_db w1) u (dep_OrgID x)"
    by (auto simp: api_ready_def released_def permitted_def is_member_def list_ex_iff)
qed

lemma release_on_wire:
  assumes "released appID u img a x d d'" "list_all (\<lambda>a. list_all port_ok (app_Ports a)) (applications d)" "codec_ok (sv_codec sv)"
  shows "request_of (sv_codec sv) (Some (enc_placementRequested (api_placement_message sv a x))) = Some (api_placement_message sv a x, dep_ID x)"
  using assms dec_placementRequested_enc [of "api_placement_message sv a x"]
  by (auto simp: request_of_def api_placement_message_def released_def list_all_iff codec_ok_def)

lemma image_deploy_outcome:
  assumes "api_ready w" "no_faults w" "caller r \<noteq> uuid_Nil" "codec_ok (sv_codec sv)"
    and ports: "list_all (\<lambda>a. list_all port_ok (app_Ports a)) (applications (w_db w))"
    and run: "image_deploy sv r appID img w = (res, w')"
  shows "case res of
      Inr resp \<Rightarrow> rsp_Status resp = 201 \<and> (\<exists>a x. released appID (caller r) img a x (w_db w) (w_db w') \<and>
        w_bus w' = w_bus w @ [(PlacementRequestedSubject, enc_placementRequested (api_placement_message sv a x))] \<and>
        request_of (sv_codec sv) (Some (enc_placementRequested (api_placement_message sv a x))) = Some (api_placement_message sv a x, dep_ID x))
    | Inl e \<Rightarrow> w_bus w' = w_bus w \<and> (w_db w' = w_db w \<or> (\<exists>a x t d1. rsp_Status (api_writeError e) = 502 \<and>
        released appID (caller r) img a x (w_db w) d1 \<and>
        deployments (w_db w') = deployments (w_db w) @ [x\<lparr>dep_Status := DeploymentStatusFailed, dep_CompletedAt := Some t\<rparr>]))"
proof -
  let ?tx = "WithTx (caller r) uuid_Nil (deploy_tx sv (in_ctx r) (caller r) appID img)"
  obtain res1 w1 where tx: "?tx w = (res1, w1)" by force
  have env: "env_of w1 = env_of w" by (rule quietD [OF quiet_WithTx [OF quiet_deploy_tx] tx])
  show ?thesis
  proof (cases res1)
    case (Inl e)
    with WithTx_Inl [OF tx [unfolded Inl]] tx env run show ?thesis by (auto simp: image_deploy_def bindE_def env_of_def)
  next
    case (Inr y)
    obtain oid a x where y: "y = (oid, a, x)" by (cases y)
    note rel = deploy_committed [OF tx [unfolded Inr y] assms(1)]
    obtain res2 w2 where pub: "publishPlacement sv oid (caller r) a x w1 = (res2, w2)" by force
    have "no_faults w1" and bus: "w_bus w1 = w_bus w" using env assms(2) by (simp_all add: env_of_def no_faults_def)
    with publishPlacement_outcome [OF _ _ _ assms(3) rel(2) pub] rel(1) have out: "case res2 of
        Inr _ \<Rightarrow> w_db w2 = w_db w1 \<and> w_bus w2 = w_bus w @ [(PlacementRequestedSubject, enc_placementRequested (api_placement_message sv a x))]
      | Inl _ \<Rightarrow> w_bus w2 = w_bus w \<and> deployments (w_db w2) =
        deployments (w_db w) @ [x\<lparr>dep_Status := DeploymentStatusFailed, dep_WorkerContainerID := None, dep_CompletedAt := Some (w_now w1)\<rparr>]"
      by (simp add: released_def split: sum.splits)
    show ?thesis
    proof (cases res2)
      case (Inl e)
      with tx Inr y pub run have "res = Inl (deploy_failed sv ''placement request'' e)" "w' = w2"
        by (auto simp: image_deploy_def bindE_def mapErr_def catchE_def throw_def)
      moreover have "x\<lparr>dep_Status := s, dep_WorkerContainerID := None, dep_CompletedAt := t\<rparr> = x\<lparr>dep_Status := s, dep_CompletedAt := t\<rparr>" for s t
        using rel(1) by (cases x) (simp add: released_def)
      moreover have "rsp_Status (api_writeError (deploy_failed sv msg e)) = 502" for msg
        by (simp add: deploy_failed_def api_writeError_def writeJSON_def)
      ultimately show ?thesis using out Inl rel(1) by (auto intro!: exI [of _ a] exI [of _ x])
    next
      case r2: (Inr z)
      with tx Inr y pub run have "w' = w2" "\<exists>b. res = Inr (writeJSON 201 b)"
        by (auto simp: image_deploy_def bindE_def mapErr_def catchE_def ret_def)
      with out r2 rel(1) release_on_wire [OF rel(1) ports assms(4)] show ?thesis by (auto simp: writeJSON_def intro!: exI [of _ a] exI [of _ x])
    qed
  qed
qed

text \<open>
  C10. What a deploy of an image does, on every branch. Accepted, it answers 201 and leaves exactly one new deployment of
  the application, pending, with the image asked for (the application's own if none was) and a revision above every earlier one,
  and publishes exactly one placement request, which the scheduler reads back as a request for that deployment. Refused, it
  publishes nothing, and either no table changed, or the bus was at fault: then the answer is 502 and the deployment
  is on record as failed.
\<close>

theorem deploy_outcome:
  assumes "api_ready w" "no_faults w" "caller r \<noteq> uuid_Nil" "codec_ok (sv_codec sv)"
    and "list_all (\<lambda>a. list_all port_ok (app_Ports a)) (applications (w_db w))"
    and "UUID_Parse (sv_codec sv) (in_path r ''appId'') = Some appID"
    and "(if in_ContentLength r \<noteq> 0 then dec_deploy (in_body r) else Some ([], [], [])) = Some (img, [], gitRef)"
    and "handleDeploy sv r w = (res, w')"
  shows "case res of
      Inr resp \<Rightarrow> rsp_Status resp = 201 \<and> (\<exists>a x. released appID (caller r) img a x (w_db w) (w_db w') \<and>
        w_bus w' = w_bus w @ [(PlacementRequestedSubject, enc_placementRequested (api_placement_message sv a x))] \<and>
        request_of (sv_codec sv) (Some (enc_placementRequested (api_placement_message sv a x))) = Some (api_placement_message sv a x, dep_ID x))
    | Inl e \<Rightarrow> w_bus w' = w_bus w \<and> (w_db w' = w_db w \<or> (\<exists>a x t d1. rsp_Status (api_writeError e) = 502 \<and>
        released appID (caller r) img a x (w_db w) d1 \<and>
        deployments (w_db w') = deployments (w_db w) @ [x\<lparr>dep_Status := DeploymentStatusFailed, dep_CompletedAt := Some t\<rparr>]))"
  using image_deploy_outcome [OF assms(1-5)] handleDeploy_image [OF assms(6,7)] assms(8) by simp

subsection \<open>Deleting an application\<close>

text \<open>The containers of an application's latest deployment, and the releases of those that have started.\<close>

definition latest_containers :: "db \<Rightarrow> uuid \<Rightarrow> Container list" where
  "latest_containers d appID = (case latest_of (filter (\<lambda>x. dep_ApplicationID x = appID) (deployments d)) of
     None \<Rightarrow> [] | Some x \<Rightarrow> newest_first (filter (\<lambda>c. con_DeploymentID c = dep_ID x) (containers d)))"

definition releases :: "server \<Rightarrow> Container list \<Rightarrow> (string \<times> json) list" where
  "releases sv = List.map_filter (\<lambda>c. map_option (\<lambda>rid. (NodeUnassignSubject (UUID_String (sv_codec sv) (con_NodeID c)),
     enc_unassign \<lparr>un_AssignmentID = UUID_String (sv_codec sv) (con_ID c), un_ContainerID = rid\<rparr>)) (con_RuntimeID c))"

lemma visible_deployments_all:
  assumes "tenant_inv d" "a \<in> set (applications d)" "current_org s = Some (app_OrgID a)"
  shows "visible_deployments s d (app_ID a) = filter (\<lambda>x. dep_ApplicationID x = app_ID a) (deployments d)"
  unfolding visible_deployments_def
  by (rule filter_cong) (use assms app_deployment_org [OF assms(1,2)] in \<open>auto simp: deployment_visible_def org_visible_def\<close>)

lemma stop_targets_all:
  assumes "WithTx u uuid_Nil (stop_targets ctx u appID) w = (Inr (oid, cs), w')" "api_ready w"
  shows "cs = latest_containers (w_db w) appID"
proof -
  from WithTx_Inr [OF assms(1)] obtain w1 where run: "stop_targets ctx u appID (tx_prologue u uuid_Nil w) = (Inr (oid, cs), w1)" by blast
  then obtain o1 v where perm: "app_permission ctx u appID PermApplicationDelete (tx_prologue u uuid_Nil w) = (Inr o1, v)"
    and rest: "bindE (optional (Deployments_Latest appID)) (\<lambda>latest. case latest of
       None \<Rightarrow> ret (o1, []) | Some x \<Rightarrow> bindE (Containers_ListByDeployment (dep_ID x)) (\<lambda>cs. ret (o1, cs))) v = (Inr (oid, cs), w1)"
    unfolding stop_targets_def by (erule bindE_InrE)
  from app_permission_Inr(1-3) [OF perm] obtain a where
    a: "find (visible_app (tx_session u uuid_Nil (w_sess w)) (w_db w) appID) (applications (w_db w)) = Some a" "o1 = app_OrgID a"
    and v: "w_db v = w_db w" "current_org (w_sess v) = Some o1" by auto
  have "visible_deployments (w_sess v) (w_db w) appID = filter (\<lambda>x. dep_ApplicationID x = appID) (deployments (w_db w))"
    using visible_deployments_all [of "w_db w" a "w_sess v"] a v assms(2) find_Some_set [OF a(1)] by (auto simp: api_ready_def visible_app_def)
  with rest v show ?thesis
    by (auto simp: latest_containers_def bindE_def optional_def catchE_def Deployments_Latest_def queryRow_def query_def exec_def wrapE_def
        mapErr_def lift_def ret_def throw_def Containers_ListByDeployment_def split: option.splits sum.splits if_splits)
qed

lemma quiet_stop_targets [frame]: "quiet (stop_targets ctx u appID)"
  unfolding stop_targets_def optional_def
  by (intro quiet_bindE quiet_catchE quiet_option quiet_if quiet_prim quiet_permission(2) quiet_reads [OF reads_resolve(6)] quiet_reads [OF reads_resolve(8)])

lemma readonly_stop_targets [frame]: "readonly (stop_targets ctx u appID)"
  unfolding stop_targets_def optional_def
  by (intro readonly_bindE readonly_app_permission readonly_catchE readonly_if readonly_prim readonly_reads [OF reads_resolve(6)])
    (auto intro!: readonly_bindE readonly_prim readonly_reads [OF reads_resolve(8)] split: option.splits)

lemma releases_published:
  assumes "foreach (\<lambda>cn. case con_RuntimeID cn of None \<Rightarrow> ret () | Some rid \<Rightarrow> api_unassign sv cn rid) cs w = (r, w')"
  shows "w_db w' = w_db w" "\<exists>n. w_bus w' = w_bus w @ take n (releases sv cs)" "\<not> isl r \<Longrightarrow> w_bus w' = w_bus w @ releases sv cs"
proof (atomize (full), insert assms, induction cs arbitrary: w)
  case Nil
  then show ?case by (auto simp: ret_def releases_def List.map_filter_simps)
next
  case (Cons c cs)
  show ?case
  proof (cases "con_RuntimeID c")
    case None
    then have "releases sv (c # cs) = releases sv cs" by (simp add: releases_def List.map_filter_simps)
    with None Cons.IH [of w] Cons.prems show ?thesis by (simp add: bindE_def ret_def)
  next
    case (Some rid)
    let ?m = "(NodeUnassignSubject (UUID_String (sv_codec sv) (con_NodeID c)),
      enc_unassign \<lparr>un_AssignmentID = UUID_String (sv_codec sv) (con_ID c), un_ContainerID = rid\<rparr>)"
    have msgs: "releases sv (c # cs) = ?m # releases sv cs" using Some by (simp add: releases_def List.map_filter_simps)
    show ?thesis
    proof (cases rule: publishIfConnected_cases [of sv "fst ?m" "snd ?m" w])
      case (sent w1)
      with Some have "api_unassign sv c rid w = (Inr (), w1)" by (simp add: api_unassign_def mapErr_Inr)
      with Some Cons.prems have "foreach (\<lambda>cn. case con_RuntimeID cn of None \<Rightarrow> ret () | Some rid \<Rightarrow> api_unassign sv cn rid) cs w1 = (r, w')"
        by (simp add: bindE_def)
      note ih = Cons.IH [OF this]
      from ih obtain n where "w_bus w' = w_bus w1 @ take n (releases sv cs)" by blast
      then have "\<exists>n. w_bus w' = w_bus w @ take n (releases sv (c # cs))" unfolding msgs using sent(4) by (intro exI [of _ "Suc n"]) simp
      moreover have "w_db w' = w_db w" "\<not> isl r \<longrightarrow> w_bus w' = w_bus w @ releases sv (c # cs)" using ih sent msgs by simp_all
      ultimately show ?thesis by blast
    next
      case (failed e w1)
      with Some have "\<exists>e'. api_unassign sv c rid w = (Inl e', w1)" by (simp add: api_unassign_def mapErr_def catchE_def throw_def)
      with Some Cons.prems failed show ?thesis by (auto simp: bindE_def intro: exI [of _ 0])
    qed
  qed
qed

lemma steady_releases:
  "steady (foreach (\<lambda>cn. case con_RuntimeID cn of None \<Rightarrow> ret () | Some rid \<Rightarrow> api_unassign sv cn rid) cs)"
  by (rule steady_foreach) (auto simp: api_unassign_def intro!: frame split: option.splits)

lemma quiet_delete_app_tx [frame]: "quiet (delete_app_tx ctx u oid appID)"
  unfolding delete_app_tx_def Applications_Delete_def by (intro quiet_bindE quiet_derived quiet_rows quiet_permission(1) quiet_recordAudit)

lemma delete_app_gone:
  assumes "WithTx u oid (delete_app_tx ctx u oid appID) w = (Inr y, w')" "api_ready w"
    and org: "\<forall>b \<in> set (applications (w_db w)). app_ID b = appID \<longrightarrow> app_OrgID b = oid"
  shows "appID \<notin> app_ID ` set (applications (w_db w')) \<and> appID \<notin> dep_ApplicationID ` set (deployments (w_db w'))"
proof -
  from WithTx_Inr [OF assms(1)] obtain w1 where run: "delete_app_tx ctx u oid appID (tx_prologue u oid w) = (Inr y, w1)" "w_db w' = w_db w1" by auto
  then obtain w2 w3 where perm: "requirePermission ctx u oid PermApplicationDelete (tx_prologue u oid w) = (Inr (), w2)"
    and del: "Applications_Delete appID w2 = (Inr (), w3)" and aud: "\<exists>e. w_db w1 = (w_db w3)\<lparr>audit_logs := audit_logs (w_db w3) @ [e]\<rparr>"
    by (auto simp: delete_app_tx_def bindE_Inr mapErr_Inr dest!: recordAudit_Inr)
  let ?P = "visible_app (w_sess w2) (w_db w) appID"
  from requirePermission_Inr [OF perm] have w2: "w_db w2 = w_db w" by auto
  with del obtain b where b: "w_db w3 = delete_applications ?P (w_db w)" "b \<in> set (applications (w_db w))" "?P b"
    by (auto simp: Applications_Delete_def execRows_Inr filter_empty_conv)
  have all: "?P c" if "c \<in> set (applications (w_db w))" "app_ID c = appID" for c
    using b(2,3) that org by (auto simp: visible_app_def)
  with b aud run(2) show ?thesis by (auto simp: delete_applications_def Let_def list_ex_iff visible_app_def)
qed

text \<open>
  C11. Deleting an application stops it first. Whenever the request succeeds, a release of every container of the latest
  deployment that has started was published, to the container's node and in the order of the listing, before the
  application and all its deployments went away; whenever it fails, at a broken connection or at a release that could not be
  published, every table is as before, and what was published is a part of those releases.
\<close>

theorem deletion_stops_first:
  assumes "api_ready w" "UUID_Parse (sv_codec sv) (in_path r ''appId'') = Some appID"
    and "handleDeleteApplication sv r w = (res, w')" "msgs = releases sv (latest_containers (w_db w) appID)"
  shows "(\<exists>n. w_bus w' = w_bus w @ take n msgs) \<and>
    (case res of
       Inr resp \<Rightarrow> resp = noContent \<and> w_bus w' = w_bus w @ msgs \<and> appID \<notin> app_ID ` set (applications (w_db w')) \<and>
         appID \<notin> dep_ApplicationID ` set (deployments (w_db w'))
     | Inl _ \<Rightarrow> w_db w' = w_db w)"
proof -
  let ?stop = "WithTx (caller r) uuid_Nil (stop_targets (in_ctx r) (caller r) appID)"
  obtain res1 w1 where tx: "?stop w = (res1, w1)" by force
  have path: "path_uuid sv r ''appId'' w = (Inr appID, w)" using assms(2) by (simp add: path_uuid_def lift_Inr)
  have bus1: "w_bus w1 = w_bus w" using quietD [OF quiet_WithTx [OF quiet_stop_targets] tx] by (simp add: env_of_def)
  have db1: "w_db w1 = w_db w" "w_sess w1 = w_sess w" using steadyD [OF steady_WithTx [OF readonly_stop_targets] tx] by auto
  show ?thesis
  proof (cases res1)
    case (Inl e)
    with assms(3) path tx bus1 db1 show ?thesis by (auto simp: handleDeleteApplication_def bindE_def intro: exI [of _ 0])
  next
    case (Inr y)
    obtain oid cs where y: "y = (oid, cs)" by force
    note tx' = tx [unfolded Inr y]
    obtain res2 w2 where pub: "foreach (\<lambda>cn. case con_RuntimeID cn of None \<Rightarrow> ret () | Some rid \<Rightarrow> api_unassign sv cn rid) cs w1 = (res2, w2)" by force
    note rel = releases_published [OF pub, unfolded stop_targets_all [OF tx' assms(1)], folded assms(4), unfolded bus1 db1]
    have ready: "api_ready w2" using assms(1) rel(1) steadyD [OF steady_releases pub] db1(2) by (simp add: api_ready_def)
    let ?del = "WithTx (caller r) oid (delete_app_tx (in_ctx r) (caller r) oid appID)"
    obtain res3 w3 where del: "?del w2 = (res3, w3)" by force
    have bus3: "w_bus w3 = w_bus w2" using quietD [OF quiet_WithTx [OF quiet_delete_app_tx] del] by (simp add: env_of_def)
    show ?thesis
    proof (cases "isl res2")
      case True
      with assms(3) path tx' pub rel have "isl res" "w' = w2" by (auto simp: handleDeleteApplication_def bindE_def split: sum.splits)
      with rel show ?thesis by (auto split: sum.splits)
    next
      case sent: False
      with pub have pub': "foreach (\<lambda>cn. case con_RuntimeID cn of None \<Rightarrow> ret () | Some rid \<Rightarrow> api_unassign sv cn rid) cs w1 = (Inr (), w2)"
        by (cases res2) auto
      have res: "res = (case res3 of Inl e \<Rightarrow> Inl e | Inr _ \<Rightarrow> Inr noContent)" "w' = w3"
        using assms(3) path tx' pub' del by (auto simp: handleDeleteApplication_def bindE_def ret_def split: sum.splits)
      have "\<exists>n. w_bus w2 = w_bus w @ take n msgs" by (rule rel(2))
      moreover have "appID \<notin> app_ID ` set (applications (w_db w3)) \<and> appID \<notin> dep_ApplicationID ` set (deployments (w_db w3))" if "res3 = Inr z" for z
        using delete_app_gone [OF _ ready] del that rel(1) stop_targets_org [OF tx' assms(1)] by auto
      moreover have "w_db w3 = w_db w" if "res3 = Inl e" for e using WithTx_Inl del that rel(1) by fastforce
      ultimately show ?thesis using res bus3 rel(3) sent by (auto split: sum.splits)
    qed
  qed
qed

subsection \<open>Examples\<close>

definition demo_shop_app :: Application where
  "demo_shop_app = \<lparr>app_ID = 6, app_OrgID = 5, app_ProjectID = 4, app_Name = ''shop'', app_Image = ''nginx'', app_ReplicasDesired = 1,
     app_CPUMillicores = 100, app_MemoryMB = 128, app_Ports = [], app_HealthCheckPath = None, app_CreatedAt = 0, app_UpdatedAt = 0\<rparr>"

definition demo_shop :: db where
  "demo_shop = demo_tenants\<lparr>projects := [\<lparr>proj_ID = 4, proj_OrgID = 5, proj_Name = ''web'', proj_Slug = ''web'', proj_CreatedAt = 0\<rparr>],
     applications := [demo_shop_app], deployments := [demo_deployment], nodes := [demo_node 3 NodeStatusHealthy],
     containers := [(new_container 9 7 3)\<lparr>con_Status := ContainerStatusRunning, con_RuntimeID := Some ''abc''\<rparr>],
     resource_quotas := [DefaultResourceQuota\<lparr>rq_OrgID := 5\<rparr>]\<rparr>"

definition demo_call :: request where
  "demo_call = \<lparr>in_ctx = \<lparr>ctx_user = Some 1, ctx_key_org = None\<rparr>, in_path = (\<lambda>_. UUID_String unary 6), in_query = (\<lambda>_. []),
     in_body = None, in_ContentLength = 0\<rparr>"

lemma demo_shop_ready: "api_ready (calm 0 demo_shop)"
  by (simp add: api_ready_def tenant_inv_def calm_def demo_shop_def demo_tenants_def empty_db_def demo_org_def demo_owner_def member_key_def
      has_owner_def refs_def demo_shop_app_def demo_deployment_def new_container_def proj_key_def app_key_def)

lemma demo_call_parts: "UUID_Parse (sv_codec demo_server) (in_path demo_call ''appId'') = Some 6" "in_ContentLength demo_call = 0"
  "caller demo_call = 1" "caller demo_call \<noteq> uuid_Nil" "sv_codec demo_server = unary"
  by (simp_all add: uuid_Nil_def demo_call_def demo_server_def unary_def caller_def UserIDFromContext_def)

lemma demo_shop_ports: "list_all (\<lambda>a. list_all port_ok (app_Ports a)) (applications (w_db (calm 0 demo_shop)))"
  by (simp add: demo_shop_def demo_shop_app_def)

theorem deploy_outcome_witness:
  "let w = snd (handleDeploy demo_server demo_call (calm 0 demo_shop)) in
     map dep_Status (deployments (w_db w)) = [DeploymentStatusPending, DeploymentStatusPending] \<and> length (w_bus w) = 1"
proof -
  let ?w = "snd (handleDeploy demo_server demo_call (calm 0 demo_shop))"
  have "\<not> isl (fst (handleDeploy demo_server demo_call (calm 0 demo_shop)))" by code_simp
  then obtain resp where run: "handleDeploy demo_server demo_call (calm 0 demo_shop) = (Inr resp, ?w)"
    by (metis isl_def prod.collapse sum.exhaust_sel)
  have "\<exists>a x. released 6 1 [] a x demo_shop (w_db ?w) \<and>
      w_bus ?w = [(PlacementRequestedSubject, enc_placementRequested (api_placement_message demo_server a x))]"
    using deploy_outcome [OF demo_shop_ready _ demo_call_parts(4) _ demo_shop_ports demo_call_parts(1) _ run, of "[]" "[]"] demo_call_parts unary_ok
    by auto
  then show ?thesis by (auto simp: released_def demo_shop_def demo_deployment_def)
qed

theorem deletion_stops_first_witness:
  "w_bus (snd (handleDeleteApplication demo_server demo_call (calm 0 demo_shop))) =
     [(NodeUnassignSubject ''xxx'', enc_unassign \<lparr>un_AssignmentID = ''xxxxxxxxx'', un_ContainerID = ''abc''\<rparr>)] \<and>
   applications (w_db (snd (handleDeleteApplication demo_server demo_call (calm 0 demo_shop)))) = []"
proof -
  let ?w = "snd (handleDeleteApplication demo_server demo_call (calm 0 demo_shop))"
  have "\<not> isl (fst (handleDeleteApplication demo_server demo_call (calm 0 demo_shop)))" by code_simp
  then obtain resp where run: "handleDeleteApplication demo_server demo_call (calm 0 demo_shop) = (Inr resp, ?w)"
    by (metis isl_def prod.collapse sum.exhaust_sel)
  have "releases demo_server (latest_containers demo_shop 6) =
      [(NodeUnassignSubject ''xxx'', enc_unassign \<lparr>un_AssignmentID = ''xxxxxxxxx'', un_ContainerID = ''abc''\<rparr>)]" by code_simp
  moreover have "\<forall>a \<in> set (applications (w_db ?w)). app_ID a = 6" by code_simp
  ultimately show ?thesis
    using deletion_stops_first [OF demo_shop_ready demo_call_parts(1) run refl] by (cases "applications (w_db ?w)") auto
qed

end
