(* ===== verification/LogRoute.thy ===== *)
theory LogRoute
  imports WorkerClient CliContract
begin

section \<open>Logs, from the engine to the user\<close>

text \<open>
  The log route of the API server (\<^verbatim>\<open>handlers_logs.go\<close>) and \<open>StreamLogs\<close> of the command line client, on top of the worker client. A
  user's request passes three connections: from the command line client to the API server, from there to the
  worker, and from the worker to the engine.
\<close>

subsection \<open>The API server\<close>

text \<open>The worker client and the address of the worker are fields of the server; the network to the worker is in the state \<open>n\<close>.\<close>

definition handleGetLogs :: "server \<Rightarrow> 'n stream_net \<Rightarrow> string \<Rightarrow> nat option \<Rightarrow> 'n \<Rightarrow> request \<Rightarrow> log_stream op" where
  "handleGetLogs sv net workerURL wr n r =
     bindE (path_uuid sv r ''appId'') (\<lambda>appID.
     bindE (log_container (in_ctx r) (caller r) appID) (\<lambda>containerID.
     case fst (wc_StreamLogs net workerURL containerID (in_query r ''follow'' = ''true'') n) of
       Inl ErrContainerNotFound \<Rightarrow> throw (errNotFound ''the deployed container no longer exists'')
     | Inl (WorkerError t) \<Rightarrow> throw (ApiError 502 ''runtime_error'' (''streaming logs: '' @ t))
     | Inr logs \<Rightarrow> ret (streamed wr logs)))"

definition writeAuthError :: http_response where
  "writeAuthError = writeJSON 401 (error_body ''unauthorized'' ''a valid bearer access token is required'')"

text \<open>
  The route behind the mux and the authentication middleware (\<open>authn\<close>, from the header to the context), as the client sees it; other routes are not
  reached by the calls below and answer 404 here.
\<close>

definition log_request :: "auth_ctx \<Rightarrow> (string \<times> string) list \<Rightarrow> string \<Rightarrow> request" where
  "log_request ctx vals url = \<lparr>in_ctx = ctx, in_path = (\<lambda>k. case map_of vals k of Some v \<Rightarrow> v | None \<Rightarrow> []),
     in_query = Query_Get url, in_body = None, in_ContentLength = 0\<rparr>"

definition serve_logs ::
  "server \<Rightarrow> (string \<Rightarrow> auth_ctx option) \<Rightarrow> 'n stream_net \<Rightarrow> string \<Rightarrow> nat option \<Rightarrow> 'n \<Rightarrow> string \<Rightarrow> string \<Rightarrow> string \<Rightarrow> world \<Rightarrow> log_answer \<times> world"
where
  "serve_logs sv authn net workerURL wr n meth url header w =
     (case dispatch meth url of
        Some (GetLogs, vals) \<Rightarrow>
          (case authn header of
             None \<Rightarrow> (Answered writeAuthError, w)
           | Some ctx \<Rightarrow>
               (case handleGetLogs sv net workerURL wr n (log_request ctx vals url) w of
                  (Inl er, w1) \<Rightarrow> (Answered (api_writeError er), w1)
                | (Inr logs, w1) \<Rightarrow> (Streaming logs, w1)))
      | _ \<Rightarrow> (Answered \<lparr>rsp_Status = 404, rsp_Body = None\<rparr>, w))"

subsection \<open>The command line client\<close>

text \<open>
  \<open>io.Copy\<close> to the terminal: the bytes that arrive are written in order until the stream ends, an error arrives, or a write
  fails after \<open>room\<close> bytes.
\<close>

datatype copy_end = Copied | CopyFailed | StillCopying

definition io_Copy :: "nat option \<Rightarrow> log_stream \<Rightarrow> string \<times> copy_end" where
  "io_Copy room st =
     (let all = (bytes st, case ended st of EOF \<Rightarrow> Copied | Broken \<Rightarrow> CopyFailed | StillOpen \<Rightarrow> StillCopying) in
      case room of
        None \<Rightarrow> all
      | Some k \<Rightarrow> if k < length (bytes st) then (take k (bytes st), CopyFailed) else all)"

definition cli_logs_path :: "string \<Rightarrow> bool \<Rightarrow> string" where
  "cli_logs_path appID follow = ''/v1/applications/'' @ appID @ ''/logs'' @ (if follow then ''?follow=true'' else [])"

definition cli_refusal :: "'n stream_net \<Rightarrow> log_answer \<Rightarrow> APIError" where
  "cli_refusal net a = decodeAPIError \<lparr>rsp_Status = answer_status a, rsp_Body = answer_json net a\<rparr>"

text \<open>The token is sent as it is stored: unlike the other calls, this one does not refresh it.\<close>

definition Client_StreamLogs ::
  "'n stream_net \<Rightarrow> string \<Rightarrow> bool \<Rightarrow> nat option \<Rightarrow> Config \<Rightarrow> 'n \<Rightarrow> (cli_err + string \<times> copy_end) \<times> 'n"
where
  "Client_StreamLogs net appID follow room cfg n =
     (let path = cli_logs_path appID follow; url = cc_APIURL cfg @ path in
      case net_BadURL net url of
        Some _ \<Rightarrow> (Inl BadURL, n)
      | None \<Rightarrow>
          (case net_Do net \<lparr>hc_Method = ''GET'', hc_URL = url, hc_Body = None, hc_Bearer = Some (cc_AccessToken cfg)\<rparr> n of
             (Inl er, n1) \<Rightarrow> (Inl (CallFailed ''GET'' path er), n1)
           | (Inr a, n1) \<Rightarrow>
               (if answer_status a \<noteq> 200 then Inl (ServerError (cli_refusal net a)) else Inr (io_Copy room (answer_text net a)), n1)))"

subsection \<open>End to end\<close>

definition api_connected ::
  "server \<Rightarrow> (string \<Rightarrow> auth_ctx option) \<Rightarrow> 'n stream_net \<Rightarrow> string \<Rightarrow> nat option \<Rightarrow> 'n \<Rightarrow> string \<Rightarrow> (log_stream \<Rightarrow> json option) \<Rightarrow>
    (http_response \<Rightarrow> log_stream) \<Rightarrow> world stream_net"
where
  "api_connected sv authn net workerURL wr n apiURL j t = \<lparr>net_BadURL = (\<lambda>_. None),
     net_Do = (\<lambda>c w. map_prod Inr id (serve_logs sv authn net workerURL wr n (hc_Method c) (TrimPrefix (hc_URL c) apiURL)
       (case hc_Bearer c of Some tok \<Rightarrow> ''Bearer '' @ tok | None \<Rightarrow> []) w)),
     net_JSON = j, net_Text = t\<rparr>"

lemma dispatch_logs: "plain a \<Longrightarrow> dispatch ''GET'' (cli_logs_path a follow) = Some (GetLogs, [(''appId'', a)])"
  unfolding dispatch_def cli_logs_path_def
  by (subst matches_path [of "[''v1'', ''applications'', a, ''logs'']" _ "''follow=true''"]) (simp_all add: segment_eval)

lemma cli_follow_query: "plain a \<Longrightarrow> (Query_Get (cli_logs_path a follow) ''follow'' = ''true'') = follow"
  using follow_parameter [of "''/v1/applications/'' @ a @ ''/logs''" follow] by (simp add: cli_logs_path_def plain_def)

lemma decode_api_error: "message \<noteq> [] \<Longrightarrow> decodeAPIError (api_writeError (ApiError status code message)) =
   \<lparr>ae_Status = status, ae_Code = code, ae_Message = message\<rparr>"
  by (simp add: decodeAPIError_def api_writeError_def writeJSON_def error_body_def field_simps)

text \<open>Every connection on the way passes on a prefix, and all of it when none of them fails.\<close>

lemma streamed_prefix: "\<exists>rest. bytes st = bytes (streamed wr st) @ rest"
proof -
  obtain out reached where run: "copy_stream wr (segments st) = (out, reached)" by force
  with copy_stream_prefix [OF run] show ?thesis by (auto simp: streamed_def bytes_def)
qed

lemma io_Copy_prefix: "\<exists>rest. bytes st = fst (io_Copy room st) @ rest"
  by (cases room) (auto simp: io_Copy_def Let_def, metis append_take_drop_id)

lemma chain_prefix: "\<exists>rest. bytes st = fst (io_Copy room (streamed wr2 (streamed wr1 st))) @ rest"
  using streamed_prefix [of st wr1] streamed_prefix [of "streamed wr1 st" wr2] io_Copy_prefix [of "streamed wr2 (streamed wr1 st)" room]
  by (metis append.assoc)

lemma chain_complete: "io_Copy None (streamed None (streamed None st)) = (bytes st, if ended st = StillOpen then StillCopying else Copied)"
  by (simp add: io_Copy_def Let_def streamed_all)

lemma logs_route_gated: "gated (admitted GetBuilds sv r) (handleGetLogs sv net url wr n r)"
  unfolding handleGetLogs_def log_container_def by (intro gated_head gated_app; simp)

lemma Client_StreamLogs_api:
  assumes "plain a"
  shows "Client_StreamLogs (api_connected sv authn net workerURL wr n (cc_APIURL cfg) j t) a follow room cfg w =
    (case authn (''Bearer '' @ cc_AccessToken cfg) of
       None \<Rightarrow> (Inl (ServerError (cli_refusal (api_connected sv authn net workerURL wr n (cc_APIURL cfg) j t) (Answered writeAuthError))), w)
     | Some ctx \<Rightarrow>
         (case handleGetLogs sv net workerURL wr n (log_request ctx [(''appId'', a)] (cli_logs_path a follow)) w of
            (Inl er, w1) \<Rightarrow>
              (if answer_status (Answered (api_writeError er)) \<noteq> 200
               then Inl (ServerError (cli_refusal (api_connected sv authn net workerURL wr n (cc_APIURL cfg) j t) (Answered (api_writeError er))))
               else Inr (io_Copy room (t (api_writeError er))), w1)
          | (Inr logs, w1) \<Rightarrow> (Inr (io_Copy room logs), w1)))"
  unfolding Client_StreamLogs_def
  by (auto simp: api_connected_def Let_def serve_logs_def dispatch_logs [OF assms] answer_status_def answer_text_def writeAuthError_def writeJSON_def
      split: option.splits prod.splits sum.splits)

lemma log_request_sel:
  "in_ctx (log_request ctx vals url) = ctx" "caller (log_request ctx vals url) = fst (UserIDFromContext ctx)"
  "in_path (log_request ctx [(''appId'', a)] url) ''appId'' = a" "in_query (log_request ctx vals url) = Query_Get url"
  by (simp_all add: log_request_def caller_def)

lemma handleGetLogs_run:
  assumes "plain a" "UUID_Parse (sv_codec sv) a = Some appID"
    and "log_container ctx (fst (UserIDFromContext ctx)) appID w = (Inr cid, w')" "plain cid"
  shows "handleGetLogs sv (connected (DockerRuntime dk) wr1 workerURL j t) workerURL wr2 e (log_request ctx [(''appId'', a)] (cli_logs_path a follow)) w =
    (case ContainerLogs dk cid follow e of
       Inl er \<Rightarrow>
         (Inl (if IsNotFound er then errNotFound ''the deployed container no longer exists''
            else ApiError 502 ''runtime_error'' (''streaming logs: worker GET '' @ logs_path cid follow @ '': streaming logs for container '' @ cid @ '': '' @
              rt_text (wrapf (''streaming logs for container '' @ cid) er) @ '' (runtime_error)'')), w')
     | Inr logs \<Rightarrow> (Inr (streamed wr2 (streamed wr1 (StdCopy dk logs))), w'))"
  using assms(2,3)
  by (auto simp: handleGetLogs_def path_uuid_def lift_def bindE_def ret_def throw_def log_request_sel
      wc_StreamLogs_connected [OF assms(4)] cli_follow_query [OF assms(1)] docker_StreamLogs_def refused_def split: sum.splits)

lemma log_reader_is_member:
  fixes sv :: server and dk :: "'e docker_client"
  assumes "plain a" "UUID_Parse (sv_codec sv) a = Some appID"
    and "log_container ctx (fst (UserIDFromContext ctx)) appID w = (Inr cid, w')" "plain cid" "ContainerLogs dk cid follow e = Inr logs"
  shows "\<exists>x \<in> set (applications (w_db w)). app_ID x = appID \<and> key_allows ctx (app_OrgID x) \<and>
    (\<exists>m \<in> set (memberships (w_db w)). mem_UserID m = fst (UserIDFromContext ctx) \<and> mem_OrgID m = app_OrgID x)"
proof -
  let ?r = "log_request ctx [(''appId'', a)] (cli_logs_path a follow)"
  have "admitted GetBuilds sv ?r (w_db w)"
    using logs_route_gated [of sv ?r "connected (DockerRuntime dk) None [] (\<lambda>_. None) (\<lambda>_. logs)" "[]" None e]
      handleGetLogs_run [OF assms(1-4), of dk None "[]" _ _ None e follow] assms(5) unfolding gated_def by fastforce
  then show ?thesis using assms(2) by (auto simp: admitted_def log_request_sel)
qed

text \<open>
  C15. Logs reach the user. When the API server has resolved the application of the path to a container for the caller, whatever
  the engine's log is and however the three connections cut it up, the command line client prints a prefix of the
  demultiplexed log, and all of it unless a connection or the terminal fails; a followed log stays open as long as the
  engine's does, and one that the engine cuts off looks complete. A container that is gone is reported as such, with 404, and
  any other engine error with 502. The caller is then a member of the organization that owns the application, and an API key one of that organization.
  A token that is not accepted is refused with 401; the call does not refresh it.
\<close>

theorem logs_reach_the_user:
  assumes a: "plain a" "UUID_Parse (sv_codec sv) a = Some appID"
    and net: "net = connected (DockerRuntime dk) wr1 workerURL j t"
    and api: "api = api_connected sv authn net workerURL wr2 e (cc_APIURL cfg) j' t'"
    and cid: "log_container ctx (fst (UserIDFromContext ctx)) appID w = (Inr cid, w')" "plain cid"
  shows "(authn (''Bearer '' @ cc_AccessToken cfg) = Some ctx \<longrightarrow>
      (case ContainerLogs dk cid follow e of
         Inl er \<Rightarrow> (\<exists>ae. Client_StreamLogs api a follow room cfg w = (Inl (ServerError ae), w') \<and>
           ae_Status ae = (if IsNotFound er then 404 else 502) \<and> ae_Code ae = (if IsNotFound er then ''not_found'' else ''runtime_error''))
       | Inr logs \<Rightarrow> (\<exists>out fin rest. Client_StreamLogs api a follow room cfg w = (Inr (out, fin), w') \<and> bytes (StdCopy dk logs) = out @ rest \<and>
           (wr1 = None \<and> wr2 = None \<and> room = None \<longrightarrow>
              rest = [] \<and> fin = (if ended (StdCopy dk logs) = StillOpen then StillCopying else Copied)) \<and>
           (\<exists>x \<in> set (applications (w_db w)). app_ID x = appID \<and> key_allows ctx (app_OrgID x) \<and>
              (\<exists>m \<in> set (memberships (w_db w)). mem_UserID m = fst (UserIDFromContext ctx) \<and> mem_OrgID m = app_OrgID x))))) \<and>
    (authn (''Bearer '' @ cc_AccessToken cfg) = None \<longrightarrow>
      Client_StreamLogs api a follow room cfg w = (Inl (ServerError \<lparr>ae_Status = 401, ae_Code = ''unauthorized'',
        ae_Message = ''a valid bearer access token is required''\<rparr>), w))"
proof (cases "authn (''Bearer '' @ cc_AccessToken cfg) = Some ctx \<and> (\<exists>logs. ContainerLogs dk cid follow e = Inr logs)")
  case True
  then obtain logs where logs: "ContainerLogs dk cid follow e = Inr logs" by blast
  let ?st = "streamed wr2 (streamed wr1 (StdCopy dk logs))"
  obtain out fin where io: "io_Copy room ?st = (out, fin)" by force
  from True logs have run: "Client_StreamLogs api a follow room cfg w = (Inr (out, fin), w')"
    unfolding api Client_StreamLogs_api [OF a(1)] net io [symmetric] by (simp add: handleGetLogs_run [OF a cid])
  obtain rest where rest: "bytes (StdCopy dk logs) = out @ rest"
    using chain_prefix [of "StdCopy dk logs" room wr2 wr1] io by auto
  have all: "rest = [] \<and> fin = (if ended (StdCopy dk logs) = StillOpen then StillCopying else Copied)" if "wr1 = None \<and> wr2 = None \<and> room = None"
    using that io rest by (simp add: chain_complete)
  have "\<exists>out fin rest. Client_StreamLogs api a follow room cfg w = (Inr (out, fin), w') \<and> bytes (StdCopy dk logs) = out @ rest \<and>
      (wr1 = None \<and> wr2 = None \<and> room = None \<longrightarrow> rest = [] \<and> fin = (if ended (StdCopy dk logs) = StillOpen then StillCopying else Copied))"
    using run rest all by blast
  with log_reader_is_member [OF a cid logs] True show ?thesis unfolding logs sum.case by simp
next
  case False
  then show ?thesis
    unfolding api Client_StreamLogs_api [OF a(1)] net
    by (auto simp: handleGetLogs_run [OF a cid] answer_status_def cli_refusal_def answer_json_def api_errors api_writeError_def writeAuthError_def
        writeJSON_def error_body_def decodeAPIError_def field_simps split: option.splits sum.splits)
qed

theorem logs_reach_the_user_witness:
  "let net = connected (DockerRuntime demo_docker) None ''http://w'' (\<lambda>_. None) (\<lambda>_. \<lparr>segments = [], ended = EOF\<rparr>);
       api = api_connected demo_server (\<lambda>h. Some \<lparr>ctx_user = Some 1, ctx_key_org = None\<rparr>) net ''http://w'' None
         (Some \<lparr>opt_Image = ''nginx'', opt_Name = [], opt_Env = [], opt_Cmd = [], opt_ExposedPorts = [], opt_PortBindings = []\<rparr>)
         ''http://a'' (\<lambda>_. None) (\<lambda>_. \<lparr>segments = [], ended = EOF\<rparr>)
   in fst (Client_StreamLogs api ''xxxxxx'' True None (empty_config\<lparr>cc_APIURL := ''http://a''\<rparr>) (calm 0 demo_shop)) = Inr (''hello'', StillCopying)"
proof -
  let ?e = "Some \<lparr>opt_Image = ''nginx'', opt_Name = [], opt_Env = [], opt_Cmd = [], opt_ExposedPorts = [], opt_PortBindings = []\<rparr>"
  let ?ctx = "\<lparr>ctx_user = Some 1, ctx_key_org = None\<rparr>"
  let ?w' = "snd (log_container ?ctx (fst (UserIDFromContext ?ctx)) 6 (calm 0 demo_shop))"
  have cid: "log_container ?ctx (fst (UserIDFromContext ?ctx)) 6 (calm 0 demo_shop) = (Inr ''abc'', ?w')"
  proof -
    have "fst (log_container ?ctx (fst (UserIDFromContext ?ctx)) 6 (calm 0 demo_shop)) = Inr ''abc''" by code_simp
    then show ?thesis by (metis prod.collapse)
  qed
  have a: "plain ''xxxxxx''" "UUID_Parse (sv_codec demo_server) ''xxxxxx'' = Some 6" "plain ''abc''"
    by (simp_all add: plain_def demo_server_def unary_def)
  have logs: "ContainerLogs demo_docker ''abc'' True ?e = Inr \<lparr>segments = [''he'', ''llo''], ended = StillOpen\<rparr>"
    by (simp add: demo_docker_simps)
  from logs_reach_the_user [OF a(1,2) refl refl cid a(3), where follow = True and dk = demo_docker and e = ?e and room = None and ?wr1.0 = None and ?wr2.0 = None
      and authn = "\<lambda>h. Some ?ctx" and cfg = "empty_config\<lparr>cc_APIURL := ''http://a''\<rparr>" and workerURL = "''http://w''"]
  show ?thesis unfolding logs Let_def by (auto simp: demo_docker_simps bytes_def)
qed

end
