(* ===== verification/CliCommands.thy ===== *)
theory CliCommands
  imports LogRoute
begin

section \<open>The commands of the command line client\<close>

text \<open>
  \<^verbatim>\<open>apps/cli/internal/cmd\<close>: what each command does with the saved session and with the calls of the API client. The
  parsing of the command line belongs to the package cobra; a command is here a value of the type \<open>command\<close>, its arguments and flags.
  A run of the program starts from the session file, the network and the requests sent in earlier runs. What is printed is kept as the formats
  and the rows of tables with their cells, before \<^verbatim>\<open>text/tabwriter\<close> aligns them.
\<close>

subsection \<open>Results\<close>

datatype cmd_err =
  LoadFailed | SaveFailed | NotLoggedIn | NoProject | FlagRequired string | BadPort string
| UnknownApplication string | NeedsImage string | UnknownMember string | UnknownDomain string | UnknownAPIKey string | CallError cli_err
| CopyError string

datatype cell = Str string | Num int | At time

datatype printed = Printf string "cell list" | Row "cell list" | Raw string copy_end

type_synonym ('n, 'a) cmd = "'n client \<Rightarrow> (cmd_err + 'a) \<times> 'n client"

definition andThen :: "('n, 'a) cmd \<Rightarrow> ('a \<Rightarrow> ('n, 'b) cmd) \<Rightarrow> ('n, 'b) cmd" where
  "andThen m k s = (case m s of (Inl er, s1) \<Rightarrow> (Inl er, s1) | (Inr x, s1) \<Rightarrow> k x s1)"

definition finish :: "'a \<Rightarrow> ('n, 'a) cmd" where
  "finish x s = (Inr x, s)"

definition fail :: "cmd_err \<Rightarrow> ('n, 'a) cmd" where
  "fail er s = (Inl er, s)"

definition call :: "('n, 'a) cli \<Rightarrow> ('n, 'a) cmd" where
  "call m s = (case m s of (Inl er, s1) \<Rightarrow> (Inl (CallError er), s1) | (Inr x, s1) \<Rightarrow> (Inr x, s1))"

text \<open>The session in memory: read it, change it, save it.\<close>

definition config :: "('n, Config) cmd" where
  "config s = (Inr (ses_cfg s), s)"

definition update_config :: "(Config \<Rightarrow> Config) \<Rightarrow> ('n, unit) cmd" where
  "update_config f s = (Inr (), s\<lparr>ses_cfg := f (ses_cfg s)\<rparr>)"

definition save :: "('n, unit) cmd" where
  "save s = (if ses_writable s then Inr () else Inl SaveFailed, Config_Save s)"

subsection \<open>root.go\<close>

definition defaultAPIURL :: string where
  "defaultAPIURL = ''http://localhost:8080''"

definition cli_session :: "string \<Rightarrow> ('n, Config) cmd" where
  "cli_session apiURLFlag s =
     (case loadFrom (ses_file s) of
        None \<Rightarrow> (Inl LoadFailed, s)
      | Some cfg \<Rightarrow>
          (let cfg' = cfg\<lparr>cc_APIURL := if apiURLFlag \<noteq> [] then apiURLFlag else if cc_APIURL cfg = [] then defaultAPIURL else cc_APIURL cfg\<rparr>
           in (Inr cfg', s\<lparr>ses_cfg := cfg'\<rparr>)))"

definition requireLogin :: "string \<Rightarrow> ('n, Config) cmd" where
  "requireLogin flag = andThen (cli_session flag) (\<lambda>cfg. if cc_AccessToken cfg = [] then fail NotLoggedIn else finish cfg)"

definition requireProject :: "string \<Rightarrow> ('n, Config) cmd" where
  "requireProject flag = andThen (requireLogin flag) (\<lambda>cfg. if cc_ProjectID cfg = [] then fail NoProject else finish cfg)"

definition known_application :: "Config \<Rightarrow> string \<Rightarrow> ('n, string) cmd" where
  "known_application cfg name = (case map_of (cc_Applications cfg) name of None \<Rightarrow> fail (UnknownApplication name) | Some i \<Rightarrow> finish i)"

subsection \<open>Accounts\<close>

definition start_session :: "string \<Rightarrow> AuthResponse \<Rightarrow> ('n, printed list) cmd" where
  "start_session what resp =
     andThen (update_config (SetSession (ar_OrgID resp) (ar_OrgSlug resp) (ar_AccessToken resp) (ar_RefreshToken resp))) (\<lambda>_.
     andThen save (\<lambda>_.
     finish [Printf (what @ '' as %s, organization %s (%s)'') [Str (ar_Email resp), Str (ar_OrgSlug resp), Str (ar_Role resp)]]))"

definition cmd_signup :: "'n transport \<Rightarrow> string \<Rightarrow> string \<Rightarrow> string \<Rightarrow> ('n, printed list) cmd" where
  "cmd_signup tr flag email password =
     andThen (cli_session flag) (\<lambda>_. andThen (call (Client_Signup tr email password)) (start_session ''Signed up''))"

definition cmd_login :: "'n transport \<Rightarrow> string \<Rightarrow> string \<Rightarrow> string \<Rightarrow> ('n, printed list) cmd" where
  "cmd_login tr flag email password =
     andThen (cli_session flag) (\<lambda>_. andThen (call (Client_Login tr email password)) (start_session ''Logged in''))"

subsection \<open>Projects and applications\<close>

definition cmd_create_project :: "'n transport \<Rightarrow> string \<Rightarrow> string \<Rightarrow> ('n, printed list) cmd" where
  "cmd_create_project tr flag name =
     andThen (requireLogin flag) (\<lambda>cfg.
     andThen (call (Client_CreateProject tr (cc_OrgID cfg) name)) (\<lambda>p.
     andThen (update_config (SetProject (cp_ID p) (cp_Name p))) (\<lambda>_.
     andThen save (\<lambda>_.
     finish [Printf ''Created project %s (%s), set as current project'' [Str (cp_Name p), Str (cp_ID p)]]))))"

fun parsePortFlags :: "string list \<Rightarrow> cmd_err + PortSpec list" where
  "parsePortFlags [] = Inr []"
| "parsePortFlags (r # rs) =
     (case Cut r CHR '':'' of (containerPart, hostPart, hasHost) \<Rightarrow>
        (case Atoi containerPart of
           None \<Rightarrow> Inl (BadPort r)
         | Some cp \<Rightarrow>
             (case (if hasHost \<and> hostPart \<noteq> [] then Atoi hostPart else Some 0) of
                None \<Rightarrow> Inl (BadPort r)
              | Some hp \<Rightarrow>
                  (case parsePortFlags rs of
                     Inl er \<Rightarrow> Inl er
                   | Inr specs \<Rightarrow> Inr (\<lparr>ContainerPort = cp, HostPort = hp, Protocol = ''tcp''\<rparr> # specs)))))"

definition resolveApplication :: "'n transport \<Rightarrow> Config \<Rightarrow> string \<Rightarrow> string \<Rightarrow> PortSpec list \<Rightarrow> ('n, string) cmd" where
  "resolveApplication tr cfg name img ports =
     (case map_of (cc_Applications cfg) name of
        Some i \<Rightarrow> finish i
      | None \<Rightarrow>
          (if img = [] then fail (NeedsImage name)
           else andThen (call (Client_CreateApplication tr (cc_ProjectID cfg) name img ports)) (\<lambda>app.
                andThen (update_config (\<lambda>c. c\<lparr>cc_Applications := AList.update name (ca_ID app) (cc_Applications c)\<rparr>)) (\<lambda>_.
                andThen save (\<lambda>_. finish (ca_ID app))))))"

definition cmd_deploy :: "'n transport \<Rightarrow> string \<Rightarrow> string \<Rightarrow> string \<Rightarrow> string list \<Rightarrow> ('n, printed list) cmd" where
  "cmd_deploy tr flag name img ports =
     andThen (requireProject flag) (\<lambda>cfg.
     andThen (case parsePortFlags ports of Inl er \<Rightarrow> fail er | Inr specs \<Rightarrow> finish specs) (\<lambda>specs.
     andThen (resolveApplication tr cfg name img specs) (\<lambda>appID.
     andThen (call (Client_Deploy tr appID img)) (\<lambda>d.
     finish [Printf ''Deployment %s: revision %d, status %s'' [Str (cd_ID d), Num (cd_Revision d), Str (cd_Status d)]]))))"

definition cmd_scale :: "'n transport \<Rightarrow> string \<Rightarrow> string \<Rightarrow> int \<Rightarrow> ('n, printed list) cmd" where
  "cmd_scale tr flag name replicas =
     andThen (requireProject flag) (\<lambda>cfg.
     andThen (known_application cfg name) (\<lambda>appID.
     andThen (call (Client_ScaleApplication tr appID replicas)) (\<lambda>app.
     finish [Printf ''Application %s scaled to %d replicas (desired)'' [Str name, Num (ca_ReplicasDesired app)]])))"

definition cmd_delete :: "'n transport \<Rightarrow> string \<Rightarrow> string \<Rightarrow> ('n, printed list) cmd" where
  "cmd_delete tr flag name =
     andThen (requireProject flag) (\<lambda>cfg.
     andThen (known_application cfg name) (\<lambda>appID.
     andThen (call (Client_DeleteApplication tr appID)) (\<lambda>_.
     andThen (update_config (\<lambda>c. c\<lparr>cc_Applications := AList.delete name (cc_Applications c)\<rparr>)) (\<lambda>_.
     andThen save (\<lambda>_.
     finish [Printf ''Deleted application %s'' [Str name]])))))"

definition service_cell :: "string option \<Rightarrow> cell" where
  "service_cell svc = Str (case svc of Some n \<Rightarrow> n | None \<Rightarrow> ''-'')"

fun join_comma :: "string list \<Rightarrow> string" where
  "join_comma [] = []"
| "join_comma [s] = s"
| "join_comma (s # ss) = s @ '','' @ join_comma ss"

definition deployment_row :: "cli_Deployment \<Rightarrow> printed" where
  "deployment_row d = Row [Num (cd_Revision d), Str (cd_Status d), Str (cd_Image d),
     Str (Itoa (cd_ReplicasRunning d) @ ''/'' @ Itoa (cd_ReplicasDesired d)),
     Str (if cd_Containers d = [] then ''-'' else join_comma (map ct_NodeID (cd_Containers d))), service_cell (cd_Service d), At (cd_CreatedAt d)]"

definition table :: "string \<Rightarrow> string list \<Rightarrow> ('a \<Rightarrow> printed) \<Rightarrow> 'a list \<Rightarrow> printed list" where
  "table none header row xs = (if xs = [] then [Printf none []] else Row (map Str header) # map row xs)"

definition cmd_get_deployments :: "'n transport \<Rightarrow> string \<Rightarrow> string \<Rightarrow> ('n, printed list) cmd" where
  "cmd_get_deployments tr flag name =
     andThen (requireProject flag) (\<lambda>cfg.
     andThen (known_application cfg name) (\<lambda>appID.
     andThen (call (Client_ListDeployments tr appID)) (\<lambda>(ds, _).
     finish (table ''No deployments.'' [''REVISION'', ''STATUS'', ''IMAGE'', ''REPLICAS'', ''NODES'', ''SERVICE'', ''CREATED_AT''] deployment_row ds))))"

text \<open>
  The log is copied to the terminal, which takes \<open>room\<close> bytes; a copy that fails is an error after what was printed. The request is recorded
  among those sent.
\<close>

definition cmd_logs :: "'n stream_net \<Rightarrow> nat option \<Rightarrow> string \<Rightarrow> string \<Rightarrow> bool \<Rightarrow> ('n, printed list) cmd" where
  "cmd_logs net room flag name follow =
     andThen (requireProject flag) (\<lambda>cfg.
     andThen (known_application cfg name) (\<lambda>appID s.
     case Client_StreamLogs net appID follow room cfg (ses_net s) of (r, n1) \<Rightarrow>
       ((case r of Inl er \<Rightarrow> Inl (CallError er) | Inr (out, fin) \<Rightarrow> if fin = CopyFailed then Inl (CopyError out) else Inr [Raw out fin]),
        if net_BadURL net (cc_APIURL cfg @ cli_logs_path appID follow) = None
        then s\<lparr>ses_net := n1, ses_sent := ses_sent s @ [\<lparr>hc_Method = ''GET'', hc_URL = cc_APIURL cfg @ cli_logs_path appID follow,
               hc_Body = None, hc_Bearer = Some (cc_AccessToken cfg)\<rparr>]\<rparr>
        else s)))"

subsection \<open>Domains\<close>

definition cmd_create_domain :: "'n transport \<Rightarrow> string \<Rightarrow> string \<Rightarrow> string \<Rightarrow> ('n, printed list) cmd" where
  "cmd_create_domain tr flag hostname appName =
     andThen (requireProject flag) (\<lambda>cfg.
     if appName = [] then fail (FlagRequired ''--app'')
     else andThen (known_application cfg appName) (\<lambda>appID.
          andThen (call (Client_CreateDomain tr (cc_ProjectID cfg) hostname appID)) (\<lambda>x.
          finish [Printf ''Registered domain %s (%s) -> %s'' [Str (cdm_Hostname x), Str (cdm_ID x), Str appName]])))"

text \<open>The map from identifiers to names, inverted from the cached one; a later entry replaces an earlier.\<close>

definition app_name :: "Config \<Rightarrow> string \<Rightarrow> string" where
  "app_name cfg appID = (case map_of (rev (map prod.swap (cc_Applications cfg))) appID of Some n \<Rightarrow> n | None \<Rightarrow> appID)"

definition cmd_get_domains :: "'n transport \<Rightarrow> string \<Rightarrow> ('n, printed list) cmd" where
  "cmd_get_domains tr flag =
     andThen (requireProject flag) (\<lambda>cfg.
     andThen (call (Client_ListDomains tr (cc_ProjectID cfg))) (\<lambda>ds.
     finish (table ''No domains.'' [''HOSTNAME'', ''APPLICATION'', ''TLS_STATUS'', ''CREATED_AT'']
       (\<lambda>x. Row [Str (cdm_Hostname x), Str (app_name cfg (cdm_ApplicationID x)), Str (cdm_TLSStatus x), At (cdm_CreatedAt x)]) ds)))"

definition cmd_delete_domain :: "'n transport \<Rightarrow> string \<Rightarrow> string \<Rightarrow> ('n, printed list) cmd" where
  "cmd_delete_domain tr flag hostname =
     andThen (requireProject flag) (\<lambda>cfg.
     andThen (call (Client_ListDomains tr (cc_ProjectID cfg))) (\<lambda>ds.
     let domainID = (case find (\<lambda>x. cdm_Hostname x = hostname) ds of Some x \<Rightarrow> cdm_ID x | None \<Rightarrow> []) in
     if domainID = [] then fail (UnknownDomain hostname)
     else andThen (call (Client_DeleteDomain tr domainID)) (\<lambda>_. finish [Printf ''Deleted domain %s'' [Str hostname]])))"

subsection \<open>Organizations, members and keys\<close>

definition cmd_get_org :: "'n transport \<Rightarrow> string \<Rightarrow> ('n, printed list) cmd" where
  "cmd_get_org tr flag =
     andThen (requireLogin flag) (\<lambda>cfg.
     andThen (call (Client_GetOrganization tr (cc_OrgID cfg))) (\<lambda>x.
     finish [Printf ''ID:         %s'' [Str (co_ID x)], Printf ''Name:       %s'' [Str (co_Name x)],
       Printf ''Slug:       %s'' [Str (co_Slug x)], Printf ''Created At: %s'' [At (co_CreatedAt x)]]))"

definition cmd_update_org :: "'n transport \<Rightarrow> string \<Rightarrow> string \<Rightarrow> ('n, printed list) cmd" where
  "cmd_update_org tr flag name =
     andThen (requireLogin flag) (\<lambda>cfg.
     if name = [] then fail (FlagRequired ''--name'')
     else andThen (call (Client_UpdateOrganization tr (cc_OrgID cfg) name)) (\<lambda>x.
          finish [Printf ''Updated organization %s -> name %q'' [Str (co_ID x), Str (co_Name x)]]))"

definition cmd_get_members :: "'n transport \<Rightarrow> string \<Rightarrow> ('n, printed list) cmd" where
  "cmd_get_members tr flag =
     andThen (requireLogin flag) (\<lambda>cfg.
     andThen (call (Client_ListMembers tr (cc_OrgID cfg))) (\<lambda>ms.
     finish (table ''No members.'' [''EMAIL'', ''ROLE'', ''CREATED_AT''] (\<lambda>m. Row [Str (cm_Email m), Str (cm_Role m), At (cm_CreatedAt m)]) ms)))"

definition cmd_invite :: "'n transport \<Rightarrow> string \<Rightarrow> string \<Rightarrow> string \<Rightarrow> ('n, printed list) cmd" where
  "cmd_invite tr flag email role =
     andThen (requireLogin flag) (\<lambda>cfg.
     if role = [] then fail (FlagRequired ''--role'')
     else andThen (call (Client_InviteMember tr (cc_OrgID cfg) email role)) (\<lambda>m.
          finish [Printf ''Added %s to %s as %s'' [Str email, Str (cc_OrgSlug cfg), Str (cm_Role m)]]))"

definition resolveMemberUserID :: "'n transport \<Rightarrow> Config \<Rightarrow> string \<Rightarrow> ('n, string) cmd" where
  "resolveMemberUserID tr cfg email =
     andThen (call (Client_ListMembers tr (cc_OrgID cfg))) (\<lambda>ms.
     case find (\<lambda>m. cm_Email m = email) ms of Some m \<Rightarrow> finish (cm_UserID m) | None \<Rightarrow> fail (UnknownMember email))"

definition cmd_remove_member :: "'n transport \<Rightarrow> string \<Rightarrow> string \<Rightarrow> ('n, printed list) cmd" where
  "cmd_remove_member tr flag email =
     andThen (requireLogin flag) (\<lambda>cfg.
     andThen (resolveMemberUserID tr cfg email) (\<lambda>userID.
     andThen (call (Client_RemoveMember tr (cc_OrgID cfg) userID)) (\<lambda>_.
     finish [Printf ''Removed %s from %s'' [Str email, Str (cc_OrgSlug cfg)]])))"

definition cmd_set_role :: "'n transport \<Rightarrow> string \<Rightarrow> string \<Rightarrow> string \<Rightarrow> ('n, printed list) cmd" where
  "cmd_set_role tr flag email role =
     andThen (requireLogin flag) (\<lambda>cfg.
     andThen (resolveMemberUserID tr cfg email) (\<lambda>userID.
     andThen (call (Client_ChangeMemberRole tr (cc_OrgID cfg) userID role)) (\<lambda>m.
     finish [Printf ''Set %s's role to %s in %s'' [Str email, Str (cm_Role m), Str (cc_OrgSlug cfg)]])))"

definition cmd_create_api_key :: "'n transport \<Rightarrow> string \<Rightarrow> string \<Rightarrow> ('n, printed list) cmd" where
  "cmd_create_api_key tr flag name =
     andThen (requireLogin flag) (\<lambda>cfg.
     andThen (call (Client_CreateAPIKey tr (cc_OrgID cfg) name [])) (\<lambda>k.
     finish [Printf ''Created API key %s (%s)'' [Str (ck_Name k), Str (ck_ID k)], Printf ''Key: %s'' [Str (ck_Key k)],
       Printf (''Save this now '' @ emDash @ '' it will not be shown again.'') []]))"

definition cmd_get_api_keys :: "'n transport \<Rightarrow> string \<Rightarrow> ('n, printed list) cmd" where
  "cmd_get_api_keys tr flag =
     andThen (requireLogin flag) (\<lambda>cfg.
     andThen (call (Client_ListAPIKeys tr (cc_OrgID cfg))) (\<lambda>ks.
     finish (table ''No API keys.'' [''NAME'', ''ID'', ''STATUS'', ''CREATED_AT'']
       (\<lambda>k. Row [Str (ck_Name k), Str (ck_ID k), Str (if ck_RevokedAt k = None then ''active'' else ''revoked''), At (ck_CreatedAt k)]) ks)))"

definition cmd_delete_api_key :: "'n transport \<Rightarrow> string \<Rightarrow> string \<Rightarrow> ('n, printed list) cmd" where
  "cmd_delete_api_key tr flag name =
     andThen (requireLogin flag) (\<lambda>cfg.
     andThen (call (Client_ListAPIKeys tr (cc_OrgID cfg))) (\<lambda>ks.
     let keyID = (case find (\<lambda>k. ck_Name k = name) ks of Some k \<Rightarrow> ck_ID k | None \<Rightarrow> []) in
     if keyID = [] then fail (UnknownAPIKey name)
     else andThen (call (Client_DeleteAPIKey tr keyID)) (\<lambda>_. finish [Printf ''Revoked API key %s'' [Str name]])))"

definition quota_row :: "string \<Rightarrow> int \<Rightarrow> int \<Rightarrow> printed" where
  "quota_row what used limit = Printf (what @ ''%-6d %d'') [Num used, Num limit]"

definition cmd_get_quota :: "'n transport \<Rightarrow> string \<Rightarrow> ('n, printed list) cmd" where
  "cmd_get_quota tr flag =
     andThen (requireLogin flag) (\<lambda>cfg.
     andThen (call (Client_GetQuota tr (cc_OrgID cfg))) (\<lambda>q.
     finish [Printf ''RESOURCE          USED   MAX'' [], quota_row ''projects          '' (cq_UsedProjects q) (cq_MaxProjects q),
       quota_row ''containers        '' (cq_UsedContainers q) (cq_MaxContainers q),
       quota_row ''cpu (millicores)  '' (cq_UsedCPUMillicores q) (cq_MaxCPUMillicores q),
       quota_row ''memory (MB)       '' (cq_UsedMemoryMB q) (cq_MaxMemoryMB q),
       quota_row ''deploys (24h)     '' (cq_UsedDeploymentsToday q) (cq_MaxDeploymentsPerDay q)]))"

definition cmd_get_audit_log :: "'n transport \<Rightarrow> string \<Rightarrow> string \<Rightarrow> ('n, printed list) cmd" where
  "cmd_get_audit_log tr flag cursor =
     andThen (requireLogin flag) (\<lambda>cfg.
     andThen (call (Client_ListAuditLogs tr (cc_OrgID cfg) cursor)) (\<lambda>(es, next).
     finish (table ''No audit log entries.'' [''CREATED_AT'', ''ACTION'', ''TARGET_TYPE'', ''TARGET_ID'', ''ACTOR_USER_ID'']
         (\<lambda>e. Row [At (cal_CreatedAt e), Str (cal_Action e), Str (cal_TargetType e), Str (cal_TargetID e),
           Str (case cal_ActorUserID e of Some u \<Rightarrow> u | None \<Rightarrow> ''-'')]) es @
       (case next of
          Some c \<Rightarrow> if es = [] then [] else [Printf (''more entries available '' @ emDash @ '' pass --cursor %s to see the next page'') [Str c]]
        | None \<Rightarrow> []))))"

definition cmd_get_nodes :: "'n transport \<Rightarrow> string \<Rightarrow> ('n, printed list) cmd" where
  "cmd_get_nodes tr flag =
     andThen (requireLogin flag) (\<lambda>_.
     andThen (call (Client_ListNodes tr)) (\<lambda>ns.
     finish (table ''No nodes.'' [''ID'', ''HOSTNAME'', ''STATUS'', ''LAST_HEARTBEAT_AT'']
       (\<lambda>n. Row [Str (cn_ID n), Str (cn_Hostname n), Str (cn_Status n), At (cn_LastHeartbeatAt n)]) ns)))"

subsection \<open>A run of the program\<close>

datatype command =
  CmdSignup string string | CmdLogin string string | CmdCreateProject string | CmdCreateDomain string string | CmdCreateAPIKey string
| CmdDeploy string string "string list" | CmdScale string int | CmdGetDeployments string | CmdGetNodes | CmdGetDomains | CmdGetOrg
| CmdGetMembers | CmdGetAPIKeys | CmdGetQuota | CmdGetAuditLog string | CmdUpdateOrg string | CmdLogs string bool | CmdDelete string
| CmdDeleteDomain string | CmdDeleteAPIKey string | CmdInvite string string | CmdRemoveMember string | CmdSetRole string string

fun run_command :: "'n transport \<Rightarrow> 'n stream_net \<Rightarrow> nat option \<Rightarrow> string \<Rightarrow> command \<Rightarrow> ('n, printed list) cmd" where
  "run_command tr net room flag (CmdSignup email password) = cmd_signup tr flag email password"
| "run_command tr net room flag (CmdLogin email password) = cmd_login tr flag email password"
| "run_command tr net room flag (CmdCreateProject name) = cmd_create_project tr flag name"
| "run_command tr net room flag (CmdCreateDomain hostname app) = cmd_create_domain tr flag hostname app"
| "run_command tr net room flag (CmdCreateAPIKey name) = cmd_create_api_key tr flag name"
| "run_command tr net room flag (CmdDeploy name img ports) = cmd_deploy tr flag name img ports"
| "run_command tr net room flag (CmdScale name replicas) = cmd_scale tr flag name replicas"
| "run_command tr net room flag (CmdGetDeployments name) = cmd_get_deployments tr flag name"
| "run_command tr net room flag CmdGetNodes = cmd_get_nodes tr flag"
| "run_command tr net room flag CmdGetDomains = cmd_get_domains tr flag"
| "run_command tr net room flag CmdGetOrg = cmd_get_org tr flag"
| "run_command tr net room flag CmdGetMembers = cmd_get_members tr flag"
| "run_command tr net room flag CmdGetAPIKeys = cmd_get_api_keys tr flag"
| "run_command tr net room flag CmdGetQuota = cmd_get_quota tr flag"
| "run_command tr net room flag (CmdGetAuditLog cursor) = cmd_get_audit_log tr flag cursor"
| "run_command tr net room flag (CmdUpdateOrg name) = cmd_update_org tr flag name"
| "run_command tr net room flag (CmdLogs name follow) = cmd_logs net room flag name follow"
| "run_command tr net room flag (CmdDelete name) = cmd_delete tr flag name"
| "run_command tr net room flag (CmdDeleteDomain hostname) = cmd_delete_domain tr flag hostname"
| "run_command tr net room flag (CmdDeleteAPIKey name) = cmd_delete_api_key tr flag name"
| "run_command tr net room flag (CmdInvite email role) = cmd_invite tr flag email role"
| "run_command tr net room flag (CmdRemoveMember email) = cmd_remove_member tr flag email"
| "run_command tr net room flag (CmdSetRole email role) = cmd_set_role tr flag email role"

text \<open>\<open>Execute\<close>: the exit code, and what is printed or reported.\<close>

definition Execute :: "'n transport \<Rightarrow> 'n stream_net \<Rightarrow> nat option \<Rightarrow> string \<Rightarrow> command \<Rightarrow> 'n client \<Rightarrow> (nat \<times> (cmd_err + printed list)) \<times> 'n client" where
  "Execute tr net room flag c s = (case run_command tr net room flag c s of (r, s1) \<Rightarrow> ((case r of Inl _ \<Rightarrow> 1 | Inr _ \<Rightarrow> 0, r), s1))"

subsection \<open>The application cache\<close>

text \<open>
  The session remembers the identifiers of applications by name. \<open>cache_ok\<close>: every remembered name was registered, by a request among those
  sent, under the project that is current in the session. \<open>file_ok\<close> says this of the saved session, which is what the next run starts from.
\<close>

definition created_in :: "string \<Rightarrow> string \<Rightarrow> http_call \<Rightarrow> bool" where
  "created_in pid name c \<longleftrightarrow> hc_Method c = ''POST'' \<and> (\<exists>u. hc_URL c = u @ ''/v1/projects/'' @ pid @ ''/applications'') \<and>
     (\<exists>kvs. hc_Body c = Some (JObj ((''name'', JStr name) # kvs)))"

definition cache_ok :: "http_call list \<Rightarrow> Config \<Rightarrow> bool" where
  "cache_ok sent cfg \<longleftrightarrow> distinct (map fst (cc_Applications cfg)) \<and>
     (\<forall>name \<in> fst ` set (cc_Applications cfg). cc_ProjectID cfg \<noteq> [] \<and> (\<exists>c \<in> set sent. created_in (cc_ProjectID cfg) name c))"

definition file_ok :: "'n client \<Rightarrow> bool" where
  "file_ok s \<longleftrightarrow> (\<forall>cfg. loadFrom (ses_file s) = Some cfg \<longrightarrow> cache_ok (ses_sent s) cfg)"

text \<open>What a call of the API client may change: the tokens, the saved session to match, and the requests sent.\<close>

definition calls_only :: "'n client \<Rightarrow> 'n client \<Rightarrow> bool" where
  "calls_only s s' \<longleftrightarrow> (\<exists>new. ses_sent s' = ses_sent s @ new) \<and> ses_writable s' = ses_writable s \<and>
     (\<exists>a r. ses_cfg s' = ses_cfg s\<lparr>cc_AccessToken := a, cc_RefreshToken := r\<rparr>) \<and>
     (ses_file s' = ses_file s \<and> ses_cfg s' = ses_cfg s \<or> ses_file s' = FileHolds (Some (config_json (ses_cfg s'))) \<or> ses_file s' = ses_file s \<and> \<not> ses_writable s)"

lemma calls_only_refl: "calls_only s s"
  unfolding calls_only_def by (simp, intro exI [of _ "cc_AccessToken (ses_cfg s)"] exI [of _ "cc_RefreshToken (ses_cfg s)"]) simp

lemma raw_frame: "raw tr meth path body auth out zero s = (res, s') \<Longrightarrow>
  ses_cfg s' = ses_cfg s \<and> ses_file s' = ses_file s \<and> ses_writable s' = ses_writable s \<and> (\<exists>new. ses_sent s' = ses_sent s @ new)"
  by (auto simp: raw_def Let_def split: if_splits prod.splits sum.splits)

lemma raw_calls_only: "raw tr meth path body auth out zero s = (res, s') \<Longrightarrow> calls_only s s'"
  using raw_frame [of tr meth path body auth out zero s res s'] calls_only_refl [of s] by (auto simp: calls_only_def)

lemma do_call_calls_only:
  assumes "do_call tr meth path body out zero s = (res, s')"
  shows "calls_only s s'"
proof (cases rule: do_call_cases [of tr meth path body out zero s])
  case settled
  with assms raw_calls_only [of tr meth path body True out zero s res s'] show ?thesis by simp
next
  case (refused ae s1 e s2)
  from raw_frame [OF refused(1)] raw_frame [OF refused(3)] refused(4) assms calls_only_refl [of s] show ?thesis by (auto simp: calls_only_def)
next
  case (retried ae s1 a r s2)
  let ?s3 = "Config_Save (s2\<lparr>ses_cfg := SetTokens a r (ses_cfg s2)\<rparr>)"
  from raw_frame [OF retried(1)] raw_frame [OF retried(3)] raw_frame [OF retried(4) [symmetric, unfolded assms]]
  show ?thesis by (auto simp: calls_only_def Config_Save_def SetTokens_def split: if_splits)
qed

subsection \<open>Commands as steps\<close>

text \<open>
  \<open>ensures P m Q\<close>: from a state with \<open>P\<close>, \<open>m\<close> leaves the requests sent in place and ends with \<open>Q\<close> for its result, or with an error and
  a saved session that is right. \<open>good cfg\<close> holds while a command runs: the session in memory has the project and the applications of \<open>cfg\<close>.
\<close>

definition ensures :: "('n client \<Rightarrow> bool) \<Rightarrow> ('n, 'a) cmd \<Rightarrow> ('a \<Rightarrow> 'n client \<Rightarrow> bool) \<Rightarrow> bool" where
  "ensures P m Q \<longleftrightarrow> (\<forall>s r s'. P s \<and> m s = (r, s') \<longrightarrow> (\<exists>new. ses_sent s' = ses_sent s @ new) \<and>
     (case r of Inl _ \<Rightarrow> file_ok s' | Inr x \<Rightarrow> Q x s'))"

definition good :: "Config \<Rightarrow> 'n client \<Rightarrow> bool" where
  "good cfg s \<longleftrightarrow> cache_ok (ses_sent s) (ses_cfg s) \<and> file_ok s \<and>
     cc_ProjectID (ses_cfg s) = cc_ProjectID cfg \<and> cc_Applications (ses_cfg s) = cc_Applications cfg"

lemma cache_ok_cong:
  "cache_ok sent cfg \<Longrightarrow> cc_ProjectID cfg' = cc_ProjectID cfg \<Longrightarrow> cc_Applications cfg' = cc_Applications cfg \<Longrightarrow> cache_ok (sent @ new) cfg'"
  unfolding cache_ok_def by (simp, blast)

lemma file_ok_saved: "cache_ok (ses_sent s) cfg \<Longrightarrow> ses_file s = FileHolds (Some (config_json cfg)) \<Longrightarrow> file_ok s"
  by (auto simp: file_ok_def config_roundtrip cache_ok_def)

lemma good_calls_only:
  assumes "good cfg s" "calls_only s s'"
  shows "good cfg s'"
proof -
  from assms obtain new a r where sent: "ses_sent s' = ses_sent s @ new" and cfg: "ses_cfg s' = ses_cfg s\<lparr>cc_AccessToken := a, cc_RefreshToken := r\<rparr>"
    and saved: "ses_file s' = ses_file s \<or> ses_file s' = FileHolds (Some (config_json (ses_cfg s')))" unfolding calls_only_def by blast
  have ok: "cache_ok (ses_sent s') (ses_cfg s')" using assms(1) cache_ok_cong [of "ses_sent s" "ses_cfg s"] sent cfg by (simp add: good_def)
  moreover have "file_ok s'"
  proof (cases "ses_file s' = ses_file s")
    case True
    then show ?thesis using assms(1) cache_ok_cong [of "ses_sent s" _ _ new] sent by (auto simp: good_def file_ok_def)
  qed (use saved ok file_ok_saved [of s'] in blast)
  ultimately show ?thesis using assms(1) cfg by (simp add: good_def)
qed

lemma ensures_andThen:
  assumes m: "ensures P m Q" and k: "\<And>x. ensures (Q x) (k x) R"
  shows "ensures P (andThen m k) R"
  unfolding ensures_def
proof (intro allI impI)
  fix s r s'
  assume run: "P s \<and> andThen m k s = (r, s')"
  obtain r1 s1 where first: "m s = (r1, s1)" by force
  with m run have sent: "\<exists>new. ses_sent s1 = ses_sent s @ new" and q: "case r1 of Inl _ \<Rightarrow> file_ok s1 | Inr x \<Rightarrow> Q x s1" unfolding ensures_def by blast+
  show "(\<exists>new. ses_sent s' = ses_sent s @ new) \<and> (case r of Inl _ \<Rightarrow> file_ok s' | Inr x \<Rightarrow> R x s')"
  proof (cases r1)
    case (Inl er)
    with run first sent q show ?thesis by (auto simp: andThen_def)
  next
    case (Inr x)
    with run first q have "Q x s1" "k x s1 = (r, s')" by (auto simp: andThen_def)
    with k [of x] have "(\<exists>new. ses_sent s' = ses_sent s1 @ new) \<and> (case r of Inl _ \<Rightarrow> file_ok s' | Inr x \<Rightarrow> R x s')" unfolding ensures_def by blast
    with sent show ?thesis by (metis append.assoc)
  qed
qed

lemma ensures_finish: "(\<And>s. P s \<Longrightarrow> Q x s) \<Longrightarrow> ensures P (finish x) Q"
  by (auto simp: ensures_def finish_def)

lemma good_file_ok: "good cfg s \<Longrightarrow> file_ok s"
  by (simp add: good_def)

lemma ensures_done: "ensures (good cfg) (finish x) (\<lambda>_. file_ok)"
  by (rule ensures_finish) (rule good_file_ok)

lemma ensures_fail: "ensures (good cfg) (fail er) Q"
  by (auto simp: ensures_def fail_def good_def)

lemma ensures_call:
  assumes "\<And>s res s'. m s = (res, s') \<Longrightarrow> calls_only s s'"
  shows "ensures (good cfg) (call m) (\<lambda>_. good cfg)"
proof -
  have "good cfg s' \<and> (\<exists>new. ses_sent s' = ses_sent s @ new)" if "good cfg s" "m s = (res, s')" for s res s'
    using good_calls_only [OF that(1) assms [OF that(2)]] assms [OF that(2)] by (auto simp: calls_only_def)
  then show ?thesis unfolding ensures_def call_def by (fastforce split: prod.splits sum.splits dest: good_file_ok)
qed

lemma ensures_session: "ensures file_ok (cli_session flag) good"
  by (auto simp: ensures_def cli_session_def Let_def good_def file_ok_def cache_ok_def split: option.splits)

lemma ensures_requireLogin: "ensures file_ok (requireLogin flag) good"
  unfolding requireLogin_def by (rule ensures_andThen [OF ensures_session]) (auto intro: ensures_fail ensures_finish)

lemma ensures_requireProject: "ensures file_ok (requireProject flag) (\<lambda>cfg s. good cfg s \<and> cc_ProjectID cfg \<noteq> [])"
  unfolding requireProject_def by (rule ensures_andThen [OF ensures_requireLogin]) (auto intro: ensures_fail ensures_finish)

lemma ensures_weaken: "ensures P m Q \<Longrightarrow> (\<And>s. P' s \<Longrightarrow> P s) \<Longrightarrow> ensures P' m Q"
  unfolding ensures_def by blast

text \<open>\<open>fine\<close>: the session in memory and the saved one are right. Saving keeps that.\<close>

definition fine :: "'n client \<Rightarrow> bool" where
  "fine s \<longleftrightarrow> cache_ok (ses_sent s) (ses_cfg s) \<and> file_ok s"

lemma good_fine: "good cfg s \<Longrightarrow> fine s" "fine s \<Longrightarrow> good (ses_cfg s) s"
  by (simp_all add: good_def fine_def)

lemma ensures_update_save:
  assumes P: "\<And>s. P s \<Longrightarrow> cache_ok (ses_sent s) (f (ses_cfg s)) \<and> file_ok s" and k: "ensures fine (k ()) R"
  shows "ensures P (andThen (update_config f) (\<lambda>_. andThen save k)) R"
proof -
  have "ensures P (andThen (update_config f) (\<lambda>_. save)) (\<lambda>_. fine)"
    unfolding ensures_def
  proof (intro allI impI)
    fix s r s'
    assume run: "P s \<and> andThen (update_config f) (\<lambda>_. save) s = (r, s')"
    then have s': "s' = Config_Save (s\<lparr>ses_cfg := f (ses_cfg s)\<rparr>)" by (simp add: andThen_def update_config_def save_def)
    then have "ses_sent s' = ses_sent s" "ses_cfg s' = f (ses_cfg s)" by (simp_all add: Config_Save_def)
    moreover have "file_ok s'"
    proof (cases "ses_writable s")
      case True
      with s' P run show ?thesis by (intro file_ok_saved [of _ "f (ses_cfg s)"]) (auto simp: Config_Save_def)
    next
      case False
      with s' P run show ?thesis by (simp add: Config_Save_def file_ok_def)
    qed
    ultimately show "(\<exists>new. ses_sent s' = ses_sent s @ new) \<and> (case r of Inl _ \<Rightarrow> file_ok s' | Inr _ \<Rightarrow> fine s')"
      using run P by (auto simp: fine_def split: sum.splits)
  qed
  moreover have "ensures fine (k x) R" for x :: unit using k by simp
  ultimately have "ensures P (andThen (andThen (update_config f) (\<lambda>_. save)) k) R" by (rule ensures_andThen)
  then show ?thesis by (simp add: andThen_def update_config_def fun_eq_iff ensures_def)
qed

lemma ensures_call_fine:
  assumes "\<And>s res s'. m s = (res, s') \<Longrightarrow> calls_only s s'"
  shows "ensures fine (call m) (\<lambda>_. fine)"
  unfolding ensures_def
proof (intro allI impI)
  fix s r s'
  assume run: "fine s \<and> call m s = (r, s')"
  with good_fine(2) have "good (ses_cfg s) s" by blast
  moreover have "ensures (good (ses_cfg s)) (call m) (\<lambda>_. good (ses_cfg s))" by (rule ensures_call) (rule assms)
  ultimately have "(\<exists>new. ses_sent s' = ses_sent s @ new) \<and> (case r of Inl _ \<Rightarrow> file_ok s' | Inr x \<Rightarrow> good (ses_cfg s) s')" using run unfolding ensures_def by blast
  then show "(\<exists>new. ses_sent s' = ses_sent s @ new) \<and> (case r of Inl _ \<Rightarrow> file_ok s' | Inr x \<Rightarrow> fine s')"
    by (auto split: sum.splits intro: good_fine(1))
qed

lemma ensures_done_fine: "ensures fine (finish x) (\<lambda>_. file_ok)"
  by (rule ensures_finish) (simp add: fine_def)

lemma ensures_known: "ensures (good cfg) (known_application cfg' name) (\<lambda>_. good cfg)"
  by (auto simp: known_application_def intro: ensures_fail ensures_finish split: option.splits)

text \<open>A registration that succeeded is among the requests sent.\<close>

lemma raw_Inr_sent: "raw tr meth path body auth out zero s = (Inr x, s') \<Longrightarrow> \<exists>tok. call_of s meth path body tok \<in> set (ses_sent s')"
  by (auto simp: raw_def call_of_def Let_def split: if_splits prod.splits sum.splits)

lemma do_call_Inr_sent:
  assumes "do_call tr meth path body out zero s = (Inr x, s')"
  shows "\<exists>tok u. \<lparr>hc_Method = meth, hc_URL = u @ path, hc_Body = body, hc_Bearer = tok\<rparr> \<in> set (ses_sent s')"
proof (cases rule: do_call_cases [of tr meth path body out zero s])
  case settled
  with assms raw_Inr_sent [of tr meth path body True out zero s x s'] show ?thesis by (auto simp: call_of_def)
next
  case (refused ae s1 e s2)
  with assms show ?thesis by simp
next
  case (retried ae s1 a r s2)
  from raw_Inr_sent [OF retried(4) [symmetric, unfolded assms]] show ?thesis by (auto simp: call_of_def)
qed

lemma ensures_create_application:
  "ensures (good cfg) (call (Client_CreateApplication tr pid name img ports)) (\<lambda>_ s. good cfg s \<and> (\<exists>c \<in> set (ses_sent s). created_in pid name c))"
proof -
  have "\<exists>c \<in> set (ses_sent s'). created_in pid name c" if "call (Client_CreateApplication tr pid name img ports) s = (Inr x, s')" for s s' x
  proof -
    from that have "Client_CreateApplication tr pid name img ports s = (Inr x, s')" by (auto simp: call_def split: prod.splits sum.splits)
    from do_call_Inr_sent [OF this [unfolded Client_CreateApplication_def]] obtain tok u where
      "\<lparr>hc_Method = ''POST'', hc_URL = u @ ''/v1/projects/'' @ pid @ ''/applications'',
        hc_Body = Some (JObj ([(''name'', JStr name), (''image'', JStr img)] @ enc_ports ports)), hc_Bearer = tok\<rparr> \<in> set (ses_sent s')" by blast
    then show ?thesis by (rule bexI [rotated]) (simp add: created_in_def)
  qed
  moreover have "ensures (good cfg) (call (Client_CreateApplication tr pid name img ports)) (\<lambda>_. good cfg)"
    by (rule ensures_call) (unfold Client_CreateApplication_def, rule do_call_calls_only)
  ultimately show ?thesis unfolding ensures_def by (fastforce split: sum.splits)
qed

subsection \<open>Every command\<close>

lemma client_calls_only:
  "Client_Signup tr a b s = (res, s') \<Longrightarrow> calls_only s s'" "Client_Login tr a b s = (res1, s') \<Longrightarrow> calls_only s s'"
  "Client_CreateProject tr a b s = (res2, s') \<Longrightarrow> calls_only s s'" "Client_Deploy tr a b s = (res3, s') \<Longrightarrow> calls_only s s'"
  "Client_ScaleApplication tr a n s = (res4, s') \<Longrightarrow> calls_only s s'" "Client_DeleteApplication tr a s = (res5, s') \<Longrightarrow> calls_only s s'"
  "Client_ListDeployments tr a s = (res6, s') \<Longrightarrow> calls_only s s'" "Client_CreateDomain tr a b c s = (res7, s') \<Longrightarrow> calls_only s s'"
  "Client_ListDomains tr a s = (res8, s') \<Longrightarrow> calls_only s s'" "Client_DeleteDomain tr a s = (res9, s') \<Longrightarrow> calls_only s s'"
  "Client_GetOrganization tr a s = (res10, s') \<Longrightarrow> calls_only s s'" "Client_UpdateOrganization tr a b s = (res11, s') \<Longrightarrow> calls_only s s'"
  "Client_ListMembers tr a s = (res12, s') \<Longrightarrow> calls_only s s'" "Client_InviteMember tr a b c s = (res13, s') \<Longrightarrow> calls_only s s'"
  "Client_ChangeMemberRole tr a b c s = (res14, s') \<Longrightarrow> calls_only s s'" "Client_RemoveMember tr a b s = (res15, s') \<Longrightarrow> calls_only s s'"
  "Client_CreateAPIKey tr a b cs s = (res16, s') \<Longrightarrow> calls_only s s'" "Client_ListAPIKeys tr a s = (res17, s') \<Longrightarrow> calls_only s s'"
  "Client_DeleteAPIKey tr a s = (res18, s') \<Longrightarrow> calls_only s s'" "Client_GetQuota tr a s = (res19, s') \<Longrightarrow> calls_only s s'"
  "Client_ListAuditLogs tr a b s = (res20, s') \<Longrightarrow> calls_only s s'" "Client_ListNodes tr s = (res21, s') \<Longrightarrow> calls_only s s'"
  unfolding client_calls by (erule raw_calls_only do_call_calls_only)+

lemma ensures_if: "(b \<Longrightarrow> ensures P m Q) \<Longrightarrow> (\<not> b \<Longrightarrow> ensures P m' Q) \<Longrightarrow> ensures P (if b then m else m') Q"
  by simp

lemma ensures_case_prod: "(\<And>x y. ensures P (f x y) Q) \<Longrightarrow> ensures P (case p of (x, y) \<Rightarrow> f x y) Q"
  by (cases p) simp

lemma ensures_requireProject_good: "ensures file_ok (requireProject flag) good"
  using ensures_requireProject [of flag] unfolding ensures_def by (fastforce split: sum.splits)

lemmas login_steps = ensures_andThen [OF ensures_requireLogin] ensures_andThen [OF ensures_requireProject_good] ensures_andThen [OF ensures_known]
  ensures_andThen [OF ensures_call] ensures_if ensures_fail ensures_done ensures_case_prod

lemma reading_commands_keep_cache:
  "ensures file_ok (cmd_scale tr flag name n) (\<lambda>_. file_ok)" "ensures file_ok (cmd_get_deployments tr flag name) (\<lambda>_. file_ok)"
  "ensures file_ok (cmd_create_domain tr flag host app) (\<lambda>_. file_ok)" "ensures file_ok (cmd_get_domains tr flag) (\<lambda>_. file_ok)"
  "ensures file_ok (cmd_delete_domain tr flag host) (\<lambda>_. file_ok)" "ensures file_ok (cmd_get_org tr flag) (\<lambda>_. file_ok)"
  "ensures file_ok (cmd_update_org tr flag name) (\<lambda>_. file_ok)" "ensures file_ok (cmd_get_members tr flag) (\<lambda>_. file_ok)"
  "ensures file_ok (cmd_invite tr flag email role) (\<lambda>_. file_ok)" "ensures file_ok (cmd_create_api_key tr flag name) (\<lambda>_. file_ok)"
  "ensures file_ok (cmd_get_api_keys tr flag) (\<lambda>_. file_ok)" "ensures file_ok (cmd_delete_api_key tr flag name) (\<lambda>_. file_ok)"
  "ensures file_ok (cmd_get_quota tr flag) (\<lambda>_. file_ok)" "ensures file_ok (cmd_get_audit_log tr flag cursor) (\<lambda>_. file_ok)"
  "ensures file_ok (cmd_get_nodes tr flag) (\<lambda>_. file_ok)"
  unfolding cmd_scale_def cmd_get_deployments_def cmd_create_domain_def cmd_get_domains_def cmd_delete_domain_def cmd_get_org_def cmd_update_org_def
    cmd_get_members_def cmd_invite_def cmd_create_api_key_def cmd_get_api_keys_def cmd_delete_api_key_def cmd_get_quota_def cmd_get_audit_log_def cmd_get_nodes_def Let_def
  by (intro login_steps; erule client_calls_only)+

lemma ensures_member: "ensures (good cfg) (resolveMemberUserID tr cfg' email) (\<lambda>_. good cfg)"
  unfolding resolveMemberUserID_def
  by (intro ensures_andThen [OF ensures_call]) (auto split: option.splits intro: ensures_fail ensures_finish client_calls_only)

lemma member_commands_keep_cache:
  "ensures file_ok (cmd_remove_member tr flag email) (\<lambda>_. file_ok)" "ensures file_ok (cmd_set_role tr flag email role) (\<lambda>_. file_ok)"
  unfolding cmd_remove_member_def cmd_set_role_def by (intro login_steps ensures_andThen [OF ensures_member]; erule client_calls_only)+

lemma cleared_cache: "cc_Applications cfg = [] \<Longrightarrow> cache_ok sent cfg"
  by (simp add: cache_ok_def)

lemma auth_commands_keep_cache:
  "ensures file_ok (cmd_signup tr flag email password) (\<lambda>_. file_ok)" "ensures file_ok (cmd_login tr flag email password) (\<lambda>_. file_ok)"
  "ensures file_ok (cmd_create_project tr flag name) (\<lambda>_. file_ok)"
  unfolding cmd_signup_def cmd_login_def cmd_create_project_def start_session_def
  by (intro ensures_andThen [OF ensures_session] ensures_andThen [OF ensures_requireLogin] ensures_andThen [OF ensures_call] ensures_update_save ensures_done_fine;
      (erule client_calls_only | simp add: cleared_cache SetSession_def SetProject_def good_def))+

lemma cache_ok_apps:
  assumes "cache_ok sent cfg" "distinct (map fst apps)"
    and "\<And>n. n \<in> fst ` set apps \<Longrightarrow> n \<in> fst ` set (cc_Applications cfg) \<or>
      cc_ProjectID cfg \<noteq> [] \<and> (\<exists>c \<in> set sent. created_in (cc_ProjectID cfg) n c)"
  shows "cache_ok sent (cfg\<lparr>cc_Applications := apps\<rparr>)"
proof -
  have old: "cc_ProjectID cfg \<noteq> [] \<and> (\<exists>c \<in> set sent. created_in (cc_ProjectID cfg) n c)" if "n \<in> fst ` set (cc_Applications cfg)" for n
    using assms(1) that unfolding cache_ok_def by blast
  have "cc_Applications (cfg\<lparr>cc_Applications := apps\<rparr>) = apps" "cc_ProjectID (cfg\<lparr>cc_Applications := apps\<rparr>) = cc_ProjectID cfg" by simp_all
  then show ?thesis unfolding cache_ok_def using assms(2,3) old by metis
qed

lemma delete_keeps_cache: "ensures file_ok (cmd_delete tr flag name) (\<lambda>_. file_ok)"
  unfolding cmd_delete_def
proof (intro login_steps ensures_update_save ensures_done_fine)
  fix cfg and s :: "'a client"
  assume "good cfg s"
  then have "cache_ok (ses_sent s) (ses_cfg s)" "file_ok s" by (simp_all add: good_def)
  moreover from this have "distinct (map fst (cc_Applications (ses_cfg s)))" by (simp add: cache_ok_def)
  ultimately show "cache_ok (ses_sent s) (ses_cfg s\<lparr>cc_Applications := AList.delete name (cc_Applications (ses_cfg s))\<rparr>) \<and> file_ok s"
    using AList.dom_delete_subset [of name "cc_Applications (ses_cfg s)"] by (intro conjI cache_ok_apps AList.distinct_delete) blast+
qed (erule client_calls_only)

lemma resolve_keeps_cache:
  "ensures (\<lambda>s. good cfg s \<and> cc_ProjectID cfg \<noteq> []) (resolveApplication tr cfg name img ports) (\<lambda>_. fine)"
proof (cases "map_of (cc_Applications cfg) name")
  case (Some i)
  then show ?thesis by (auto simp: resolveApplication_def intro!: ensures_finish good_fine)
next
  case None
  have pre: "ensures (\<lambda>s. good cfg s \<and> cc_ProjectID cfg \<noteq> []) (call (Client_CreateApplication tr (cc_ProjectID cfg) name img ports))
      (\<lambda>_ s. good cfg s \<and> cc_ProjectID cfg \<noteq> [] \<and> (\<exists>c \<in> set (ses_sent s). created_in (cc_ProjectID cfg) name c))"
    using ensures_create_application [of cfg tr "cc_ProjectID cfg" name img ports] unfolding ensures_def by (fastforce split: sum.splits)
  have "cache_ok (ses_sent s) (ses_cfg s\<lparr>cc_Applications := AList.update name i (cc_Applications (ses_cfg s))\<rparr>) \<and> file_ok s"
    if "good cfg s \<and> cc_ProjectID cfg \<noteq> [] \<and> (\<exists>c \<in> set (ses_sent s). created_in (cc_ProjectID cfg) name c)" for i and s :: "'a client"
  proof -
    from that have ok: "cache_ok (ses_sent s) (ses_cfg s)" "file_ok s" and pid: "cc_ProjectID (ses_cfg s) = cc_ProjectID cfg" by (auto simp: good_def)
    then have "distinct (map fst (cc_Applications (ses_cfg s)))" by (simp add: cache_ok_def)
    then show ?thesis using ok that unfolding pid [symmetric] by (intro conjI cache_ok_apps AList.distinct_update) (auto simp: AList.dom_update)
  qed
  then show ?thesis using None
    by (auto simp: resolveApplication_def intro!: ensures_andThen [OF pre] ensures_update_save ensures_finish
        intro: ensures_weaken [OF ensures_fail [of cfg]])
qed

lemma deploy_keeps_cache: "ensures file_ok (cmd_deploy tr flag name img ports) (\<lambda>_. file_ok)"
  unfolding cmd_deploy_def
proof (intro ensures_andThen [OF ensures_requireProject])
  fix cfg
  have ports: "ensures (\<lambda>s. good cfg s \<and> cc_ProjectID cfg \<noteq> []) (case parsePortFlags ports of Inl er \<Rightarrow> fail er | Inr specs \<Rightarrow> finish specs)
      (\<lambda>_ s. good cfg s \<and> cc_ProjectID cfg \<noteq> [])"
    by (auto split: sum.splits intro: ensures_weaken [OF ensures_fail [of cfg]] ensures_finish)
  show "ensures (\<lambda>s. good cfg s \<and> cc_ProjectID cfg \<noteq> [])
     (andThen (case parsePortFlags ports of Inl er \<Rightarrow> fail er | Inr specs \<Rightarrow> finish specs) (\<lambda>specs.
      andThen (resolveApplication tr cfg name img specs) (\<lambda>appID.
      andThen (call (Client_Deploy tr appID img)) (\<lambda>d.
      finish [Printf ''Deployment %s: revision %d, status %s'' [Str (cd_ID d), Num (cd_Revision d), Str (cd_Status d)]])))) (\<lambda>_. file_ok)"
    by (intro ensures_andThen [OF ports] ensures_andThen [OF resolve_keeps_cache] ensures_andThen [OF ensures_call_fine] ensures_done_fine)
      (erule client_calls_only)
qed

lemma logs_keep_cache: "ensures file_ok (cmd_logs net room flag name follow) (\<lambda>_. file_ok)"
  unfolding cmd_logs_def
proof (intro ensures_andThen [OF ensures_requireProject_good] ensures_andThen [OF ensures_known])
  fix cfg and appID :: string
  have "file_ok (s\<lparr>ses_net := n, ses_sent := ses_sent s @ cs\<rparr>)" if "good cfg s" for n cs and s :: "'a client"
    using that cache_ok_cong [of "ses_sent s" _ _ cs] by (auto simp: good_def file_ok_def)
  then show "ensures (good cfg) (\<lambda>s. case Client_StreamLogs net appID follow room cfg (ses_net s) of (r, n1) \<Rightarrow>
       ((case r of Inl er \<Rightarrow> Inl (CallError er) | Inr (out, fin) \<Rightarrow> if fin = CopyFailed then Inl (CopyError out) else Inr [Raw out fin]),
        if net_BadURL net (cc_APIURL cfg @ cli_logs_path appID follow) = None
        then s\<lparr>ses_net := n1, ses_sent := ses_sent s @ [\<lparr>hc_Method = ''GET'', hc_URL = cc_APIURL cfg @ cli_logs_path appID follow,
               hc_Body = None, hc_Bearer = Some (cc_AccessToken cfg)\<rparr>]\<rparr>
        else s)) (\<lambda>_. file_ok)"
    by (auto simp: ensures_def good_def split: prod.splits sum.splits if_splits)
qed

lemma run_command_keeps_cache: "ensures file_ok (run_command tr net room flag c) (\<lambda>_. file_ok)"
  by (cases c) (simp_all add: reading_commands_keep_cache member_commands_keep_cache auth_commands_keep_cache delete_keeps_cache deploy_keeps_cache logs_keep_cache)

text \<open>
  C19. The session never mixes projects. Whatever commands are run one after the other, whatever the server answers and whichever calls and saves fail:
  the names of the applications that the saved session remembers are distinct, they were all registered, by a request that was really sent,
  under the very project that the saved session names as current, and without a current project there are none. So an
  identifier kept from another project or another account is never used.
\<close>

theorem session_cache_confined:
  assumes "file_ok s"
  shows "file_ok (foldl (\<lambda>s (flag, c). snd (Execute tr net room flag c s)) s history)"
  using assms
proof (induction history arbitrary: s)
  case (Cons p history)
  obtain flag c where p: "p = (flag, c)" by force
  obtain r s1 where run: "run_command tr net room flag c s = (r, s1)" by force
  then have "file_ok s1" using run_command_keeps_cache [of tr net room flag c] Cons.prems unfolding ensures_def by (fastforce split: sum.splits)
  moreover have "snd (Execute tr net room flag c s) = s1" by (simp add: Execute_def run)
  ultimately show ?case using Cons.IH [of s1] by (simp add: p)
qed simp

subsection \<open>Deploying twice\<close>

definition deploys :: "string \<Rightarrow> http_call \<Rightarrow> bool" where
  "deploys i c \<longleftrightarrow> hc_Method c = ''POST'' \<and> (\<exists>u. hc_URL c = u @ ''/v1/applications/'' @ i @ ''/deployments'')"

text \<open>The session in memory and the saved one know the name, in a project.\<close>

definition remembers :: "string \<Rightarrow> string \<Rightarrow> 'n client \<Rightarrow> bool" where
  "remembers name i s \<longleftrightarrow> ses_writable s \<and>
     (\<exists>cfg. loadFrom (ses_file s) = Some cfg \<and> map_of (cc_Applications cfg) name = Some i \<and> cc_ProjectID cfg \<noteq> []) \<and>
     map_of (cc_Applications (ses_cfg s)) name = Some i \<and> cc_ProjectID (ses_cfg s) \<noteq> [] \<and> distinct (map fst (cc_Applications (ses_cfg s)))"

lemma remembers_calls:
  assumes "remembers name i s" "calls_only s s'"
  shows "remembers name i s'"
proof -
  from assms(2) obtain a r where cfg: "ses_cfg s' = ses_cfg s\<lparr>cc_AccessToken := a, cc_RefreshToken := r\<rparr>" and w: "ses_writable s' = ses_writable s"
    and saved: "ses_file s' = ses_file s \<or> ses_file s' = FileHolds (Some (config_json (ses_cfg s')))" unfolding calls_only_def by blast
  have "loadFrom (FileHolds (Some (config_json (ses_cfg s')))) = Some (ses_cfg s')"
    using assms(1) cfg by (intro config_roundtrip) (simp add: remembers_def)
  then show ?thesis using saved assms(1) cfg w unfolding remembers_def by auto
qed

lemma requireProject_Inr:
  assumes "requireProject flag s = (Inr cfg, s')"
  shows "ses_cfg s' = cfg \<and> ses_file s' = ses_file s \<and> ses_sent s' = ses_sent s \<and> ses_writable s' = ses_writable s \<and> cc_ProjectID cfg \<noteq> [] \<and>
    (\<exists>saved. loadFrom (ses_file s) = Some saved \<and> cc_Applications cfg = cc_Applications saved \<and> cc_ProjectID cfg = cc_ProjectID saved)"
  using assms by (auto simp: requireProject_def requireLogin_def cli_session_def andThen_def finish_def fail_def Let_def
      split: option.splits if_splits prod.splits sum.splits)

lemma requireProject_ok:
  assumes "loadFrom (ses_file s) = Some cfg" "cc_AccessToken cfg \<noteq> []" "cc_ProjectID cfg \<noteq> []"
  shows "\<exists>cfg' s'. requireProject flag s = (Inr cfg', s') \<and> cc_Applications cfg' = cc_Applications cfg \<and> ses_sent s' = ses_sent s"
  using assms by (simp add: requireProject_def requireLogin_def cli_session_def andThen_def finish_def fail_def Let_def)

lemma resolve_remembers:
  assumes run: "resolveApplication tr cfg name img specs s = (Inr i, s')" and cfg: "ses_cfg s = cfg" "cc_ProjectID cfg \<noteq> []" "distinct (map fst (cc_Applications cfg))"
    and saved: "ses_writable s" "loadFrom (ses_file s) = Some saved" "cc_Applications saved = cc_Applications cfg" "cc_ProjectID saved = cc_ProjectID cfg"
  shows "remembers name i s'"
proof (cases "map_of (cc_Applications cfg) name")
  case (Some j)
  with run cfg saved show ?thesis by (auto simp: resolveApplication_def finish_def remembers_def)
next
  case None
  with run obtain app s1 where create: "Client_CreateApplication tr (cc_ProjectID cfg) name img specs s = (Inr app, s1)"
    and i: "i = ca_ID app" and s': "s' = Config_Save (s1\<lparr>ses_cfg := ses_cfg s1\<lparr>cc_Applications := AList.update name i (cc_Applications (ses_cfg s1))\<rparr>\<rparr>)"
    by (auto simp: resolveApplication_def andThen_def call_def update_config_def save_def finish_def fail_def split: if_splits prod.splits sum.splits)
  have "calls_only s s1" using create unfolding Client_CreateApplication_def by (rule do_call_calls_only)
  then obtain a r where s1: "ses_cfg s1 = cfg\<lparr>cc_AccessToken := a, cc_RefreshToken := r\<rparr>" "ses_writable s1"
    using cfg(1) saved(1) unfolding calls_only_def by auto
  let ?new = "ses_cfg s1\<lparr>cc_Applications := AList.update name i (cc_Applications (ses_cfg s1))\<rparr>"
  have "distinct (map fst (cc_Applications ?new))" using cfg(3) s1(1) AList.distinct_update [of "cc_Applications cfg" name i] by simp
  moreover from this have "loadFrom (FileHolds (Some (config_json ?new))) = Some ?new" by (rule config_roundtrip)
  moreover have "map_of (cc_Applications ?new) name = Some i" by (simp add: AList.update_conv')
  ultimately show ?thesis using s1 cfg(2) unfolding s' remembers_def Config_Save_def by simp
qed


subsection \<open>Examples\<close>

text \<open>A server that gives every resource the identifier 42, and a machine on which nobody has logged in.\<close>

definition demo_api :: "unit transport" where
  "demo_api = \<lparr>URL_ok = (\<lambda>_. True), Do = (\<lambda>c n. (Inr (writeJSON 201 (JObj [(''id'', JStr ''42''), (''access_token'', JStr ''t'')])), n))\<rparr>"

definition demo_log_net :: "unit stream_net" where
  "demo_log_net = \<lparr>net_BadURL = (\<lambda>_. None), net_Do = (\<lambda>c n. (Inl ''down'', n)), net_JSON = (\<lambda>_. None),
     net_Text = (\<lambda>_. \<lparr>segments = [], ended = EOF\<rparr>)\<rparr>"

definition demo_machine :: "unit client" where
  "demo_machine = \<lparr>ses_cfg = empty_config, ses_file = NoFile, ses_writable = True, ses_net = (), ses_sent = []\<rparr>"

definition demo_history :: "(string \<times> command) list" where
  "demo_history = [([], CmdLogin ''e'' ''p''), ([], CmdCreateProject ''web''), ([], CmdDeploy ''shop'' ''nginx'' [''80''])]"

lemma demo_machine_ok: "file_ok demo_machine"
  by (simp add: file_ok_def demo_machine_def loadFrom_def cache_ok_def empty_config_def)

theorem session_cache_confined_witness:
  "let s = foldl (\<lambda>s (flag, c). snd (Execute demo_api demo_log_net None flag c s)) demo_machine demo_history in
   \<exists>cfg. loadFrom (ses_file s) = Some cfg \<and> cc_Applications cfg = [(''shop'', ''42'')] \<and> (\<exists>c \<in> set (ses_sent s). created_in ''42'' ''shop'' c)"
proof -
  let ?s = "foldl (\<lambda>s (flag, c). snd (Execute demo_api demo_log_net None flag c s)) demo_machine demo_history"
  have "map_option (\<lambda>c. (cc_ProjectID c, cc_Applications c)) (loadFrom (ses_file ?s)) = Some (''42'', [(''shop'', ''42'')])" by code_simp
  then obtain cfg where cfg: "loadFrom (ses_file ?s) = Some cfg" "cc_ProjectID cfg = ''42''" "cc_Applications cfg = [(''shop'', ''42'')]" by auto
  with session_cache_confined [OF demo_machine_ok, of demo_api demo_log_net None demo_history] show ?thesis
    by (auto simp: file_ok_def cache_ok_def)
qed


end
