(* ===== verification/GoConfig.thy ===== *)
theory GoConfig
  imports GoTime
begin

section \<open>Configuration from the environment\<close>

text \<open>
  \<^verbatim>\<open>internal/config/config.go\<close>: strings, integers and durations from environment variables, with a fallback for a variable that is
  unset, empty or malformed. Durations are read by \<open>time.ParseDuration\<close>, which is modelled as it is written:
  a sign, then numbers with units, each number with an optional fraction that is scaled in 64-bit floats.
\<close>

subsection \<open>time.ParseDuration\<close>

text \<open>
  A positive integer rounded to 53 significant bits, and a positive fraction below \<open>2 ^ 53\<close> and above \<open>2 ^ -99\<close> likewise, as
  a mantissa and its binary places.
\<close>

definition float_int :: "int \<Rightarrow> int" where
  "float_int n = (let e = bits n - 53 in half_even n (2 ^ e) * 2 ^ e)"

definition float_frac :: "int \<Rightarrow> int \<Rightarrow> int \<times> nat" where
  "float_frac a b = (let k = 152 - bits (a * 2 ^ 99 div b) in (half_even (a * 2 ^ k) b, k))"

text \<open>\<open>uint64(float64(f) * (float64(unit) / scale))\<close>; the scale is a power of ten up to \<open>10 ^ 19\<close> and exact.\<close>

definition fraction_ns :: "nat \<Rightarrow> int \<Rightarrow> int \<Rightarrow> int" where
  "fraction_ns f unit scale =
     (case float_frac unit scale of (m, k) \<Rightarrow>
      case float_frac (float_int (int f) * m) (2 ^ k) of (p, j) \<Rightarrow> p div 2 ^ j)"

definition leadingInt :: "string \<Rightarrow> (nat \<times> string) option" where
  "leadingInt s = (let v = digits_val (takeWhile is_digit s) in
     if 2 ^ 63 < v then None else Some (v, dropWhile is_digit s))"

text \<open>Digits beyond what 63 bits hold are read and ignored.\<close>

fun leadingFraction :: "nat \<Rightarrow> int \<Rightarrow> bool \<Rightarrow> string \<Rightarrow> nat \<times> int \<times> string" where
  "leadingFraction x scale overflow [] = (x, scale, [])"
| "leadingFraction x scale overflow (c # s) =
     (if \<not> is_digit c then (x, scale, c # s)
      else if overflow \<or> (2 ^ 63 - 1) div 10 < x then leadingFraction x scale True s
      else let y = x * 10 + digit_val c in
        if 2 ^ 63 < y then leadingFraction x scale True s else leadingFraction y (scale * 10) False s)"

definition unitMap :: "string \<Rightarrow> int option" where
  "unitMap = map_of [(''ns'', 1), (''us'', 1000), ([CHR 0xC2, CHR 0xB5, CHR ''s''], 1000), ([CHR 0xCE, CHR 0xBC, CHR ''s''], 1000),
     (''ms'', 1000000), (''s'', second), (''m'', minute), (''h'', hour)]"

definition unit_char :: "char \<Rightarrow> bool" where
  "unit_char c \<longleftrightarrow> c \<noteq> CHR ''.'' \<and> \<not> is_digit c"

text \<open>A number: what stands before the point, the fraction with its scale, and the rest of the text.\<close>

definition fraction_part :: "string \<Rightarrow> nat \<times> int \<times> string" where
  "fraction_part s = (case s of [] \<Rightarrow> (0, 1, s) | c # t \<Rightarrow> if c = CHR ''.'' then leadingFraction 0 1 False t else (0, 1, s))"

definition number_part :: "string \<Rightarrow> (nat \<times> nat \<times> int \<times> string) option" where
  "number_part s =
     (case leadingInt s of
        None \<Rightarrow> None
      | Some (v, s1) \<Rightarrow>
          (case fraction_part s1 of (f, scale, s2) \<Rightarrow>
             let pre = (s1 \<noteq> s); post = (s1 \<noteq> [] \<and> hd s1 = CHR ''.'' \<and> s2 \<noteq> tl s1)
             in if \<not> pre \<and> \<not> post then None else Some (v, f, scale, s2)))"

text \<open>One number with its unit: the nanoseconds and the rest of the text.\<close>

definition duration_part :: "string \<Rightarrow> (int \<times> string) option" where
  "duration_part s =
     (case number_part s of
        None \<Rightarrow> None
      | Some (v, f, scale, s2) \<Rightarrow>
          (case unitMap (takeWhile unit_char s2) of
             None \<Rightarrow> None
           | Some unit \<Rightarrow>
               (if 2 ^ 63 div unit < int v then None
                else let w = int v * unit + (if 0 < f then fraction_ns f unit scale else 0) in
                  if 2 ^ 63 < w then None else Some (w, dropWhile unit_char s2))))"

lemma half_even_nonneg: "0 \<le> a \<Longrightarrow> 0 < b \<Longrightarrow> 0 \<le> half_even a b"
  by (auto simp: half_even_def Let_def pos_imp_zdiv_nonneg_iff)

lemma fraction_ns_nonneg: "0 \<le> unit \<Longrightarrow> 0 < scale \<Longrightarrow> 0 \<le> fraction_ns f unit scale"
  unfolding fraction_ns_def float_frac_def float_int_def Let_def prod.case
  by (intro pos_imp_zdiv_nonneg_iff [THEN iffD2] half_even_nonneg mult_nonneg_nonneg zero_le_power zero_less_power) simp_all

lemma leadingFraction_scale: "0 < scale \<Longrightarrow> 0 < fst (snd (leadingFraction x scale ov s))"
  by (induction x scale ov s rule: leadingFraction.induct) (auto simp: Let_def)

lemma length_leadingFraction: "length (snd (snd (leadingFraction x scale ov s))) \<le> length s"
  by (induction x scale ov s rule: leadingFraction.induct) (auto simp: Let_def)

lemma length_dropWhile_take: "takeWhile P s \<noteq> [] \<Longrightarrow> length (dropWhile P s) < length s"
  by (cases s) (auto simp: le_imp_less_Suc length_dropWhile_le split: if_splits)

lemma fraction_part_rest: "length (snd (snd (fraction_part s))) \<le> length s \<and> 0 < fst (snd (fraction_part s))"
  using length_leadingFraction [of 0 1 False "tl s"] leadingFraction_scale [of 1 0 False "tl s"] by (cases s) (auto simp: fraction_part_def)

lemma number_part_rest:
  assumes "number_part s = Some (v, f, scale, r)"
  shows "length r \<le> length s" "0 < scale"
proof -
  from assms obtain s1 where "leadingInt s = Some (v, s1)" "fraction_part s1 = (f, scale, r)"
    by (auto simp: number_part_def Let_def split: option.splits prod.splits if_splits)
  with fraction_part_rest [of s1] length_dropWhile_le [of is_digit s] show "length r \<le> length s" "0 < scale"
    by (auto simp: leadingInt_def Let_def split: if_splits)
qed

lemma unitMap_Some: "unitMap u = Some k \<Longrightarrow> u \<noteq> [] \<and> 0 < k"
  by (auto simp: unitMap_def second_def minute_def hour_def split: if_splits)

lemma duration_part_Some:
  assumes "duration_part s = Some (w, r)"
  shows "length r < length s" "0 \<le> w"
proof -
  from assms obtain v f scale s2 k where n: "number_part s = Some (v, f, scale, s2)" and u: "unitMap (takeWhile unit_char s2) = Some k"
    and w: "w = int v * k + (if 0 < f then fraction_ns f k scale else 0)" and r: "r = dropWhile unit_char s2"
    by (auto simp: duration_part_def Let_def split: option.splits prod.splits if_splits)
  show "length r < length s" using number_part_rest(1) [OF n] length_dropWhile_take [of unit_char s2] unitMap_Some [OF u] r by simp
  show "0 \<le> w" using number_part_rest(2) [OF n] unitMap_Some [OF u] w by (simp add: fraction_ns_nonneg)
qed

function duration_parts :: "int \<Rightarrow> string \<Rightarrow> int option" where
  "duration_parts d s =
     (if s = [] then Some d
      else case duration_part s of
        None \<Rightarrow> None
      | Some (w, r) \<Rightarrow> if 2 ^ 63 < d + w then None else duration_parts (d + w) r)"
  by pat_completeness auto
termination
  by (relation "measure (length \<circ> snd)") (auto dest: duration_part_Some(1))

declare duration_parts.simps [simp del]

definition ParseDuration :: "string \<Rightarrow> duration option" where
  "ParseDuration orig =
     (let (neg, s) = (case orig of [] \<Rightarrow> (False, []) | c # t \<Rightarrow> if c = CHR ''-'' then (True, t) else if c = CHR ''+'' then (False, t) else (False, orig))
      in if s = ''0'' then Some 0
         else if s = [] then None
         else Option.bind (duration_parts 0 s) (\<lambda>d.
           if neg then Some (- d) else if 2 ^ 63 - 1 < d then None else Some d))"

subsection \<open>config.go\<close>

definition config_String :: "(string \<Rightarrow> string) \<Rightarrow> string \<Rightarrow> string \<Rightarrow> string" where
  "config_String Getenv key fallback = (let v = Getenv key in if v \<noteq> [] then v else fallback)"

definition config_Int :: "(string \<Rightarrow> string) \<Rightarrow> string \<Rightarrow> int \<Rightarrow> int" where
  "config_Int Getenv key fallback =
     (let v = Getenv key in if v = [] then fallback else case Atoi v of None \<Rightarrow> fallback | Some n \<Rightarrow> n)"

definition config_Duration :: "(string \<Rightarrow> string) \<Rightarrow> string \<Rightarrow> duration \<Rightarrow> duration" where
  "config_Duration Getenv key fallback =
     (let v = Getenv key in if v = [] then fallback else case ParseDuration v of None \<Rightarrow> fallback | Some d \<Rightarrow> d)"

text \<open>Durations fit 64 bits; a whole number of seconds is read exactly, with either sign.\<close>

lemma duration_parts_range: "duration_parts d s = Some n \<Longrightarrow> 0 \<le> d \<Longrightarrow> d \<le> 2 ^ 63 \<Longrightarrow> 0 \<le> n \<and> n \<le> 2 ^ 63"
proof (induction d s rule: duration_parts.induct)
  case (1 d s)
  show ?case
  proof (cases "s = []")
    case False
    with "1.prems"(1) obtain w r where part: "duration_part s = Some (w, r)" "\<not> 2 ^ 63 < d + w" "duration_parts (d + w) r = Some n"
      by (simp add: duration_parts.simps [of d s] split: option.splits prod.splits if_splits)
    from "1.IH" [OF False part(1) refl part(2,3)] duration_part_Some(2) [OF part(1)] "1.prems" part(2) show ?thesis by simp
  qed (use "1.prems" in \<open>simp add: duration_parts.simps\<close>)
qed

lemma ParseDuration_int64:
  assumes "ParseDuration s = Some d"
  shows "int64_ok d"
proof -
  have "0 \<le> n \<and> n \<le> 9223372036854775808" if "duration_parts 0 t = Some n" for t n using duration_parts_range [OF that] by simp
  with assms show ?thesis
    by (fastforce simp: ParseDuration_def bind_eq_Some_conv int64_ok_def split: prod.splits if_splits list.splits)
qed

lemma duration_part_seconds:
  assumes "n \<le> 9223372036"
  shows "duration_part (nat_string n @ ''s'') = Some (int n * second, [])"
proof -
  have d: "nat_string n \<noteq> []" "list_all is_digit (nat_string n)" using nat_string_digits by blast+
  then have take: "takeWhile is_digit (nat_string n @ ''s'') = nat_string n" "dropWhile is_digit (nat_string n @ ''s'') = ''s''"
    by (simp_all add: list_all_iff is_digit_def byte_def)
  show ?thesis
    using assms d(1) by (simp add: duration_part_def number_part_def fraction_part_def leadingInt_def take digits_val_nat_string unit_char_def is_digit_def byte_def unitMap_def second_def Let_def)
qed

lemma ParseDuration_seconds:
  assumes "\<bar>n\<bar> \<le> 9223372036"
  shows "ParseDuration (Itoa n @ ''s'') = Some (n * second)"
proof -
  have part: "duration_parts 0 (nat_string (nat \<bar>n\<bar>) @ ''s'') = Some (\<bar>n\<bar> * second)"
    using duration_part_seconds [of "nat \<bar>n\<bar>"] assms
    by (subst duration_parts.simps) (simp add: duration_parts.simps [of _ "[]"] second_def)
  have hd: "is_digit (hd (nat_string (nat \<bar>n\<bar>)))" "nat_string (nat \<bar>n\<bar>) \<noteq> []" using nat_string_hd nat_string_digits by blast+
  have sign: "\<not> is_digit (CHR ''-'')" "\<not> is_digit (CHR ''+'')" by (simp_all add: is_digit_def byte_def)
  obtain c t where "nat_string (nat \<bar>n\<bar>) = c # t" using hd(2) by (cases "nat_string (nat \<bar>n\<bar>)") auto
  with hd(1) sign have ct: "nat_string (nat \<bar>n\<bar>) = c # t" "c \<noteq> CHR ''-''" "c \<noteq> CHR ''+''" by auto
  show ?thesis using part ct assms by (auto simp: ParseDuration_def Itoa_def second_def)
qed

end
