(* ===== verification/Spec2Isabelle.thy ===== *)
theory Spec2Isabelle
  imports Controller Discovery ImageBuilder CliCommands Startup
begin

text \<open>
  A verification library for the platform in \<^verbatim>\<open>src/\<close>: a multi-tenant platform as a service of six Go programs
  (\<^verbatim>\<open>services/apiserver\<close>, \<^verbatim>\<open>services/scheduler\<close>, \<^verbatim>\<open>services/controller-manager\<close>, \<^verbatim>\<open>services/worker\<close>,
  \<^verbatim>\<open>services/loadbalancer\<close>, \<^verbatim>\<open>services/image-builder\<close>) over shared packages
  (\<^verbatim>\<open>internal/auth\<close>, \<^verbatim>\<open>internal/db\<close>, \<^verbatim>\<open>internal/eventbus\<close>, \<^verbatim>\<open>internal/runtime\<close>), PostgreSQL and NATS, and a
  command line client (\<^verbatim>\<open>apps/cli\<close>).

  \<^bold>\<open>How the parts interact.\<close> A user calls the API server through the client. The API server authenticates the
  request, checks the caller's role in the organization that owns what the path names, writes the database in one
  transaction together with an audit entry, and publishes what has to happen: a placement request, a build request, the
  release of a container. The scheduler chooses a node for a placement request, records a container and publishes an assignment; the
  agent on the node starts the container and reports its status, which the scheduler records. The controller manager
  compares desired with recorded containers and publishes the placement requests and releases that correct the
  difference; its service instance controller keeps the table of routable backends, announces changes, and the load
  balancer follows the announcements. The image builder turns a build request into an image, and the API server deploys
  the result. The database and the messages are all that the programs share.

  \<^bold>\<open>Theories and sources.\<close>

  \<^item> \<open>Prelude\<close>, \<open>GoText\<close>, \<open>GoTime\<close>, \<open>GoConfig\<close>, \<open>HttpMux\<close>, \<open>Streams\<close>: identifiers, instants, Go's 64-bit and PostgreSQL's 32-bit integers, list lemmas; the functions of
    \<^verbatim>\<open>strings\<close>, \<^verbatim>\<open>strconv\<close> and \<^verbatim>\<open>encoding/base64\<close> that the code calls, with their round trips; what it uses of \<^verbatim>\<open>time\<close> (whole
    seconds through a float, timestamps, \<open>ParseDuration\<close>) and of \<^verbatim>\<open>net/http\<close> (route patterns, queries); byte streams; \<^verbatim>\<open>internal/config\<close>.
  \<^item> \<open>Auth\<close>: \<^verbatim>\<open>internal/auth\<close> (\<^verbatim>\<open>rbac.go\<close>, \<^verbatim>\<open>token.go\<close>, \<^verbatim>\<open>middleware.go\<close>): the permission matrix, access tokens, API keys and
    their rejection sampling, the middleware.
  \<^item> \<open>Schema\<close>: the rows of \<^verbatim>\<open>internal/db\<close> and what the migrations under \<^verbatim>\<open>infrastructure/postgres\<close> make the database do
    with them: row-level security, unique and foreign keys with cascades, triggers. \<open>EventBus\<close> and \<open>Messages\<close>: subjects, streams
    and JSON of \<^verbatim>\<open>internal/eventbus\<close>, and every message type with its producer's encoder and its consumers' decoders.
  \<^item> \<open>Effects\<close>: what executing Go code against the database and the bus means; \<open>Repos\<close>, \<open>TenantRepos\<close>, \<open>Keyset\<close>: the repositories of
    \<^verbatim>\<open>internal/db\<close> (cluster state, tenant data, paged listings).
  \<^item> \<open>Scheduler\<close> (\<^verbatim>\<open>placement.go\<close>, \<^verbatim>\<open>registry.go\<close>), \<open>Controller\<close> (\<^verbatim>\<open>controller.go\<close>), \<open>ServiceInstances\<close>
    (\<^verbatim>\<open>serviceinstance.go\<close>), \<open>Worker\<close> (node agent and HTTP server), \<open>ImageBuilder\<close>: one theory per program or controller, one
    definition per handler or loop body. \<open>Startup\<close>: \<^verbatim>\<open>main.go\<close> of each program with the \<open>Run\<close> and \<open>Subscribe\<close> functions it calls.
  \<^item> \<open>DockerRuntime\<close> (\<^verbatim>\<open>internal/runtime/docker.go\<close>), \<open>WorkerClient\<close> (the worker's routes and \<^verbatim>\<open>services/apiserver/internal/workerclient\<close>), \<open>LogRoute\<close>
    (\<^verbatim>\<open>handlers_logs.go\<close> and \<open>StreamLogs\<close> of the command line client): containers and their logs between the user and the engine.
  \<^item> \<open>Registry\<close>, \<open>Proxy\<close>, \<open>LoadBalancer\<close>: \<^verbatim>\<open>services/loadbalancer\<close> (registry and round robin, proxy, health checks and
    certificates, resync and subscription); \<open>Discovery\<close>: the instance controller and the balancer together.
  \<^item> \<open>ApiCore\<close>, \<open>ApiTenants\<close>, \<open>ApiApps\<close>: the handlers of \<^verbatim>\<open>services/apiserver/internal/server\<close>, file by file.
    \<open>Tenancy\<close> is the abstract specification of what may happen to a tenant's data, \<open>ApiRoutes\<close> the refinement of the
    routes to it, \<open>ApiAccess\<close> what follows for access control, isolation and auditing, \<open>Platform\<close> the reachable states of API
    server and scheduler and their invariants, \<open>Sessions\<close> accounts and refresh tokens, \<open>Releases\<close> deploying and deleting.
  \<^item> \<open>CliClient\<close>: \<^verbatim>\<open>apps/cli/internal/apiclient\<close> and \<^verbatim>\<open>apps/cli/internal/config\<close>; \<open>CliContract\<close>: the route table of
    \<^verbatim>\<open>server.go\<close> and the agreement of client and server; \<open>CliCommands\<close>: \<^verbatim>\<open>apps/cli/internal/cmd\<close>, command by command.

  This theory adds the property that spans the programs: the way of a release from the API to a running container.

  \<^bold>\<open>State and operations.\<close> A Go function that uses the database or the bus is an \<open>op\<close>: a function from a world (tables,
  session variables of the connection, clock, counters, published messages, and what the environment will do) to an error
  or a result and the next world. Every \<open>if err != nil\<close> of the code is a branch: \<open>bindE\<close> returns early, \<open>catchE\<close> and \<open>logged\<close> handle.
  Errors keep their wrapping, since the code inspects it with \<open>errors.Is\<close>. In-memory state is a record passed along: the balancer's
  registry, the agent's table of tracked containers, the controller's port cache, the client's session. A program that starts is a function
  on the trace of its calls to the outside (\<open>go\<close>); a command of the client one on the session and the requests sent (\<open>cmd\<close>).

  \<^bold>\<open>What the lemmas show.\<close> Per component: an invariant and that every operation keeps it (registry, tenancy), the exact effect of each
  handler with its failures (\<open>handlePlacement\<close>, reconcile ticks, agent, builds, deploys, deletions, the proxy), and
  equivalences with a reference definition (build context, routing map, keyset pages). Across components: the wire contract
  of every message, routing that follows the database, tenancy as a refinement, isolation, auditing and permissions for all routes, single
  use of refresh tokens in every reachable state, client and server agreement, the worker's API as a refinement of the runtime interface, a bound port and a
  log that reach the user as the engine gave them, the session file of the client as an invariant of its commands, how the programs start
  and stop and what their order of starting does to the streams, and a release that goes live. Interfaces are locales: a
  slice sort, a balancing strategy, an image builder, a paged listing, and invariants that outlast the platform's steps;
  each is interpreted on the definitions that model the code.

  \<^bold>\<open>Assumptions that are choices of the model.\<close> A handler runs without interleaving with another one of the same state: what concurrent
  transactions add under \<open>READ COMMITTED\<close> is not covered (the owner count of \<open>lastOwnerGuard\<close> and the quota reads of the API
  server are read-then-write). Any statement may meet a broken connection, at any point (\<open>w_fault\<close>), and any publish may fail
  (\<open>w_pubfail\<close>); theorems that need a working database or bus say \<open>no_faults\<close> or \<open>bus_up\<close>. A commit that fails has not
  happened. Random sources are functions of the statement counter. Maps that Go iterates in random order are lists, and the theorems
  hold for every order. JSON documents are trees; their text, the text of identifiers, SHA-256, bcrypt, token signatures, the Docker
  client, the network, git and the file system are parameters, with documented behaviour as named hypotheses (\<open>codec_ok\<close> and others) and witnesses that
  instantiate them. Times are nanosecond counts without a zone.

  \<^bold>\<open>Bounds and fuel.\<close> The only loop that may run forever is the rejection sampling of API keys; it is a \<open>partial_function (option)\<close>,
  and that it returns is proved for sources that keep giving acceptable bytes. Following cursors ends by a measure on the rows left, waiting for the broker by one on the
  time left, reading a duration and copying a stream by the length of what is left. A log that is followed and does not end is a stream whose ending is \<open>StillOpen\<close>. No
  definition uses fuel. Integers of the wire and of Go are checked (\<open>int64_ok\<close>, \<open>int4_ok\<close>) or wrap (\<open>wrap64\<close>) where the code can exceed them.

  \<^bold>\<open>Not modelled.\<close> The libraries behind the parameters: the NATS and Docker clients, PostgreSQL beyond the schema of the migrations, cobra's parsing of the command
  line and the alignment of tables. What goroutines of one process do to each other: each handler, and each \<open>Run\<close> of a program, is taken by itself; the registry's mutex makes its
  operations atomic. Deadlines of requests are failures of the network. The message handlers always acknowledge, so redelivery is only
  what the broker does after a crash. The dashboard (\<^verbatim>\<open>apps/dashboard\<close>) is only described, and the end-to-end tests run the services.
\<close>

section \<open>A release goes live\<close>

text \<open>The steps of the programs in turn, each on the message of the one before.\<close>

lemma release_placed:
  assumes "api_ready w0" "released appID u img a x (w_db w0) (w_db ws)" "no_faults ws" "bus_up ws"
    and "\<forall>k. list_all (\<lambda>c. con_ID c \<noteq> w_fresh ws k) (containers (w_db ws))"
    and "quota_admits (w_db ws) (dep_ID x)"
    and "pick (node_load (w_db ws)) (sort_key (\<lambda>n. - node_CreatedAt n) (nodes (w_db ws))) None = Some (n, l)"
    and "request_of cd data = Some (m, dep_ID x)"
  shows "\<exists>c. con_DeploymentID c = dep_ID x \<and> con_NodeID c = node_ID n \<and> con_StartedAt c = None \<and>
    w_db (snd (handlePlacement cd data ws)) = (w_db ws)\<lparr>containers := containers (w_db ws) @ [c]\<rparr> \<and>
    w_bus (snd (handlePlacement cd data ws)) = w_bus ws @ [(NodeAssignSubject (UUID_String cd (node_ID n)), enc_assign (assignment_for cd m c))]"
proof -
  have "keyed_deployments (w_db ws)"
    using assms(1,2) by (auto simp: api_ready_def tenant_inv_def released_def keyed_deployments_def)
  from place_ok [OF assms(3,4) this assms(5,7,6), of cd m] obtain u where
    "w_db (snd (place cd m (dep_ID x) ws)) = (w_db ws)\<lparr>containers := containers (w_db ws) @ [new_container u (dep_ID x) (node_ID n)]\<rparr>"
    "w_bus (snd (place cd m (dep_ID x) ws)) = w_bus ws @ [(NodeAssignSubject (UUID_String cd (node_ID n)),
       enc_assign (assignment_for cd m (new_container u (dep_ID x) (node_ID n))))]" by blast
  with assms(8) show ?thesis
    by (intro exI [of _ "new_container u (dep_ID x) (node_ID n)"]) (simp add: handlePlacement_eq logged_snd new_container_def)
qed

lemma assignment_started:
  assumes "bus_up wa" "list_all port_ok (as_Ports m)" "distinct (map fst (as_Env m))"
    and "startAssignedContainer rt m e = (Inr info, e')"
  shows "w_bus (snd (handleAssignment cd cfg rt (Some (enc_assign m)) (trk, e) wa)) = w_bus wa @
    [status_report cd cfg (as_AssignmentID m) (info_ID info) (containerStatus info) (info_ExitCode info) (info_Ports info) (w_now wa)]"
  using handleAssignment_run [OF assms(1) dec_assign_enc assms(4), of cd cfg trk] assms(2,3) by (auto simp: published_def)

lemma status_of_start:
  assumes "no_faults wt" "codec_ok cd" "c \<in> set (containers (w_db wt))" "con_StartedAt c = None"
    and "int64_ok (info_ExitCode info)" "list_all port_ok (info_Ports info)" "containerStatus info = ''running''" "info_ID info \<noteq> []"
  shows "\<exists>c' \<in> set (containers (w_db (snd (scheduler_handleStatus cd (Some (snd (status_report cd cfg (UUID_String cd (con_ID c))
      (info_ID info) (containerStatus info) (info_ExitCode info) (info_Ports info) t))) wt)))).
    con_DeploymentID c' = con_DeploymentID c \<and> con_NodeID c' = con_NodeID c \<and> con_Status c' = ContainerStatusRunning \<and>
    con_RuntimeID c' = Some (info_ID info) \<and> con_StartedAt c' = Some (w_now wt)"
proof (rule bexI [of _ "stamp_status (w_now wt) ContainerStatusRunning (Some (info_ID info)) c"])
  show "stamp_status (w_now wt) ContainerStatusRunning (Some (info_ID info)) c \<in> set (containers (w_db (snd (scheduler_handleStatus cd
      (Some (snd (status_report cd cfg (UUID_String cd (con_ID c)) (info_ID info) (containerStatus info) (info_ExitCode info) (info_Ports info) t))) wt))))"
    unfolding handleStatus_containers [OF assms(1)] using assms by (auto simp: status_report_def codec_ok_def)
qed (use assms in \<open>auto simp: stamp_status_def\<close>)


definition demo_deployed :: world where
  "demo_deployed = snd (handleDeploy demo_server demo_call (calm 0 demo_shop))"

definition demo_scheduler :: world where
  "demo_scheduler = (calm 0 (w_db demo_deployed))\<lparr>w_fresh := (\<lambda>_. 77)\<rparr>"

definition demo_placed :: world where
  "demo_placed = snd (handlePlacement unary (Some (snd (last (w_bus demo_deployed)))) demo_scheduler)"

definition demo_started :: world where
  "demo_started = snd (handleAssignment unary demo_config demo_engine (Some (snd (last (w_bus demo_placed)))) ([], []) (calm 0 empty_db))"

definition demo_live :: world where
  "demo_live = snd (scheduler_handleStatus unary (Some (snd (last (w_bus demo_started)))) (calm 50 (w_db demo_placed)))"


end
